(* ===== verification/Prelude.thy ===== *)
theory Prelude
  imports Main "HOL-Library.AList" "HOL-Library.Multiset" "HOL-Library.Word"
    "HOL-Library.List_Lexorder" "HOL-Library.Char_ord"
begin

text \<open>
  Shared vocabulary of the development.

  The first part models the pieces of the Go language and of its standard library that
  every component uses: strings as byte lists (\<^verbatim>\<open>strings.TrimSpace\<close>, \<^verbatim>\<open>Contains\<close>,
  \<^verbatim>\<open>HasPrefix\<close>, \<^verbatim>\<open>Cut\<close>, \<^verbatim>\<open>Split\<close>, \<^verbatim>\<open>ToLower\<close>, \<^verbatim>\<open>LastIndexByte\<close>), \<^verbatim>\<open>path.Join\<close>,
  instants of time, and Go maps as association lists whose iteration order is an explicit
  parameter.  The second part holds the generic lemmas and the named collections the
  component theories feed to the simplifier.
\<close>

named_theorems go_defs \<open>unfolding equations of the modelled Go operations\<close>

section \<open>Strings\<close>

text \<open>
  A Go string is a sequence of bytes, and so is a HOL \<^typ>\<open>string\<close>: the 256 characters are
  the 256 byte values.  A byte below 128 is ASCII; a longer UTF-8 sequence is several bytes.
\<close>

definition ascii :: "char \<Rightarrow> bool" where
  "ascii c \<longleftrightarrow> of_char c < (128 :: nat)"

fun HasPrefix :: "string \<Rightarrow> string \<Rightarrow> bool" where
  "HasPrefix s [] = True"
| "HasPrefix [] (p # ps) = False"
| "HasPrefix (c # s) (p # ps) = (c = p \<and> HasPrefix s ps)"

definition HasSuffix :: "string \<Rightarrow> string \<Rightarrow> bool" where
  "HasSuffix s p = HasPrefix (rev s) (rev p)"

fun Contains :: "string \<Rightarrow> string \<Rightarrow> bool" where
  "Contains [] sub = (sub = [])"
| "Contains (c # s) sub = (HasPrefix (c # s) sub \<or> Contains s sub)"

text \<open>\<^verbatim>\<open>strings.Cut\<close> with a one-byte separator: the text before and after its first occurrence.\<close>

fun Cut :: "string \<Rightarrow> char \<Rightarrow> string \<times> string \<times> bool" where
  "Cut [] sep = ([], [], False)"
| "Cut (c # s) sep =
     (if c = sep then ([], s, True)
      else (case Cut s sep of (before, after, found) \<Rightarrow> (c # before, after, found)))"

fun Split :: "string \<Rightarrow> char \<Rightarrow> string list" where
  "Split [] sep = [[]]"
| "Split (c # s) sep =
     (if c = sep then [] # Split s sep
      else (case Split s sep of [] \<Rightarrow> [[c]] | w # ws \<Rightarrow> (c # w) # ws))"

fun Join :: "string list \<Rightarrow> string \<Rightarrow> string" where
  "Join [] sep = []"
| "Join [w] sep = w"
| "Join (w # ws) sep = w @ sep @ Join ws sep"

text \<open>
  \<^verbatim>\<open>strings.LastIndexByte\<close>, returned as the split around the last occurrence: the text
  before it and the text after it.
\<close>

definition CutLast :: "string \<Rightarrow> char \<Rightarrow> (string \<times> string) option" where
  "CutLast s c =
     (case Cut (rev s) c of (after, before, found) \<Rightarrow>
        if found then Some (rev before, rev after) else None)"

text \<open>
  \<^verbatim>\<open>strings.TrimSpace\<close> removes leading and trailing runes with \<^verbatim>\<open>unicode.IsSpace\<close>.  Each of
  these runes has exactly one UTF-8 encoding, so a string starts (ends) with such a rune
  exactly when it starts (ends) with one of the byte sequences below: the six ASCII spaces,
  U+0085, U+00A0, U+1680, U+2000 to U+200A, U+2028, U+2029, U+202F, U+205F and U+3000.
\<close>

definition bytes :: "nat list \<Rightarrow> string" where
  "bytes = map char_of"

definition space_runes :: "string list" where
  "space_runes =
     map bytes
       ([[9], [10], [11], [12], [13], [32], [194, 133], [194, 160], [225, 154, 128]] @
        map (\<lambda>b. [226, 128, b]) [128, 129, 130, 131, 132, 133, 134, 135, 136, 137, 138] @
        [[226, 128, 168], [226, 128, 169], [226, 128, 175], [226, 129, 159], [227, 128, 128]])"

text \<open>
  The stripping loop removes one rune per round; every round shortens the string, so its
  length is enough fuel.
\<close>

fun strip_runes :: "nat \<Rightarrow> string list \<Rightarrow> string \<Rightarrow> string" where
  "strip_runes 0 rs s = s"
| "strip_runes (Suc n) rs s =
     (case find (HasPrefix s) rs of
        None \<Rightarrow> s
      | Some r \<Rightarrow> strip_runes n rs (drop (length r) s))"

definition TrimLeftSpace :: "string \<Rightarrow> string" where
  "TrimLeftSpace s = strip_runes (length s) space_runes s"

definition TrimRightSpace :: "string \<Rightarrow> string" where
  "TrimRightSpace s = rev (strip_runes (length s) (map rev space_runes) (rev s))"

definition TrimSpace :: "string \<Rightarrow> string" where
  "TrimSpace s = TrimRightSpace (TrimLeftSpace s)"

text \<open>
  \<^verbatim>\<open>strings.ToLower\<close> maps the ASCII letters of an ASCII string.  For a string with a byte
  above 127 it consults the Unicode case tables, which are a parameter.
\<close>

definition lower_ascii :: "char \<Rightarrow> char" where
  "lower_ascii c =
     (let n = (of_char c :: nat) in if 65 \<le> n \<and> n \<le> 90 then char_of (n + 32) else c)"

definition ToLower :: "(string \<Rightarrow> string) \<Rightarrow> string \<Rightarrow> string" where
  "ToLower unicode s = (if list_all ascii s then map lower_ascii s else unicode s)"

section \<open>Paths\<close>

text \<open>
  \<^verbatim>\<open>path.Clean\<close> and \<^verbatim>\<open>path.Join\<close> are lexical: empty and dot elements vanish, an inner
  dot-dot removes the element before it, a leading dot-dot of a relative path stays.
\<close>

fun clean_elems :: "bool \<Rightarrow> string list \<Rightarrow> string list \<Rightarrow> string list" where
  "clean_elems rooted acc [] = rev acc"
| "clean_elems rooted acc (e # es) =
     (if e = [] \<or> e = ''.'' then clean_elems rooted acc es
      else if e = ''..'' then
        (case acc of
           [] \<Rightarrow> if rooted then clean_elems rooted [] es else clean_elems rooted [e] es
         | a # as \<Rightarrow> if a = ''..'' then clean_elems rooted (e # acc) es
                     else clean_elems rooted as es)
      else clean_elems rooted (e # acc) es)"

definition path_Clean :: "string \<Rightarrow> string" where
  "path_Clean p =
     (if p = [] then ''.''
      else let rooted = HasPrefix p ''/'';
               out = Join (clean_elems rooted [] (Split p (CHR ''/''))) ''/''
           in if rooted then CHR ''/'' # out else if out = [] then ''.'' else out)"

definition path_Join :: "string list \<Rightarrow> string" where
  "path_Join ps =
     (let ne = filter (\<lambda>p. p \<noteq> []) ps
      in if ne = [] then [] else path_Clean (Join ne ''/''))"

section \<open>Time\<close>

text \<open>
  An instant is the number of nanoseconds since the zero value of \<^verbatim>\<open>time.Time\<close> (January 1 of
  year 1, UTC); a duration is a number of nanoseconds.  \<^verbatim>\<open>*time.Time\<close> is an optional instant.
\<close>

type_synonym time = int
type_synonym duration = int

definition IsZero :: "time \<Rightarrow> bool" where
  "IsZero t \<longleftrightarrow> t = 0"

definition minutes :: "int \<Rightarrow> duration" where
  "minutes n = n * 60 * 1000000000"

section \<open>Maps and their iteration order\<close>

text \<open>
  A Go map from strings is an association list with distinct keys.  A \<^verbatim>\<open>range\<close> loop visits
  the entries in an order the language leaves open.  An iteration order is a function that
  permutes the keys; \<open>range_map ord m\<close> visits the entries of \<open>m\<close> in the order \<open>ord\<close> gives to
  its keys.
\<close>

type_synonym 'v gomap = "(string \<times> 'v) list"

typedef iteration = "{ord :: string list \<Rightarrow> string list. \<forall>ks. mset (ord ks) = mset ks}"
  morphisms visit Iteration
  by (rule exI [of _ "\<lambda>ks. ks"]) simp

setup_lifting type_definition_iteration

lift_definition insertion_order :: iteration is "\<lambda>ks. ks"
  by simp

lift_definition reverse_order :: iteration is rev
  by simp

lemma visit_insertion_order [simp]: "visit insertion_order ks = ks"
  by (simp add: insertion_order.rep_eq)

definition range_map :: "iteration \<Rightarrow> 'v gomap \<Rightarrow> 'v list" where
  "range_map ord m = List.map_filter (map_of m) (visit ord (map fst m))"

definition wf_map :: "'v gomap \<Rightarrow> bool" where
  "wf_map m \<longleftrightarrow> distinct (map fst m)"

section \<open>Errors\<close>

text \<open>A fallible operation returns a sum: \<^const>\<open>Inl\<close> the error, \<^const>\<open>Inr\<close> the result.\<close>

fun first_error :: "('a \<Rightarrow> 'e option) \<Rightarrow> 'a list \<Rightarrow> 'e option" where
  "first_error f [] = None"
| "first_error f (x # xs) = (case f x of Some e \<Rightarrow> Some e | None \<Rightarrow> first_error f xs)"

section \<open>Lemmas on strings\<close>

lemma HasPrefix_iff: "HasPrefix s p \<longleftrightarrow> (\<exists>t. s = p @ t)"
  by (induction s p rule: HasPrefix.induct) auto

lemma HasSuffix_iff: "HasSuffix s p \<longleftrightarrow> (\<exists>t. s = t @ p)"
  by (auto simp: HasSuffix_def HasPrefix_iff) (metis rev_append rev_rev_ident)

lemma Contains_iff: "Contains s sub \<longleftrightarrow> (\<exists>a b. s = a @ sub @ b)"
proof (induction s)
  case (Cons c s)
  show ?case
  proof
    assume "Contains (c # s) sub"
    then consider b where "c # s = sub @ b" | a b where "s = a @ sub @ b"
      using Cons.IH by (auto simp: HasPrefix_iff)
    then show "\<exists>a b. c # s = a @ sub @ b"
      by cases (metis append_Nil, metis append_Cons)
  next
    assume "\<exists>a b. c # s = a @ sub @ b"
    then obtain a b where ab: "c # s = a @ sub @ b" by blast
    show "Contains (c # s) sub"
    proof (cases a)
      case Nil
      with ab have "HasPrefix (c # s) sub" by (auto simp: HasPrefix_iff)
      then show ?thesis by simp
    next
      case (Cons x as)
      with ab Cons.IH have "Contains s sub" by auto
      then show ?thesis by simp
    qed
  qed
qed simp

lemma Contains_char [simp]: "Contains s [c] \<longleftrightarrow> c \<in> set s"
  by (auto simp: Contains_iff in_set_conv_decomp)

lemma Cut_found: "Cut s c = (b, a, True) \<Longrightarrow> s = b @ c # a \<and> c \<notin> set b"
  by (induction s arbitrary: b) (auto split: if_splits prod.splits)

lemma Cut_notfound: "Cut s c = (b, a, False) \<Longrightarrow> b = s \<and> a = [] \<and> c \<notin> set s"
  by (induction s arbitrary: b) (auto split: if_splits prod.splits)

lemma Cut_absent: "c \<notin> set s \<Longrightarrow> Cut s c = (s, [], False)"
  by (induction s) auto

lemma Cut_split: "c \<notin> set b \<Longrightarrow> Cut (b @ c # a) c = (b, a, True)"
  by (induction b) auto

lemma CutLast_Some: "CutLast s c = Some (b, a) \<longleftrightarrow> s = b @ c # a \<and> c \<notin> set a"
proof
  assume "CutLast s c = Some (b, a)"
  then have "Cut (rev s) c = (rev a, rev b, True)"
    by (auto simp: CutLast_def split: prod.splits if_splits)
  from Cut_found [OF this] show "s = b @ c # a \<and> c \<notin> set a"
    by (simp add: rev_swap)
next
  assume "s = b @ c # a \<and> c \<notin> set a"
  then show "CutLast s c = Some (b, a)"
    using Cut_split [of c "rev a" "rev b"] by (simp add: CutLast_def)
qed

lemma CutLast_None: "CutLast s c = None \<longleftrightarrow> c \<notin> set s"
proof (cases "Cut (rev s) c")
  case (fields a b f)
  then show ?thesis
    using Cut_found [of "rev s" c a b] Cut_notfound [of "rev s" c a b] set_rev [of s]
    by (cases f) (auto simp: CutLast_def simp del: set_rev)
qed

lemma Split_not_Nil [simp]: "Split s c \<noteq> []"
  by (induction s) (auto split: list.splits)

lemma Split_no_sep: "w \<in> set (Split s c) \<Longrightarrow> c \<notin> set w"
  by (induction s arbitrary: w) (auto split: if_splits list.splits)

lemma Join_Split: "Join (Split s c) [c] = s"
proof (induction s)
  case (Cons x s)
  obtain w ws where "Split s c = w # ws"
    using Split_not_Nil [of s c] by (cases "Split s c") blast+
  with Cons show ?case by (cases ws) auto
qed simp

lemma strip_runes_Nil [simp]: "strip_runes n rs [] = []"
  by (induction n) (auto split: option.splits)

lemma TrimSpace_Nil [simp]: "TrimSpace [] = []"
  by (simp add: TrimSpace_def TrimLeftSpace_def TrimRightSpace_def)

lemma TrimSpace_nonempty: "TrimSpace s \<noteq> [] \<Longrightarrow> s \<noteq> []"
  by auto

text \<open>A string that begins and ends with a graphic ASCII character has nothing to trim.\<close>

definition graphic :: "char \<Rightarrow> bool" where
  "graphic c \<longleftrightarrow> 32 < (of_char c :: nat) \<and> (of_char c :: nat) < 127"

lemma space_runes_ends:
  assumes "r \<in> set space_runes"
  shows "r \<noteq> [] \<and> \<not> graphic (hd r) \<and> \<not> graphic (last r)"
  using assms by (auto simp: space_runes_def bytes_def graphic_def)

lemma strip_runes_keep: "\<forall>r \<in> set rs. \<not> HasPrefix s r \<Longrightarrow> strip_runes n rs s = s"
  by (cases n) (auto simp: find_None_iff split: option.splits dest: find_Some_iff [THEN iffD1])

lemma TrimSpace_graphic:
  assumes "s \<noteq> []" and "graphic (hd s)" and "graphic (last s)"
  shows "TrimSpace s = s"
proof -
  have "\<forall>r \<in> set space_runes. \<not> HasPrefix s r"
    using assms(2) space_runes_ends by (fastforce simp: HasPrefix_iff)
  then have "TrimLeftSpace s = s" by (simp add: TrimLeftSpace_def strip_runes_keep)
  moreover have "\<forall>r \<in> set (map rev space_runes). \<not> HasPrefix (rev s) r"
  proof (clarsimp simp: HasPrefix_iff)
    fix r t assume "r \<in> set space_runes" and "rev s = rev r @ t"
    then have "s = rev t @ r" by (metis rev_append rev_rev_ident)
    with space_runes_ends [OF \<open>r \<in> _\<close>] assms(3) show False by simp
  qed
  ultimately show ?thesis by (simp add: TrimSpace_def TrimRightSpace_def strip_runes_keep)
qed

section \<open>Lemmas on maps\<close>

lemma wf_map_Nil [simp]: "wf_map []"
  by (simp add: wf_map_def)

lemma wf_map_update [simp]: "wf_map m \<Longrightarrow> wf_map (AList.update k v m)"
  by (simp add: wf_map_def distinct_update)

lemma map_filter_map_of_keys:
  assumes "wf_map m"
  shows "List.map_filter (map_of m) (map fst m) = map snd m"
proof -
  have "map (\<lambda>k. the (map_of m k)) (map fst m) = map snd m"
    using assms by (auto simp: wf_map_def intro!: map_cong)
  moreover have "\<forall>k \<in> set (map fst m). map_of m k \<noteq> None"
    by (auto simp: map_of_eq_None_iff)
  then have "filter (\<lambda>k. map_of m k \<noteq> None) (map fst m) = map fst m"
    by (simp add: filter_id_conv)
  ultimately show ?thesis
    by (simp add: List.map_filter_def comp_def)
qed

lemma mset_map_filter: "mset xs = mset ys \<Longrightarrow>
    mset (List.map_filter f xs) = mset (List.map_filter f ys)"
  by (simp add: List.map_filter_def)

lemma in_set_map_filter: "y \<in> set (List.map_filter f xs) \<longleftrightarrow> (\<exists>x \<in> set xs. f x = Some y)"
  by (force simp: List.map_filter_def)

lemma mset_visit [simp]: "mset (visit ord ks) = mset ks"
  using visit [of ord] by simp

lemma set_visit [simp]: "set (visit ord ks) = set ks"
  by (metis mset_visit set_mset_mset)

lemmas visit_orders [simp] = insertion_order.rep_eq reverse_order.rep_eq

lemma mset_range_map:
  assumes "wf_map m"
  shows "mset (range_map ord m) = mset (map snd m)"
proof -
  have "mset (range_map ord m) = mset (List.map_filter (map_of m) (map fst m))"
    by (simp add: range_map_def mset_map_filter)
  then show ?thesis by (simp only: map_filter_map_of_keys [OF assms])
qed

lemma set_range_map:
  assumes "wf_map m"
  shows "set (range_map ord m) = ran (map_of m)"
proof -
  have "set (range_map ord m) = snd ` set m"
    using mset_range_map [OF assms] by (metis set_map set_mset_mset)
  also have "\<dots> = ran (map_of m)"
    using assms by (auto simp: wf_map_def ran_def intro: rev_image_eqI dest: map_of_SomeD)
  finally show ?thesis .
qed

lemma distinct_range_map:
  assumes "wf_map m" and key: "\<And>k v. map_of m k = Some v \<Longrightarrow> f v = k"
  shows "distinct (range_map ord m)"
proof -
  have "map f (map snd m) = map fst m"
    using assms(1) by (auto simp: wf_map_def intro!: key map_cong)
  then have "distinct (map f (map snd m))" using assms(1) by (simp only: wf_map_def)
  then have "distinct (map snd m)" using distinct_map [of f "map snd m"] by blast
  then show ?thesis
    using mset_range_map [OF assms(1)] mset_eq_imp_distinct_iff by blast
qed

lemma first_error_None: "first_error f xs = None \<longleftrightarrow> (\<forall>x \<in> set xs. f x = None)"
  by (induction xs) (auto split: option.splits)

end
