(* ===== verification/Go_Net.thy ===== *)
theory Go_Net
  imports Prelude
begin

text \<open>
  The part of Go's \<^verbatim>\<open>net\<close> package that the resolver consults before it hands a host out:
  \<^verbatim>\<open>net.ParseIP\<close> (dotted IPv4, colon-separated IPv6 with an ellipsis and an optional trailing
  IPv4 part; zones are refused) and the address classes \<^verbatim>\<open>IsLoopback\<close>, \<^verbatim>\<open>IsPrivate\<close>,
  \<^verbatim>\<open>IsLinkLocalUnicast\<close> and \<^verbatim>\<open>IsLinkLocalMulticast\<close>.  An address is its list of 16 bytes; an
  IPv4 address is kept in its IPv4-mapped form, as \<^verbatim>\<open>netip.Addr.As16\<close> returns it.
\<close>

unbundle bit_operations_syntax

section \<open>Parsing\<close>

definition is_digit :: "char \<Rightarrow> bool" where
  "is_digit c \<longleftrightarrow> 48 \<le> (of_char c :: nat) \<and> (of_char c :: nat) \<le> 57"

definition digit_value :: "char \<Rightarrow> nat" where
  "digit_value c = of_char c - 48"

definition is_hex :: "char \<Rightarrow> bool" where
  "is_hex c \<longleftrightarrow> is_digit c \<or> (97 \<le> (of_char c :: nat) \<and> (of_char c :: nat) \<le> 102) \<or>
     (65 \<le> (of_char c :: nat) \<and> (of_char c :: nat) \<le> 70)"

definition hex_value :: "char \<Rightarrow> nat" where
  "hex_value c =
     (let n = of_char c in if n \<le> 57 then n - 48 else if 97 \<le> n then n - 87 else n - 55)"

text \<open>
  \<^verbatim>\<open>parseIPv4Fields\<close>: \<open>at_sep\<close> says that the scan is at the start or right after a dot, and
  \<open>fields\<close> holds the octets already closed by a dot.
\<close>

fun v4_fields :: "string \<Rightarrow> bool \<Rightarrow> nat \<Rightarrow> nat \<Rightarrow> nat list \<Rightarrow> nat list option" where
  "v4_fields [] at_sep val digLen fields =
     (if length fields < 3 then None else Some (fields @ [val]))"
| "v4_fields (c # s) at_sep val digLen fields =
     (if is_digit c then
        if digLen = 1 \<and> val = 0 then None
        else let v = val * 10 + digit_value c
             in if 255 < v then None else v4_fields s False v (Suc digLen) fields
      else if c = CHR ''.'' then
        if at_sep \<or> s = [] then None
        else if length fields = 3 then None
        else v4_fields s True 0 0 (fields @ [val])
      else None)"

definition parseIPv4 :: "string \<Rightarrow> nat list option" where
  "parseIPv4 s = v4_fields s True 0 0 []"

definition hex_number :: "string \<Rightarrow> nat" where
  "hex_number hs = foldl (\<lambda>acc c. acc * 16 + hex_value c) 0 hs"

text \<open>
  \<^verbatim>\<open>parseIPv6\<close>: each round reads one group of at most four hexadecimal digits into two
  bytes, so eight rounds fill the address.  The result is the unread text, the bytes read
  and the position of the ellipsis.
\<close>

fun v6_groups :: "nat \<Rightarrow> string \<Rightarrow> nat list \<Rightarrow> nat option \<Rightarrow>
    (string \<times> nat list \<times> nat option) option" where
  "v6_groups 0 s ip el = Some (s, ip, el)"
| "v6_groups (Suc n) s ip el =
     (let hs = takeWhile is_hex s; rest = drop (length hs) s; acc = hex_number hs;
          ip' = ip @ [acc div 256, acc mod 256]
      in if hs = [] \<or> 4 < length hs then None
         else case rest of
             [] \<Rightarrow> Some ([], ip', el)
           | c # s1 \<Rightarrow>
               if c = CHR ''.'' then
                 if el = None \<and> length ip \<noteq> 12 then None
                 else if 16 < length ip + 4 then None
                 else (case parseIPv4 s of None \<Rightarrow> None | Some q \<Rightarrow> Some ([], ip @ q, el))
               else if c \<noteq> CHR '':'' then None
               else case s1 of
                   [] \<Rightarrow> None
                 | c2 # s2 \<Rightarrow>
                     if c2 = CHR '':'' then
                       if el \<noteq> None then None
                       else if s2 = [] then Some ([], ip', Some (length ip'))
                       else v6_groups n s2 ip' (Some (length ip'))
                     else v6_groups n s1 ip' el)"

definition v6_finish :: "string \<times> nat list \<times> nat option \<Rightarrow> nat list option" where
  "v6_finish r =
     (case r of (s, ip, el) \<Rightarrow>
        if s \<noteq> [] then None
        else if length ip < 16 then
          (case el of
             None \<Rightarrow> None
           | Some e \<Rightarrow> Some (take e ip @ replicate (16 - length ip) 0 @ drop e ip))
        else if el \<noteq> None then None
        else Some ip)"

definition parseIPv6 :: "string \<Rightarrow> nat list option" where
  "parseIPv6 s =
     (if CHR ''%'' \<in> set s then None
      else if HasPrefix s ''::'' then
        (if length s = 2 then Some (replicate 16 0)
         else Option.bind (v6_groups 8 (drop 2 s) [] (Some 0)) v6_finish)
      else Option.bind (v6_groups 8 s [] None) v6_finish)"

text \<open>\<^verbatim>\<open>netip.ParseAddr\<close> dispatches on the first dot, colon or percent sign.\<close>

fun addr_kind :: "string \<Rightarrow> char option" where
  "addr_kind [] = None"
| "addr_kind (c # s) =
     (if c \<in> {CHR ''.'', CHR '':'', CHR ''%''} then Some c else addr_kind s)"

definition v4_mapped :: "nat list \<Rightarrow> nat list" where
  "v4_mapped q = replicate 10 0 @ [255, 255] @ q"

definition ParseIP :: "string \<Rightarrow> nat list option" where
  "ParseIP s =
     (if addr_kind s = Some (CHR ''.'') then map_option v4_mapped (parseIPv4 s)
      else if addr_kind s = Some (CHR '':'') then parseIPv6 s
      else None)"

section \<open>Address classes\<close>

definition To4 :: "nat list \<Rightarrow> nat list option" where
  "To4 ip = (if take 12 ip = replicate 10 0 @ [255, 255] then Some (drop 12 ip) else None)"

definition IsLoopback :: "nat list \<Rightarrow> bool" where
  "IsLoopback ip =
     (case To4 ip of Some q \<Rightarrow> q ! 0 = 127 | None \<Rightarrow> ip = replicate 15 0 @ [1])"

definition IsPrivate :: "nat list \<Rightarrow> bool" where
  "IsPrivate ip =
     (case To4 ip of
        Some q \<Rightarrow> q ! 0 = 10 \<or> (q ! 0 = 172 \<and> q ! 1 AND 240 = 16) \<or> (q ! 0 = 192 \<and> q ! 1 = 168)
      | None \<Rightarrow> ip ! 0 AND 254 = 252)"

definition IsLinkLocalUnicast :: "nat list \<Rightarrow> bool" where
  "IsLinkLocalUnicast ip =
     (case To4 ip of
        Some q \<Rightarrow> q ! 0 = 169 \<and> q ! 1 = 254
      | None \<Rightarrow> ip ! 0 = 254 \<and> ip ! 1 AND 192 = 128)"

definition IsLinkLocalMulticast :: "nat list \<Rightarrow> bool" where
  "IsLinkLocalMulticast ip =
     (case To4 ip of
        Some q \<Rightarrow> q ! 0 = 224 \<and> q ! 1 = 0 \<and> q ! 2 = 0
      | None \<Rightarrow> ip ! 0 = 255 \<and> ip ! 1 AND 15 = 2)"

section \<open>What a parsed address is\<close>

definition is_octets :: "nat list \<Rightarrow> bool" where
  "is_octets bs \<longleftrightarrow> (\<forall>b \<in> set bs. b < 256)"

lemma is_octets_simps [simp]:
  "is_octets []" "is_octets (b # bs) \<longleftrightarrow> b < 256 \<and> is_octets bs"
  "is_octets (xs @ ys) \<longleftrightarrow> is_octets xs \<and> is_octets ys"
  by (auto simp: is_octets_def)

lemma is_octets_parts [simp]:
  "is_octets xs \<Longrightarrow> is_octets (take n xs)" "is_octets xs \<Longrightarrow> is_octets (drop n xs)"
  "is_octets (replicate n 0)"
  by (auto simp: is_octets_def dest: in_set_takeD in_set_dropD)

lemma v4_fields_octets:
  "v4_fields s sep val dl fs = Some q \<Longrightarrow> val < 256 \<Longrightarrow> is_octets fs \<Longrightarrow> length fs \<le> 3 \<Longrightarrow>
     length q = 4 \<and> is_octets q"
  by (induction s sep val dl fs rule: v4_fields.induct) (auto simp: Let_def split: if_splits)

lemma parseIPv4_octets: "parseIPv4 s = Some q \<Longrightarrow> length q = 4 \<and> is_octets q"
  unfolding parseIPv4_def by (rule v4_fields_octets) auto

lemma hex_value_less: "is_hex c \<Longrightarrow> hex_value c < 16"
  by (auto simp: is_hex_def hex_value_def is_digit_def Let_def)

lemma hex_number_bound: "\<forall>c \<in> set hs. is_hex c \<Longrightarrow> hex_number hs < 16 ^ length hs"
  unfolding hex_number_def
proof (induction hs rule: rev_induct)
  case (snoc c hs)
  then have "foldl (\<lambda>acc c. acc * 16 + hex_value c) 0 hs < 16 ^ length hs"
    and "hex_value c < 16" by (auto simp: hex_value_less)
  then show ?case by simp
qed simp

lemma hex_group_octets:
  assumes "hs = takeWhile is_hex s" and "length hs \<le> 4"
  shows "hex_number hs div 256 < 256"
proof -
  have "hex_number hs < 16 ^ length hs"
    using assms(1) by (intro hex_number_bound) (auto dest: set_takeWhileD)
  also have "\<dots> \<le> 16 ^ 4" using assms(2) by (intro power_increasing) auto
  finally show ?thesis by simp
qed

lemma v6_groups_octets:
  "v6_groups n s ip el = Some (s', ip', el') \<Longrightarrow> is_octets ip \<Longrightarrow> length ip + 2 * n = 16 \<Longrightarrow>
     is_octets ip' \<and> length ip' \<le> 16"
proof (induction n s ip el rule: v6_groups.induct)
  case (2 n s ip el)
  let ?hs = "takeWhile is_hex s"
  have ok: "\<not> (?hs = [] \<or> 4 < length ?hs)"
    using "2.prems"(1) by (auto simp: Let_def split: if_splits)
  then have "is_octets (ip @ [hex_number ?hs div 256, hex_number ?hs mod 256])"
    using "2.prems"(2) hex_group_octets [of ?hs s] by simp
  with "2.prems" ok show ?case
    using "2.IH" [OF refl refl refl refl ok]
    by (auto simp: Let_def split: if_splits list.splits option.splits dest: parseIPv4_octets)
qed simp

lemma v6_finish_octets:
  assumes "v6_finish (s, ip, el) = Some b" and "is_octets ip" and "length ip \<le> 16"
  shows "length b = 16 \<and> is_octets b"
  using assms by (auto simp: v6_finish_def split: if_splits option.splits)

lemma parseIPv6_octets:
  assumes "parseIPv6 s = Some b"
  shows "length b = 16 \<and> is_octets b"
proof -
  have "length b = 16 \<and> is_octets b"
    if bnd: "Option.bind (v6_groups 8 t [] el) v6_finish = Some b" for t el
  proof -
    obtain s' ip' el' where g: "v6_groups 8 t [] el = Some (s', ip', el')"
      and f: "v6_finish (s', ip', el') = Some b"
      using bnd by (cases "v6_groups 8 t [] el") auto
    from v6_groups_octets [OF g] f show ?thesis
      by (intro v6_finish_octets [OF f]) auto
  qed
  then show ?thesis
    using assms by (auto simp: parseIPv6_def split: if_splits)
qed

lemma ParseIP_octets: "ParseIP s = Some b \<Longrightarrow> length b = 16 \<and> is_octets b"
  by (auto simp: ParseIP_def v4_mapped_def split: if_splits
      dest: parseIPv4_octets parseIPv6_octets)

lemma To4_mapped [simp]: "To4 (v4_mapped q) = Some q"
  by (simp add: To4_def v4_mapped_def)

end
