(* ===== verification/Go_Url.thy ===== *)
theory Go_Url
  imports Go_Net
begin

text \<open>
  Go's \<^verbatim>\<open>net/url\<close> as the validators use it: \<^verbatim>\<open>url.Parse\<close> with the fields \<^verbatim>\<open>Scheme\<close>,
  \<^verbatim>\<open>User\<close> (whether it is set), \<^verbatim>\<open>Host\<close> and \<^verbatim>\<open>RawQuery\<close>, and \<^verbatim>\<open>URL.Hostname\<close>.  The record
  \<open>golib\<close> holds what stays a parameter: the Unicode case tables, the treatment
  of a bracketed IP literal in a host, which differs between patch releases of the library,
  and the order in which a \<^verbatim>\<open>range\<close> loop visits a map.
\<close>

record golib =
  unicode_lower :: "string \<Rightarrow> string"
  bracket_host :: "string \<Rightarrow> string option"
  map_order :: iteration

record URL =
  Scheme :: string
  User :: bool
  Host :: string
  RawQuery :: string

section \<open>Pieces of the parser\<close>

definition is_ctl :: "char \<Rightarrow> bool" where
  "is_ctl c \<longleftrightarrow> of_char c < (32 :: nat) \<or> of_char c = (127 :: nat)"

definition is_alpha :: "char \<Rightarrow> bool" where
  "is_alpha c \<longleftrightarrow> 97 \<le> (of_char c :: nat) \<and> (of_char c :: nat) \<le> 122 \<or>
     65 \<le> (of_char c :: nat) \<and> (of_char c :: nat) \<le> 90"

text \<open>
  \<^verbatim>\<open>getScheme\<close>: \<open>acc\<close> is the reversed prefix read so far.  The outer option is the error
  "missing protocol scheme".
\<close>

fun get_scheme :: "string \<Rightarrow> string \<Rightarrow> string \<Rightarrow> (string \<times> string) option" where
  "get_scheme raw acc [] = Some ([], raw)"
| "get_scheme raw acc (c # s) =
     (if is_alpha c then get_scheme raw (c # acc) s
      else if is_digit c \<or> c \<in> set ''+-.'' then
        if acc = [] then Some ([], raw) else get_scheme raw (c # acc) s
      else if c = CHR '':'' then
        if acc = [] then None else Some (rev acc, s)
      else Some ([], raw))"

text \<open>Bytes that may stand unescaped in a host.\<close>

definition host_byte :: "char \<Rightarrow> bool" where
  "host_byte c \<longleftrightarrow> is_alpha c \<or> is_digit c \<or> \<not> ascii c \<or>
     c \<in> set (''!$&()*+,;=:[]<>-_.~'' @ [char_of (39 :: nat), char_of (34 :: nat)])"

text \<open>
  \<^verbatim>\<open>unescape\<close>: in host mode a percent escape must stand for a non-ASCII byte or for the
  percent sign itself, and every other byte must be a host byte.
\<close>

fun unescape :: "bool \<Rightarrow> string \<Rightarrow> string option" where
  "unescape host [] = Some []"
| "unescape host (c # s) =
     (if c = CHR ''%'' then
        (case s of
           a # b # t \<Rightarrow>
             if is_hex a \<and> is_hex b \<and>
                \<not> (host \<and> hex_value a < 8 \<and> \<not> (a = CHR ''2'' \<and> b = CHR ''5''))
             then map_option (\<lambda>r. char_of (16 * hex_value a + hex_value b) # r) (unescape host t)
             else None
         | _ \<Rightarrow> None)
      else if host \<and> \<not> host_byte c then None
      else map_option (\<lambda>r. c # r) (unescape host s))"

definition validOptionalPort :: "string \<Rightarrow> bool" where
  "validOptionalPort p = (case p of [] \<Rightarrow> True | c # ds \<Rightarrow> c = CHR '':'' \<and> list_all is_digit ds)"

definition validUserinfo :: "string \<Rightarrow> bool" where
  "validUserinfo s \<longleftrightarrow>
     list_all (\<lambda>c. is_alpha c \<or> is_digit c \<or> c \<in> set (''-._:~!$&()*+,;=%@'' @ [char_of (39 :: nat)])) s"

definition parseHost :: "golib \<Rightarrow> string \<Rightarrow> string option" where
  "parseHost L host =
     (if CHR ''['' \<in> set host then bracket_host L host
      else case CutLast host (CHR '':'') of
          Some (_, port) \<Rightarrow>
            if validOptionalPort (CHR '':'' # port) then unescape True host else None
        | None \<Rightarrow> unescape True host)"

definition userinfo_ok :: "string \<Rightarrow> bool" where
  "userinfo_ok s \<longleftrightarrow> validUserinfo s \<and>
     (case Cut s (CHR '':'') of
        (name, pass, True) \<Rightarrow> unescape False name \<noteq> None \<and> unescape False pass \<noteq> None
      | _ \<Rightarrow> unescape False s \<noteq> None)"

text \<open>\<^verbatim>\<open>parseAuthority\<close>: whether a user is set, and the host.\<close>

definition parseAuthority :: "golib \<Rightarrow> string \<Rightarrow> (bool \<times> string) option" where
  "parseAuthority L auth =
     (case CutLast auth (CHR ''@'') of
        None \<Rightarrow> map_option (\<lambda>h. (False, h)) (parseHost L auth)
      | Some (info, host) \<Rightarrow>
          (case parseHost L host of
             None \<Rightarrow> None
           | Some h \<Rightarrow> if userinfo_ok info then Some (True, h) else None))"

definition split_query :: "string \<Rightarrow> string \<times> string" where
  "split_query rest =
     (if HasSuffix rest ''?'' \<and> count_list rest (CHR ''?'') = 1 then (butlast rest, [])
      else case Cut rest (CHR ''?'') of (p, q, _) \<Rightarrow> (p, q))"

definition split_authority :: "string \<Rightarrow> string \<times> string" where
  "split_authority s =
     (case Cut s (CHR ''/'') of
        (auth, path, found) \<Rightarrow> (auth, if found then CHR ''/'' # path else []))"

definition url_parse :: "golib \<Rightarrow> string \<Rightarrow> URL option" where
  "url_parse L raw =
     (if list_ex is_ctl raw then None
      else if raw = ''*'' then Some \<lparr>Scheme = [], User = False, Host = [], RawQuery = []\<rparr>
      else case get_scheme raw [] raw of
        None \<Rightarrow> None
      | Some (scheme0, rest0) \<Rightarrow>
         (let scheme = map lower_ascii scheme0;
              (rest, query) = split_query rest0
          in if \<not> HasPrefix rest ''/'' \<and> scheme \<noteq> [] then
               Some \<lparr>Scheme = scheme, User = False, Host = [], RawQuery = query\<rparr>
             else if \<not> HasPrefix rest ''/'' \<and> CHR '':'' \<in> set (fst (Cut rest (CHR ''/''))) then None
             else if (scheme \<noteq> [] \<or> \<not> HasPrefix rest ''///'') \<and> HasPrefix rest ''//'' then
               (let (auth, path) = split_authority (drop 2 rest)
                in case parseAuthority L auth of
                     None \<Rightarrow> None
                   | Some (user, host) \<Rightarrow>
                       if unescape False path = None then None
                       else Some \<lparr>Scheme = scheme, User = user, Host = host, RawQuery = query\<rparr>)
             else if unescape False rest = None then None
             else Some \<lparr>Scheme = scheme, User = False, Host = [], RawQuery = query\<rparr>))"

definition url_Parse :: "golib \<Rightarrow> string \<Rightarrow> URL option" where
  "url_Parse L raw =
     (case Cut raw (CHR ''#'') of (u, frag, _) \<Rightarrow>
        case url_parse L u of
          None \<Rightarrow> None
        | Some url \<Rightarrow>
            if frag = [] then Some url
            else if unescape False frag = None then None
            else Some url)"

definition Hostname :: "URL \<Rightarrow> string" where
  "Hostname u =
     (let host =
        (case CutLast (Host u) (CHR '':'') of
           Some (h, port) \<Rightarrow> if validOptionalPort (CHR '':'' # port) then h else Host u
         | None \<Rightarrow> Host u)
      in if HasPrefix host ''['' \<and> HasSuffix host '']'' then butlast (tl host) else host)"

section \<open>What an accepted URL looks like\<close>

lemma get_scheme_Some:
  "get_scheme raw acc s = Some (sch, rest) \<Longrightarrow> sch \<noteq> [] \<Longrightarrow> raw = rev acc @ s \<Longrightarrow>
     raw = sch @ CHR '':'' # rest"
  by (induction raw acc s rule: get_scheme.induct) (auto split: if_splits)

lemma parseAuthority_no_user:
  "parseAuthority L auth = Some (False, h) \<Longrightarrow> CHR ''@'' \<notin> set auth \<and> parseHost L auth = Some h"
  by (auto simp: parseAuthority_def CutLast_None [symmetric] split: option.splits prod.splits if_splits)

lemma split_authority_append:
  "split_authority s = (auth, path) \<Longrightarrow> s = auth @ path \<and> CHR ''/'' \<notin> set auth \<and>
     (path = [] \<or> hd path = CHR ''/'')"
  by (cases "Cut s (CHR ''/'')")
     (auto simp: split_authority_def split: if_splits dest: Cut_found Cut_notfound)

lemma split_query_no_query:
  assumes "split_query rest = (p, [])"
  shows "rest = p \<or> rest = p @ ''?''"
proof (cases "HasSuffix rest ''?'' \<and> count_list rest (CHR ''?'') = 1")
  case True
  then show ?thesis using assms by (auto simp: split_query_def HasSuffix_iff)
next
  case False
  obtain b a f where c: "Cut rest (CHR ''?'') = (b, a, f)" by (cases "Cut rest (CHR ''?'')")
  with False assms have pa: "p = b" "a = []" by (auto simp: split_query_def)
  show ?thesis
  proof (cases f)
    case True
    with c pa show ?thesis by (auto dest: Cut_found)
  next
    case f: False
    with c pa show ?thesis by (auto dest: Cut_notfound)
  qed
qed

lemma split_query_Nil_no_mark:
  assumes "split_query rest = (p, [])"
  shows "CHR ''?'' \<notin> set p"
proof (cases "HasSuffix rest ''?'' \<and> count_list rest (CHR ''?'') = 1")
  case True
  then obtain t where "rest = t @ ''?''" by (auto simp: HasSuffix_iff)
  with True assms show ?thesis
    by (auto simp: split_query_def count_list_append count_list_0_iff)
next
  case False
  obtain b a f where c: "Cut rest (CHR ''?'') = (b, a, f)" by (cases "Cut rest (CHR ''?'')")
  with False assms have "p = b" by (auto simp: split_query_def)
  with c show ?thesis by (cases f) (auto dest: Cut_found Cut_notfound)
qed

end
