(* ===== verification/Ids.thy ===== *)
theory Ids
  imports Go_Url
begin

text \<open>
  \<^verbatim>\<open>internal/ids\<close>: the canonical identities of artifacts and of node attempts, their string
  forms (which are the persistence keys) and their validation.
\<close>

section \<open>Keys\<close>

record ArtifactKey =
  k_RunID :: string
  k_ProducerNodeID :: string
  k_ProducerAttemptID :: string
  k_OutputName :: string

record NodeAttemptKey =
  n_RunID :: string
  n_NodeID :: string
  n_AttemptID :: string

datatype ids_error = IdsRunIDRequired | IdsSeparator string string

definition sep :: string where
  "sep = ''/''"

definition runNamespace :: string where
  "runNamespace = ''run''"

definition ArtifactKey_String :: "ArtifactKey \<Rightarrow> string" where
  "ArtifactKey_String k =
     runNamespace @ sep @ k_RunID k @ sep @ k_ProducerNodeID k @ sep @ k_ProducerAttemptID k @
     sep @ k_OutputName k"

definition NodeAttemptKey_String :: "NodeAttemptKey \<Rightarrow> string" where
  "NodeAttemptKey_String k =
     runNamespace @ sep @ n_RunID k @ sep @ n_NodeID k @ sep @ n_AttemptID k"

text \<open>
  The separator check ranges over a map from field names to values; the reported field is
  the first offending one in the iteration order.
\<close>

definition check_separators :: "iteration \<Rightarrow> string gomap \<Rightarrow> ids_error option" where
  "check_separators ord vals =
     first_error (\<lambda>f. case map_of vals f of
        Some v \<Rightarrow> if Contains v sep then Some (IdsSeparator f v) else None
      | None \<Rightarrow> None) (visit ord (map fst vals))"

definition ArtifactKey_Validate :: "golib \<Rightarrow> ArtifactKey \<Rightarrow> ids_error option" where
  "ArtifactKey_Validate L k =
     (if TrimSpace (k_RunID k) = [] then Some IdsRunIDRequired
      else check_separators (map_order L)
        [(''runID'', k_RunID k), (''producerNodeID'', k_ProducerNodeID k),
         (''producerAttemptID'', k_ProducerAttemptID k), (''outputName'', k_OutputName k)])"

definition NodeAttemptKey_Validate :: "golib \<Rightarrow> NodeAttemptKey \<Rightarrow> ids_error option" where
  "NodeAttemptKey_Validate L k =
     (if TrimSpace (n_RunID k) = [] then Some IdsRunIDRequired
      else check_separators (map_order L)
        [(''runID'', n_RunID k), (''nodeID'', n_NodeID k), (''attemptID'', n_AttemptID k)])"

section \<open>Valid keys identify\<close>

abbreviation slash_free :: "string \<Rightarrow> bool" where
  "slash_free s \<equiv> CHR ''/'' \<notin> set s"

lemma sep_char [simp]: "Contains s sep \<longleftrightarrow> CHR ''/'' \<in> set s"
  by (simp add: sep_def)

lemma check_separators_None:
  assumes "wf_map vals"
  shows "check_separators ord vals = None \<longleftrightarrow> (\<forall>(f, v) \<in> set vals. slash_free v)"
proof -
  have keys: "set (visit ord (map fst vals)) = fst ` set vals"
    by simp
  have look: "map_of vals f = Some v" if "(f, v) \<in> set vals" for f v
    using assms that by (simp add: wf_map_def)
  show ?thesis
    unfolding check_separators_def first_error_None keys
    by (force simp: look split: option.splits)
qed

lemma ArtifactKey_Validate_None:
  "ArtifactKey_Validate L k = None \<longleftrightarrow>
     TrimSpace (k_RunID k) \<noteq> [] \<and> slash_free (k_RunID k) \<and> slash_free (k_ProducerNodeID k) \<and>
     slash_free (k_ProducerAttemptID k) \<and> slash_free (k_OutputName k)"
  using check_separators_None [of
    "[(''runID'', k_RunID k), (''producerNodeID'', k_ProducerNodeID k),
         (''producerAttemptID'', k_ProducerAttemptID k), (''outputName'', k_OutputName k)]"]
  by (auto simp: ArtifactKey_Validate_def wf_map_def)

lemma NodeAttemptKey_Validate_None:
  "NodeAttemptKey_Validate L k = None \<longleftrightarrow>
     TrimSpace (n_RunID k) \<noteq> [] \<and> slash_free (n_RunID k) \<and> slash_free (n_NodeID k) \<and>
     slash_free (n_AttemptID k)"
  using check_separators_None [of
    "[(''runID'', n_RunID k), (''nodeID'', n_NodeID k), (''attemptID'', n_AttemptID k)]"]
  by (auto simp: NodeAttemptKey_Validate_def wf_map_def)

lemma slash_free_count: "slash_free s \<longleftrightarrow> count_list s (CHR ''/'') = 0"
  by (simp add: count_list_0_iff)

lemma ArtifactKey_String_slashes:
  "count_list (ArtifactKey_String k) (CHR ''/'') =
     4 + count_list (k_RunID k) (CHR ''/'') + count_list (k_ProducerNodeID k) (CHR ''/'') +
     count_list (k_ProducerAttemptID k) (CHR ''/'') + count_list (k_OutputName k) (CHR ''/'')"
  by (simp add: ArtifactKey_String_def sep_def runNamespace_def)

lemma NodeAttemptKey_String_slashes:
  "count_list (NodeAttemptKey_String k) (CHR ''/'') =
     3 + count_list (n_RunID k) (CHR ''/'') + count_list (n_NodeID k) (CHR ''/'') +
     count_list (n_AttemptID k) (CHR ''/'')"
  by (simp add: NodeAttemptKey_String_def sep_def runNamespace_def)

lemma slash_segment_eq:
  "slash_free a \<Longrightarrow> slash_free b \<Longrightarrow> a @ CHR ''/'' # x = b @ CHR ''/'' # y \<longleftrightarrow> a = b \<and> x = y"
  using Cut_split [of "CHR ''/''" a x] Cut_split [of "CHR ''/''" b y] by (metis prod.inject)

text \<open>
  A key with slash-free components is the only key with its string form: a second key with
  the same string has as many separators, hence slash-free components too.
\<close>

lemma ArtifactKey_String_inj:
  assumes "slash_free (k_RunID k)" "slash_free (k_ProducerNodeID k)"
    "slash_free (k_ProducerAttemptID k)" "slash_free (k_OutputName k)"
    and eq: "ArtifactKey_String k' = ArtifactKey_String k"
  shows "(k' :: ArtifactKey) = k"
proof -
  have "count_list (ArtifactKey_String k') (CHR ''/'') = count_list (ArtifactKey_String k) (CHR ''/'')"
    using eq by simp
  then have "slash_free (k_RunID k')" "slash_free (k_ProducerNodeID k')"
    "slash_free (k_ProducerAttemptID k')" "slash_free (k_OutputName k')"
    using assms(1-4) unfolding ArtifactKey_String_slashes by (simp_all add: slash_free_count)
  then show ?thesis
    using eq assms(1-4)
    by (cases k, cases k') (simp add: ArtifactKey_String_def sep_def slash_segment_eq)
qed

lemma NodeAttemptKey_String_inj:
  assumes "slash_free (n_RunID k)" "slash_free (n_NodeID k)" "slash_free (n_AttemptID k)"
    and eq: "NodeAttemptKey_String k' = NodeAttemptKey_String k"
  shows "(k' :: NodeAttemptKey) = k"
proof -
  have "count_list (NodeAttemptKey_String k') (CHR ''/'') =
      count_list (NodeAttemptKey_String k) (CHR ''/'')"
    using eq by simp
  then have "slash_free (n_RunID k')" "slash_free (n_NodeID k')" "slash_free (n_AttemptID k')"
    using assms(1-3) unfolding NodeAttemptKey_String_slashes by (simp_all add: slash_free_count)
  then show ?thesis
    using eq assms(1-3)
    by (cases k, cases k') (simp add: NodeAttemptKey_String_def sep_def slash_segment_eq)
qed

end
