(* ===== verification/Sha256.thy ===== *)
theory Sha256
  imports Prelude
begin

unbundle bit_operations_syntax

text \<open>
  \<^verbatim>\<open>crypto/sha256.Sum256\<close>, which \<^verbatim>\<open>domain.SourceID\<close> applies: the hash function of FIPS 180-4
  on byte strings, over 32-bit words.
\<close>

type_synonym w32 = "32 word"

definition rotr :: "nat \<Rightarrow> w32 \<Rightarrow> w32" where
  "rotr n x = drop_bit n x OR push_bit (32 - n) x"

definition sha_Ch :: "w32 \<Rightarrow> w32 \<Rightarrow> w32 \<Rightarrow> w32" where
  "sha_Ch x y z = (x AND y) XOR (NOT x AND z)"

definition sha_Maj :: "w32 \<Rightarrow> w32 \<Rightarrow> w32 \<Rightarrow> w32" where
  "sha_Maj x y z = (x AND y) XOR (x AND z) XOR (y AND z)"

definition big_sigma0 :: "w32 \<Rightarrow> w32" where
  "big_sigma0 x = rotr 2 x XOR rotr 13 x XOR rotr 22 x"

definition big_sigma1 :: "w32 \<Rightarrow> w32" where
  "big_sigma1 x = rotr 6 x XOR rotr 11 x XOR rotr 25 x"

definition small_sigma0 :: "w32 \<Rightarrow> w32" where
  "small_sigma0 x = rotr 7 x XOR rotr 18 x XOR drop_bit 3 x"

definition small_sigma1 :: "w32 \<Rightarrow> w32" where
  "small_sigma1 x = rotr 17 x XOR rotr 19 x XOR drop_bit 10 x"

text \<open>
  The constants are the leading 32 bits of the fractional parts of roots of primes: cube roots
  of the first 64 primes for the rounds, square roots of the first 8 for the initial state.
  \<open>root_bits k n b r\<close> fixes the low \<open>b\<close> bits of the integer \<open>k\<close>-th root of \<open>n\<close>, above which it is \<open>r\<close>.
\<close>

fun root_bits :: "nat \<Rightarrow> nat \<Rightarrow> nat \<Rightarrow> nat \<Rightarrow> nat" where
  "root_bits k n 0 r = r"
| "root_bits k n (Suc b) r = root_bits k n b (if (r + 2 ^ b) ^ k \<le> n then r + 2 ^ b else r)"

definition fraction_bits :: "nat \<Rightarrow> nat \<Rightarrow> w32" where
  "fraction_bits k p = of_nat (root_bits k (p * 2 ^ (32 * k)) 37 0)"

fun next_primes :: "nat \<Rightarrow> nat \<Rightarrow> nat list \<Rightarrow> nat list" where
  "next_primes 0 n ps = rev ps"
| "next_primes (Suc fuel) n ps =
     next_primes fuel (Suc n) (if list_ex (\<lambda>p. p dvd n) ps then ps else n # ps)"

text \<open>The 64th prime is 311, the last of the 310 numbers that are tried.\<close>

definition small_primes :: "nat list" where
  "small_primes = next_primes 310 2 []"

definition sha_K :: "w32 list" where
  "sha_K = map (fraction_bits 3) small_primes"

definition sha_H0 :: "w32 list" where
  "sha_H0 = map (fraction_bits 2) [2, 3, 5, 7, 11, 13, 17, 19]"

text \<open>The bytes of a number, most significant first.\<close>

fun be_bytes :: "nat \<Rightarrow> nat \<Rightarrow> nat list" where
  "be_bytes 0 n = []"
| "be_bytes (Suc i) n = (n div 256 ^ i) mod 256 # be_bytes i n"

definition sha_pad :: "nat list \<Rightarrow> nat list" where
  "sha_pad bs =
     bs @ [128] @ replicate ((119 - length bs mod 64) mod 64) 0 @ be_bytes 8 (8 * length bs mod 2 ^ 64)"

fun be_words :: "nat list \<Rightarrow> w32 list" where
  "be_words (a # b # c # d # bs) = of_nat (((a * 256 + b) * 256 + c) * 256 + d) # be_words bs"
| "be_words _ = []"

text \<open>The message schedule, kept with the most recent word first.\<close>

fun sha_extend :: "nat \<Rightarrow> w32 list \<Rightarrow> w32 list" where
  "sha_extend 0 ws = ws"
| "sha_extend (Suc n) ws =
     sha_extend n ((small_sigma1 (ws ! 1) + ws ! 6 + small_sigma0 (ws ! 14) + ws ! 15) # ws)"

definition sha_schedule :: "w32 list \<Rightarrow> w32 list" where
  "sha_schedule block = rev (sha_extend 48 (rev block))"

fun sha_rounds :: "(w32 \<times> w32) list \<Rightarrow> w32 list \<Rightarrow> w32 list" where
  "sha_rounds ((k, w) # kws) [a, b, c, d, e, f, g, h] =
     (let t1 = h + big_sigma1 e + sha_Ch e f g + k + w;
          t2 = big_sigma0 a + sha_Maj a b c
      in sha_rounds kws [t1 + t2, a, b, c, d + t1, e, f, g])"
| "sha_rounds _ hs = hs"

definition sha_block :: "w32 list \<Rightarrow> w32 list \<Rightarrow> w32 list" where
  "sha_block hs block = map2 (+) hs (sha_rounds (zip sha_K (sha_schedule block)) hs)"

fun sha_blocks :: "nat \<Rightarrow> w32 list \<Rightarrow> w32 list \<Rightarrow> w32 list" where
  "sha_blocks 0 hs ws = hs"
| "sha_blocks (Suc n) hs ws = sha_blocks n (sha_block hs (take 16 ws)) (drop 16 ws)"

definition Sum256 :: "string \<Rightarrow> string" where
  "Sum256 s =
     (let padded = sha_pad (map of_char s)
      in concat (map (\<lambda>w. map char_of (be_bytes 4 (unat w)))
           (sha_blocks (length padded div 64) sha_H0 (be_words padded))))"

lemma length_be_bytes [simp]: "length (be_bytes i n) = i"
  by (induction i) auto

lemma be_bytes_bound: "b \<in> set (be_bytes i n) \<Longrightarrow> b < 256"
  by (induction i) auto

lemma pad_amount:
  assumes "m < (64 :: nat)"
  shows "64 dvd m + 9 + (119 - m) mod 64"
proof (cases "m \<le> 55")
  case True
  then have "(119 - m) mod 64 = 55 - m" using mod_add_self1 [of 64 "55 - m"] by simp
  with True show ?thesis by simp
next
  case False
  with assms have "m + 9 + (119 - m) mod 64 = 64 * 2" by simp
  then show ?thesis by (metis dvd_triv_left)
qed

lemma sha_pad_blocks: "64 dvd length (sha_pad bs)"
proof -
  define m where "m = length bs mod 64"
  have "length (sha_pad bs) = length bs + (9 + (119 - m) mod 64)"
    by (simp add: sha_pad_def m_def)
  moreover have "64 dvd length bs + (9 + (119 - m) mod 64) \<longleftrightarrow> 64 dvd m + (9 + (119 - m) mod 64)"
    unfolding dvd_eq_mod_eq_0 m_def by (metis mod_add_left_eq)
  ultimately show ?thesis using pad_amount [of m] by (simp add: m_def add.assoc)
qed

lemma length_sha_rounds: "length (sha_rounds kws hs) = length hs"
  by (induction kws hs rule: sha_rounds.induct) (auto simp: Let_def)

lemma length_sha_blocks: "length (sha_blocks n hs ws) = length hs"
  by (induction n hs ws rule: sha_blocks.induct) (auto simp: sha_block_def length_sha_rounds)

lemma length_Sum256: "length (Sum256 s) = 32"
  by (simp add: Sum256_def Let_def length_concat comp_def sum_list_triv length_sha_blocks sha_H0_def)

end
