(* ===== verification/Domain.thy ===== *)
theory Domain
  imports Ids Sha256
begin

text \<open>
  \<^verbatim>\<open>pkg/domain/types.go\<close>: the product vocabulary.  String types whose values come from
  callers (\<^verbatim>\<open>ConsumePolicy\<close>, \<^verbatim>\<open>SourceState\<close>, terminal states) stay strings, since unknown
  values must be told apart from known ones; string types that only the service produces are
  datatypes.  A pointer is an option; \<^verbatim>\<open>int64\<close> sizes are 64-bit words read as signed.
\<close>

section \<open>Policies and states\<close>

type_synonym ConsumePolicy = string
type_synonym SourceState = string

abbreviation SameNodeOnly :: ConsumePolicy where "SameNodeOnly \<equiv> ''SameNodeOnly''"
abbreviation SameNodeThenRemote :: ConsumePolicy where "SameNodeThenRemote \<equiv> ''SameNodeThenRemote''"
abbreviation RemoteOK :: ConsumePolicy where "RemoteOK \<equiv> ''RemoteOK''"

abbreviation StatePending :: SourceState where "StatePending \<equiv> ''pending''"
abbreviation StateReady :: SourceState where "StateReady \<equiv> ''ready''"
abbreviation StateStale :: SourceState where "StateStale \<equiv> ''stale''"
abbreviation StateUnreachable :: SourceState where "StateUnreachable \<equiv> ''unreachable''"
abbreviation StateDeleted :: SourceState where "StateDeleted \<equiv> ''deleted''"

datatype AvailabilityState = LOCAL_ONLY | REMOTE_ONLY | BOTH | DELETED | UNAVAILABLE_STATE

datatype ResolutionStatus = RESOLVED | PENDING | MISSING | PRODUCER_FAILED | POLICY_BLOCKED
  | DIGEST_MISMATCH | GC_EXPIRED | UNAVAILABLE

datatype ResolutionDecision = DecLocalReuse | DecRemoteFetch | DecUnavailable | DecProducerFailed

datatype PlacementIntentMode = PlaceNone | PreferredNode | RequiredNode

datatype MaterializationMode = MatNone | LocalReuse | RemoteFetch

datatype SourceBackendType = BackendUnknown | BackendNodeLocal | BackendHTTP

section \<open>Errors of the validators\<close>

datatype uri_subject = HTTPSourceURI | ArtifactURI

datatype domain_error =
    ConsumePolicyRequired
  | ConsumePolicyUnknown string
  | SourceStateRequired
  | SourceStateUnknown string
  | LocationNoBackend
  | LocationMixedBackends
  | SourceIDRequired
  | SourceArtifactIDRequired
  | SourceBackendIDRequired
  | SourceBackendUnknown string
  | SourceBackendMismatch string SourceBackendType SourceBackendType
  | SourceArtifactMismatch string string
  | SourceDigestRequired
  | ArtifactDigestRequired
  | SourceDigestMismatch string string
  | HTTPSourceURIRequired
  | HTTPSourceHeaders
  | URIInvalid uri_subject string
  | URISchemeUnsupported uri_subject string
  | URIUserinfo uri_subject
  | URIHostRequired uri_subject
  | URISignedQuery uri_subject
  | URIQuery uri_subject

definition ConsumePolicy_Validate :: "ConsumePolicy \<Rightarrow> domain_error option" where
  "ConsumePolicy_Validate p =
     (if p = SameNodeOnly \<or> p = SameNodeThenRemote \<or> p = RemoteOK then None
      else if p = [] then Some ConsumePolicyRequired
      else Some (ConsumePolicyUnknown p))"

definition SourceState_Validate :: "SourceState \<Rightarrow> domain_error option" where
  "SourceState_Validate s =
     (if s = StatePending \<or> s = StateReady \<or> s = StateStale \<or> s = StateUnreachable \<or> s = StateDeleted
      then None
      else if s = [] then Some SourceStateRequired
      else Some (SourceStateUnknown s))"

section \<open>Locations, artifacts, bindings, sources\<close>

record NodeLocalLocation =
  nl_NodeName :: string
  nl_Path :: string

record HTTPSource =
  h_URI :: string
  h_Headers :: "string gomap"

record Location =
  NodeLocal :: "NodeLocalLocation option"
  HTTP :: "HTTPSource option"

record Artifact =
  a_RunID :: string
  a_SampleRunID :: string
  a_ProducerNodeID :: string
  a_ProducerAttemptID :: string
  a_OutputName :: string
  a_ArtifactID :: string
  a_Digest :: string
  a_LogicalURI :: string
  a_NodeName :: string
  a_URI :: string
  a_Locations :: "Location list"
  a_SizeBytes :: "64 word"
  a_CreatedAt :: time

record Binding =
  b_BindingName :: string
  b_RunID :: string
  b_SampleRunID :: string
  b_ChildNodeID :: string
  b_ChildInputName :: string
  b_ProducerNodeID :: string
  b_ProducerAttemptID :: string
  b_ChildAttemptID :: string
  b_ProducerOutputName :: string
  b_ArtifactID :: string
  b_ConsumePolicy :: ConsumePolicy
  b_ExpectedDigest :: string
  b_Required :: bool

record ArtifactSource =
  s_SourceID :: string
  s_ArtifactID :: string
  s_BackendID :: string
  s_Digest :: string
  s_State :: SourceState
  s_LocationFingerprint :: string
  s_Location :: Location
  s_CreatedAt :: time
  s_UpdatedAt :: time
  s_LastVerifiedAt :: time
  s_LastError :: string

definition Artifact_Key :: "Artifact \<Rightarrow> string" where
  "Artifact_Key a = ArtifactKey_String
     \<lparr>k_RunID = a_RunID a, k_ProducerNodeID = a_ProducerNodeID a,
      k_ProducerAttemptID = a_ProducerAttemptID a, k_OutputName = a_OutputName a\<rparr>"

definition CanonicalID :: "Artifact \<Rightarrow> string" where
  "CanonicalID a = Artifact_Key a"

definition Binding_Key :: "Binding \<Rightarrow> string" where
  "Binding_Key b = ArtifactKey_String
     \<lparr>k_RunID = b_RunID b, k_ProducerNodeID = b_ProducerNodeID b,
      k_ProducerAttemptID = b_ProducerAttemptID b, k_OutputName = b_ProducerOutputName b\<rparr>"

section \<open>Decisions and run state\<close>

record PlacementIntent =
  pi_Mode :: PlacementIntentMode
  pi_NodeName :: string

record MaterializationPlan =
  mp_Mode :: MaterializationMode
  mp_URI :: string
  mp_ExpectedDigest :: string
  mp_ExpectedSize :: "64 word"
  mp_SourceLocation :: "Location option"
  mp_LocalPath :: string

record MaterializationCondition =
  mc_Kind :: string
  mc_NodeName :: string
  mc_BackendID :: string
  mc_SourceRef :: string
  mc_State :: string

record MaterializationCandidate =
  c_Priority :: int
  c_Mode :: MaterializationMode
  c_SourceRef :: string
  c_ExpectedDigest :: string
  c_ExpectedSize :: "64 word"
  c_LocalPath :: string
  c_SourceLocation :: "Location option"
  c_URI :: string
  c_Conditions :: "MaterializationCondition list"

record ResolvedHandoff =
  r_Status :: ResolutionStatus
  r_Decision :: ResolutionDecision
  r_PlacementIntent :: PlacementIntent
  r_MaterializationPlan :: MaterializationPlan
  r_MaterializationCandidates :: "MaterializationCandidate list"
  r_Reason :: string
  r_Retryable :: bool

record NodeTerminalRecord =
  t_RunID :: string
  t_NodeID :: string
  t_AttemptID :: string
  t_TerminalState :: string
  t_RecordedAt :: time

record RunLifecycle =
  l_RunID :: string
  l_SampleRunID :: string
  l_Finalized :: bool
  l_FinalizedAt :: "time option"
  l_RetentionPolicySource :: string
  l_RetentionDuration :: duration
  l_RetentionUntil :: "time option"
  l_GCEligible :: bool
  l_GCEligibleAt :: "time option"
  l_GCBlockedReason :: string
  l_TerminalNodeCount :: int
  l_SucceededNodeCount :: int
  l_FailedNodeCount :: int
  l_CanceledNodeCount :: int
  l_RetainedArtifactCount :: int
  l_RetainedArtifactBytes :: "64 word"

section \<open>Zero values\<close>

definition zero_location :: Location where
  "zero_location = \<lparr>NodeLocal = None, HTTP = None\<rparr>"

definition zero_source :: ArtifactSource where
  "zero_source =
     \<lparr>s_SourceID = [], s_ArtifactID = [], s_BackendID = [], s_Digest = [], s_State = [],
      s_LocationFingerprint = [], s_Location = zero_location, s_CreatedAt = 0, s_UpdatedAt = 0,
      s_LastVerifiedAt = 0, s_LastError = []\<rparr>"

definition zero_artifact :: Artifact where
  "zero_artifact =
     \<lparr>a_RunID = [], a_SampleRunID = [], a_ProducerNodeID = [], a_ProducerAttemptID = [],
      a_OutputName = [], a_ArtifactID = [], a_Digest = [], a_LogicalURI = [], a_NodeName = [],
      a_URI = [], a_Locations = [], a_SizeBytes = 0, a_CreatedAt = 0\<rparr>"

definition zero_lifecycle :: RunLifecycle where
  "zero_lifecycle =
     \<lparr>l_RunID = [], l_SampleRunID = [], l_Finalized = False, l_FinalizedAt = None,
      l_RetentionPolicySource = [], l_RetentionDuration = 0, l_RetentionUntil = None,
      l_GCEligible = False, l_GCEligibleAt = None, l_GCBlockedReason = [],
      l_TerminalNodeCount = 0, l_SucceededNodeCount = 0, l_FailedNodeCount = 0,
      l_CanceledNodeCount = 0, l_RetainedArtifactCount = 0, l_RetainedArtifactBytes = 0\<rparr>"

section \<open>Validation\<close>

definition BackendTypeForID :: "string \<Rightarrow> SourceBackendType" where
  "BackendTypeForID backendID =
     (let b = TrimSpace backendID
      in if b = ''node-local-default'' then BackendNodeLocal
         else if b = ''legacy-http'' \<or> b = ''lab-http-cache'' then BackendHTTP
         else BackendUnknown)"

definition backendCount :: "Location \<Rightarrow> nat" where
  "backendCount l =
     (if NodeLocal l \<noteq> None then 1 else 0) + (if HTTP l \<noteq> None then 1 else 0)"

definition Location_BackendType :: "Location \<Rightarrow> SourceBackendType" where
  "Location_BackendType l =
     (if backendCount l \<noteq> 1 then BackendUnknown
      else if NodeLocal l \<noteq> None then BackendNodeLocal
      else if HTTP l \<noteq> None then BackendHTTP
      else BackendUnknown)"

definition ValidateTypedUnion :: "Location \<Rightarrow> domain_error option" where
  "ValidateTypedUnion l =
     (if backendCount l = 0 then Some LocationNoBackend
      else if 1 < backendCount l then Some LocationMixedBackends
      else None)"

definition signed_markers :: "string list" where
  "signed_markers =
     [''x-amz-signature'', ''x-amz-credential'', ''x-goog-signature'', ''x-goog-credential'',
      ''x-ms-signature'', ''signature='', ''expires='']"

definition looksLikeSignedURLQuery :: "golib \<Rightarrow> string \<Rightarrow> bool" where
  "looksLikeSignedURLQuery L rawQuery =
     (let q = ToLower (unicode_lower L) rawQuery in list_ex (Contains q) signed_markers)"

definition rejectURIQuery :: "golib \<Rightarrow> uri_subject \<Rightarrow> string \<Rightarrow> domain_error" where
  "rejectURIQuery L subject rawQuery =
     (if looksLikeSignedURLQuery L rawQuery then URISignedQuery subject else URIQuery subject)"

definition validateHTTPSource :: "golib \<Rightarrow> HTTPSource \<Rightarrow> domain_error option" where
  "validateHTTPSource L source =
     (if TrimSpace (h_URI source) = [] then Some HTTPSourceURIRequired
      else if length (h_Headers source) \<noteq> 0 then Some HTTPSourceHeaders
      else case url_Parse L (h_URI source) of
        None \<Rightarrow> Some (URIInvalid HTTPSourceURI (h_URI source))
      | Some parsed \<Rightarrow>
          if Scheme parsed \<noteq> ''http'' \<and> Scheme parsed \<noteq> ''https'' then
            Some (URISchemeUnsupported HTTPSourceURI (Scheme parsed))
          else if User parsed then Some (URIUserinfo HTTPSourceURI)
          else if TrimSpace (Host parsed) = [] then Some (URIHostRequired HTTPSourceURI)
          else if RawQuery parsed \<noteq> [] then Some (rejectURIQuery L HTTPSourceURI (RawQuery parsed))
          else None)"

definition validateLegacyArtifactURI :: "golib \<Rightarrow> string \<Rightarrow> domain_error option" where
  "validateLegacyArtifactURI L raw =
     (case url_Parse L (TrimSpace raw) of
        None \<Rightarrow> Some (URIInvalid ArtifactURI (TrimSpace raw))
      | Some parsed \<Rightarrow>
          if Scheme parsed \<noteq> ''http'' \<and> Scheme parsed \<noteq> ''https'' then
            Some (URISchemeUnsupported ArtifactURI (Scheme parsed))
          else if User parsed then Some (URIUserinfo ArtifactURI)
          else if TrimSpace (Host parsed) = [] then Some (URIHostRequired ArtifactURI)
          else if RawQuery parsed \<noteq> [] then Some (rejectURIQuery L ArtifactURI (RawQuery parsed))
          else None)"

definition ValidateArtifactLocation :: "golib \<Rightarrow> Location \<Rightarrow> domain_error option" where
  "ValidateArtifactLocation L location =
     (case ValidateTypedUnion location of
        Some e \<Rightarrow> Some e
      | None \<Rightarrow> (case HTTP location of None \<Rightarrow> None | Some h \<Rightarrow> validateHTTPSource L h))"

definition ValidateArtifactForRegistration :: "golib \<Rightarrow> Artifact \<Rightarrow> domain_error option" where
  "ValidateArtifactForRegistration L artifact =
     (case (if TrimSpace (a_URI artifact) \<noteq> [] then validateLegacyArtifactURI L (a_URI artifact)
            else None) of
        Some e \<Rightarrow> Some e
      | None \<Rightarrow> first_error (ValidateArtifactLocation L) (a_Locations artifact))"

definition ValidateArtifactSource :: "golib \<Rightarrow> ArtifactSource \<Rightarrow> domain_error option" where
  "ValidateArtifactSource L source =
     (if TrimSpace (s_SourceID source) = [] then Some SourceIDRequired
      else if TrimSpace (s_ArtifactID source) = [] then Some SourceArtifactIDRequired
      else if TrimSpace (s_BackendID source) = [] then Some SourceBackendIDRequired
      else case ValidateTypedUnion (s_Location source) of
        Some e \<Rightarrow> Some e
      | None \<Rightarrow>
         (let expected = BackendTypeForID (s_BackendID source);
              actual = Location_BackendType (s_Location source)
          in if expected = BackendUnknown then Some (SourceBackendUnknown (s_BackendID source))
             else if actual \<noteq> expected then
               Some (SourceBackendMismatch (s_BackendID source) expected actual)
             else case HTTP (s_Location source) of
               None \<Rightarrow> None
             | Some h \<Rightarrow> validateHTTPSource L h))"

definition ValidateArtifactSourceForArtifact ::
    "golib \<Rightarrow> Artifact \<Rightarrow> ArtifactSource \<Rightarrow> domain_error option" where
  "ValidateArtifactSourceForArtifact L artifact source =
     (case ValidateArtifactSource L source of
        Some e \<Rightarrow> Some e
      | None \<Rightarrow>
          if a_ArtifactID artifact \<noteq> [] \<and> s_ArtifactID source \<noteq> a_ArtifactID artifact then
            Some (SourceArtifactMismatch (s_ArtifactID source) (a_ArtifactID artifact))
          else if TrimSpace (s_Digest source) = [] then Some SourceDigestRequired
          else if TrimSpace (a_Digest artifact) = [] then Some ArtifactDigestRequired
          else if s_Digest source \<noteq> a_Digest artifact then
            Some (SourceDigestMismatch (s_Digest source) (a_Digest artifact))
          else None)"

section \<open>Source identity\<close>

definition hex_digit :: "nat \<Rightarrow> char" where
  "hex_digit n = char_of (if n < 10 then n + 48 else n + 87)"

definition hex_EncodeToString :: "string \<Rightarrow> string" where
  "hex_EncodeToString bs =
     concat (map (\<lambda>c. [hex_digit (of_char c div 16), hex_digit (of_char c mod 16)]) bs)"

definition SourceID :: "string \<Rightarrow> string \<Rightarrow> string \<Rightarrow> string" where
  "SourceID artifactID backendID fingerprint =
     ''src-'' @ hex_EncodeToString (Sum256 (artifactID @ bytes [0] @ backendID @ bytes [0] @ fingerprint))"

definition LocationFingerprint :: "Location \<Rightarrow> string" where
  "LocationFingerprint location =
     (case NodeLocal location of
        Some nl \<Rightarrow> ''node_local:'' @ nl_NodeName nl @ '':'' @ nl_Path nl
      | None \<Rightarrow> (case HTTP location of Some h \<Rightarrow> ''http:'' @ h_URI h | None \<Rightarrow> []))"

section \<open>What the validators accept\<close>

lemma ConsumePolicy_Validate_None:
  "ConsumePolicy_Validate p = None \<longleftrightarrow> p = SameNodeOnly \<or> p = SameNodeThenRemote \<or> p = RemoteOK"
  by (simp add: ConsumePolicy_Validate_def)

lemma SourceState_Validate_None:
  "SourceState_Validate s = None \<longleftrightarrow>
     s \<in> {StatePending, StateReady, StateStale, StateUnreachable, StateDeleted}"
  by (simp add: SourceState_Validate_def)

lemma ValidateTypedUnion_None:
  "ValidateTypedUnion l = None \<longleftrightarrow> (NodeLocal l = None) \<noteq> (HTTP l = None)"
  by (auto simp: ValidateTypedUnion_def backendCount_def)

lemma Location_BackendType_iff:
  "Location_BackendType l = BackendNodeLocal \<longleftrightarrow> NodeLocal l \<noteq> None \<and> HTTP l = None"
  "Location_BackendType l = BackendHTTP \<longleftrightarrow> NodeLocal l = None \<and> HTTP l \<noteq> None"
  by (auto simp: Location_BackendType_def backendCount_def)

lemma validateHTTPSource_None:
  "validateHTTPSource L h = None \<longleftrightarrow>
     TrimSpace (h_URI h) \<noteq> [] \<and> h_Headers h = [] \<and>
     (\<exists>u. url_Parse L (h_URI h) = Some u \<and> Scheme u \<in> {''http'', ''https''} \<and> \<not> User u \<and>
        TrimSpace (Host u) \<noteq> [] \<and> RawQuery u = [])"
  by (auto simp: validateHTTPSource_def split: option.splits if_splits)

lemma validateLegacyArtifactURI_None:
  "validateLegacyArtifactURI L raw = None \<longleftrightarrow>
     (\<exists>u. url_Parse L (TrimSpace raw) = Some u \<and> Scheme u \<in> {''http'', ''https''} \<and> \<not> User u \<and>
        TrimSpace (Host u) \<noteq> [] \<and> RawQuery u = [])"
  by (auto simp: validateLegacyArtifactURI_def split: option.splits if_splits)

lemma ValidateArtifactSource_None:
  "ValidateArtifactSource L s = None \<longleftrightarrow>
     TrimSpace (s_SourceID s) \<noteq> [] \<and> TrimSpace (s_ArtifactID s) \<noteq> [] \<and>
     (BackendTypeForID (s_BackendID s) = BackendNodeLocal \<and>
        NodeLocal (s_Location s) \<noteq> None \<and> HTTP (s_Location s) = None \<or>
      BackendTypeForID (s_BackendID s) = BackendHTTP \<and> NodeLocal (s_Location s) = None \<and>
        (\<exists>h. HTTP (s_Location s) = Some h \<and> validateHTTPSource L h = None))"
proof -
  have "TrimSpace (s_BackendID s) \<noteq> []" if "BackendTypeForID (s_BackendID s) \<noteq> BackendUnknown"
    using that by (auto simp: BackendTypeForID_def Let_def)
  then show ?thesis
    by (cases "BackendTypeForID (s_BackendID s)"; cases "NodeLocal (s_Location s)";
        cases "HTTP (s_Location s)")
       (simp_all add: ValidateArtifactSource_def Let_def ValidateTypedUnion_def
          Location_BackendType_def backendCount_def)
qed

lemma ValidateArtifactSourceForArtifact_None:
  "ValidateArtifactSourceForArtifact L a s = None \<longleftrightarrow>
     ValidateArtifactSource L s = None \<and> (a_ArtifactID a = [] \<or> s_ArtifactID s = a_ArtifactID a) \<and>
     TrimSpace (s_Digest s) \<noteq> [] \<and> s_Digest s = a_Digest a"
  by (auto simp: ValidateArtifactSourceForArtifact_def split: option.splits if_splits)

section \<open>The text of an accepted URI\<close>

text \<open>
  \<open>plain_http_uri s\<close>: the text is an http or https scheme, a non-empty authority without
  userinfo, a path, at most a bare trailing question mark, and an optional fragment.
\<close>

definition plain_http_uri :: "string \<Rightarrow> bool" where
  "plain_http_uri s \<longleftrightarrow>
     (\<exists>sch auth path mark frag. s = sch @ ''://'' @ auth @ path @ mark @ frag \<and>
        map lower_ascii sch \<in> {''http'', ''https''} \<and> auth \<noteq> [] \<and>
        CHR ''@'' \<notin> set auth \<and> CHR ''/'' \<notin> set auth \<and> CHR ''?'' \<notin> set (auth @ path) \<and>
        (path = [] \<or> hd path = CHR ''/'') \<and> mark \<in> {[], ''?''} \<and>
        (frag = [] \<or> hd frag = CHR ''#''))"

lemma plain_http_uriI:
  assumes "s = sch @ ''://'' @ auth @ path @ mark @ frag"
    "map lower_ascii sch \<in> {''http'', ''https''}" "auth \<noteq> []" "CHR ''@'' \<notin> set auth"
    "CHR ''/'' \<notin> set auth" "CHR ''?'' \<notin> set (auth @ path)"
    "path = [] \<or> hd path = CHR ''/''" "mark \<in> {[], ''?''}" "frag = [] \<or> hd frag = CHR ''#''"
  shows "plain_http_uri s"
  unfolding plain_http_uri_def
  by (rule exI [of _ sch], rule exI [of _ auth], rule exI [of _ path], rule exI [of _ mark],
      rule exI [of _ frag], intro conjI assms)

lemma parseHost_Nil [simp]: "parseHost L [] = Some []"
  by (simp add: parseHost_def CutLast_def)

lemma url_parse_plain:
  assumes p: "url_parse L s = Some u" and sch: "Scheme u \<in> {''http'', ''https''}"
    and "\<not> User u" "Host u \<noteq> []" "RawQuery u = []"
  obtains sc auth path mark where "s = sc @ ''://'' @ auth @ path @ mark"
    "map lower_ascii sc \<in> {''http'', ''https''}" "auth \<noteq> []" "CHR ''@'' \<notin> set auth"
    "CHR ''/'' \<notin> set auth" "CHR ''?'' \<notin> set (auth @ path)"
    "path = [] \<or> hd path = CHR ''/''" "mark \<in> {[], ''?''}"
proof -
  obtain sc rest0 where gs: "get_scheme s [] s = Some (sc, rest0)"
    using assms by (auto simp: url_parse_def split: if_splits option.splits)
  obtain rest q where sq: "split_query rest0 = (rest, q)" by (cases "split_query rest0")
  obtain auth path where sa: "split_authority (drop 2 rest) = (auth, path)"
    by (cases "split_authority (drop 2 rest)")
  have facts: "map lower_ascii sc = Scheme u" "q = []" "HasPrefix rest ''//''"
    "parseAuthority L auth = Some (False, Host u)"
    using assms gs sq sa
    by (auto simp: url_parse_def Let_def split: if_splits option.splits)
  from facts(3) obtain r where r: "rest = ''//'' @ r" by (auto simp: HasPrefix_iff)
  with sa have ap: "r = auth @ path" "CHR ''/'' \<notin> set auth" "path = [] \<or> hd path = CHR ''/''"
    using split_authority_append [of r auth path] by auto
  have scne: "sc \<noteq> []" using facts(1) sch by auto
  have "s = sc @ CHR '':'' # rest0" using get_scheme_Some [OF gs scne] by simp
  moreover obtain mark where "rest0 = rest @ mark" "mark \<in> {[], ''?''}"
    using split_query_no_query sq facts(2) by fastforce
  moreover have "CHR ''@'' \<notin> set auth" "parseHost L auth = Some (Host u)"
    using parseAuthority_no_user [OF facts(4)] by auto
  moreover from this(2) have "auth \<noteq> []" using assms(4) by auto
  moreover have "CHR ''?'' \<notin> set rest" using split_query_Nil_no_mark sq facts(2) by blast
  ultimately show ?thesis
    using that [of sc auth path mark] ap r facts(1) sch by auto
qed

lemma url_Parse_plain:
  assumes "url_Parse L s = Some u" "Scheme u \<in> {''http'', ''https''}"
    "\<not> User u" "TrimSpace (Host u) \<noteq> []" "RawQuery u = []"
  shows "plain_http_uri s"
proof -
  obtain b f fnd where c: "Cut s (CHR ''#'') = (b, f, fnd)" by (cases "Cut s (CHR ''#'')")
  have "url_parse L b = Some u" "Host u \<noteq> []"
    using assms(1,4) c by (auto simp: url_Parse_def split: option.splits if_splits)
  from url_parse_plain [OF this(1) assms(2,3) this(2) assms(5)]
  obtain sc auth path mark where b: "b = sc @ ''://'' @ auth @ path @ mark"
    and rest: "map lower_ascii sc \<in> {''http'', ''https''}" "auth \<noteq> []" "CHR ''@'' \<notin> set auth"
      "CHR ''/'' \<notin> set auth" "CHR ''?'' \<notin> set (auth @ path)"
      "path = [] \<or> hd path = CHR ''/''" "mark \<in> {[], ''?''}" .
  have "s = sc @ ''://'' @ auth @ path @ mark @ (if fnd then CHR ''#'' # f else [])"
    using c b by (cases fnd) (auto dest: Cut_found Cut_notfound)
  then show ?thesis by (rule plain_http_uriI [OF _ rest]) simp
qed

lemma validateHTTPSource_plain: "validateHTTPSource L h = None \<Longrightarrow> plain_http_uri (h_URI h)"
  by (auto simp: validateHTTPSource_None intro: url_Parse_plain)

lemma validateLegacyArtifactURI_plain:
  "validateLegacyArtifactURI L raw = None \<Longrightarrow> plain_http_uri (TrimSpace raw)"
  by (auto simp: validateLegacyArtifactURI_None intro: url_Parse_plain)

end
