(* ===== verification/Store.thy ===== *)
theory Store
  imports Domain
begin

text \<open>
  \<^verbatim>\<open>pkg/inventory/store.go\<close>: the persistence interface.  A Go interface value is a record of
  its methods over the state type of the backend.  The locale \<open>run_store\<close> is the contract the
  resolver relies on, stated over four abstract maps (artifacts by key, node terminals by key,
  run lifecycles by RunID, sources by source ID); a backend interprets it.
\<close>

datatype store_error =
    StoreRunIDRequired string
  | DigestClearRefused string string
  | DigestConflict string string string
  | SourceOwnershipConflict string string
  | TerminalConflict string string string string string
  | DriverError string

text \<open>
  The last field is not a Go method.  The resolver fills in the node name of a node-local
  location through a pointer it may share with a stored artifact; \<open>WriteThrough st a ls\<close> is
  the backend's state after that write, when the artifact \<open>a\<close> came from or went into the
  store and its locations have become \<open>ls\<close>.  A backend that keeps Go values sees the write, a
  backend that serialises does not.
\<close>

record 's store =
  PutArtifact :: "'s \<Rightarrow> Artifact \<Rightarrow> store_error option \<times> 's"
  GetArtifact :: "'s \<Rightarrow> string \<Rightarrow> string \<Rightarrow> string \<Rightarrow> string \<Rightarrow> store_error + Artifact option"
  GetArtifactByID :: "'s \<Rightarrow> string \<Rightarrow> store_error + Artifact option"
  ListArtifactsByRun :: "'s \<Rightarrow> string \<Rightarrow> store_error + Artifact list"
  ListArtifactsBySampleRun :: "'s \<Rightarrow> string \<Rightarrow> store_error + Artifact list"
  PutArtifactSources :: "'s \<Rightarrow> string \<Rightarrow> ArtifactSource list \<Rightarrow> store_error option \<times> 's"
  GetArtifactSource :: "'s \<Rightarrow> string \<Rightarrow> store_error + ArtifactSource option"
  ListArtifactSources :: "'s \<Rightarrow> string \<Rightarrow> store_error + ArtifactSource list"
  ListNodeTerminalsByRun :: "'s \<Rightarrow> string \<Rightarrow> store_error + NodeTerminalRecord list"
  RecordNodeTerminal :: "'s \<Rightarrow> NodeTerminalRecord \<Rightarrow> store_error option \<times> 's"
  GetNodeTerminal :: "'s \<Rightarrow> string \<Rightarrow> string \<Rightarrow> string \<Rightarrow> store_error + NodeTerminalRecord option"
  UpsertRunLifecycle :: "'s \<Rightarrow> RunLifecycle \<Rightarrow> store_error option \<times> 's"
  GetRunLifecycle :: "'s \<Rightarrow> string \<Rightarrow> store_error + RunLifecycle option"
  ListRunLifecyclesBySample :: "'s \<Rightarrow> string \<Rightarrow> store_error + RunLifecycle list"
  WriteThrough :: "'s \<Rightarrow> Artifact \<Rightarrow> Location list \<Rightarrow> 's"

section \<open>Abstract effect of the operations\<close>

definition artifact_key :: "string \<Rightarrow> string \<Rightarrow> string \<Rightarrow> string \<Rightarrow> string" where
  "artifact_key runID nodeID attemptID outputName = ArtifactKey_String
     \<lparr>k_RunID = runID, k_ProducerNodeID = nodeID, k_ProducerAttemptID = attemptID,
      k_OutputName = outputName\<rparr>"

definition terminal_key :: "string \<Rightarrow> string \<Rightarrow> string \<Rightarrow> string" where
  "terminal_key runID nodeID attemptID = NodeAttemptKey_String
     \<lparr>n_RunID = runID, n_NodeID = nodeID, n_AttemptID = attemptID\<rparr>"

definition record_key :: "NodeTerminalRecord \<Rightarrow> string" where
  "record_key r = terminal_key (t_RunID r) (t_NodeID r) (t_AttemptID r)"

text \<open>
  The verdict on a put: \<open>Some True\<close> stores, \<open>Some False\<close> is the idempotent replay that
  leaves the stored artifact alone, \<open>None\<close> is a rejection.
\<close>

definition put_verdict :: "(string \<rightharpoonup> Artifact) \<Rightarrow> Artifact \<Rightarrow> bool option" where
  "put_verdict arts a =
     (if TrimSpace (a_RunID a) = [] then None
      else case arts (Artifact_Key a) of
        None \<Rightarrow> Some True
      | Some old \<Rightarrow>
          if a_Digest old = [] then Some True
          else if a_Digest a = a_Digest old then Some False
          else None)"

definition terminal_verdict :: "(string \<rightharpoonup> NodeTerminalRecord) \<Rightarrow> NodeTerminalRecord \<Rightarrow> bool option" where
  "terminal_verdict terms r =
     (if TrimSpace (t_RunID r) = [] then None
      else case terms (record_key r) of
        None \<Rightarrow> Some True
      | Some old \<Rightarrow> if t_TerminalState old = t_TerminalState r then Some False else None)"

definition live :: "(string \<rightharpoonup> Artifact) \<Rightarrow> string \<Rightarrow> bool" where
  "live arts artifactID \<longleftrightarrow> (\<exists>a \<in> ran arts. a_ArtifactID a = artifactID)"

definition owned_elsewhere :: "(string \<rightharpoonup> ArtifactSource) \<Rightarrow> string \<Rightarrow> ArtifactSource list \<Rightarrow> bool" where
  "owned_elsewhere srcs artifactID ss \<longleftrightarrow>
     (\<exists>s \<in> set ss. \<exists>old. srcs (s_SourceID s) = Some old \<and> s_ArtifactID old \<noteq> artifactID)"

text \<open>Sources a caller may put for one artifact: each names that artifact and has an ID.\<close>

definition sources_for :: "string \<Rightarrow> ArtifactSource list \<Rightarrow> bool" where
  "sources_for artifactID ss \<longleftrightarrow> (\<forall>s \<in> set ss. s_ArtifactID s = artifactID \<and> s_SourceID s \<noteq> [])"

definition put_sources :: "(ArtifactSource option \<Rightarrow> ArtifactSource \<Rightarrow> ArtifactSource) \<Rightarrow>
    ArtifactSource list \<Rightarrow> (string \<rightharpoonup> ArtifactSource) \<Rightarrow> (string \<rightharpoonup> ArtifactSource)" where
  "put_sources keep ss srcs =
     fold (\<lambda>s m. m(s_SourceID s \<mapsto> keep (m (s_SourceID s)) s)) ss srcs"

text \<open>What an update keeps of a stored source: its identity and the new mutable part.\<close>

definition same_source :: "ArtifactSource \<Rightarrow> ArtifactSource \<Rightarrow> bool" where
  "same_source s s' \<longleftrightarrow>
     s_SourceID s' = s_SourceID s \<and> s_ArtifactID s' = s_ArtifactID s \<and> s_State s' = s_State s \<and>
     s_Location s' = s_Location s \<and> s_UpdatedAt s' = s_UpdatedAt s \<and>
     s_LastVerifiedAt s' = s_LastVerifiedAt s \<and> s_LastError s' = s_LastError s"

text \<open>What a stored artifact keeps of the one that was put.\<close>

definition same_artifact :: "Artifact \<Rightarrow> Artifact \<Rightarrow> bool" where
  "same_artifact a a' \<longleftrightarrow>
     a_RunID a' = a_RunID a \<and> a_ProducerNodeID a' = a_ProducerNodeID a \<and>
     a_ProducerAttemptID a' = a_ProducerAttemptID a \<and> a_OutputName a' = a_OutputName a \<and>
     a_ArtifactID a' = a_ArtifactID a \<and> a_Digest a' = a_Digest a \<and> a_NodeName a' = a_NodeName a \<and>
     a_URI a' = a_URI a \<and> a_Locations a' = a_Locations a \<and> a_SizeBytes a' = a_SizeBytes a"

text \<open>Two artifacts with the same parts of the key and the same canonical ID.\<close>

definition same_identity :: "Artifact \<Rightarrow> Artifact \<Rightarrow> bool" where
  "same_identity a a' \<longleftrightarrow>
     a_RunID a' = a_RunID a \<and> a_ProducerNodeID a' = a_ProducerNodeID a \<and>
     a_ProducerAttemptID a' = a_ProducerAttemptID a \<and> a_OutputName a' = a_OutputName a \<and>
     a_ArtifactID a' = a_ArtifactID a"

lemma Artifact_Key_artifact_key:
  "Artifact_Key a = artifact_key (a_RunID a) (a_ProducerNodeID a) (a_ProducerAttemptID a) (a_OutputName a)"
  by (simp add: Artifact_Key_def artifact_key_def)

lemma same_artifact_key: "same_artifact a a' \<Longrightarrow> Artifact_Key a' = Artifact_Key a"
  by (simp add: same_artifact_def Artifact_Key_def)

lemma same_source_refl [simp]: "same_source s s"
  by (simp add: same_source_def)

lemma same_artifact_refl [simp]: "same_artifact a a"
  by (simp add: same_artifact_def)

section \<open>The contract\<close>

locale run_store =
  fixes S :: "'s store"
    and inv :: "'s \<Rightarrow> bool"
    and arts :: "'s \<Rightarrow> string \<rightharpoonup> Artifact"
    and terms :: "'s \<Rightarrow> string \<rightharpoonup> NodeTerminalRecord"
    and lifes :: "'s \<Rightarrow> string \<rightharpoonup> RunLifecycle"
    and srcs :: "'s \<Rightarrow> string \<rightharpoonup> ArtifactSource"
    and stored :: "Artifact option \<Rightarrow> Artifact \<Rightarrow> Artifact"
    and keep :: "ArtifactSource option \<Rightarrow> ArtifactSource \<Rightarrow> ArtifactSource"
  assumes stored_new: "stored None a = a"
    and stored_same: "same_identity a olda \<Longrightarrow> same_artifact a (stored (Some olda) a)"
    and stored_key: "Artifact_Key olda = Artifact_Key a \<Longrightarrow>
          Artifact_Key (stored (Some olda) a) = Artifact_Key a \<and> a_Digest (stored (Some olda) a) = a_Digest a"
    and keep_same: "same_source s (keep olds s)"
    and keep_new: "keep None s = s"
    and keep_again: "keep (Some s) s = s"
    and keep_digest: "s_Digest (keep (Some olds') s) \<in> {s_Digest s, s_Digest olds'}"
    and arts_key: "inv st \<Longrightarrow> arts st k = Some a \<Longrightarrow> Artifact_Key a = k \<and> TrimSpace (a_RunID a) \<noteq> []"
    and terms_key: "inv st \<Longrightarrow> terms st k = Some t \<Longrightarrow> record_key t = k \<and> TrimSpace (t_RunID t) \<noteq> []"
    and lifes_key: "inv st \<Longrightarrow> lifes st k = Some l \<Longrightarrow> l_RunID l = k"
    and srcs_key: "inv st \<Longrightarrow> srcs st k = Some s \<Longrightarrow> s_SourceID s = k \<and> k \<noteq> []"
    and get_artifact: "inv st \<Longrightarrow> GetArtifact S st r n att out = Inr (arts st (artifact_key r n att out))"
    and get_by_id: "inv st \<Longrightarrow> \<exists>res. GetArtifactByID S st aid = Inr res \<and>
          (case res of Some a \<Rightarrow> a \<in> ran (arts st) \<and> a_ArtifactID a = aid
                     | None \<Rightarrow> \<not> live (arts st) aid)"
    and list_by_run: "inv st \<Longrightarrow> \<exists>xs. ListArtifactsByRun S st r = Inr xs \<and> distinct xs \<and>
          set xs = {a \<in> ran (arts st). a_RunID a = r}"
    and list_by_sample: "inv st \<Longrightarrow> \<exists>xs. ListArtifactsBySampleRun S st sr = Inr xs \<and> distinct xs \<and>
          set xs = {a \<in> ran (arts st). a_SampleRunID a = sr}"
    and get_source: "inv st \<Longrightarrow> GetArtifactSource S st sid =
          Inr (case srcs st sid of
                 Some s \<Rightarrow> if live (arts st) (s_ArtifactID s) then Some s else None
               | None \<Rightarrow> None)"
    and list_sources: "inv st \<Longrightarrow> \<exists>xs. ListArtifactSources S st aid = Inr xs \<and> distinct xs \<and>
          set xs = {s \<in> ran (srcs st). s_ArtifactID s = aid \<and> live (arts st) aid}"
    and get_terminal: "inv st \<Longrightarrow> GetNodeTerminal S st r n att = Inr (terms st (terminal_key r n att))"
    and list_terminals: "inv st \<Longrightarrow> \<exists>xs. ListNodeTerminalsByRun S st r = Inr xs \<and> distinct xs \<and>
          set xs = {t \<in> ran (terms st). t_RunID t = r}"
    and get_lifecycle: "inv st \<Longrightarrow> GetRunLifecycle S st r = Inr (lifes st r)"
    and list_lifecycles: "inv st \<Longrightarrow> \<exists>xs. ListRunLifecyclesBySample S st sr = Inr xs \<and>
          distinct xs \<and> set xs = {l \<in> ran (lifes st). l_SampleRunID l = sr}"
    and put_artifact: "inv st \<Longrightarrow> PutArtifact S st a = (e, st') \<Longrightarrow>
          inv st' \<and> terms st' = terms st \<and> lifes st' = lifes st \<and> srcs st' = srcs st \<and>
          (e = None \<longleftrightarrow> put_verdict (arts st) a \<noteq> None) \<and>
          arts st' = (if put_verdict (arts st) a = Some True
                      then (arts st)(Artifact_Key a \<mapsto> stored (arts st (Artifact_Key a)) a)
                      else arts st)"
    and put_artifact_sources: "inv st \<Longrightarrow> sources_for aid ss \<Longrightarrow>
          PutArtifactSources S st aid ss = (e, st') \<Longrightarrow>
          inv st' \<and> arts st' = arts st \<and> terms st' = terms st \<and> lifes st' = lifes st \<and>
          (if owned_elsewhere (srcs st) aid ss
           then (\<exists>sid. e = Some (SourceOwnershipConflict sid aid)) \<and> srcs st' = srcs st
           else e = None \<and> srcs st' = put_sources keep ss (srcs st))"
    and record_terminal: "inv st \<Longrightarrow> RecordNodeTerminal S st rec = (e, st') \<Longrightarrow>
          inv st' \<and> arts st' = arts st \<and> lifes st' = lifes st \<and> srcs st' = srcs st \<and>
          (e = None \<longleftrightarrow> terminal_verdict (terms st) rec \<noteq> None) \<and>
          terms st' = (if terminal_verdict (terms st) rec = Some True
                       then (terms st)(record_key rec \<mapsto> rec) else terms st)"
    and upsert_lifecycle: "inv st \<Longrightarrow> UpsertRunLifecycle S st l = (e, st') \<Longrightarrow>
          inv st' \<and> arts st' = arts st \<and> terms st' = terms st \<and> srcs st' = srcs st \<and>
          (e = None \<longleftrightarrow> TrimSpace (l_RunID l) \<noteq> []) \<and>
          lifes st' = (if TrimSpace (l_RunID l) \<noteq> [] then (lifes st)(l_RunID l \<mapsto> l) else lifes st)"
    and write_through: "inv st \<Longrightarrow>
          inv (WriteThrough S st a ls) \<and> terms (WriteThrough S st a ls) = terms st \<and>
          lifes (WriteThrough S st a ls) = lifes st \<and> srcs (WriteThrough S st a ls) = srcs st \<and>
          (arts (WriteThrough S st a ls) = arts st \<or>
           arts st (Artifact_Key a) = Some a \<and>
           arts (WriteThrough S st a ls) = (arts st)(Artifact_Key a \<mapsto> a\<lparr>a_Locations := ls\<rparr>))"

end
