(* ===== verification/Metrics.thy ===== *)
theory Metrics
  imports Main
begin

text \<open>
  \<^verbatim>\<open>pkg/metrics\<close>: the counters and the gauge of the service.  The exporter behind them is a
  third-party library; the model keeps the values the code records, and counts without the
  exporter's limit of 64 bits.
\<close>

record Metrics =
  artifactsRegistered :: nat
  resolveRequests :: nat
  fallback :: nat
  grpcRegisterArtifact :: nat
  grpcRegisterArtifactErrors :: nat
  grpcResolveHandoff :: nat
  grpcResolveHandoffErrors :: nat
  grpcNotifyNodeTerminal :: nat
  grpcFinalizeSampleRun :: nat
  grpcEvaluateGC :: nat
  grpcGetLifecycle :: nat
  gcBacklogBytes :: int

definition Metrics_New :: Metrics where
  "Metrics_New =
     \<lparr>artifactsRegistered = 0, resolveRequests = 0, fallback = 0, grpcRegisterArtifact = 0,
      grpcRegisterArtifactErrors = 0, grpcResolveHandoff = 0, grpcResolveHandoffErrors = 0,
      grpcNotifyNodeTerminal = 0, grpcFinalizeSampleRun = 0, grpcEvaluateGC = 0,
      grpcGetLifecycle = 0, gcBacklogBytes = 0\<rparr>"

definition IncArtifactsRegistered :: "Metrics \<Rightarrow> Metrics" where
  "IncArtifactsRegistered m = m\<lparr>artifactsRegistered := Suc (artifactsRegistered m)\<rparr>"

definition IncResolveRequests :: "Metrics \<Rightarrow> Metrics" where
  "IncResolveRequests m = m\<lparr>resolveRequests := Suc (resolveRequests m)\<rparr>"

definition IncFallback :: "Metrics \<Rightarrow> Metrics" where
  "IncFallback m = m\<lparr>fallback := Suc (fallback m)\<rparr>"

definition IncGRPCRegisterArtifact :: "Metrics \<Rightarrow> Metrics" where
  "IncGRPCRegisterArtifact m = m\<lparr>grpcRegisterArtifact := Suc (grpcRegisterArtifact m)\<rparr>"

definition IncGRPCRegisterArtifactErrors :: "Metrics \<Rightarrow> Metrics" where
  "IncGRPCRegisterArtifactErrors m =
     m\<lparr>grpcRegisterArtifactErrors := Suc (grpcRegisterArtifactErrors m)\<rparr>"

definition IncGRPCResolveHandoff :: "Metrics \<Rightarrow> Metrics" where
  "IncGRPCResolveHandoff m = m\<lparr>grpcResolveHandoff := Suc (grpcResolveHandoff m)\<rparr>"

definition IncGRPCResolveHandoffErrors :: "Metrics \<Rightarrow> Metrics" where
  "IncGRPCResolveHandoffErrors m =
     m\<lparr>grpcResolveHandoffErrors := Suc (grpcResolveHandoffErrors m)\<rparr>"

definition IncGRPCNotifyNodeTerminal :: "Metrics \<Rightarrow> Metrics" where
  "IncGRPCNotifyNodeTerminal m = m\<lparr>grpcNotifyNodeTerminal := Suc (grpcNotifyNodeTerminal m)\<rparr>"

definition IncGRPCFinalizeSampleRun :: "Metrics \<Rightarrow> Metrics" where
  "IncGRPCFinalizeSampleRun m = m\<lparr>grpcFinalizeSampleRun := Suc (grpcFinalizeSampleRun m)\<rparr>"

definition IncGRPCEvaluateGC :: "Metrics \<Rightarrow> Metrics" where
  "IncGRPCEvaluateGC m = m\<lparr>grpcEvaluateGC := Suc (grpcEvaluateGC m)\<rparr>"

definition IncGRPCGetLifecycle :: "Metrics \<Rightarrow> Metrics" where
  "IncGRPCGetLifecycle m = m\<lparr>grpcGetLifecycle := Suc (grpcGetLifecycle m)\<rparr>"

definition SetGCBacklogBytes :: "int \<Rightarrow> Metrics \<Rightarrow> Metrics" where
  "SetGCBacklogBytes v m = m\<lparr>gcBacklogBytes := v\<rparr>"

end
