(* ===== verification/Service.thy ===== *)
theory Service
  imports Store Metrics "HOL-Library.Log_Nat"
begin

text \<open>
  \<^verbatim>\<open>pkg/resolver/service.go\<close>: the resolver.  An operation takes the store's methods \<open>S\<close>, the
  library parameters \<open>L\<close>, the readings of the clock (\<open>now i\<close> is what the \<open>i\<close>-th call of
  \<^verbatim>\<open>s.now()\<close> in the text of the operation returns) and the service, and returns an error or
  a result together with the new service.
\<close>

section \<open>Errors\<close>

datatype sentinel = ErrNotFound | ErrInvalidArgument | ErrAlreadyExists | ErrFailedPrecondition

datatype candidate_error =
    CandidateURIInvalid string
  | CandidateScheme string
  | CandidateUserinfo
  | CandidateHostRequired
  | CandidateSignedQuery
  | CandidateQuery
  | CandidateAllowlistRequired
  | CandidateHostNotListed string
  | CandidateHostBlocked string

datatype service_error =
    FieldsRequired string
  | KeyInvalid ids_error
  | ArtifactIDMismatch string string
  | DigestClearRejected string string
  | DigestChangeRejected string string string
  | ArtifactNotFound string
  | SourceNotFound string
  | SourceNotFoundAfterWrite string
  | SourceOwnedElsewhere string
  | SourceDeletedError string
  | UnsupportedTerminalState string
  | CandidateInvalid candidate_error
  | BindingPolicyInvalid string domain_error
  | DomainInvalid domain_error
  | StoreFailed store_error
  | MetricsInitFailed string

text \<open>\<^verbatim>\<open>errors.Is\<close> against the sentinels of \<^verbatim>\<open>errors.go\<close>: which errors wrap which sentinel.\<close>

fun errors_Is :: "service_error \<Rightarrow> sentinel \<Rightarrow> bool" where
  "errors_Is (FieldsRequired _) k = (k = ErrInvalidArgument)"
| "errors_Is (KeyInvalid _) k = (k = ErrInvalidArgument)"
| "errors_Is (ArtifactIDMismatch _ _) k = (k = ErrInvalidArgument)"
| "errors_Is (DigestClearRejected _ _) k = (k = ErrAlreadyExists)"
| "errors_Is (DigestChangeRejected _ _ _) k = (k = ErrAlreadyExists)"
| "errors_Is (ArtifactNotFound _) k = (k = ErrNotFound)"
| "errors_Is (SourceNotFound _) k = (k = ErrNotFound)"
| "errors_Is (SourceNotFoundAfterWrite _) k = (k = ErrNotFound)"
| "errors_Is (SourceOwnedElsewhere _) k = (k = ErrAlreadyExists)"
| "errors_Is (SourceDeletedError _) k = (k = ErrFailedPrecondition)"
| "errors_Is (UnsupportedTerminalState _) k = (k = ErrInvalidArgument)"
| "errors_Is (CandidateInvalid _) k = (k = ErrInvalidArgument)"
| "errors_Is (BindingPolicyInvalid _ _) k = False"
| "errors_Is (DomainInvalid _) k = False"
| "errors_Is (StoreFailed _) k = False"
| "errors_Is (MetricsInitFailed _) k = False"

section \<open>The service\<close>

record 's Service =
  svc_store :: 's
  svc_metrics :: Metrics
  minRetention :: duration
  retentionPolicySource :: string
  httpAllowedHosts :: "string list"
  allowAnyHTTPSource :: bool
  errorText :: "service_error \<Rightarrow> string"

type_synonym ('s, 'a) outcome = "(service_error + 'a) \<times> 's Service"
type_synonym clock = "nat \<Rightarrow> time"

definition with_store :: "'s Service \<Rightarrow> 's \<Rightarrow> 's Service" where
  "with_store svc st = svc\<lparr>svc_store := st\<rparr>"

definition count_metric :: "(Metrics \<Rightarrow> Metrics) \<Rightarrow> 's Service \<Rightarrow> 's Service" where
  "count_metric f svc = svc\<lparr>svc_metrics := f (svc_metrics svc)\<rparr>"

definition parseBoolEnv :: "golib \<Rightarrow> string \<Rightarrow> bool" where
  "parseBoolEnv L raw =
     (let r = TrimSpace (ToLower (unicode_lower L) raw)
      in r = ''1'' \<or> r = ''true'' \<or> r = ''yes'' \<or> r = ''on'')"

text \<open>The host allowlist is a set kept as a list without repetitions; nil is the empty list.\<close>

definition parseAllowedHTTPHosts :: "golib \<Rightarrow> string \<Rightarrow> string list" where
  "parseAllowedHTTPHosts L raw =
     (let r = TrimSpace raw
      in if r = [] then []
         else remdups (filter (\<lambda>h. h \<noteq> [])
                (map (\<lambda>part. ToLower (unicode_lower L) (TrimSpace part)) (Split r (CHR '','')))))"

text \<open>
  \<open>hostsEnv\<close> and \<open>anyEnv\<close> are the two environment variables, \<open>metricsInit\<close> the outcome of
  the exporter's construction and \<open>text\<close> the formatting of error messages.
\<close>

definition NewService :: "golib \<Rightarrow> (service_error \<Rightarrow> string) \<Rightarrow> string \<Rightarrow> string \<Rightarrow> string option \<Rightarrow> 's \<Rightarrow>
    service_error + 's Service" where
  "NewService L text hostsEnv anyEnv metricsInit st =
     (case metricsInit of
        Some e \<Rightarrow> Inl (MetricsInitFailed e)
      | None \<Rightarrow> Inr
          \<lparr>svc_store = st, svc_metrics = Metrics_New, minRetention = minutes 15,
           retentionPolicySource = ''service_default'',
           httpAllowedHosts = parseAllowedHTTPHosts L hostsEnv,
           allowAnyHTTPSource = parseBoolEnv L anyEnv, errorText = text\<rparr>)"

section \<open>Initial sources\<close>

text \<open>
  The node name of a node-local location without one is filled in through the pointer that
  the source shares with the artifact, after the fingerprint has been taken.
\<close>

definition fill_node :: "Artifact \<Rightarrow> Location \<Rightarrow> Location" where
  "fill_node artifact location =
     (case NodeLocal location of
        Some nl \<Rightarrow>
          if nl_NodeName nl = [] \<and> a_NodeName artifact \<noteq> []
          then location\<lparr>NodeLocal := Some (nl\<lparr>nl_NodeName := a_NodeName artifact\<rparr>)\<rparr>
          else location
      | None \<Rightarrow> location)"

definition filled_locations :: "Artifact \<Rightarrow> Location list" where
  "filled_locations artifact = map (fill_node artifact) (a_Locations artifact)"

definition appendSource :: "golib \<Rightarrow> Artifact \<Rightarrow> time \<Rightarrow> string \<Rightarrow> Location \<Rightarrow>
    ArtifactSource list \<Rightarrow> ArtifactSource list" where
  "appendSource L artifact now0 backendID location ss =
     (let fp = LocationFingerprint location
      in if fp = [] then ss
         else let source =
             \<lparr>s_SourceID = SourceID (a_ArtifactID artifact) backendID fp,
              s_ArtifactID = a_ArtifactID artifact, s_BackendID = backendID,
              s_Digest = a_Digest artifact, s_State = StateReady, s_LocationFingerprint = fp,
              s_Location = fill_node artifact location, s_CreatedAt = now0, s_UpdatedAt = now0,
              s_LastVerifiedAt = 0, s_LastError = []\<rparr>
           in if ValidateArtifactSourceForArtifact L artifact source \<noteq> None then ss
              else if list_ex (\<lambda>x. s_SourceID x = s_SourceID source) ss then ss
              else ss @ [source])"

definition appendLocation :: "golib \<Rightarrow> Artifact \<Rightarrow> time \<Rightarrow> ArtifactSource list \<Rightarrow> Location \<Rightarrow>
    ArtifactSource list" where
  "appendLocation L artifact now0 ss location =
     (if NodeLocal location \<noteq> None then appendSource L artifact now0 ''node-local-default'' location ss
      else if HTTP location \<noteq> None then appendSource L artifact now0 ''legacy-http'' location ss
      else ss)"

definition initialSourcesForArtifact :: "golib \<Rightarrow> Artifact \<Rightarrow> time \<Rightarrow> ArtifactSource list" where
  "initialSourcesForArtifact L artifact now0 =
     (let ss = foldl (appendLocation L artifact now0) [] (a_Locations artifact)
      in if a_URI artifact \<noteq> []
         then appendSource L artifact now0 ''legacy-http''
                \<lparr>NodeLocal = None, HTTP = Some \<lparr>h_URI = a_URI artifact, h_Headers = []\<rparr>\<rparr> ss
         else ss)"

definition has_node_local :: "ArtifactSource \<Rightarrow> bool" where
  "has_node_local x = (case NodeLocal (s_Location x) of Some nl \<Rightarrow> TrimSpace (nl_Path nl) \<noteq> [] | None \<Rightarrow> False)"

definition has_http :: "ArtifactSource \<Rightarrow> bool" where
  "has_http x = (case HTTP (s_Location x) of Some h \<Rightarrow> TrimSpace (h_URI h) \<noteq> [] | None \<Rightarrow> False)"

definition availability :: "ArtifactSource list \<Rightarrow> AvailabilityState" where
  "availability ss =
     (let hasNodeLocal = list_ex has_node_local ss;
          hasHTTP = list_ex (\<lambda>x. \<not> has_node_local x \<and> has_http x) ss
      in if hasNodeLocal \<and> hasHTTP then BOTH
         else if hasNodeLocal then LOCAL_ONLY
         else if hasHTTP then REMOTE_ONLY
         else UNAVAILABLE_STATE)"

section \<open>RegisterArtifact\<close>

text \<open>The checks before any state is touched, on the request and on the existing artifact.\<close>

definition register_check :: "Artifact option \<Rightarrow> Artifact \<Rightarrow> service_error option" where
  "register_check existing artifact =
     (case existing of
        Some old \<Rightarrow>
          if a_Digest old \<noteq> [] then
            if a_Digest artifact = [] then
              Some (DigestClearRejected (Artifact_Key artifact) (a_Digest old))
            else if a_Digest artifact \<noteq> a_Digest old then
              Some (DigestChangeRejected (Artifact_Key artifact) (a_Digest old) (a_Digest artifact))
            else None
          else None
      | None \<Rightarrow> None)"

definition register_request :: "golib \<Rightarrow> time \<Rightarrow> Artifact \<Rightarrow> service_error + Artifact" where
  "register_request L now0 artifact0 =
     (if a_RunID artifact0 = [] \<or> a_ProducerNodeID artifact0 = [] \<or> a_OutputName artifact0 = [] then
        Inl (FieldsRequired ''runID, producerNodeID, outputName'')
      else if a_ProducerAttemptID artifact0 = [] then Inl (FieldsRequired ''producerAttemptID'')
      else case ArtifactKey_Validate L
          \<lparr>k_RunID = a_RunID artifact0, k_ProducerNodeID = a_ProducerNodeID artifact0,
           k_ProducerAttemptID = a_ProducerAttemptID artifact0, k_OutputName = a_OutputName artifact0\<rparr> of
        Some e \<Rightarrow> Inl (KeyInvalid e)
      | None \<Rightarrow>
         (let artifact = (if IsZero (a_CreatedAt artifact0) then artifact0\<lparr>a_CreatedAt := now0\<rparr>
                          else artifact0);
              canonical = CanonicalID artifact
          in if a_ArtifactID artifact = [] then Inr (artifact\<lparr>a_ArtifactID := canonical\<rparr>)
             else if a_ArtifactID artifact \<noteq> canonical then
               Inl (ArtifactIDMismatch (a_ArtifactID artifact) canonical)
             else Inr artifact))"

definition RegisterArtifactCore :: "'s store \<Rightarrow> golib \<Rightarrow> clock \<Rightarrow> 's Service \<Rightarrow> Artifact \<Rightarrow>
    ('s, AvailabilityState) outcome" where
  "RegisterArtifactCore S L now svc artifact0 =
     (case register_request L (now 0) artifact0 of
        Inl e \<Rightarrow> (Inl e, svc)
      | Inr artifact \<Rightarrow>
          (case GetArtifact S (svc_store svc) (a_RunID artifact) (a_ProducerNodeID artifact)
                 (a_ProducerAttemptID artifact) (a_OutputName artifact) of
             Inl e \<Rightarrow> (Inl (StoreFailed e), svc)
           | Inr existing \<Rightarrow>
               (case register_check existing artifact of
                  Some e \<Rightarrow> (Inl e, svc)
                | None \<Rightarrow>
                    (case ValidateArtifactForRegistration L artifact of
                       Some e \<Rightarrow> (Inl (DomainInvalid e), svc)
                     | None \<Rightarrow>
                         (case PutArtifact S (svc_store svc) artifact of
                            (Some e, st1) \<Rightarrow> (Inl (StoreFailed e), with_store svc st1)
                          | (None, st1) \<Rightarrow>
                              (let initial = initialSourcesForArtifact L artifact (now 1);
                                   st2 = WriteThrough S st1 artifact (filled_locations artifact)
                               in case PutArtifactSources S st2 (a_ArtifactID artifact) initial of
                                    (Some e, st3) \<Rightarrow> (Inl (StoreFailed e), with_store svc st3)
                                  | (None, st3) \<Rightarrow>
                                      (Inr (availability initial),
                                       count_metric IncArtifactsRegistered (with_store svc st3))))))))"

section \<open>Reads\<close>

definition lift_store :: "store_error + 'a \<Rightarrow> service_error + 'a" where
  "lift_store r = (case r of Inl e \<Rightarrow> Inl (StoreFailed e) | Inr x \<Rightarrow> Inr x)"

definition GetArtifactCore :: "'s store \<Rightarrow> 's Service \<Rightarrow> string \<Rightarrow> string \<Rightarrow> string \<Rightarrow> string \<Rightarrow>
    service_error + Artifact option" where
  "GetArtifactCore S svc runID producerNodeID attemptID outputName =
     (if runID = [] \<or> producerNodeID = [] \<or> outputName = [] then
        Inl (FieldsRequired ''runID, producerNodeID, outputName'')
      else if attemptID = [] then Inl (FieldsRequired ''attemptID'')
      else lift_store (GetArtifact S (svc_store svc) runID producerNodeID attemptID outputName))"

definition ListArtifactsByRunCore :: "'s store \<Rightarrow> 's Service \<Rightarrow> string \<Rightarrow> service_error + Artifact list" where
  "ListArtifactsByRunCore S svc runID =
     (if runID = [] then Inl (FieldsRequired ''runID'')
      else lift_store (ListArtifactsByRun S (svc_store svc) runID))"

definition ListArtifactsBySampleRunCore :: "'s store \<Rightarrow> 's Service \<Rightarrow> string \<Rightarrow>
    service_error + Artifact list" where
  "ListArtifactsBySampleRunCore S svc sampleRunID =
     (if sampleRunID = [] then Inl (FieldsRequired ''sampleRunID'')
      else lift_store (ListArtifactsBySampleRun S (svc_store svc) sampleRunID))"

definition ListRunsBySampleCore :: "'s store \<Rightarrow> 's Service \<Rightarrow> string \<Rightarrow> service_error + RunLifecycle list" where
  "ListRunsBySampleCore S svc sampleRunID =
     (if sampleRunID = [] then Inl (FieldsRequired ''sampleRunID'')
      else lift_store (ListRunLifecyclesBySample S (svc_store svc) sampleRunID))"

definition GetRunLifecycleCore :: "'s store \<Rightarrow> 's Service \<Rightarrow> string \<Rightarrow> service_error + RunLifecycle option" where
  "GetRunLifecycleCore S svc runID =
     (if runID = [] then Inl (FieldsRequired ''runID'')
      else lift_store (GetRunLifecycle S (svc_store svc) runID))"

definition ListSourcesCore :: "'s store \<Rightarrow> 's Service \<Rightarrow> string \<Rightarrow> service_error + ArtifactSource list" where
  "ListSourcesCore S svc artifactID =
     (if artifactID = [] then Inl (FieldsRequired ''artifactID'')
      else case GetArtifactByID S (svc_store svc) artifactID of
        Inl e \<Rightarrow> Inl (StoreFailed e)
      | Inr None \<Rightarrow> Inl (ArtifactNotFound artifactID)
      | Inr (Some _) \<Rightarrow>
          (case ListArtifactSources S (svc_store svc) artifactID of
             Inl e \<Rightarrow> Inl (StoreFailed e)
           | Inr ss \<Rightarrow> Inr (filter (\<lambda>x. s_State x \<noteq> StateDeleted) ss)))"

section \<open>Candidate sources\<close>

definition ip_blocked :: "string \<Rightarrow> bool" where
  "ip_blocked host =
     (case ParseIP host of
        Some ip \<Rightarrow> IsLoopback ip \<or> IsLinkLocalUnicast ip \<or> IsLinkLocalMulticast ip \<or> IsPrivate ip
      | None \<Rightarrow> False)"

fun containsHost :: "string list \<Rightarrow> string \<Rightarrow> bool" where
  "containsHost [] h = False"
| "containsHost (x # xs) h = (x = h \<or> containsHost xs h)"

definition validateCandidateSource :: "golib \<Rightarrow> ArtifactSource \<Rightarrow> string list \<Rightarrow> bool \<Rightarrow>
    candidate_error option" where
  "validateCandidateSource L source allowedHosts allowAny =
     (case HTTP (s_Location source) of
        None \<Rightarrow> None
      | Some h \<Rightarrow>
          (case url_Parse L (h_URI h) of
             None \<Rightarrow> Some (CandidateURIInvalid (h_URI h))
           | Some parsed \<Rightarrow>
               (let host = TrimSpace (Hostname parsed)
                in if Scheme parsed \<noteq> ''http'' \<and> Scheme parsed \<noteq> ''https'' then
                     Some (CandidateScheme (Scheme parsed))
                   else if User parsed then Some CandidateUserinfo
                   else if host = [] then Some CandidateHostRequired
                   else if RawQuery parsed \<noteq> [] then
                     (if looksLikeSignedURLQuery L (RawQuery parsed) then Some CandidateSignedQuery
                      else Some CandidateQuery)
                   else if length allowedHosts = 0 \<and> \<not> allowAny then Some CandidateAllowlistRequired
                   else if length allowedHosts \<noteq> 0 \<and>
                           \<not> containsHost allowedHosts (ToLower (unicode_lower L) host) then
                     Some (CandidateHostNotListed host)
                   else if ip_blocked host then Some (CandidateHostBlocked host)
                   else None)))"

definition effectiveArtifactSources :: "golib \<Rightarrow> Artifact \<Rightarrow> ArtifactSource list \<Rightarrow> time \<Rightarrow>
    ArtifactSource list" where
  "effectiveArtifactSources L artifact ss now0 =
     (if 0 < length ss then ss else initialSourcesForArtifact L artifact now0)"

definition candidateEligibleArtifactSources :: "golib \<Rightarrow> 's Service \<Rightarrow> Artifact \<Rightarrow>
    ArtifactSource list \<Rightarrow> ArtifactSource list" where
  "candidateEligibleArtifactSources L svc artifact ss =
     filter (\<lambda>x. s_State x = StateReady \<and> ValidateArtifactSourceForArtifact L artifact x = None \<and>
        validateCandidateSource L x (httpAllowedHosts svc) (allowAnyHTTPSource svc) = None) ss"

definition firstReadyNodeLocalSource :: "ArtifactSource list \<Rightarrow> ArtifactSource option" where
  "firstReadyNodeLocalSource ss =
     find (\<lambda>x. s_State x = StateReady \<and>
        (case NodeLocal (s_Location x) of Some nl \<Rightarrow> nl_Path nl \<noteq> [] | None \<Rightarrow> False)) ss"

definition firstReadyHTTPSource :: "ArtifactSource list \<Rightarrow> ArtifactSource option" where
  "firstReadyHTTPSource ss =
     find (\<lambda>x. s_State x = StateReady \<and>
        (case HTTP (s_Location x) of Some h \<Rightarrow> h_URI h \<noteq> [] | None \<Rightarrow> False)) ss"

section \<open>Source management\<close>

definition put_one_source :: "'s store \<Rightarrow> 's Service \<Rightarrow> ArtifactSource \<Rightarrow> store_error option \<times> 's Service" where
  "put_one_source S svc source =
     (case PutArtifactSources S (svc_store svc) (s_ArtifactID source) [source] of
        (e, st) \<Rightarrow> (e, with_store svc st))"

text \<open>The source a request describes, completed from the artifact it is added to.\<close>

definition complete_source :: "golib \<Rightarrow> time \<Rightarrow> string \<Rightarrow> Artifact \<Rightarrow> ArtifactSource \<Rightarrow>
    domain_error + ArtifactSource" where
  "complete_source L now0 artifactID artifact source0 =
     (let s1 = source0\<lparr>s_ArtifactID := artifactID\<rparr>;
          s2 = (if TrimSpace (s_Digest s1) = [] then s1\<lparr>s_Digest := a_Digest artifact\<rparr> else s1);
          s3 = (if s_State s2 = [] then s2\<lparr>s_State := StateReady\<rparr> else s2)
      in case SourceState_Validate (s_State s3) of
           Some e \<Rightarrow> Inl e
         | None \<Rightarrow>
            (let s4 = (if TrimSpace (s_LocationFingerprint s3) = []
                       then s3\<lparr>s_LocationFingerprint := LocationFingerprint (s_Location s3)\<rparr> else s3);
                 s5 = (if TrimSpace (s_SourceID s4) = []
                       then s4\<lparr>s_SourceID := SourceID (s_ArtifactID s4) (s_BackendID s4)
                                 (s_LocationFingerprint s4)\<rparr>
                       else s4);
                 s6 = (if IsZero (s_CreatedAt s5) then s5\<lparr>s_CreatedAt := now0\<rparr> else s5);
                 s7 = s6\<lparr>s_UpdatedAt := now0\<rparr>
             in case ValidateArtifactSourceForArtifact L artifact s7 of
                  Some e \<Rightarrow> Inl e
                | None \<Rightarrow> Inr s7))"

definition AddSourceCore :: "'s store \<Rightarrow> golib \<Rightarrow> clock \<Rightarrow> 's Service \<Rightarrow> string \<Rightarrow> ArtifactSource \<Rightarrow>
    ('s, ArtifactSource) outcome" where
  "AddSourceCore S L now svc artifactID source0 =
     (if TrimSpace artifactID = [] then (Inl (FieldsRequired ''artifactID''), svc)
      else case GetArtifactByID S (svc_store svc) artifactID of
        Inl e \<Rightarrow> (Inl (StoreFailed e), svc)
      | Inr None \<Rightarrow> (Inl (ArtifactNotFound artifactID), svc)
      | Inr (Some artifact) \<Rightarrow>
          (case complete_source L (now 0) artifactID artifact source0 of
             Inl e \<Rightarrow> (Inl (DomainInvalid e), svc)
           | Inr source \<Rightarrow>
               (case put_one_source S svc source of
                  (Some e, svc') \<Rightarrow>
                    (case e of
                       SourceOwnershipConflict _ _ \<Rightarrow> (Inl (SourceOwnedElsewhere (s_SourceID source)), svc')
                     | _ \<Rightarrow> (Inl (StoreFailed e), svc'))
                | (None, svc') \<Rightarrow>
                    (case GetArtifactSource S (svc_store svc') (s_SourceID source) of
                       Inl e \<Rightarrow> (Inl (StoreFailed e), svc')
                     | Inr None \<Rightarrow> (Inl (SourceNotFoundAfterWrite (s_SourceID source)), svc')
                     | Inr (Some stored) \<Rightarrow> (Inr stored, svc')))))"

text \<open>Write a source back and return what the store now holds; a missing source reads as zero.\<close>

definition store_and_reload :: "'s store \<Rightarrow> 's Service \<Rightarrow> ArtifactSource \<Rightarrow> ('s, ArtifactSource) outcome" where
  "store_and_reload S svc source =
     (case put_one_source S svc source of
        (Some e, svc') \<Rightarrow> (Inl (StoreFailed e), svc')
      | (None, svc') \<Rightarrow>
          (case GetArtifactSource S (svc_store svc') (s_SourceID source) of
             Inl e \<Rightarrow> (Inl (StoreFailed e), svc')
           | Inr stored \<Rightarrow> (Inr (case stored of Some x \<Rightarrow> x | None \<Rightarrow> zero_source), svc')))"

definition UpdateSourceStateCore :: "'s store \<Rightarrow> clock \<Rightarrow> 's Service \<Rightarrow> string \<Rightarrow> SourceState \<Rightarrow>
    ('s, ArtifactSource) outcome" where
  "UpdateSourceStateCore S now svc sourceID state =
     (if TrimSpace sourceID = [] then (Inl (FieldsRequired ''sourceID''), svc)
      else case SourceState_Validate state of
        Some e \<Rightarrow> (Inl (DomainInvalid e), svc)
      | None \<Rightarrow>
          (case GetArtifactSource S (svc_store svc) sourceID of
             Inl e \<Rightarrow> (Inl (StoreFailed e), svc)
           | Inr None \<Rightarrow> (Inl (SourceNotFound sourceID), svc)
           | Inr (Some source) \<Rightarrow>
               (case GetArtifactByID S (svc_store svc) (s_ArtifactID source) of
                  Inl e \<Rightarrow> (Inl (StoreFailed e), svc)
                | Inr None \<Rightarrow> (Inl (ArtifactNotFound (s_ArtifactID source)), svc)
                | Inr (Some _) \<Rightarrow>
                    store_and_reload S svc (source\<lparr>s_State := state, s_UpdatedAt := now 0\<rparr>))))"

definition verify_error :: "golib \<Rightarrow> 's Service \<Rightarrow> Artifact \<Rightarrow> ArtifactSource \<Rightarrow> service_error option" where
  "verify_error L svc artifact source =
     (case ValidateArtifactSourceForArtifact L artifact source of
        Some e \<Rightarrow> Some (DomainInvalid e)
      | None \<Rightarrow>
          map_option CandidateInvalid
            (validateCandidateSource L source (httpAllowedHosts svc) (allowAnyHTTPSource svc)))"

definition VerifySourceCore :: "'s store \<Rightarrow> golib \<Rightarrow> clock \<Rightarrow> 's Service \<Rightarrow> string \<Rightarrow>
    ('s, ArtifactSource \<times> bool \<times> string) outcome" where
  "VerifySourceCore S L now svc sourceID =
     (if TrimSpace sourceID = [] then (Inl (FieldsRequired ''sourceID''), svc)
      else case GetArtifactSource S (svc_store svc) sourceID of
        Inl e \<Rightarrow> (Inl (StoreFailed e), svc)
      | Inr None \<Rightarrow> (Inl (SourceNotFound sourceID), svc)
      | Inr (Some source) \<Rightarrow>
          if s_State source = StateDeleted then (Inl (SourceDeletedError sourceID), svc)
          else (case GetArtifactByID S (svc_store svc) (s_ArtifactID source) of
             Inl e \<Rightarrow> (Inl (StoreFailed e), svc)
           | Inr None \<Rightarrow> (Inl (ArtifactNotFound (s_ArtifactID source)), svc)
           | Inr (Some artifact) \<Rightarrow>
               (case verify_error L svc artifact source of
                  Some e \<Rightarrow>
                    (case store_and_reload S svc
                        (source\<lparr>s_State := StateUnreachable, s_LastError := errorText svc e,
                                s_LastVerifiedAt := now 0, s_UpdatedAt := now 0\<rparr>) of
                       (Inl e', svc') \<Rightarrow> (Inl e', svc')
                     | (Inr stored, svc') \<Rightarrow> (Inr (stored, False, errorText svc e), svc'))
                | None \<Rightarrow>
                    (case store_and_reload S svc
                        (source\<lparr>s_State := StateReady, s_LastError := [],
                                s_LastVerifiedAt := now 0, s_UpdatedAt := now 0\<rparr>) of
                       (Inl e', svc') \<Rightarrow> (Inl e', svc')
                     | (Inr stored, svc') \<Rightarrow> (Inr (stored, True, []), svc')))))"

section \<open>ResolveHandoff\<close>

definition no_placement :: PlacementIntent where
  "no_placement = \<lparr>pi_Mode = PlaceNone, pi_NodeName = []\<rparr>"

definition no_plan :: MaterializationPlan where
  "no_plan = \<lparr>mp_Mode = MatNone, mp_URI = [], mp_ExpectedDigest = [], mp_ExpectedSize = 0,
     mp_SourceLocation = None, mp_LocalPath = []\<rparr>"

definition refusal :: "ResolutionStatus \<Rightarrow> ResolutionDecision \<Rightarrow> string \<Rightarrow> bool \<Rightarrow> ResolvedHandoff" where
  "refusal status decision reason retryable =
     \<lparr>r_Status = status, r_Decision = decision, r_PlacementIntent = no_placement,
      r_MaterializationPlan = no_plan, r_MaterializationCandidates = [], r_Reason = reason,
      r_Retryable = retryable\<rparr>"

text \<open>The artifact is not registered: the producer's terminal record decides.\<close>

definition resolve_unregistered :: "Binding \<Rightarrow> NodeTerminalRecord option \<Rightarrow> ResolvedHandoff" where
  "resolve_unregistered binding terminal =
     (case terminal of
        None \<Rightarrow> refusal PENDING DecUnavailable ''producer not yet terminal'' True
      | Some t \<Rightarrow>
          if t_TerminalState t = ''Failed'' \<or> t_TerminalState t = ''Canceled'' then
            refusal PRODUCER_FAILED DecProducerFailed ''producer failed or canceled'' False
          else if b_Required binding then
            refusal MISSING DecUnavailable ''artifact not registered by producer'' False
          else if t_TerminalState t = ''Succeeded'' \<or> t_TerminalState t = ''Failed'' \<or>
                  t_TerminalState t = ''Canceled'' then
            refusal MISSING DecUnavailable ''artifact not registered by producer'' False
          else refusal PENDING DecUnavailable ''producer not yet terminal'' True)"

definition digest_refusal :: "Binding \<Rightarrow> Artifact \<Rightarrow> ResolvedHandoff option" where
  "digest_refusal binding artifact =
     (if b_ExpectedDigest binding \<noteq> [] then
        if a_Digest artifact = [] then
          Some (refusal DIGEST_MISMATCH DecUnavailable
                 ''artifact has no digest; expected digest was specified'' False)
        else if b_ExpectedDigest binding \<noteq> a_Digest artifact then
          Some (refusal DIGEST_MISMATCH DecUnavailable ''artifact digest mismatch'' False)
        else None
      else None)"

definition expected_digest :: "Binding \<Rightarrow> Artifact \<Rightarrow> string" where
  "expected_digest binding artifact =
     (if b_ExpectedDigest binding \<noteq> [] then b_ExpectedDigest binding else a_Digest artifact)"

definition local_path :: "Binding \<Rightarrow> string" where
  "local_path binding =
     (if b_ChildInputName binding \<noteq> [] then path_Join [''inputs'', b_ChildInputName binding] else [])"

definition condition :: "string \<Rightarrow> MaterializationCondition" where
  "condition kind = \<lparr>mc_Kind = kind, mc_NodeName = [], mc_BackendID = [], mc_SourceRef = [], mc_State = []\<rparr>"

definition localCandidate :: "Binding \<Rightarrow> Artifact \<Rightarrow> ArtifactSource \<Rightarrow> bool \<Rightarrow>
    MaterializationCandidate option" where
  "localCandidate binding artifact source includeScheduledCondition =
     (let expectedDigest = expected_digest binding artifact;
          ready = (condition ''source_state_ready'')
                    \<lparr>mc_SourceRef := s_SourceID source, mc_State := s_State source\<rparr>;
          scheduled =
            (case NodeLocal (s_Location source) of
               Some nl \<Rightarrow>
                 if includeScheduledCondition \<and> nl_NodeName nl \<noteq> []
                 then [(condition ''scheduled_on_node'')\<lparr>mc_NodeName := nl_NodeName nl\<rparr>] else []
             | None \<Rightarrow> [])
      in if TrimSpace expectedDigest = [] then None
         else Some
           \<lparr>c_Priority = 1, c_Mode = LocalReuse, c_SourceRef = s_SourceID source,
            c_ExpectedDigest = expectedDigest, c_ExpectedSize = a_SizeBytes artifact,
            c_LocalPath = local_path binding, c_SourceLocation = Some (s_Location source),
            c_URI = [], c_Conditions = ready # scheduled\<rparr>)"

definition remoteCandidate :: "Binding \<Rightarrow> Artifact \<Rightarrow> ArtifactSource \<Rightarrow> int \<Rightarrow>
    MaterializationCandidate option" where
  "remoteCandidate binding artifact source priority =
     (let expectedDigest = expected_digest binding artifact;
          ready = (condition ''source_state_ready'')
                    \<lparr>mc_SourceRef := s_SourceID source, mc_State := s_State source\<rparr>;
          backend = (condition ''backend_available'')\<lparr>mc_BackendID := s_BackendID source\<rparr>;
          uri = (case HTTP (s_Location source) of Some h \<Rightarrow> h_URI h | None \<Rightarrow> [])
      in if TrimSpace expectedDigest = [] then None
         else Some
           \<lparr>c_Priority = priority, c_Mode = RemoteFetch, c_SourceRef = s_SourceID source,
            c_ExpectedDigest = expectedDigest, c_ExpectedSize = a_SizeBytes artifact,
            c_LocalPath = local_path binding, c_SourceLocation = Some (s_Location source),
            c_URI = uri, c_Conditions = [ready, backend]\<rparr>)"

definition legacyPlanFromCandidate :: "MaterializationCandidate \<Rightarrow> MaterializationPlan" where
  "legacyPlanFromCandidate c =
     \<lparr>mp_Mode = c_Mode c, mp_URI = c_URI c, mp_ExpectedDigest = c_ExpectedDigest c,
      mp_ExpectedSize = c_ExpectedSize c, mp_SourceLocation = c_SourceLocation c,
      mp_LocalPath = c_LocalPath c\<rparr>"

definition producer_node :: "Artifact \<Rightarrow> ArtifactSource option \<Rightarrow> string" where
  "producer_node artifact nodeLocalSource =
     (case nodeLocalSource of
        None \<Rightarrow> a_NodeName artifact
      | Some x \<Rightarrow>
          (case NodeLocal (s_Location x) of
             Some nl \<Rightarrow> if nl_NodeName nl \<noteq> [] then nl_NodeName nl else a_NodeName artifact
           | None \<Rightarrow> a_NodeName artifact))"

definition local_candidates :: "Binding \<Rightarrow> Artifact \<Rightarrow> ArtifactSource option \<Rightarrow> string \<Rightarrow>
    MaterializationCandidate list" where
  "local_candidates binding artifact nodeLocalSource targetNodeName =
     (case nodeLocalSource of
        None \<Rightarrow> []
      | Some x \<Rightarrow>
          (case localCandidate binding artifact x (targetNodeName = []) of
             None \<Rightarrow> [] | Some c \<Rightarrow> [c]))"

definition remote_candidates :: "Binding \<Rightarrow> Artifact \<Rightarrow> ArtifactSource option \<Rightarrow>
    MaterializationCandidate list \<Rightarrow> MaterializationCandidate list" where
  "remote_candidates binding artifact remoteSource locals =
     (case remoteSource of
        None \<Rightarrow> []
      | Some x \<Rightarrow>
          (case remoteCandidate binding artifact x (if 0 < length locals then 2 else 1) of
             None \<Rightarrow> [] | Some c \<Rightarrow> [c]))"

definition resolution :: "ResolutionDecision \<Rightarrow> PlacementIntent \<Rightarrow> MaterializationPlan \<Rightarrow>
    MaterializationCandidate list \<Rightarrow> string \<Rightarrow> ResolvedHandoff" where
  "resolution decision intent plan candidates reason =
     \<lparr>r_Status = RESOLVED, r_Decision = decision, r_PlacementIntent = intent,
      r_MaterializationPlan = plan, r_MaterializationCandidates = candidates, r_Reason = reason,
      r_Retryable = False\<rparr>"

text \<open>The consumer's node is known.  The boolean says whether the fallback counter is raised.\<close>

definition decide_scheduled :: "ConsumePolicy \<Rightarrow> string \<Rightarrow> string \<Rightarrow> MaterializationCandidate list \<Rightarrow>
    MaterializationCandidate list \<Rightarrow> ResolvedHandoff \<times> bool" where
  "decide_scheduled policy targetNodeName producerNodeName locals remotes =
     (if producerNodeName \<noteq> [] \<and> targetNodeName = producerNodeName \<and> 0 < length locals then
        (resolution DecLocalReuse \<lparr>pi_Mode = PreferredNode, pi_NodeName = producerNodeName\<rparr>
           (legacyPlanFromCandidate (hd (locals @ remotes))) (locals @ remotes)
           ''artifact available on target node'', False)
      else if policy = SameNodeOnly then
        ((refusal POLICY_BLOCKED DecUnavailable
            ''policy requires same node but consumer is on a different node'' False)
           \<lparr>r_PlacementIntent := \<lparr>pi_Mode = RequiredNode, pi_NodeName = producerNodeName\<rparr>\<rparr>, False)
      else if length remotes = 0 then
        (refusal UNAVAILABLE DecUnavailable
           ''artifact URI unknown; cannot provide remote fetch plan'' False, False)
      else
        (resolution DecRemoteFetch no_placement (legacyPlanFromCandidate (hd remotes)) remotes
           ''artifact available via remote fetch'', True))"

text \<open>The consumer is not scheduled yet: a plan and a placement hint.\<close>

definition decide_planning :: "ConsumePolicy \<Rightarrow> string \<Rightarrow> MaterializationCandidate list \<Rightarrow>
    MaterializationCandidate list \<Rightarrow> ResolvedHandoff" where
  "decide_planning policy producerNodeName locals remotes =
     (if policy = SameNodeOnly then
        if length locals = 0 \<or> producerNodeName = [] then
          refusal UNAVAILABLE DecUnavailable
            ''planning: artifact locality unknown; cannot satisfy SameNodeOnly'' False
        else
          resolution DecLocalReuse \<lparr>pi_Mode = RequiredNode, pi_NodeName = producerNodeName\<rparr>
            (legacyPlanFromCandidate (hd locals)) locals
            ''planning: schedule consumer on producer node for local reuse''
      else if policy = SameNodeThenRemote then
        if length locals = 0 \<and> length remotes = 0 then
          refusal UNAVAILABLE DecUnavailable
            ''planning: artifact URI unknown; cannot provide remote fetch plan'' False
        else if length locals = 0 \<or> producerNodeName = [] then
          (if length remotes = 0 then
             refusal UNAVAILABLE DecUnavailable
               ''planning: artifact locality unknown and no fallback source is ready'' False
           else
             resolution DecRemoteFetch no_placement (legacyPlanFromCandidate (hd remotes)) remotes
               ''planning: artifact locality unknown; remote fetch without placement hint'')
        else if 0 < length remotes then
          resolution DecRemoteFetch \<lparr>pi_Mode = PreferredNode, pi_NodeName = producerNodeName\<rparr>
            (legacyPlanFromCandidate (hd remotes)) (locals @ remotes)
            ''planning: prefer producer node; remote fetch if scheduled elsewhere''
        else
          resolution DecLocalReuse \<lparr>pi_Mode = RequiredNode, pi_NodeName = producerNodeName\<rparr>
            (if 0 < length locals then legacyPlanFromCandidate (hd locals) else no_plan)
            (locals @ remotes)
            ''planning: require producer node because no fallback source is ready''
      else
        if length remotes = 0 \<and> length locals = 0 then
          refusal UNAVAILABLE DecUnavailable
            ''planning: artifact URI unknown; cannot provide remote fetch plan'' False
        else
          resolution DecRemoteFetch no_placement
            (if 0 < length remotes then legacyPlanFromCandidate (hd remotes)
             else if 0 < length locals then legacyPlanFromCandidate (hd locals) else no_plan)
            (locals @ remotes) ''planning: remote fetch, no placement constraint'')"

text \<open>The decision on a registered artifact, from the sources the store lists for it.\<close>

definition resolve_registered :: "golib \<Rightarrow> 's Service \<Rightarrow> Binding \<Rightarrow> string \<Rightarrow> Artifact \<Rightarrow>
    ArtifactSource list \<Rightarrow> ResolvedHandoff \<times> bool" where
  "resolve_registered L svc binding targetNodeName artifact ss =
     (let candidateSources = candidateEligibleArtifactSources L svc artifact ss;
          nodeLocalSource = firstReadyNodeLocalSource candidateSources;
          remoteSource = firstReadyHTTPSource candidateSources;
          producerNodeName = producer_node artifact nodeLocalSource;
          locals = local_candidates binding artifact nodeLocalSource targetNodeName;
          remotes = remote_candidates binding artifact remoteSource locals
      in if targetNodeName \<noteq> [] then
           decide_scheduled (b_ConsumePolicy binding) targetNodeName producerNodeName locals remotes
         else (decide_planning (b_ConsumePolicy binding) producerNodeName locals remotes, False))"

definition binding_error :: "Binding \<Rightarrow> service_error option" where
  "binding_error binding =
     (if b_RunID binding = [] \<or> b_ProducerNodeID binding = [] \<or> b_ProducerOutputName binding = [] then
        Some (FieldsRequired ''binding runID, producerNodeID, producerOutputName'')
      else if b_ProducerAttemptID binding = [] then
        Some (FieldsRequired ''binding producerAttemptID'')
      else map_option (BindingPolicyInvalid (b_BindingName binding))
             (ConsumePolicy_Validate (b_ConsumePolicy binding)))"

definition ResolveHandoffCore :: "'s store \<Rightarrow> golib \<Rightarrow> clock \<Rightarrow> 's Service \<Rightarrow> Binding \<Rightarrow> string \<Rightarrow>
    ('s, ResolvedHandoff) outcome" where
  "ResolveHandoffCore S L now svc0 binding targetNodeName =
     (let svc = count_metric IncResolveRequests svc0; st = svc_store svc
      in case binding_error binding of
        Some e \<Rightarrow> (Inl e, svc)
      | None \<Rightarrow>
       (case GetRunLifecycle S st (b_RunID binding) of
          Inl e \<Rightarrow> (Inl (StoreFailed e), svc)
        | Inr lifecycle \<Rightarrow>
          if (case lifecycle of Some l \<Rightarrow> l_GCEligible l | None \<Rightarrow> False) then
            (Inr (refusal GC_EXPIRED DecUnavailable ''run is GC eligible'' False), svc)
          else
           (case GetArtifact S st (b_RunID binding) (b_ProducerNodeID binding)
                  (b_ProducerAttemptID binding) (b_ProducerOutputName binding) of
              Inl e \<Rightarrow> (Inl (StoreFailed e), svc)
            | Inr None \<Rightarrow>
               (case GetNodeTerminal S st (b_RunID binding) (b_ProducerNodeID binding)
                      (b_ProducerAttemptID binding) of
                  Inl e \<Rightarrow> (Inl (StoreFailed e), svc)
                | Inr terminal \<Rightarrow> (Inr (resolve_unregistered binding terminal), svc))
            | Inr (Some artifact) \<Rightarrow>
               (case digest_refusal binding artifact of
                  Some r \<Rightarrow> (Inr r, svc)
                | None \<Rightarrow>
                   (case ListArtifactSources S st (a_ArtifactID artifact) of
                      Inl e \<Rightarrow> (Inl (StoreFailed e), svc)
                    | Inr ss \<Rightarrow>
                       (let st' = (if 0 < length ss then st
                                   else WriteThrough S st artifact (filled_locations artifact));
                            eff = effectiveArtifactSources L artifact ss (now 0);
                            (r, fell_back) = resolve_registered L svc binding targetNodeName artifact eff;
                            svc' = with_store svc st'
                        in (Inr r, if fell_back then count_metric IncFallback svc' else svc')))))))"

section \<open>Terminals and the run lifecycle\<close>

definition NotifyNodeTerminalCore :: "'s store \<Rightarrow> golib \<Rightarrow> clock \<Rightarrow> 's Service \<Rightarrow> string \<Rightarrow> string \<Rightarrow>
    string \<Rightarrow> string \<Rightarrow> ('s, unit) outcome" where
  "NotifyNodeTerminalCore S L now svc runID nodeID attemptID terminalState =
     (if runID = [] \<or> nodeID = [] \<or> terminalState = [] then
        (Inl (FieldsRequired ''runID, nodeID, terminalState''), svc)
      else if attemptID = [] then (Inl (FieldsRequired ''attemptID''), svc)
      else case NodeAttemptKey_Validate L \<lparr>n_RunID = runID, n_NodeID = nodeID, n_AttemptID = attemptID\<rparr> of
        Some e \<Rightarrow> (Inl (KeyInvalid e), svc)
      | None \<Rightarrow>
          if terminalState \<noteq> ''Succeeded'' \<and> terminalState \<noteq> ''Failed'' \<and> terminalState \<noteq> ''Canceled'' then
            (Inl (UnsupportedTerminalState terminalState), svc)
          else (case RecordNodeTerminal S (svc_store svc)
              \<lparr>t_RunID = runID, t_NodeID = nodeID, t_AttemptID = attemptID,
               t_TerminalState = terminalState, t_RecordedAt = now 0\<rparr> of
             (Some e, st) \<Rightarrow> (Inl (StoreFailed e), with_store svc st)
           | (None, st) \<Rightarrow> (Inr (), with_store svc st)))"

definition retained_bytes :: "Artifact list \<Rightarrow> 64 word" where
  "retained_bytes as =
     foldl (\<lambda>acc a. if 0 <s a_SizeBytes a then acc + a_SizeBytes a else acc) 0 as"

definition terminal_count :: "string \<Rightarrow> NodeTerminalRecord list \<Rightarrow> int" where
  "terminal_count state ts = int (length (filter (\<lambda>t. t_TerminalState t = state) ts))"

definition snapshot :: "Artifact list \<Rightarrow> NodeTerminalRecord list \<Rightarrow> RunLifecycle \<Rightarrow> RunLifecycle" where
  "snapshot as ts l =
     l\<lparr>l_RetainedArtifactCount := int (length as), l_RetainedArtifactBytes := retained_bytes as,
       l_TerminalNodeCount := int (length ts), l_SucceededNodeCount := terminal_count ''Succeeded'' ts,
       l_FailedNodeCount := terminal_count ''Failed'' ts,
       l_CanceledNodeCount := terminal_count ''Canceled'' ts\<rparr>"

definition refreshLifecycleSnapshot :: "'s store \<Rightarrow> 's \<Rightarrow> RunLifecycle \<Rightarrow> service_error + RunLifecycle" where
  "refreshLifecycleSnapshot S st lifecycle =
     (case ListArtifactsByRun S st (l_RunID lifecycle) of
        Inl e \<Rightarrow> Inl (StoreFailed e)
      | Inr as \<Rightarrow>
          (case ListNodeTerminalsByRun S st (l_RunID lifecycle) of
             Inl e \<Rightarrow> Inl (StoreFailed e)
           | Inr ts \<Rightarrow> Inr (snapshot as ts lifecycle)))"

definition load_lifecycle :: "string \<Rightarrow> RunLifecycle option \<Rightarrow> RunLifecycle" where
  "load_lifecycle runID found =
     (case found of Some l \<Rightarrow> l | None \<Rightarrow> zero_lifecycle\<lparr>l_RunID := runID\<rparr>)"

definition finish_upsert :: "'s store \<Rightarrow> 's Service \<Rightarrow> RunLifecycle \<Rightarrow> ('s, unit) outcome" where
  "finish_upsert S svc l =
     (case UpsertRunLifecycle S (svc_store svc) l of
        (Some e, st) \<Rightarrow> (Inl (StoreFailed e), with_store svc st)
      | (None, st) \<Rightarrow> (Inr (), with_store svc st))"

definition finalize_lifecycle :: "time \<Rightarrow> string \<Rightarrow> duration \<Rightarrow> RunLifecycle \<Rightarrow> RunLifecycle" where
  "finalize_lifecycle now0 policySource retention l =
     l\<lparr>l_Finalized := True, l_FinalizedAt := Some now0,
       l_RetentionPolicySource := policySource, l_RetentionDuration := retention,
       l_RetentionUntil := Some (now0 + retention),
       l_GCEligible := False, l_GCEligibleAt := None, l_GCBlockedReason := ''gc_not_evaluated''\<rparr>"

text \<open>
  A finalized run is left as it is: a sample name given to a lifecycle that had none is then
  not written back.
\<close>

definition FinalizeRunCore :: "'s store \<Rightarrow> clock \<Rightarrow> 's Service \<Rightarrow> string \<Rightarrow> string \<Rightarrow> ('s, unit) outcome" where
  "FinalizeRunCore S now svc runID sampleRunID =
     (if runID = [] then (Inl (FieldsRequired ''runID''), svc)
      else case GetRunLifecycle S (svc_store svc) runID of
        Inl e \<Rightarrow> (Inl (StoreFailed e), svc)
      | Inr found \<Rightarrow>
         (let l0 = load_lifecycle runID found;
              l1 = (if l_SampleRunID l0 = [] then l0\<lparr>l_SampleRunID := sampleRunID\<rparr> else l0)
          in if l_Finalized l1 then (Inr (), svc)
             else case refreshLifecycleSnapshot S (svc_store svc) l1 of
               Inl e \<Rightarrow> (Inl e, svc)
             | Inr l2 \<Rightarrow>
                 finish_upsert S (count_metric (SetGCBacklogBytes 0) svc)
                   (finalize_lifecycle (now 0) (retentionPolicySource svc) (minRetention svc) l2)))"

definition gc_blocked :: "string \<Rightarrow> RunLifecycle \<Rightarrow> RunLifecycle" where
  "gc_blocked reason l = l\<lparr>l_GCEligible := False, l_GCEligibleAt := None, l_GCBlockedReason := reason\<rparr>"

definition evaluate_gc :: "clock \<Rightarrow> RunLifecycle \<Rightarrow> RunLifecycle" where
  "evaluate_gc now l =
     (if \<not> l_Finalized l then gc_blocked ''run_not_finalized'' l
      else if l_TerminalNodeCount l = 0 then gc_blocked ''terminal_nodes_missing'' l
      else if l_RetainedArtifactCount l = 0 then gc_blocked ''no_retained_artifacts'' l
      else if (case l_RetentionUntil l of Some u \<Rightarrow> now 0 < u | None \<Rightarrow> False) then
        gc_blocked ''retention_window_active'' l
      else l\<lparr>l_GCEligible := True, l_GCEligibleAt := Some (now 1), l_GCBlockedReason := []\<rparr>)"

definition estimateGCBacklogBytes :: "RunLifecycle \<Rightarrow> int" where
  "estimateGCBacklogBytes l =
     (if \<not> l_GCEligible l \<or> l_RetainedArtifactCount l = 0 then 0
      else if sint (l_RetainedArtifactBytes l) \<le> 0 then 0
      else sint (l_RetainedArtifactBytes l))"

text \<open>
  \<^verbatim>\<open>float64(n)\<close> of a non-negative int: rounded to 53 significant bits, ties to even.
\<close>

definition float64_of :: "int \<Rightarrow> int" where
  "float64_of n =
     (if n \<le> 2 ^ 53 then n
      else let e = floorlog 2 (nat n) - 53;
               q = n div 2 ^ e; r = n mod 2 ^ e; half = 2 ^ (e - 1)
           in (if r < half \<or> r = half \<and> even q then q else q + 1) * 2 ^ e)"

definition EvaluateRunGCCore :: "'s store \<Rightarrow> clock \<Rightarrow> 's Service \<Rightarrow> string \<Rightarrow> ('s, unit) outcome" where
  "EvaluateRunGCCore S now svc runID =
     (if runID = [] then (Inl (FieldsRequired ''runID''), svc)
      else case GetRunLifecycle S (svc_store svc) runID of
        Inl e \<Rightarrow> (Inl (StoreFailed e), svc)
      | Inr found \<Rightarrow>
         (case refreshLifecycleSnapshot S (svc_store svc) (load_lifecycle runID found) of
            Inl e \<Rightarrow> (Inl e, svc)
          | Inr l \<Rightarrow>
             (let l' = evaluate_gc now l
              in finish_upsert S (count_metric (SetGCBacklogBytes (float64_of (estimateGCBacklogBytes l'))) svc) l')))"

end
