(* ===== verification/Registry.thy ===== *)
theory Registry
  imports Service
begin

text \<open>
  What the resolver promises about its persistent state, as an abstract machine over four
  maps.  \<open>reg_step\<close> has one rule for every write the service makes; \<open>registry_ok\<close> is its
  invariant and \<open>grows\<close> what no sequence of steps takes back.  \<^verbatim>\<open>Service_Laws\<close> shows that
  every operation of the service is a sequence of these steps.
\<close>

record registry =
  reg_arts :: "string \<rightharpoonup> Artifact"
  reg_terms :: "string \<rightharpoonup> NodeTerminalRecord"
  reg_lifes :: "string \<rightharpoonup> RunLifecycle"
  reg_srcs :: "string \<rightharpoonup> ArtifactSource"

definition empty_registry :: registry where
  "empty_registry = \<lparr>reg_arts = Map.empty, reg_terms = Map.empty, reg_lifes = Map.empty,
     reg_srcs = Map.empty\<rparr>"

section \<open>The invariant\<close>

definition artifact_ok :: "golib \<Rightarrow> Artifact \<Rightarrow> bool" where
  "artifact_ok L a \<longleftrightarrow>
     ArtifactKey_Validate L
       \<lparr>k_RunID = a_RunID a, k_ProducerNodeID = a_ProducerNodeID a,
        k_ProducerAttemptID = a_ProducerAttemptID a, k_OutputName = a_OutputName a\<rparr> = None \<and>
     a_ProducerNodeID a \<noteq> [] \<and> a_ProducerAttemptID a \<noteq> [] \<and> a_OutputName a \<noteq> [] \<and>
     a_ArtifactID a = CanonicalID a"

definition terminal_ok :: "golib \<Rightarrow> NodeTerminalRecord \<Rightarrow> bool" where
  "terminal_ok L t \<longleftrightarrow>
     NodeAttemptKey_Validate L
       \<lparr>n_RunID = t_RunID t, n_NodeID = t_NodeID t, n_AttemptID = t_AttemptID t\<rparr> = None \<and>
     t_NodeID t \<noteq> [] \<and> t_AttemptID t \<noteq> [] \<and>
     t_TerminalState t \<in> {''Succeeded'', ''Failed'', ''Canceled''}"

text \<open>A source belongs to a stored artifact and carries its digest, which is not blank.\<close>

definition source_ok_in :: "(string \<rightharpoonup> Artifact) \<Rightarrow> ArtifactSource \<Rightarrow> bool" where
  "source_ok_in A s \<longleftrightarrow> s_SourceID s \<noteq> [] \<and>
     (\<exists>a. A (s_ArtifactID s) = Some a \<and> s_Digest s = a_Digest a \<and> TrimSpace (a_Digest a) \<noteq> [])"

text \<open>
  A finalized run has a retention window; an eligible run is finalized, had terminal nodes and
  retained artifacts when it was judged, and every other run says why it is blocked.
\<close>

definition lifecycle_ok :: "RunLifecycle \<Rightarrow> bool" where
  "lifecycle_ok l \<longleftrightarrow>
     TrimSpace (l_RunID l) \<noteq> [] \<and>
     (l_Finalized l \<longrightarrow> (\<exists>t. l_FinalizedAt l = Some t \<and>
        l_RetentionUntil l = Some (t + l_RetentionDuration l))) \<and>
     (\<not> l_Finalized l \<longrightarrow> l_FinalizedAt l = None \<and> l_RetentionUntil l = None) \<and>
     (if l_GCEligible l
      then l_Finalized l \<and> 0 < l_TerminalNodeCount l \<and> 0 < l_RetainedArtifactCount l \<and>
           l_GCEligibleAt l \<noteq> None \<and> l_GCBlockedReason l = []
      else l_GCEligibleAt l = None \<and> l_GCBlockedReason l \<noteq> []) \<and>
     l_TerminalNodeCount l = l_SucceededNodeCount l + l_FailedNodeCount l + l_CanceledNodeCount l"

definition registry_ok :: "golib \<Rightarrow> registry \<Rightarrow> bool" where
  "registry_ok L R \<longleftrightarrow>
     (\<forall>k a. reg_arts R k = Some a \<longrightarrow> Artifact_Key a = k \<and> artifact_ok L a) \<and>
     (\<forall>k t. reg_terms R k = Some t \<longrightarrow> record_key t = k \<and> terminal_ok L t) \<and>
     (\<forall>k l. reg_lifes R k = Some l \<longrightarrow> l_RunID l = k \<and> lifecycle_ok l) \<and>
     (\<forall>k s. reg_srcs R k = Some s \<longrightarrow> s_SourceID s = k \<and> source_ok_in (reg_arts R) s)"

lemma registry_okD:
  assumes "registry_ok L R"
  shows "reg_arts R k = Some a \<Longrightarrow> Artifact_Key a = k \<and> artifact_ok L a"
    "reg_terms R k = Some t \<Longrightarrow> record_key t = k \<and> terminal_ok L t"
    "reg_lifes R k = Some l \<Longrightarrow> l_RunID l = k \<and> lifecycle_ok l"
    "reg_srcs R k = Some s \<Longrightarrow> s_SourceID s = k \<and> source_ok_in (reg_arts R) s"
  using assms unfolding registry_ok_def by blast+

lemma empty_registry_ok [simp]: "registry_ok L empty_registry"
  by (simp add: registry_ok_def empty_registry_def)

section \<open>Steps\<close>

text \<open>The artifacts and terminals of one run, as some list of them.\<close>

definition run_artifacts :: "registry \<Rightarrow> string \<Rightarrow> Artifact list \<Rightarrow> bool" where
  "run_artifacts R r xs \<longleftrightarrow> distinct xs \<and> set xs = {a \<in> ran (reg_arts R). a_RunID a = r}"

definition run_terminals :: "registry \<Rightarrow> string \<Rightarrow> NodeTerminalRecord list \<Rightarrow> bool" where
  "run_terminals R r ts \<longleftrightarrow> distinct ts \<and> set ts = {t \<in> ran (reg_terms R). t_RunID t = r}"

text \<open>
  A location may gain a missing node name, the one its artifact has; its path, its HTTP part and
  every other location stay.
\<close>

definition location_filled :: "string \<Rightarrow> Location \<Rightarrow> Location \<Rightarrow> bool" where
  "location_filled n l l' \<longleftrightarrow> l' = l \<or>
     (\<exists>p. NodeLocal l = Some \<lparr>nl_NodeName = [], nl_Path = p\<rparr> \<and>
        l' = l\<lparr>NodeLocal := Some \<lparr>nl_NodeName = n, nl_Path = p\<rparr>\<rparr>)"

definition locations_filled :: "string \<Rightarrow> Location list \<Rightarrow> Location list \<Rightarrow> bool" where
  "locations_filled n = list_all2 (location_filled n)"

lemma location_filled_trans: "location_filled n l l' \<Longrightarrow> location_filled n l' l'' \<Longrightarrow> location_filled n l l''"
  by (auto simp: location_filled_def)

lemma locations_filled_refl [simp]: "locations_filled n ls ls"
  by (simp add: locations_filled_def location_filled_def list.rel_refl)

lemma locations_filled_trans:
  "locations_filled n ls ls' \<Longrightarrow> locations_filled n ls' ls'' \<Longrightarrow> locations_filled n ls ls''"
  unfolding locations_filled_def by (erule (1) list_all2_trans [rotated]) (rule location_filled_trans)

lemma filled_locations_filled: "locations_filled (a_NodeName a) (a_Locations a) (filled_locations a)"
proof -
  have "location_filled (a_NodeName a) l (fill_node a l)" for l
  proof (cases "NodeLocal l")
    case (Some nl)
    then show ?thesis by (cases nl) (auto simp: fill_node_def location_filled_def)
  qed (simp add: fill_node_def location_filled_def)
  then show ?thesis by (simp add: locations_filled_def filled_locations_def list_all2_conv_all_nth)
qed

inductive reg_step :: "golib \<Rightarrow> string \<Rightarrow> registry \<Rightarrow> registry \<Rightarrow> bool"
  for L :: golib and r :: string and R :: registry where
  store_artifact:
    "artifact_ok L a \<Longrightarrow> a_RunID a = r \<Longrightarrow>
     (\<And>old. reg_arts R (Artifact_Key a) = Some old \<Longrightarrow> a_Digest old = []) \<Longrightarrow>
       reg_step L r R (R\<lparr>reg_arts := (reg_arts R)(Artifact_Key a \<mapsto> a)\<rparr>)"
| fill_locations:
    "reg_arts R k = Some a \<Longrightarrow> a_RunID a = r \<Longrightarrow> locations_filled (a_NodeName a) (a_Locations a) ls \<Longrightarrow>
       reg_step L r R (R\<lparr>reg_arts := (reg_arts R)(k \<mapsto> a\<lparr>a_Locations := ls\<rparr>)\<rparr>)"
| put_source:
    "source_ok_in (reg_arts R) s \<Longrightarrow> reg_arts R (s_ArtifactID s) = Some a \<Longrightarrow> a_RunID a = r \<Longrightarrow>
     (\<And>old. reg_srcs R (s_SourceID s) = Some old \<Longrightarrow> s_ArtifactID old = s_ArtifactID s) \<Longrightarrow>
       reg_step L r R (R\<lparr>reg_srcs := (reg_srcs R)(s_SourceID s \<mapsto> s)\<rparr>)"
| put_terminal:
    "terminal_ok L t \<Longrightarrow> t_RunID t = r \<Longrightarrow> reg_terms R (record_key t) = None \<Longrightarrow>
       reg_step L r R (R\<lparr>reg_terms := (reg_terms R)(record_key t \<mapsto> t)\<rparr>)"
| finalize_run:
    "TrimSpace r \<noteq> [] \<Longrightarrow> l0 = load_lifecycle r (reg_lifes R r) \<Longrightarrow> \<not> l_Finalized l0 \<Longrightarrow>
     run_artifacts R r xs \<Longrightarrow> run_terminals R r ts \<Longrightarrow>
     l1 = (if l_SampleRunID l0 = [] then l0\<lparr>l_SampleRunID := sample\<rparr> else l0) \<Longrightarrow>
       reg_step L r R (R\<lparr>reg_lifes := (reg_lifes R)(r \<mapsto> finalize_lifecycle t0 src d (snapshot xs ts l1))\<rparr>)"
| evaluate_run:
    "TrimSpace r \<noteq> [] \<Longrightarrow> run_artifacts R r xs \<Longrightarrow> run_terminals R r ts \<Longrightarrow>
       reg_step L r R (R\<lparr>reg_lifes := (reg_lifes R)(r \<mapsto>
         evaluate_gc now (snapshot xs ts (load_lifecycle r (reg_lifes R r))))\<rparr>)"

text \<open>\<open>reg_steps L r\<close>: steps of run \<open>r\<close>; \<open>reg_runs L\<close>: steps of any runs.\<close>

abbreviation reg_steps :: "golib \<Rightarrow> string \<Rightarrow> registry \<Rightarrow> registry \<Rightarrow> bool" where
  "reg_steps L r \<equiv> (reg_step L r)\<^sup>*\<^sup>*"

abbreviation reg_runs :: "golib \<Rightarrow> registry \<Rightarrow> registry \<Rightarrow> bool" where
  "reg_runs L \<equiv> (\<lambda>R R'. \<exists>r. reg_step L r R R')\<^sup>*\<^sup>*"

lemma reg_steps_runs: "reg_steps L r R R' \<Longrightarrow> reg_runs L R R'"
  by (induction rule: rtranclp_induct) (auto intro: rtranclp.rtrancl_into_rtrancl)

section \<open>The invariant is kept\<close>

lemma source_ok_in_mono:
  assumes "source_ok_in A s"
    and "\<And>a. A (s_ArtifactID s) = Some a \<Longrightarrow> a_Digest a \<noteq> [] \<Longrightarrow>
       \<exists>a'. A' (s_ArtifactID s) = Some a' \<and> a_Digest a' = a_Digest a"
  shows "source_ok_in A' s"
proof -
  from assms(1) obtain a where a: "A (s_ArtifactID s) = Some a" "s_Digest s = a_Digest a"
    "TrimSpace (a_Digest a) \<noteq> []" "s_SourceID s \<noteq> []"
    by (auto simp: source_ok_in_def)
  then have "a_Digest a \<noteq> []" by auto
  with assms(2) [OF a(1)] a show ?thesis by (auto simp: source_ok_in_def)
qed

lemma terminal_count_sum:
  assumes "\<forall>t \<in> set ts. t_TerminalState t \<in> {''Succeeded'', ''Failed'', ''Canceled''}"
  shows "int (length ts) =
     terminal_count ''Succeeded'' ts + terminal_count ''Failed'' ts + terminal_count ''Canceled'' ts"
  using assms by (induction ts) (auto simp: terminal_count_def)

lemma run_terminals_states:
  assumes "registry_ok L R" and "run_terminals R r ts"
  shows "\<forall>t \<in> set ts. t_TerminalState t \<in> {''Succeeded'', ''Failed'', ''Canceled''}"
  using assms by (auto simp: run_terminals_def ran_def terminal_ok_def dest: registry_okD(2))

text \<open>Only the part of a lifecycle that neither a snapshot nor a judgement touches matters.\<close>

definition window_ok :: "RunLifecycle \<Rightarrow> bool" where
  "window_ok l \<longleftrightarrow> TrimSpace (l_RunID l) \<noteq> [] \<and>
     (l_Finalized l \<longrightarrow> (\<exists>t. l_FinalizedAt l = Some t \<and>
        l_RetentionUntil l = Some (t + l_RetentionDuration l))) \<and>
     (\<not> l_Finalized l \<longrightarrow> l_FinalizedAt l = None \<and> l_RetentionUntil l = None)"

lemma window_ok_load:
  "registry_ok L R \<Longrightarrow> TrimSpace r \<noteq> [] \<Longrightarrow> window_ok (load_lifecycle r (reg_lifes R r))"
  by (auto simp: load_lifecycle_def window_ok_def lifecycle_ok_def zero_lifecycle_def
      dest: registry_okD(3) split: option.splits)

lemma evaluate_gc_ok:
  assumes "registry_ok L R" and "run_terminals R r ts" and "window_ok l"
  shows "lifecycle_ok (evaluate_gc now (snapshot xs ts l))"
  using terminal_count_sum [OF run_terminals_states [OF assms(1,2)]] assms(3)
  by (auto simp: lifecycle_ok_def window_ok_def evaluate_gc_def gc_blocked_def snapshot_def)

lemma finalize_lifecycle_ok:
  assumes "registry_ok L R" and "run_terminals R r ts" and "TrimSpace (l_RunID l) \<noteq> []"
  shows "lifecycle_ok (finalize_lifecycle t0 src d (snapshot xs ts l))"
  using terminal_count_sum [OF run_terminals_states [OF assms(1,2)]] assms(3)
  by (auto simp: lifecycle_ok_def finalize_lifecycle_def snapshot_def)

lemma lifecycle_frame [simp]:
  "l_RunID (snapshot xs ts l) = l_RunID l" "l_RunID (evaluate_gc now l) = l_RunID l"
  "l_RunID (finalize_lifecycle t0 src d l) = l_RunID l"
  by (auto simp: snapshot_def evaluate_gc_def gc_blocked_def finalize_lifecycle_def)

lemma lifecycle_update_ok:
  assumes "registry_ok L R" and "lifecycle_ok l" and "l_RunID l = r"
  shows "registry_ok L (R\<lparr>reg_lifes := (reg_lifes R)(r \<mapsto> l)\<rparr>)"
  using assms by (auto simp: registry_ok_def)

lemma load_run_id: "registry_ok L R \<Longrightarrow> l_RunID (load_lifecycle r (reg_lifes R r)) = r"
  by (auto simp: load_lifecycle_def zero_lifecycle_def dest: registry_okD(3) split: option.splits)

lemma artifact_update_ok:
  assumes "registry_ok L R" and "artifact_ok L a" and "Artifact_Key a = k"
    and "\<And>old. reg_arts R k = Some old \<Longrightarrow> a_Digest old \<noteq> [] \<Longrightarrow> a_Digest a = a_Digest old"
  shows "registry_ok L (R\<lparr>reg_arts := (reg_arts R)(k \<mapsto> a)\<rparr>)"
proof -
  have "source_ok_in ((reg_arts R)(k \<mapsto> a)) s" if "reg_srcs R sid = Some s" for sid s
    using assms(4)
    by (intro source_ok_in_mono [OF conjunct2 [OF registry_okD(4) [OF assms(1) that]]]) auto
  then show ?thesis using assms(1-3) by (auto simp: registry_ok_def)
qed

lemma reg_step_ok: "reg_step L r R R' \<Longrightarrow> registry_ok L R \<Longrightarrow> registry_ok L R'"
proof (induction rule: reg_step.induct)
  case (store_artifact a)
  then show ?case by (intro artifact_update_ok) auto
next
  case (fill_locations k a ls)
  with registry_okD(1) [of L R k a] show ?case
    by (intro artifact_update_ok) (auto simp: artifact_ok_def Artifact_Key_def CanonicalID_def)
next
  case (put_source s a)
  then show ?case by (auto simp: registry_ok_def)
next
  case (put_terminal t)
  then show ?case by (auto simp: registry_ok_def)
next
  case (finalize_run l0 xs ts l1 sample t0 src d)
  then have "l_RunID l1 = r" by (auto simp: load_run_id)
  with finalize_run show ?case by (intro lifecycle_update_ok finalize_lifecycle_ok) auto
next
  case (evaluate_run xs ts now)
  then show ?case
    by (intro lifecycle_update_ok evaluate_gc_ok window_ok_load)
      (auto simp: load_run_id)
qed

lemma reg_runs_ok: "reg_runs L R R' \<Longrightarrow> registry_ok L R \<Longrightarrow> registry_ok L R'"
  by (induction rule: rtranclp_induct) (auto intro: reg_step_ok)

section \<open>What is never taken back\<close>

text \<open>
  A digest once set, a terminal record, the artifact a source belongs to, and the
  finalization of a run with its retention window.
\<close>

definition artifact_grows :: "Artifact \<Rightarrow> Artifact \<Rightarrow> bool" where
  "artifact_grows a a' \<longleftrightarrow> same_identity a a' \<and>
     (a_Digest a \<noteq> [] \<longrightarrow> a' = a\<lparr>a_Locations := a_Locations a'\<rparr> \<and>
        locations_filled (a_NodeName a) (a_Locations a) (a_Locations a'))"

definition lifecycle_grows :: "RunLifecycle \<Rightarrow> RunLifecycle \<Rightarrow> bool" where
  "lifecycle_grows l l' \<longleftrightarrow>
     (l_Finalized l \<longrightarrow> l_Finalized l' \<and> l_FinalizedAt l' = l_FinalizedAt l \<and>
        l_RetentionUntil l' = l_RetentionUntil l \<and> l_RetentionDuration l' = l_RetentionDuration l \<and>
        l_RetentionPolicySource l' = l_RetentionPolicySource l \<and> l_SampleRunID l' = l_SampleRunID l)"

definition kept :: "('a \<Rightarrow> 'a \<Rightarrow> bool) \<Rightarrow> (string \<rightharpoonup> 'a) \<Rightarrow> (string \<rightharpoonup> 'a) \<Rightarrow> bool" where
  "kept rel m m' \<longleftrightarrow> (\<forall>k x. m k = Some x \<longrightarrow> (\<exists>x'. m' k = Some x' \<and> rel x x'))"

definition grows :: "registry \<Rightarrow> registry \<Rightarrow> bool" where
  "grows R R' \<longleftrightarrow>
     kept artifact_grows (reg_arts R) (reg_arts R') \<and>
     kept (=) (reg_terms R) (reg_terms R') \<and>
     kept lifecycle_grows (reg_lifes R) (reg_lifes R') \<and>
     kept (\<lambda>s s'. s_ArtifactID s' = s_ArtifactID s \<and> s_Digest s' = s_Digest s) (reg_srcs R) (reg_srcs R')"

lemma kept_refl: "(\<And>x. rel x x) \<Longrightarrow> kept rel m m"
  by (auto simp: kept_def)

lemma kept_trans:
  "kept rel m m' \<Longrightarrow> kept rel m' m'' \<Longrightarrow> (\<And>x y z. rel x y \<Longrightarrow> rel y z \<Longrightarrow> rel x z) \<Longrightarrow> kept rel m m''"
  unfolding kept_def by metis

lemma kept_update:
  "(\<And>x. rel x x) \<Longrightarrow> (\<And>old. m k = Some old \<Longrightarrow> rel old v) \<Longrightarrow> kept rel m (m(k \<mapsto> v))"
  by (auto simp: kept_def)

lemma artifact_grows_refl [simp]: "artifact_grows a a"
  by (simp add: artifact_grows_def same_identity_def)

lemma artifact_grows_trans: "artifact_grows a b \<Longrightarrow> artifact_grows b c \<Longrightarrow> artifact_grows a c"
  unfolding artifact_grows_def same_identity_def
  by (cases a; cases b; cases c) (auto intro: locations_filled_trans)

lemma artifact_grows_digest: "artifact_grows a a' \<Longrightarrow> a_Digest a \<noteq> [] \<Longrightarrow> a_Digest a' = a_Digest a"
  unfolding artifact_grows_def by (cases a; cases a') auto

lemma lifecycle_grows_refl [simp]: "lifecycle_grows l l"
  by (simp add: lifecycle_grows_def)

lemma grows_refl [simp]: "grows R R"
  by (simp add: grows_def kept_refl)

lemma grows_trans: "grows R R' \<Longrightarrow> grows R' R'' \<Longrightarrow> grows R R''"
  unfolding grows_def
  by (elim conjE, intro conjI; erule (1) kept_trans)
    (auto intro: artifact_grows_trans simp: lifecycle_grows_def)

lemma Artifact_Key_identity:
  assumes "artifact_ok L a" and "artifact_ok L a'" and "Artifact_Key a' = Artifact_Key a"
  shows "same_identity a a'"
  using assms
    ArtifactKey_String_inj [of "\<lparr>k_RunID = a_RunID a, k_ProducerNodeID = a_ProducerNodeID a,
        k_ProducerAttemptID = a_ProducerAttemptID a, k_OutputName = a_OutputName a\<rparr>"
      "\<lparr>k_RunID = a_RunID a', k_ProducerNodeID = a_ProducerNodeID a',
        k_ProducerAttemptID = a_ProducerAttemptID a', k_OutputName = a_OutputName a'\<rparr>"]
  by (simp add: artifact_ok_def ArtifactKey_Validate_None Artifact_Key_def CanonicalID_def
      same_identity_def)

lemma lifecycle_grows_evaluate:
  "reg_lifes R r = Some l \<Longrightarrow>
     lifecycle_grows l (evaluate_gc now (snapshot xs ts (load_lifecycle r (reg_lifes R r))))"
  by (auto simp: lifecycle_grows_def evaluate_gc_def gc_blocked_def snapshot_def load_lifecycle_def)

lemma reg_step_grows: "reg_step L r R R' \<Longrightarrow> registry_ok L R \<Longrightarrow> grows R R'"
proof (induction rule: reg_step.induct)
  case (store_artifact a)
  have "artifact_grows old a" if "reg_arts R (Artifact_Key a) = Some old" for old
    using store_artifact that registry_okD(1) [OF store_artifact.prems that]
    by (auto simp: artifact_grows_def intro: Artifact_Key_identity)
  then show ?case by (auto simp: grows_def intro!: kept_refl kept_update)
next
  case (fill_locations k a ls)
  then have "artifact_grows old (a\<lparr>a_Locations := ls\<rparr>)" if "reg_arts R k = Some old" for old
    using that by (auto simp: artifact_grows_def same_identity_def)
  then show ?case by (auto simp: grows_def intro!: kept_refl kept_update)
next
  case (put_source s a)
  have "s_ArtifactID old = s_ArtifactID s \<and> s_Digest old = s_Digest s"
    if old: "reg_srcs R (s_SourceID s) = Some old" for old
  proof -
    have "s_ArtifactID old = s_ArtifactID s" by (rule put_source.hyps(4) [OF old])
    then show ?thesis
      using put_source.hyps(1) registry_okD(4) [OF put_source.prems old] by (auto simp: source_ok_in_def)
  qed
  then show ?case by (auto simp: grows_def intro!: kept_refl kept_update)
next
  case (put_terminal t)
  then show ?case by (auto simp: grows_def intro!: kept_refl kept_update)
next
  case (finalize_run l0 xs ts l1 sample t0 src d)
  then have "lifecycle_grows old l'" if "reg_lifes R r = Some old" for old l'
    using that by (auto simp: lifecycle_grows_def load_lifecycle_def)
  then show ?case by (auto simp: grows_def intro!: kept_refl kept_update)
next
  case (evaluate_run xs ts now)
  then show ?case
    by (auto simp: grows_def intro!: kept_refl kept_update lifecycle_grows_evaluate)
qed

lemma reg_runs_grows: "reg_runs L R R' \<Longrightarrow> registry_ok L R \<Longrightarrow> grows R R'"
proof (induction rule: rtranclp_induct)
  case (step R' R'')
  then show ?case using reg_runs_ok reg_step_grows grows_trans by blast
qed simp

lemma growsD:
  assumes "grows R R'"
  shows "reg_arts R k = Some a \<Longrightarrow> \<exists>a'. reg_arts R' k = Some a' \<and> artifact_grows a a'"
    "reg_terms R k = Some t \<Longrightarrow> reg_terms R' k = Some t"
    "reg_lifes R k = Some l \<Longrightarrow> \<exists>l'. reg_lifes R' k = Some l' \<and> lifecycle_grows l l'"
    "reg_srcs R k = Some s \<Longrightarrow>
       \<exists>s'. reg_srcs R' k = Some s' \<and> s_ArtifactID s' = s_ArtifactID s \<and> s_Digest s' = s_Digest s"
  using assms by (auto simp: grows_def kept_def)

lemmas reg_steps_ok = reg_runs_ok [OF reg_steps_runs]
  and reg_steps_grows = reg_runs_grows [OF reg_steps_runs]

text \<open>There is no step of a blank run.\<close>

lemma reg_step_run: "reg_step L r R R' \<Longrightarrow> registry_ok L R \<Longrightarrow> TrimSpace r \<noteq> []"
proof (induction rule: reg_step.induct)
  case (fill_locations k a ls)
  then show ?case using registry_okD(1) [of L R k a]
    by (auto simp: artifact_ok_def ArtifactKey_Validate_None)
next
  case (put_source s a)
  then show ?case using registry_okD(1) [of L R "s_ArtifactID s" a]
    by (auto simp: artifact_ok_def ArtifactKey_Validate_None)
qed (auto simp: artifact_ok_def terminal_ok_def ArtifactKey_Validate_None NodeAttemptKey_Validate_None)

lemma reg_steps_blank: "reg_steps L r R R' \<Longrightarrow> registry_ok L R \<Longrightarrow> TrimSpace r = [] \<Longrightarrow> R' = R"
  by (induction rule: converse_rtranclp_induct) (auto dest: reg_step_run)

section \<open>Runs are isolated\<close>

text \<open>What the registry holds for one run: its artifacts, their sources, its terminals, its lifecycle.\<close>

definition slice :: "registry \<Rightarrow> string \<Rightarrow> registry" where
  "slice R r =
     \<lparr>reg_arts = (\<lambda>k. case reg_arts R k of Some a \<Rightarrow> if a_RunID a = r then Some a else None | None \<Rightarrow> None),
      reg_terms = (\<lambda>k. case reg_terms R k of Some t \<Rightarrow> if t_RunID t = r then Some t else None | None \<Rightarrow> None),
      reg_lifes = (reg_lifes R) |` {r},
      reg_srcs = (\<lambda>k. case reg_srcs R k of
          Some s \<Rightarrow> (case reg_arts R (s_ArtifactID s) of
             Some a \<Rightarrow> if a_RunID a = r then Some s else None | None \<Rightarrow> None)
        | None \<Rightarrow> None)\<rparr>"

lemma slice_artifact:
  assumes "\<And>old. reg_arts R k = Some old \<Longrightarrow> a_RunID old \<noteq> r'" and "a_RunID a \<noteq> r'"
  shows "slice (R\<lparr>reg_arts := (reg_arts R)(k \<mapsto> a)\<rparr>) r' = slice R r'"
  using assms by (auto simp: slice_def fun_eq_iff split: option.splits)

lemma slice_source:
  assumes "reg_arts R (s_ArtifactID s) = Some a" and "a_RunID a \<noteq> r'"
    and "\<And>old. reg_srcs R (s_SourceID s) = Some old \<Longrightarrow> s_ArtifactID old = s_ArtifactID s"
  shows "slice (R\<lparr>reg_srcs := (reg_srcs R)(s_SourceID s \<mapsto> s)\<rparr>) r' = slice R r'"
  using assms by (auto simp: slice_def fun_eq_iff split: option.splits)

lemma slice_lifecycle: "r' \<noteq> r \<Longrightarrow> slice (R\<lparr>reg_lifes := (reg_lifes R)(r \<mapsto> l)\<rparr>) r' = slice R r'"
  by (auto simp: slice_def fun_eq_iff split: option.splits)

lemma reg_step_slice: "reg_step L r R R' \<Longrightarrow> registry_ok L R \<Longrightarrow> r' \<noteq> r \<Longrightarrow> slice R' r' = slice R r'"
proof (induction rule: reg_step.induct)
  case (store_artifact a)
  have "a_RunID old \<noteq> r'" if "reg_arts R (Artifact_Key a) = Some old" for old
  proof -
    have "same_identity old a"
      by (rule Artifact_Key_identity [OF _ store_artifact.hyps(1)])
        (simp_all add: registry_okD(1) [OF store_artifact.prems(1) that])
    then show ?thesis using store_artifact.hyps(2) store_artifact.prems(2) by (simp add: same_identity_def)
  qed
  then show ?case using store_artifact.hyps(2) store_artifact.prems(2) by (intro slice_artifact) auto
next
  case (fill_locations k a ls)
  then show ?case by (intro slice_artifact) auto
next
  case (put_source s a)
  then show ?case by (intro slice_source [OF put_source.hyps(2) _ put_source.hyps(4)]) simp
next
  case (put_terminal t)
  then show ?case by (auto simp: slice_def fun_eq_iff split: option.splits)
qed (auto intro: slice_lifecycle)

lemma reg_steps_slice: "reg_steps L r R R' \<Longrightarrow> registry_ok L R \<Longrightarrow> r' \<noteq> r \<Longrightarrow> slice R' r' = slice R r'"
proof (induction rule: rtranclp_induct)
  case (step R' R'')
  then show ?case using reg_steps_ok reg_step_slice by metis
qed simp

end
