(* ===== verification/Memory_Store.thy ===== *)
theory Memory_Store
  imports Store
begin

text \<open>
  \<^verbatim>\<open>pkg/inventory/memory.go\<close>: the in-memory backend.  Its five maps are association lists;
  every method runs under the store's mutex, so each is one atomic function on the state.
  Loops over a map visit it in the order \<open>map_order\<close>.  The interpretation at the end shows
  that the backend meets the contract \<open>run_store\<close>, whatever that order is.
\<close>

record MemoryStore =
  artifacts :: "Artifact gomap"
  sources :: "ArtifactSource gomap"
  sourcesByArtifactID :: "(string list) gomap"
  nodeTerminals :: "NodeTerminalRecord gomap"
  runLifecycles :: "RunLifecycle gomap"

definition NewMemoryStore :: MemoryStore where
  "NewMemoryStore =
     \<lparr>artifacts = [], sources = [], sourcesByArtifactID = [], nodeTerminals = [], runLifecycles = []\<rparr>"

section \<open>Operations\<close>

definition mem_PutArtifact :: "MemoryStore \<Rightarrow> Artifact \<Rightarrow> store_error option \<times> MemoryStore" where
  "mem_PutArtifact s artifact =
     (if TrimSpace (a_RunID artifact) = [] then (Some (StoreRunIDRequired ''put artifact''), s)
      else case map_of (artifacts s) (Artifact_Key artifact) of
        Some existing \<Rightarrow>
          if a_Digest existing \<noteq> [] then
            if a_Digest artifact = [] then
              (Some (DigestClearRefused (Artifact_Key artifact) (a_Digest existing)), s)
            else if a_Digest existing \<noteq> a_Digest artifact then
              (Some (DigestConflict (Artifact_Key artifact) (a_Digest existing) (a_Digest artifact)), s)
            else (None, s)
          else (None, s\<lparr>artifacts := AList.update (Artifact_Key artifact) artifact (artifacts s)\<rparr>)
      | None \<Rightarrow> (None, s\<lparr>artifacts := AList.update (Artifact_Key artifact) artifact (artifacts s)\<rparr>))"

definition mem_GetArtifact :: "MemoryStore \<Rightarrow> string \<Rightarrow> string \<Rightarrow> string \<Rightarrow> string \<Rightarrow>
    store_error + Artifact option" where
  "mem_GetArtifact s runID producerNodeID attemptID outputName =
     Inr (map_of (artifacts s) (ArtifactKey_String
       \<lparr>k_RunID = runID, k_ProducerNodeID = producerNodeID, k_ProducerAttemptID = attemptID,
        k_OutputName = outputName\<rparr>))"

definition mem_GetArtifactByID :: "golib \<Rightarrow> MemoryStore \<Rightarrow> string \<Rightarrow> store_error + Artifact option" where
  "mem_GetArtifactByID L s artifactID =
     Inr (find (\<lambda>a. a_ArtifactID a = artifactID) (range_map (map_order L) (artifacts s)))"

definition mem_ListArtifactsByRun :: "golib \<Rightarrow> MemoryStore \<Rightarrow> string \<Rightarrow> store_error + Artifact list" where
  "mem_ListArtifactsByRun L s runID =
     Inr (filter (\<lambda>a. a_RunID a = runID) (range_map (map_order L) (artifacts s)))"

definition mem_ListArtifactsBySampleRun :: "golib \<Rightarrow> MemoryStore \<Rightarrow> string \<Rightarrow> store_error + Artifact list" where
  "mem_ListArtifactsBySampleRun L s sampleRunID =
     Inr (filter (\<lambda>a. a_SampleRunID a = sampleRunID) (range_map (map_order L) (artifacts s)))"

text \<open>The index entry of an artifact; a missing entry reads as the nil slice.\<close>

definition index_of :: "MemoryStore \<Rightarrow> string \<Rightarrow> string list" where
  "index_of s artifactID =
     (case map_of (sourcesByArtifactID s) artifactID of Some ids \<Rightarrow> ids | None \<Rightarrow> [])"

definition own_source :: "string \<Rightarrow> ArtifactSource \<Rightarrow> ArtifactSource" where
  "own_source artifactID source =
     (if s_ArtifactID source = [] then source\<lparr>s_ArtifactID := artifactID\<rparr> else source)"

fun containsString :: "string list \<Rightarrow> string \<Rightarrow> bool" where
  "containsString [] want = False"
| "containsString (v # vs) want = (v = want \<or> containsString vs want)"

definition ownership_conflict :: "MemoryStore \<Rightarrow> string \<Rightarrow> ArtifactSource \<Rightarrow> store_error option" where
  "ownership_conflict s artifactID source0 =
     (let source = own_source artifactID source0
      in case map_of (sources s) (s_SourceID source) of
           Some existing \<Rightarrow>
             if s_SourceID source \<noteq> [] \<and> s_ArtifactID existing \<noteq> s_ArtifactID source
             then Some (SourceOwnershipConflict (s_SourceID source) (s_ArtifactID source))
             else None
         | None \<Rightarrow> None)"

definition write_source :: "string \<Rightarrow> MemoryStore \<Rightarrow> ArtifactSource \<Rightarrow> MemoryStore" where
  "write_source artifactID s source0 =
     (let source = own_source artifactID source0
      in if s_SourceID source = [] then s
         else let s1 = s\<lparr>sources := AList.update (s_SourceID source) source (sources s)\<rparr>
              in if containsString (index_of s1 artifactID) (s_SourceID source) then s1
                 else s1\<lparr>sourcesByArtifactID := AList.update artifactID
                        (index_of s1 artifactID @ [s_SourceID source]) (sourcesByArtifactID s1)\<rparr>)"

definition mem_PutArtifactSources :: "MemoryStore \<Rightarrow> string \<Rightarrow> ArtifactSource list \<Rightarrow>
    store_error option \<times> MemoryStore" where
  "mem_PutArtifactSources s artifactID ss =
     (case first_error (ownership_conflict s artifactID) ss of
        Some e \<Rightarrow> (Some e, s)
      | None \<Rightarrow> (None, foldl (write_source artifactID) s ss))"

definition liveArtifactLocked :: "golib \<Rightarrow> MemoryStore \<Rightarrow> string \<Rightarrow> bool" where
  "liveArtifactLocked L s artifactID =
     list_ex (\<lambda>a. a_ArtifactID a = artifactID \<and> TrimSpace (a_RunID a) \<noteq> [])
       (range_map (map_order L) (artifacts s))"

definition mem_ListArtifactSources :: "golib \<Rightarrow> MemoryStore \<Rightarrow> string \<Rightarrow> store_error + ArtifactSource list" where
  "mem_ListArtifactSources L s artifactID =
     (if \<not> liveArtifactLocked L s artifactID then Inr []
      else Inr (List.map_filter (map_of (sources s)) (index_of s artifactID)))"

definition mem_GetArtifactSource :: "golib \<Rightarrow> MemoryStore \<Rightarrow> string \<Rightarrow> store_error + ArtifactSource option" where
  "mem_GetArtifactSource L s sourceID =
     (case map_of (sources s) sourceID of
        None \<Rightarrow> Inr None
      | Some source \<Rightarrow>
          if liveArtifactLocked L s (s_ArtifactID source) then Inr (Some source) else Inr None)"

definition mem_ListNodeTerminalsByRun :: "golib \<Rightarrow> MemoryStore \<Rightarrow> string \<Rightarrow> store_error + NodeTerminalRecord list" where
  "mem_ListNodeTerminalsByRun L s runID =
     Inr (filter (\<lambda>r. t_RunID r = runID) (range_map (map_order L) (nodeTerminals s)))"

definition mem_RecordNodeTerminal :: "MemoryStore \<Rightarrow> NodeTerminalRecord \<Rightarrow> store_error option \<times> MemoryStore" where
  "mem_RecordNodeTerminal s record0 =
     (if TrimSpace (t_RunID record0) = [] then (Some (StoreRunIDRequired ''record node terminal''), s)
      else let key = NodeAttemptKey_String
             \<lparr>n_RunID = t_RunID record0, n_NodeID = t_NodeID record0, n_AttemptID = t_AttemptID record0\<rparr>
       in case map_of (nodeTerminals s) key of
            Some existing \<Rightarrow>
              if t_TerminalState existing = t_TerminalState record0 then (None, s)
              else (Some (TerminalConflict (t_RunID record0) (t_NodeID record0) (t_AttemptID record0)
                     (t_TerminalState existing) (t_TerminalState record0)), s)
          | None \<Rightarrow> (None, s\<lparr>nodeTerminals := AList.update key record0 (nodeTerminals s)\<rparr>))"

definition mem_GetNodeTerminal :: "MemoryStore \<Rightarrow> string \<Rightarrow> string \<Rightarrow> string \<Rightarrow>
    store_error + NodeTerminalRecord option" where
  "mem_GetNodeTerminal s runID nodeID attemptID =
     Inr (map_of (nodeTerminals s) (NodeAttemptKey_String
       \<lparr>n_RunID = runID, n_NodeID = nodeID, n_AttemptID = attemptID\<rparr>))"

definition mem_UpsertRunLifecycle :: "MemoryStore \<Rightarrow> RunLifecycle \<Rightarrow> store_error option \<times> MemoryStore" where
  "mem_UpsertRunLifecycle s lifecycle =
     (if TrimSpace (l_RunID lifecycle) = [] then (Some (StoreRunIDRequired ''upsert run lifecycle''), s)
      else (None, s\<lparr>runLifecycles := AList.update (l_RunID lifecycle) lifecycle (runLifecycles s)\<rparr>))"

definition mem_GetRunLifecycle :: "MemoryStore \<Rightarrow> string \<Rightarrow> store_error + RunLifecycle option" where
  "mem_GetRunLifecycle s runID = Inr (map_of (runLifecycles s) runID)"

definition mem_ListRunLifecyclesBySample :: "golib \<Rightarrow> MemoryStore \<Rightarrow> string \<Rightarrow> store_error + RunLifecycle list" where
  "mem_ListRunLifecyclesBySample L s sampleRunID =
     Inr (sort_key l_RunID
       (filter (\<lambda>l. l_SampleRunID l = sampleRunID) (range_map (map_order L) (runLifecycles s))))"

text \<open>
  The maps hold Go values, so a stored artifact shares its location pointers with the
  artifact it was stored from or read as.
\<close>

definition mem_WriteThrough :: "MemoryStore \<Rightarrow> Artifact \<Rightarrow> Location list \<Rightarrow> MemoryStore" where
  "mem_WriteThrough s artifact locations =
     (if map_of (artifacts s) (Artifact_Key artifact) = Some artifact
      then s\<lparr>artifacts := AList.update (Artifact_Key artifact)
              (artifact\<lparr>a_Locations := locations\<rparr>) (artifacts s)\<rparr>
      else s)"

definition memory_store :: "golib \<Rightarrow> MemoryStore store" where
  "memory_store L =
     \<lparr>PutArtifact = mem_PutArtifact,
      GetArtifact = mem_GetArtifact,
      GetArtifactByID = mem_GetArtifactByID L,
      ListArtifactsByRun = mem_ListArtifactsByRun L,
      ListArtifactsBySampleRun = mem_ListArtifactsBySampleRun L,
      PutArtifactSources = mem_PutArtifactSources,
      GetArtifactSource = mem_GetArtifactSource L,
      ListArtifactSources = mem_ListArtifactSources L,
      ListNodeTerminalsByRun = mem_ListNodeTerminalsByRun L,
      RecordNodeTerminal = mem_RecordNodeTerminal,
      GetNodeTerminal = mem_GetNodeTerminal,
      UpsertRunLifecycle = mem_UpsertRunLifecycle,
      GetRunLifecycle = mem_GetRunLifecycle,
      ListRunLifecyclesBySample = mem_ListRunLifecyclesBySample L,
      WriteThrough = mem_WriteThrough\<rparr>"

lemma memory_store_methods [simp]:
  "PutArtifact (memory_store L) = mem_PutArtifact"
  "GetArtifact (memory_store L) = mem_GetArtifact"
  "GetArtifactByID (memory_store L) = mem_GetArtifactByID L"
  "ListArtifactsByRun (memory_store L) = mem_ListArtifactsByRun L"
  "ListArtifactsBySampleRun (memory_store L) = mem_ListArtifactsBySampleRun L"
  "PutArtifactSources (memory_store L) = mem_PutArtifactSources"
  "GetArtifactSource (memory_store L) = mem_GetArtifactSource L"
  "ListArtifactSources (memory_store L) = mem_ListArtifactSources L"
  "ListNodeTerminalsByRun (memory_store L) = mem_ListNodeTerminalsByRun L"
  "RecordNodeTerminal (memory_store L) = mem_RecordNodeTerminal"
  "GetNodeTerminal (memory_store L) = mem_GetNodeTerminal"
  "UpsertRunLifecycle (memory_store L) = mem_UpsertRunLifecycle"
  "GetRunLifecycle (memory_store L) = mem_GetRunLifecycle"
  "ListRunLifecyclesBySample (memory_store L) = mem_ListRunLifecyclesBySample L"
  "WriteThrough (memory_store L) = mem_WriteThrough"
  by (simp_all add: memory_store_def)

section \<open>Representation invariant\<close>

definition mem_maps_wf :: "MemoryStore \<Rightarrow> bool" where
  "mem_maps_wf s \<longleftrightarrow> wf_map (artifacts s) \<and> wf_map (sources s) \<and> wf_map (nodeTerminals s) \<and>
     wf_map (runLifecycles s)"

definition mem_keys_ok :: "MemoryStore \<Rightarrow> bool" where
  "mem_keys_ok s \<longleftrightarrow>
     (\<forall>k a. map_of (artifacts s) k = Some a \<longrightarrow> Artifact_Key a = k \<and> TrimSpace (a_RunID a) \<noteq> []) \<and>
     (\<forall>k t. map_of (nodeTerminals s) k = Some t \<longrightarrow> record_key t = k \<and> TrimSpace (t_RunID t) \<noteq> []) \<and>
     (\<forall>k l. map_of (runLifecycles s) k = Some l \<longrightarrow> l_RunID l = k) \<and>
     (\<forall>k x. map_of (sources s) k = Some x \<longrightarrow> s_SourceID x = k \<and> k \<noteq> [])"

definition mem_index_ok :: "MemoryStore \<Rightarrow> bool" where
  "mem_index_ok s \<longleftrightarrow>
     (\<forall>aid. distinct (index_of s aid) \<and>
        (\<forall>k. k \<in> set (index_of s aid) \<longleftrightarrow> (\<exists>x. map_of (sources s) k = Some x \<and> s_ArtifactID x = aid)))"

definition mem_inv :: "MemoryStore \<Rightarrow> bool" where
  "mem_inv s \<longleftrightarrow> mem_maps_wf s \<and> mem_keys_ok s \<and> mem_index_ok s"

lemma NewMemoryStore_inv [simp]: "mem_inv NewMemoryStore"
  by (simp add: mem_inv_def mem_maps_wf_def mem_keys_ok_def mem_index_ok_def index_of_def
      NewMemoryStore_def)

lemma mem_invD:
  assumes "mem_inv s"
  shows "wf_map (artifacts s)" "wf_map (sources s)" "wf_map (nodeTerminals s)"
    "wf_map (runLifecycles s)"
    "map_of (artifacts s) k = Some a \<Longrightarrow> Artifact_Key a = k \<and> TrimSpace (a_RunID a) \<noteq> []"
    "map_of (nodeTerminals s) k = Some t \<Longrightarrow> record_key t = k \<and> TrimSpace (t_RunID t) \<noteq> []"
    "map_of (runLifecycles s) k = Some l \<Longrightarrow> l_RunID l = k"
    "map_of (sources s) k = Some x \<Longrightarrow> s_SourceID x = k \<and> k \<noteq> []"
    "distinct (index_of s aid)"
    "k \<in> set (index_of s aid) \<longleftrightarrow> (\<exists>x. map_of (sources s) k = Some x \<and> s_ArtifactID x = aid)"
  using assms by (auto simp: mem_inv_def mem_maps_wf_def mem_keys_ok_def mem_index_ok_def)

lemma index_of_frame [simp]:
  "index_of (s\<lparr>artifacts := x\<rparr>) = index_of s"
  "index_of (s\<lparr>sources := y\<rparr>) = index_of s"
  "index_of (s\<lparr>nodeTerminals := z\<rparr>) = index_of s"
  "index_of (s\<lparr>runLifecycles := w\<rparr>) = index_of s"
  by (simp_all add: index_of_def fun_eq_iff)

lemma containsString_iff [simp]: "containsString vs w \<longleftrightarrow> w \<in> set vs"
  by (induction vs) auto

lemma mem_artifact_write_inv:
  assumes "mem_inv s" and "TrimSpace (a_RunID a) \<noteq> []"
  shows "mem_inv (s\<lparr>artifacts := AList.update (Artifact_Key a) a (artifacts s)\<rparr>)"
  using assms
  by (auto simp: mem_inv_def mem_maps_wf_def mem_keys_ok_def mem_index_ok_def update_conv'
      split: if_splits)

lemma mem_PutArtifact_spec:
  assumes "mem_inv s" and "mem_PutArtifact s a = (e, s')"
  shows "mem_inv s'" "nodeTerminals s' = nodeTerminals s" "runLifecycles s' = runLifecycles s"
    "sources s' = sources s"
    "e = None \<longleftrightarrow> put_verdict (map_of (artifacts s)) a \<noteq> None"
    "map_of (artifacts s') = (if put_verdict (map_of (artifacts s)) a = Some True
       then (map_of (artifacts s))(Artifact_Key a \<mapsto> a) else map_of (artifacts s))"
  using assms mem_artifact_write_inv [of s a]
  by (auto simp: mem_PutArtifact_def put_verdict_def update_conv' split: if_splits option.splits)

lemma mem_RecordNodeTerminal_spec:
  assumes "mem_inv s" and "mem_RecordNodeTerminal s r = (e, s')"
  shows "mem_inv s'" "artifacts s' = artifacts s" "runLifecycles s' = runLifecycles s"
    "sources s' = sources s"
    "e = None \<longleftrightarrow> terminal_verdict (map_of (nodeTerminals s)) r \<noteq> None"
    "map_of (nodeTerminals s') = (if terminal_verdict (map_of (nodeTerminals s)) r = Some True
       then (map_of (nodeTerminals s))(record_key r \<mapsto> r) else map_of (nodeTerminals s))"
proof -
  have "mem_inv (s\<lparr>nodeTerminals := AList.update (record_key r) r (nodeTerminals s)\<rparr>)"
    if "TrimSpace (t_RunID r) \<noteq> []"
    using assms(1) that
    by (auto simp: mem_inv_def mem_maps_wf_def mem_keys_ok_def mem_index_ok_def update_conv'
        split: if_splits)
  then show "mem_inv s'" "artifacts s' = artifacts s" "runLifecycles s' = runLifecycles s"
    "sources s' = sources s"
    "e = None \<longleftrightarrow> terminal_verdict (map_of (nodeTerminals s)) r \<noteq> None"
    "map_of (nodeTerminals s') = (if terminal_verdict (map_of (nodeTerminals s)) r = Some True
       then (map_of (nodeTerminals s))(record_key r \<mapsto> r) else map_of (nodeTerminals s))"
    using assms
    by (auto simp: mem_RecordNodeTerminal_def terminal_verdict_def record_key_def terminal_key_def
        Let_def update_conv' split: if_splits option.splits)
qed

lemma mem_UpsertRunLifecycle_spec:
  assumes "mem_inv s" and "mem_UpsertRunLifecycle s l = (e, s')"
  shows "mem_inv s'" "artifacts s' = artifacts s" "nodeTerminals s' = nodeTerminals s"
    "sources s' = sources s" "e = None \<longleftrightarrow> TrimSpace (l_RunID l) \<noteq> []"
    "map_of (runLifecycles s') = (if TrimSpace (l_RunID l) \<noteq> []
       then (map_of (runLifecycles s))(l_RunID l \<mapsto> l) else map_of (runLifecycles s))"
  using assms
  by (auto simp: mem_UpsertRunLifecycle_def mem_inv_def mem_maps_wf_def mem_keys_ok_def
      mem_index_ok_def update_conv' split: if_splits) blast+

lemma mem_WriteThrough_spec:
  assumes "mem_inv s"
  shows "mem_inv (mem_WriteThrough s a ls)"
    "nodeTerminals (mem_WriteThrough s a ls) = nodeTerminals s"
    "runLifecycles (mem_WriteThrough s a ls) = runLifecycles s"
    "sources (mem_WriteThrough s a ls) = sources s"
    "map_of (artifacts (mem_WriteThrough s a ls)) =
       (if map_of (artifacts s) (Artifact_Key a) = Some a
        then (map_of (artifacts s))(Artifact_Key a \<mapsto> a\<lparr>a_Locations := ls\<rparr>) else map_of (artifacts s))"
proof -
  have key: "Artifact_Key (a\<lparr>a_Locations := ls\<rparr>) = Artifact_Key a"
    by (simp add: Artifact_Key_def)
  show "mem_inv (mem_WriteThrough s a ls)"
    using assms mem_artifact_write_inv [OF assms, of "a\<lparr>a_Locations := ls\<rparr>"] key
    by (auto simp: mem_WriteThrough_def dest: mem_invD(5))
qed (simp_all add: mem_WriteThrough_def update_conv')

section \<open>Writing sources\<close>

text \<open>
  Writing one source keeps the invariant when the source names the artifact of the call and
  its ID is free or already owned by that artifact.
\<close>

definition source_ok :: "string \<Rightarrow> MemoryStore \<Rightarrow> ArtifactSource \<Rightarrow> bool" where
  "source_ok aid s x \<longleftrightarrow> s_ArtifactID x = aid \<and> s_SourceID x \<noteq> [] \<and>
     (\<forall>old. map_of (sources s) (s_SourceID x) = Some old \<longrightarrow> s_ArtifactID old = aid)"

lemma own_source_id [simp]: "s_ArtifactID x = aid \<Longrightarrow> own_source aid x = x"
  by (auto simp: own_source_def)

lemma write_source_frame [simp]:
  "artifacts (write_source aid s x) = artifacts s"
  "nodeTerminals (write_source aid s x) = nodeTerminals s"
  "runLifecycles (write_source aid s x) = runLifecycles s"
  by (simp_all add: write_source_def Let_def)

lemma write_source_sources:
  assumes "source_ok aid s x"
  shows "map_of (sources (write_source aid s x)) = (map_of (sources s))(s_SourceID x \<mapsto> x)"
  using assms by (simp add: write_source_def source_ok_def Let_def update_conv')

lemma write_source_index:
  assumes "source_ok aid s x"
  shows "index_of (write_source aid s x) aid' =
     (if aid' = aid \<and> s_SourceID x \<notin> set (index_of s aid) then index_of s aid @ [s_SourceID x]
      else index_of s aid')"
  using assms by (auto simp: write_source_def source_ok_def Let_def index_of_def update_conv')

lemma write_source_inv:
  assumes "mem_inv s" and "source_ok aid s x"
  shows "mem_inv (write_source aid s x)"
proof -
  note D = mem_invD [OF assms(1)]
  have "mem_maps_wf (write_source aid s x)"
    using D(1-4) by (simp add: mem_maps_wf_def write_source_def Let_def)
  moreover have "mem_keys_ok (write_source aid s x)"
    using D(5-8) assms(2) by (auto simp: mem_keys_ok_def write_source_sources source_ok_def)
  moreover have "mem_index_ok (write_source aid s x)"
    using D(9,10) assms(2)
    by (auto simp: mem_index_ok_def write_source_sources write_source_index source_ok_def)
  ultimately show ?thesis by (simp add: mem_inv_def)
qed

lemma source_ok_write:
  "source_ok aid s x \<Longrightarrow> source_ok aid s y \<Longrightarrow> source_ok aid (write_source aid s x) y"
  by (auto simp: source_ok_def write_source_sources)

lemma write_sources_spec:
  assumes "mem_inv s" and "\<forall>x \<in> set ss. source_ok aid s x"
  shows "mem_inv (foldl (write_source aid) s ss) \<and>
     artifacts (foldl (write_source aid) s ss) = artifacts s \<and>
     nodeTerminals (foldl (write_source aid) s ss) = nodeTerminals s \<and>
     runLifecycles (foldl (write_source aid) s ss) = runLifecycles s \<and>
     map_of (sources (foldl (write_source aid) s ss)) =
       put_sources (\<lambda>_ x. x) ss (map_of (sources s))"
  using assms
proof (induction ss arbitrary: s)
  case (Cons x ss)
  then have x: "source_ok aid s x" by simp
  with Cons.prems have "mem_inv (write_source aid s x)"
    and "\<forall>y \<in> set ss. source_ok aid (write_source aid s x) y"
    by (simp_all add: write_source_inv source_ok_write)
  from Cons.IH [OF this] show ?case
    by (simp add: put_sources_def write_source_sources [OF x] fun_upd_def)
qed (simp add: put_sources_def)

lemma mem_PutArtifactSources_spec:
  assumes "mem_inv s" and "sources_for aid ss" and "mem_PutArtifactSources s aid ss = (e, s')"
  shows "mem_inv s' \<and> artifacts s' = artifacts s \<and> nodeTerminals s' = nodeTerminals s \<and>
     runLifecycles s' = runLifecycles s \<and>
     (if owned_elsewhere (map_of (sources s)) aid ss
      then (\<exists>sid. e = Some (SourceOwnershipConflict sid aid)) \<and> sources s' = sources s
      else e = None \<and> map_of (sources s') = put_sources (\<lambda>_ x. x) ss (map_of (sources s)))"
proof -
  have conf: "ownership_conflict s aid x =
      (if \<exists>old. map_of (sources s) (s_SourceID x) = Some old \<and> s_ArtifactID old \<noteq> aid
       then Some (SourceOwnershipConflict (s_SourceID x) aid) else None)" if "x \<in> set ss" for x
    using assms(2) that by (auto simp: ownership_conflict_def sources_for_def Let_def split: option.splits)
  show ?thesis
  proof (cases "first_error (ownership_conflict s aid) ss")
    case None
    then have "\<forall>x \<in> set ss. source_ok aid s x"
      using conf assms(2)
      by (auto simp: first_error_None source_ok_def sources_for_def split: if_splits)
    moreover from None have "\<not> owned_elsewhere (map_of (sources s)) aid ss"
      using conf by (auto simp: first_error_None owned_elsewhere_def split: if_splits)
    ultimately show ?thesis
      using assms None write_sources_spec [of s ss aid] by (auto simp: mem_PutArtifactSources_def)
  next
    case (Some e0)
    have "\<exists>x \<in> set ss. ownership_conflict s aid x = Some e0"
      using Some by (induction ss) (auto split: option.splits)
    then obtain x where "x \<in> set ss" "ownership_conflict s aid x = Some e0" by blast
    then have "owned_elsewhere (map_of (sources s)) aid ss"
      "e0 = SourceOwnershipConflict (s_SourceID x) aid"
      using conf [of x] by (auto simp: owned_elsewhere_def split: if_splits)
    moreover have "e = Some e0" "s' = s"
      using Some assms(3) by (simp_all add: mem_PutArtifactSources_def)
    ultimately show ?thesis using assms(1) by simp
  qed
qed

section \<open>The memory backend meets the contract\<close>

lemma live_mem:
  assumes "mem_inv s"
  shows "liveArtifactLocked L s aid \<longleftrightarrow> live (map_of (artifacts s)) aid"
  using mem_invD(5) [OF assms]
  by (fastforce simp: liveArtifactLocked_def live_def list_ex_iff set_range_map [OF mem_invD(1) [OF assms]]
      ran_def)

lemma find_cases:
  "case find P xs of None \<Rightarrow> \<forall>x \<in> set xs. \<not> P x | Some x \<Rightarrow> x \<in> set xs \<and> P x"
  by (auto simp: find_None_iff find_Some_iff split: option.split)

lemma mem_filter_artifacts:
  assumes "mem_inv s"
  shows "distinct (filter P (range_map ord (artifacts s)))"
  using assms
  by (auto simp: mem_invD(1) intro!: distinct_filter distinct_range_map dest: mem_invD(5))

lemma mem_filter_terminals:
  assumes "mem_inv s"
  shows "distinct (filter P (range_map ord (nodeTerminals s)))"
  using assms
  by (auto simp: mem_invD(3) intro!: distinct_filter distinct_range_map dest: mem_invD(6))

lemma mem_filter_lifecycles:
  assumes "mem_inv s"
  shows "distinct (filter P (range_map ord (runLifecycles s)))"
  using assms
  by (auto simp: mem_invD(4) intro!: distinct_filter distinct_range_map dest: mem_invD(7))

lemma mem_GetArtifactByID_spec:
  assumes "mem_inv s"
  shows "\<exists>res. mem_GetArtifactByID L s aid = Inr res \<and>
     (case res of Some a \<Rightarrow> a \<in> ran (map_of (artifacts s)) \<and> a_ArtifactID a = aid
                | None \<Rightarrow> \<not> live (map_of (artifacts s)) aid)"
  using find_cases [of "range_map (map_order L) (artifacts s)" "\<lambda>a. a_ArtifactID a = aid"]
  by (auto simp: mem_GetArtifactByID_def live_def set_range_map [OF mem_invD(1) [OF assms]]
      split: option.splits)

lemma mem_ListArtifactSources_spec:
  assumes "mem_inv s"
  shows "\<exists>xs. mem_ListArtifactSources L s aid = Inr xs \<and> distinct xs \<and>
     set xs = {x \<in> ran (map_of (sources s)). s_ArtifactID x = aid \<and> live (map_of (artifacts s)) aid}"
proof (cases "live (map_of (artifacts s)) aid")
  case True
  let ?xs = "List.map_filter (map_of (sources s)) (index_of s aid)"
  have all: "map_of (sources s) k \<noteq> None" if "k \<in> set (index_of s aid)" for k
    using that mem_invD(10) [OF assms] by auto
  then have eq: "?xs = map (\<lambda>k. the (map_of (sources s) k)) (index_of s aid)"
    by (auto simp: List.map_filter_def comp_def filter_id_conv intro!: arg_cong2 [where f = map])
  have "inj_on (\<lambda>k. the (map_of (sources s) k)) (set (index_of s aid))"
    using all mem_invD(8) [OF assms] by (intro inj_onI) (metis option.exhaust_sel)
  then have "distinct ?xs"
    using mem_invD(9) [OF assms] by (simp add: eq distinct_map)
  moreover have "set ?xs = {x \<in> ran (map_of (sources s)). s_ArtifactID x = aid}"
    by (auto simp: in_set_map_filter ran_def Bex_def mem_invD(10) [OF assms]) blast
  ultimately show ?thesis
    using True by (simp add: mem_ListArtifactSources_def live_mem [OF assms])
qed (simp add: mem_ListArtifactSources_def live_mem [OF assms])

interpretation mem: run_store "memory_store L" mem_inv "\<lambda>s. map_of (artifacts s)"
    "\<lambda>s. map_of (nodeTerminals s)" "\<lambda>s. map_of (runLifecycles s)" "\<lambda>s. map_of (sources s)"
    "\<lambda>_ a. a" "\<lambda>_ x. x"
  for L :: golib
proof (unfold_locales, goal_cases)
  case 11 then show ?case
    by (simp add: memory_store_def mem_GetArtifact_def artifact_key_def)
next
  case 12 then show ?case by (simp add: memory_store_def mem_GetArtifactByID_spec)
next
  case 13 then show ?case
    by (simp add: memory_store_def mem_ListArtifactsByRun_def mem_filter_artifacts set_range_map mem_invD(1))
next
  case 14 then show ?case
    by (simp add: memory_store_def mem_ListArtifactsBySampleRun_def mem_filter_artifacts set_range_map
        mem_invD(1))
next
  case 15 then show ?case
    by (simp add: memory_store_def mem_GetArtifactSource_def live_mem split: option.splits)
next
  case 16 then show ?case by (simp add: memory_store_def mem_ListArtifactSources_spec)
next
  case 17 then show ?case
    by (simp add: memory_store_def mem_GetNodeTerminal_def terminal_key_def)
next
  case 18 then show ?case
    by (simp add: memory_store_def mem_ListNodeTerminalsByRun_def mem_filter_terminals set_range_map
        mem_invD(3))
next
  case 19 then show ?case by (simp add: memory_store_def mem_GetRunLifecycle_def)
next
  case 20 then show ?case
    by (simp add: memory_store_def mem_ListRunLifecyclesBySample_def mem_filter_lifecycles
        set_range_map mem_invD(4))
next
  case 21 then show ?case
    using mem_PutArtifact_spec by (simp add: memory_store_def)
next
  case 22 then show ?case
    using mem_PutArtifactSources_spec [OF 22(1,2)] by (auto simp: memory_store_def split: if_splits)
next
  case 23 then show ?case
    using mem_RecordNodeTerminal_spec by (simp add: memory_store_def)
next
  case 24 then show ?case
    using mem_UpsertRunLifecycle_spec by (simp add: memory_store_def)
next
  case 25 then show ?case
    using mem_WriteThrough_spec by (simp add: memory_store_def)
qed (auto dest: mem_invD)

end
