(* ===== verification/Service_Laws.thy ===== *)
theory Service_Laws
  imports Registry Memory_Store
begin

text \<open>
  The resolver over any store that meets the contract \<open>run_store\<close>: every operation is a
  sequence of steps of the abstract registry, whatever it returns, and the effect of each
  operation on the registry when it succeeds.
\<close>

definition registry_of :: "('s \<Rightarrow> string \<rightharpoonup> Artifact) \<Rightarrow> ('s \<Rightarrow> string \<rightharpoonup> NodeTerminalRecord) \<Rightarrow>
    ('s \<Rightarrow> string \<rightharpoonup> RunLifecycle) \<Rightarrow> ('s \<Rightarrow> string \<rightharpoonup> ArtifactSource) \<Rightarrow> 's \<Rightarrow> registry" where
  "registry_of A T l s st = \<lparr>reg_arts = A st, reg_terms = T st, reg_lifes = l st, reg_srcs = s st\<rparr>"

lemma registry_of_fields [simp]:
  "reg_arts (registry_of A T l s st) = A st" "reg_terms (registry_of A T l s st) = T st"
  "reg_lifes (registry_of A T l s st) = l st" "reg_srcs (registry_of A T l s st) = s st"
  by (simp_all add: registry_of_def)

lemma with_store_fields [simp]:
  "svc_store (with_store svc st) = st" "svc_store (count_metric f svc) = svc_store svc"
  "svc_metrics (with_store svc st) = svc_metrics svc"
  by (simp_all add: with_store_def count_metric_def)

section \<open>Store-independent facts\<close>

lemma register_request_ok:
  assumes "register_request L t a0 = Inr a"
  shows "artifact_ok L a"
  using assms
  by (auto simp: register_request_def artifact_ok_def Let_def CanonicalID_def Artifact_Key_def
      split: if_splits option.splits)

lemma register_request_run: "register_request L t a0 = Inr a \<Longrightarrow> a_RunID a = a_RunID a0"
  by (auto simp: register_request_def Let_def split: if_splits option.splits)

lemma register_request_fields:
  assumes "register_request L t a0 = Inr a"
  shows "a_RunID a = a_RunID a0 \<and> a_ProducerNodeID a = a_ProducerNodeID a0 \<and>
     a_ProducerAttemptID a = a_ProducerAttemptID a0 \<and> a_OutputName a = a_OutputName a0 \<and>
     a_Digest a = a_Digest a0 \<and> Artifact_Key a = Artifact_Key a0"
  using assms by (auto simp: register_request_def Let_def Artifact_Key_def split: if_splits option.splits)

lemma same_artifact_ok: "same_artifact a a' \<Longrightarrow> artifact_ok L a \<Longrightarrow> artifact_ok L a'"
  by (auto simp: same_artifact_def artifact_ok_def CanonicalID_def Artifact_Key_def)

lemma artifact_ok_id: "artifact_ok L a \<Longrightarrow> a_ArtifactID a = Artifact_Key a"
  by (simp add: artifact_ok_def CanonicalID_def)

lemma artifact_ok_run: "artifact_ok L a \<Longrightarrow> TrimSpace (a_RunID a) \<noteq> []"
  by (simp add: artifact_ok_def ArtifactKey_Validate_None)

lemma appendSource_set:
  assumes "x \<in> set (appendSource L a t b loc ss)"
  shows "x \<in> set ss \<or> ValidateArtifactSourceForArtifact L a x = None \<and> s_ArtifactID x = a_ArtifactID a"
  using assms by (auto simp: appendSource_def Let_def split: if_splits)

lemma appendLocation_set:
  assumes "x \<in> set (appendLocation L a t ss loc)"
  shows "x \<in> set ss \<or> ValidateArtifactSourceForArtifact L a x = None \<and> s_ArtifactID x = a_ArtifactID a"
  using assms by (auto simp: appendLocation_def dest: appendSource_set split: if_splits)

lemma foldl_appendLocation_set:
  "x \<in> set (foldl (appendLocation L a t) ss ls) \<Longrightarrow>
     x \<in> set ss \<or> ValidateArtifactSourceForArtifact L a x = None \<and> s_ArtifactID x = a_ArtifactID a"
  by (induction ls arbitrary: ss) (use appendLocation_set in fastforce)+

lemma initial_sources_set:
  assumes "x \<in> set (initialSourcesForArtifact L a t)"
  shows "ValidateArtifactSourceForArtifact L a x = None \<and> s_ArtifactID x = a_ArtifactID a"
proof (cases "x \<in> set (foldl (appendLocation L a t) [] (a_Locations a))")
  case True
  then show ?thesis by (auto dest: foldl_appendLocation_set)
next
  case False
  with assms show ?thesis
    by (auto simp: initialSourcesForArtifact_def Let_def dest!: appendSource_set split: if_splits)
qed

lemma validated_source_ok:
  assumes "ValidateArtifactSourceForArtifact L a x = None" and "A (s_ArtifactID x) = Some a'"
    and "a_Digest a' = a_Digest a"
  shows "source_ok_in A x"
  using assms
  by (auto simp: source_ok_in_def ValidateArtifactSourceForArtifact_None ValidateArtifactSource_None)

lemma complete_source_ok:
  assumes "complete_source L t aid a s0 = Inr s"
  shows "ValidateArtifactSourceForArtifact L a s = None \<and> s_ArtifactID s = aid"
  using assms by (auto simp: complete_source_def Let_def split: option.splits if_splits)

text \<open>The run that owns an artifact or a source.\<close>

definition artifact_run :: "registry \<Rightarrow> string \<Rightarrow> string" where
  "artifact_run R aid = (case reg_arts R aid of Some a \<Rightarrow> a_RunID a | None \<Rightarrow> [])"

definition source_run :: "registry \<Rightarrow> string \<Rightarrow> string" where
  "source_run R sid = (case reg_srcs R sid of Some s \<Rightarrow> artifact_run R (s_ArtifactID s) | None \<Rightarrow> [])"

lemma Binding_Key_artifact_key:
  "artifact_key (b_RunID b) (b_ProducerNodeID b) (b_ProducerAttemptID b) (b_ProducerOutputName b) = Binding_Key b"
  by (simp add: artifact_key_def Binding_Key_def)

lemma Binding_Key_run:
  assumes "artifact_ok L a" and "Artifact_Key a = Binding_Key b"
  shows "a_RunID a = b_RunID b \<and> a_ProducerNodeID a = b_ProducerNodeID b \<and>
    a_ProducerAttemptID a = b_ProducerAttemptID b \<and> a_OutputName a = b_ProducerOutputName b"
  using assms
    ArtifactKey_String_inj [of "\<lparr>k_RunID = a_RunID a, k_ProducerNodeID = a_ProducerNodeID a,
        k_ProducerAttemptID = a_ProducerAttemptID a, k_OutputName = a_OutputName a\<rparr>"
      "\<lparr>k_RunID = b_RunID b, k_ProducerNodeID = b_ProducerNodeID b,
        k_ProducerAttemptID = b_ProducerAttemptID b, k_OutputName = b_ProducerOutputName b\<rparr>"]
  by (simp add: artifact_ok_def ArtifactKey_Validate_None Artifact_Key_def Binding_Key_def)

section \<open>Every operation is a sequence of registry steps\<close>

context run_store
begin

abbreviation view :: "'s \<Rightarrow> registry" where
  "view \<equiv> registry_of arts terms lifes srcs"

abbreviation good :: "golib \<Rightarrow> 's Service \<Rightarrow> bool" where
  "good L svc \<equiv> inv (svc_store svc) \<and> registry_ok L (view (svc_store svc))"

text \<open>\<open>simulates L r\<close>: the invariant holds afterwards and the registry moved by steps of run \<open>r\<close>.\<close>

abbreviation simulates :: "golib \<Rightarrow> string \<Rightarrow> 's \<Rightarrow> 's \<Rightarrow> bool" where
  "simulates L r st st' \<equiv> inv st' \<and> reg_steps L r (view st) (view st')"

lemma view_arts_update: "arts st' = (arts st)(k \<mapsto> a) \<Longrightarrow> terms st' = terms st \<Longrightarrow> lifes st' = lifes st \<Longrightarrow>
    srcs st' = srcs st \<Longrightarrow> view st' = (view st)\<lparr>reg_arts := (reg_arts (view st))(k \<mapsto> a)\<rparr>"
  by (simp add: registry_of_def)

lemma stored_same_artifact:
  assumes "registry_ok L (view st)" and "artifact_ok L a"
  shows "same_artifact a (stored (arts st (Artifact_Key a)) a)"
proof (cases "arts st (Artifact_Key a)")
  case None
  then show ?thesis by (simp add: stored_new)
next
  case (Some old)
  then have "artifact_ok L old" "Artifact_Key old = Artifact_Key a"
    using registry_okD(1) [OF assms(1), of "Artifact_Key a" old] by auto
  then show ?thesis using Some stored_same [OF Artifact_Key_identity [OF assms(2)]] by simp
qed

lemma put_artifact_simulates:
  assumes "inv st" and "registry_ok L (view st)" and "artifact_ok L a" and "PutArtifact S st a = (e, st')"
  shows "simulates L (a_RunID a) st st'"
proof -
  note P = put_artifact [OF assms(1,4)] and same = stored_same_artifact [OF assms(2,3)]
  show ?thesis
  proof (cases "put_verdict (arts st) a = Some True")
    case True
    let ?a = "stored (arts st (Artifact_Key a)) a"
    have "Artifact_Key ?a = Artifact_Key a" by (rule same_artifact_key [OF same])
    moreover have "artifact_ok L ?a" by (rule same_artifact_ok [OF same assms(3)])
    moreover have "a_Digest old = []" if "arts st (Artifact_Key a) = Some old" for old
      using True that by (auto simp: put_verdict_def split: if_splits)
    moreover have "a_RunID ?a = a_RunID a" using same by (simp add: same_artifact_def)
    ultimately have "reg_step L (a_RunID a) (view st)
        ((view st)\<lparr>reg_arts := (reg_arts (view st))(Artifact_Key ?a \<mapsto> ?a)\<rparr>)"
      by (intro reg_step.store_artifact) auto
    moreover have "view st' = (view st)\<lparr>reg_arts := (reg_arts (view st))(Artifact_Key ?a \<mapsto> ?a)\<rparr>"
      using P True \<open>Artifact_Key ?a = _\<close> by (intro view_arts_update) auto
    ultimately show ?thesis using P by auto
  next
    case False
    with P have "view st' = view st" by (simp add: registry_of_def)
    with P show ?thesis by simp
  qed
qed

lemma write_through_simulates:
  assumes "inv st" and "locations_filled (a_NodeName a) (a_Locations a) ls"
  shows "simulates L (a_RunID a) st (WriteThrough S st a ls)"
proof -
  let ?st = "WriteThrough S st a ls"
  note W = write_through [OF assms(1), of a ls]
  then consider "arts ?st = arts st"
    | "arts st (Artifact_Key a) = Some a" "arts ?st = (arts st)(Artifact_Key a \<mapsto> a\<lparr>a_Locations := ls\<rparr>)"
    by blast
  then show ?thesis
  proof cases
    case 1
    with W have "view ?st = view st" by (simp add: registry_of_def)
    with W show ?thesis by simp
  next
    case 2
    then have "view ?st = (view st)\<lparr>reg_arts := (reg_arts (view st))(Artifact_Key a \<mapsto> a\<lparr>a_Locations := ls\<rparr>)\<rparr>"
      using W by (intro view_arts_update) auto
    with 2 W assms(2) show ?thesis
      using reg_step.fill_locations [of "view st" "Artifact_Key a" a _ ls L] by auto
  qed
qed

lemma keep_source_ok:
  assumes "registry_ok L R" and "source_ok_in (reg_arts R) s"
    and "\<And>old. reg_srcs R (s_SourceID s) = Some old \<Longrightarrow> s_ArtifactID old = s_ArtifactID s"
  shows "source_ok_in (reg_arts R) (keep (reg_srcs R (s_SourceID s)) s)"
proof (cases "reg_srcs R (s_SourceID s)")
  case None
  with assms(2) show ?thesis by (simp add: keep_new)
next
  case (Some old)
  have "s_Digest old = s_Digest s"
    using registry_okD(4) [OF assms(1) Some] assms(2) assms(3) [OF Some] by (auto simp: source_ok_in_def)
  then have "s_Digest (keep (Some old) s) = s_Digest s"
    using keep_digest [of old s] by auto
  then show ?thesis
    using assms(2) keep_same [of s "Some old"] Some by (auto simp: source_ok_in_def same_source_def)
qed

lemma put_sources_steps:
  assumes "registry_ok L R" and "\<forall>s \<in> set ss. source_ok_in (reg_arts R) s \<and> s_ArtifactID s = aid"
    and "\<not> owned_elsewhere (reg_srcs R) aid ss" and "reg_arts R aid = Some a"
  shows "reg_steps L (a_RunID a) R (R\<lparr>reg_srcs := put_sources keep ss (reg_srcs R)\<rparr>)"
  using assms
proof (induction ss arbitrary: R)
  case (Cons s ss)
  let ?s = "keep (reg_srcs R (s_SourceID s)) s"
  let ?R = "R\<lparr>reg_srcs := (reg_srcs R)(s_SourceID s \<mapsto> ?s)\<rparr>"
  have own: "s_ArtifactID old = s_ArtifactID s" if "reg_srcs R (s_SourceID s) = Some old" for old
    using Cons.prems(2,3) that by (auto simp: owned_elsewhere_def)
  have id: "s_SourceID ?s = s_SourceID s" "s_ArtifactID ?s = s_ArtifactID s"
    using keep_same [of s] by (simp_all add: same_source_def)
  have "reg_step L (a_RunID a) R (R\<lparr>reg_srcs := (reg_srcs R)(s_SourceID ?s \<mapsto> ?s)\<rparr>)"
    using Cons.prems(1,2,4) own id by (intro reg_step.put_source [of _ _ a] keep_source_ok) auto
  then have step: "reg_step L (a_RunID a) R ?R" by (simp add: id)
  moreover have "reg_steps L (a_RunID a) ?R (?R\<lparr>reg_srcs := put_sources keep ss (reg_srcs ?R)\<rparr>)"
    using Cons.prems id by (intro Cons.IH reg_step_ok [OF step]) (auto simp: owned_elsewhere_def)
  ultimately show ?case by (simp add: put_sources_def converse_rtranclp_into_rtranclp)
qed (simp add: put_sources_def)

lemma put_sources_simulates:
  assumes "inv st" and "registry_ok L (view st)"
    and "\<forall>s \<in> set ss. source_ok_in (arts st) s \<and> s_ArtifactID s = aid"
    and "PutArtifactSources S st aid ss = (e, st')" and "arts st aid = Some a"
  shows "simulates L (a_RunID a) st st'"
proof -
  have "sources_for aid ss" using assms(3) by (auto simp: sources_for_def source_ok_in_def)
  note P = put_artifact_sources [OF assms(1) this assms(4)]
  show ?thesis
  proof (cases "owned_elsewhere (srcs st) aid ss")
    case True
    with P have "view st' = view st" by (simp add: registry_of_def)
    with P show ?thesis by simp
  next
    case False
    with P have "view st' = (view st)\<lparr>reg_srcs := put_sources keep ss (reg_srcs (view st))\<rparr>"
      by (simp add: registry_of_def)
    moreover have "reg_steps L (a_RunID a) (view st) ((view st)\<lparr>reg_srcs := put_sources keep ss (reg_srcs (view st))\<rparr>)"
      using assms(2,3,5) False by (intro put_sources_steps) auto
    ultimately show ?thesis using P by simp
  qed
qed

text \<open>The checks before a registration make the store's own digest check succeed.\<close>

lemma register_check_put:
  assumes "artifact_ok L a" and "register_check (A (Artifact_Key a)) a = None"
  shows "put_verdict A a \<noteq> None"
  using assms artifact_ok_run [OF assms(1)]
  by (auto simp: register_check_def put_verdict_def split: option.splits if_splits)

text \<open>The three writes of a registration that passed its checks.\<close>

definition put_state :: "'s \<Rightarrow> Artifact \<Rightarrow> 's" where
  "put_state st a = WriteThrough S (snd (PutArtifact S st a)) a (filled_locations a)"

lemma register_eq:
  assumes "inv (svc_store svc)"
  shows "RegisterArtifactCore S L now svc a0 =
    (case register_request L (now 0) a0 of
       Inl e \<Rightarrow> (Inl e, svc)
     | Inr a \<Rightarrow>
        (case register_check (arts (svc_store svc) (Artifact_Key a)) a of
           Some e \<Rightarrow> (Inl e, svc)
         | None \<Rightarrow>
            (case ValidateArtifactForRegistration L a of
               Some e \<Rightarrow> (Inl (DomainInvalid e), svc)
             | None \<Rightarrow>
                (let initial = initialSourcesForArtifact L a (now 1)
                 in case PutArtifactSources S (put_state (svc_store svc) a) (a_ArtifactID a) initial of
                      (Some e, st) \<Rightarrow> (Inl (StoreFailed e), with_store svc st)
                    | (None, st) \<Rightarrow> (Inr (availability initial),
                        count_metric IncArtifactsRegistered (with_store svc st))))))"
proof (cases "register_request L (now 0) a0")
  case (Inr a)
  have "fst (PutArtifact S (svc_store svc) a) = None"
    if "register_check (arts (svc_store svc) (Artifact_Key a)) a = None"
    using put_artifact [OF assms, of a "fst (PutArtifact S (svc_store svc) a)"
        "snd (PutArtifact S (svc_store svc) a)"] register_check_put [where A = "arts (svc_store svc)",
        OF register_request_ok [OF Inr] that]
    by simp
  moreover obtain e st where P: "PutArtifact S (svc_store svc) a = (e, st)" by fastforce
  ultimately show ?thesis
    using Inr get_artifact [OF assms]
    by (auto simp: RegisterArtifactCore_def Artifact_Key_artifact_key [symmetric] put_state_def Let_def
        split: option.splits)
qed (simp add: RegisterArtifactCore_def)

lemma put_state_simulates:
  assumes "inv st" and "registry_ok L (view st)" and "artifact_ok L a"
  shows "simulates L (a_RunID a) st (put_state st a)"
proof -
  have 1: "simulates L (a_RunID a) st (snd (PutArtifact S st a))"
    using put_artifact_simulates [OF assms] by (metis prod.collapse)
  then have "simulates L (a_RunID a) (snd (PutArtifact S st a)) (put_state st a)"
    unfolding put_state_def by (intro write_through_simulates filled_locations_filled) simp
  with 1 show ?thesis by auto
qed

text \<open>After the two artifact writes the key holds the digest that was registered.\<close>

lemma put_state_arts:
  assumes "inv st" and "put_verdict (arts st) a \<noteq> None"
  shows "\<exists>a'. arts (put_state st a) (Artifact_Key a) = Some a' \<and> a_Digest a' = a_Digest a \<and>
      Artifact_Key a' = Artifact_Key a"
    and "k \<noteq> Artifact_Key a \<Longrightarrow> arts (put_state st a) k = arts st k"
    and "terms (put_state st a) = terms st" "lifes (put_state st a) = lifes st"
      "srcs (put_state st a) = srcs st"
proof -
  obtain e st1 where P: "PutArtifact S st a = (e, st1)" by fastforce
  note A = put_artifact [OF assms(1) P]
  then have W: "inv (put_state st a) \<and> terms (put_state st a) = terms st1 \<and> lifes (put_state st a) = lifes st1 \<and>
      srcs (put_state st a) = srcs st1 \<and> (arts (put_state st a) = arts st1 \<or>
       arts st1 (Artifact_Key a) = Some a \<and>
       arts (put_state st a) = (arts st1)(Artifact_Key a \<mapsto> a\<lparr>a_Locations := filled_locations a\<rparr>))"
    using write_through [of st1 a "filled_locations a"] P by (simp add: put_state_def)
  have "\<exists>a'. arts st1 (Artifact_Key a) = Some a' \<and> a_Digest a' = a_Digest a \<and> Artifact_Key a' = Artifact_Key a"
  proof (cases "put_verdict (arts st) a = Some True")
    case True
    have "Artifact_Key (stored (arts st (Artifact_Key a)) a) = Artifact_Key a \<and>
        a_Digest (stored (arts st (Artifact_Key a)) a) = a_Digest a"
      using stored_key arts_key [OF assms(1)] by (cases "arts st (Artifact_Key a)") (auto simp: stored_new)
    with True show ?thesis using A by auto
  next
    case False
    with assms(2) obtain old where "arts st (Artifact_Key a) = Some old" "a_Digest old = a_Digest a"
      by (auto simp: put_verdict_def split: if_splits option.splits)
    then show ?thesis using A False arts_key [OF assms(1)] by auto
  qed
  then show "\<exists>a'. arts (put_state st a) (Artifact_Key a) = Some a' \<and> a_Digest a' = a_Digest a \<and>
      Artifact_Key a' = Artifact_Key a"
    using W by (auto simp: Artifact_Key_def)
  show "k \<noteq> Artifact_Key a \<Longrightarrow> arts (put_state st a) k = arts st k"
    "terms (put_state st a) = terms st" "lifes (put_state st a) = lifes st" "srcs (put_state st a) = srcs st"
    using A W by auto
qed

lemma initial_sources_ok:
  assumes "inv st" and "artifact_ok L a" and "put_verdict (arts st) a \<noteq> None"
  shows "\<forall>x \<in> set (initialSourcesForArtifact L a t).
     source_ok_in (arts (put_state st a)) x \<and> s_ArtifactID x = a_ArtifactID a"
proof
  fix x assume "x \<in> set (initialSourcesForArtifact L a t)"
  note X = initial_sources_set [OF this]
  obtain a' where "arts (put_state st a) (Artifact_Key a) = Some a'" "a_Digest a' = a_Digest a"
    using put_state_arts(1) [OF assms(1,3)] by blast
  with X show "source_ok_in (arts (put_state st a)) x \<and> s_ArtifactID x = a_ArtifactID a"
    using validated_source_ok [of L a x "arts (put_state st a)" a'] artifact_ok_id [OF assms(2)] by simp
qed

lemma register_simulates:
  assumes "good L svc" and "RegisterArtifactCore S L now svc a0 = (res, svc')"
  shows "simulates L (a_RunID a0) (svc_store svc) (svc_store svc')"
proof (cases "svc' = svc")
  case False
  from assms False obtain a e st where a: "register_request L (now 0) a0 = Inr a"
    and c: "register_check (arts (svc_store svc) (Artifact_Key a)) a = None"
    and p: "PutArtifactSources S (put_state (svc_store svc) a) (a_ArtifactID a)
        (initialSourcesForArtifact L a (now 1)) = (e, st)" and st: "svc_store svc' = st"
    by (auto simp: register_eq Let_def split: sum.splits option.splits prod.splits)
  note ok = register_request_ok [OF a]
  note put = register_check_put [where A = "arts (svc_store svc)", OF ok c]
  have run: "a_RunID a = a_RunID a0" by (rule register_request_run [OF a])
  have 1: "simulates L (a_RunID a) (svc_store svc) (put_state (svc_store svc) a)"
    using assms(1) ok by (intro put_state_simulates) auto
  then have good: "inv (put_state (svc_store svc) a)" "registry_ok L (view (put_state (svc_store svc) a))"
    using assms(1) by (auto intro: reg_steps_ok)
  obtain a' where a': "arts (put_state (svc_store svc) a) (a_ArtifactID a) = Some a'"
    using put_state_arts(1) [OF _ put] assms(1) artifact_ok_id [OF ok] by auto
  then have "a_RunID a' = a_RunID a"
    using registry_okD(1) [OF good(2)] artifact_ok_id [OF ok] Artifact_Key_identity [OF ok]
    by (auto simp: same_identity_def)
  then have "simulates L (a_RunID a) (put_state (svc_store svc) a) st"
    using put_sources_simulates [OF good initial_sources_ok [OF _ ok put] p a'] assms(1) by simp
  with 1 st run show ?thesis by auto
qed (use assms in simp)

text \<open>An artifact found by its ID is the one stored under that ID.\<close>

lemma get_by_id_ok:
  assumes "inv st" and "registry_ok L (view st)"
  shows "GetArtifactByID S st aid = Inr (arts st aid)"
proof -
  obtain res where res: "GetArtifactByID S st aid = Inr res" and
    c: "case res of Some a \<Rightarrow> a \<in> ran (arts st) \<and> a_ArtifactID a = aid | None \<Rightarrow> \<not> live (arts st) aid"
    using get_by_id [OF assms(1)] by blast
  have key: "a_ArtifactID a = k" if "arts st k = Some a" for k a
    using registry_okD(1) [OF assms(2), of k a] that artifact_ok_id by auto
  have "res = arts st aid"
  proof (cases res)
    case None
    with c key show ?thesis by (cases "arts st aid") (auto simp: live_def ran_def)
  next
    case (Some a)
    with c key show ?thesis by (auto simp: ran_def)
  qed
  with res show ?thesis by simp
qed

lemma live_ok:
  assumes "inv st" and "registry_ok L (view st)"
  shows "live (arts st) aid \<longleftrightarrow> arts st aid \<noteq> None"
proof -
  have "a_ArtifactID a = k" if "arts st k = Some a" for k a
    using registry_okD(1) [OF assms(2), of k a] that artifact_ok_id by auto
  then show ?thesis by (auto simp: live_def ran_def)
qed

lemma get_source_ok:
  assumes "inv st" and "registry_ok L (view st)"
  shows "GetArtifactSource S st sid = Inr (srcs st sid)"
  using registry_okD(4) [OF assms(2), of sid]
  by (auto simp: get_source [OF assms(1)] live_ok [OF assms] source_ok_in_def split: option.splits)

lemma put_one_simulates:
  assumes "good L svc" and "source_ok_in (arts (svc_store svc)) s"
    and "put_one_source S svc s = (e, svc')" and "arts (svc_store svc) (s_ArtifactID s) = Some a"
  shows "simulates L (a_RunID a) (svc_store svc) (svc_store svc')"
  using put_sources_simulates [of "svc_store svc" L "[s]" "s_ArtifactID s" e "svc_store svc'" a] assms
  by (auto simp: put_one_source_def split: prod.splits)

lemma store_and_reload_simulates:
  assumes "good L svc" and "source_ok_in (arts (svc_store svc)) s"
    and "store_and_reload S svc s = (res, svc')" and "arts (svc_store svc) (s_ArtifactID s) = Some a"
  shows "simulates L (a_RunID a) (svc_store svc) (svc_store svc')"
proof -
  obtain e svc1 where p: "put_one_source S svc s = (e, svc1)" by fastforce
  with assms(3) have "svc' = svc1"
    by (auto simp: store_and_reload_def split: option.splits sum.splits)
  with put_one_simulates [OF assms(1,2) p assms(4)] show ?thesis by simp
qed

lemma source_ok_in_update:
  "source_ok_in A s \<Longrightarrow> s_SourceID s' = s_SourceID s \<Longrightarrow> s_ArtifactID s' = s_ArtifactID s \<Longrightarrow>
     s_Digest s' = s_Digest s \<Longrightarrow> source_ok_in A s'"
  by (simp add: source_ok_in_def)

lemma stored_source_ok:
  "good L svc \<Longrightarrow> srcs (svc_store svc) sid = Some s \<Longrightarrow> source_ok_in (arts (svc_store svc)) s"
  using registry_okD(4) [of L "view (svc_store svc)" sid s] by simp

lemma add_source_simulates:
  assumes "good L svc" and "AddSourceCore S L now svc aid s0 = (res, svc')"
  shows "simulates L (artifact_run (view (svc_store svc)) aid) (svc_store svc) (svc_store svc')"
proof (cases "svc' = svc")
  case False
  from assms False obtain a s e where a: "arts (svc_store svc) aid = Some a"
    and s: "complete_source L (now 0) aid a s0 = Inr s" and p: "put_one_source S svc s = (e, svc')"
    by (auto simp: AddSourceCore_def get_by_id_ok split: if_splits sum.splits option.splits prod.splits
        store_error.splits)
  have id: "s_ArtifactID s = aid" and "source_ok_in (arts (svc_store svc)) s"
    using complete_source_ok [OF s] a by (auto intro: validated_source_ok [of L a s _ a])
  from put_one_simulates [OF assms(1) this(2) p, of a] a id show ?thesis
    by (simp add: artifact_run_def)
qed (use assms in simp)

lemma update_source_simulates:
  assumes "good L svc" and "UpdateSourceStateCore S now svc sid state = (res, svc')"
  shows "simulates L (source_run (view (svc_store svc)) sid) (svc_store svc) (svc_store svc')"
proof (cases "svc' = svc")
  case False
  from assms False obtain s where s: "srcs (svc_store svc) sid = Some s"
    and p: "store_and_reload S svc (s\<lparr>s_State := state, s_UpdatedAt := now 0\<rparr>) = (res, svc')"
    by (auto simp: UpdateSourceStateCore_def get_source_ok get_by_id_ok
        split: if_splits sum.splits option.splits)
  have "source_ok_in (arts (svc_store svc)) (s\<lparr>s_State := state, s_UpdatedAt := now 0\<rparr>)"
    by (rule source_ok_in_update [OF stored_source_ok [OF assms(1) s]]) simp_all
  from store_and_reload_simulates [OF assms(1) this p] show ?thesis
    using stored_source_ok [OF assms(1) s] s
    by (auto simp: source_ok_in_def source_run_def artifact_run_def)
qed (use assms in simp)

lemma verify_source_simulates:
  assumes "good L svc" and "VerifySourceCore S L now svc sid = (res, svc')"
  shows "simulates L (source_run (view (svc_store svc)) sid) (svc_store svc) (svc_store svc')"
proof (cases "svc' = svc")
  case False
  from assms False obtain s state err r where s: "srcs (svc_store svc) sid = Some s"
    and p: "store_and_reload S svc (s\<lparr>s_State := state, s_LastError := err,
        s_LastVerifiedAt := now 0, s_UpdatedAt := now 0\<rparr>) = (r, svc')"
    by (auto simp: VerifySourceCore_def get_source_ok get_by_id_ok
        split: if_splits sum.splits option.splits prod.splits)
  have "source_ok_in (arts (svc_store svc)) (s\<lparr>s_State := state, s_LastError := err,
        s_LastVerifiedAt := now 0, s_UpdatedAt := now 0\<rparr>)"
    by (rule source_ok_in_update [OF stored_source_ok [OF assms(1) s]]) simp_all
  from store_and_reload_simulates [OF assms(1) this p] show ?thesis
    using stored_source_ok [OF assms(1) s] s
    by (auto simp: source_ok_in_def source_run_def artifact_run_def)
qed (use assms in simp)

lemma resolve_simulates:
  assumes "good L svc" and "ResolveHandoffCore S L now svc b target = (res, svc')"
  shows "simulates L (b_RunID b) (svc_store svc) (svc_store svc')"
proof (cases "svc_store svc' = svc_store svc")
  case False
  from assms False obtain a where w: "svc_store svc' = WriteThrough S (svc_store svc) a (filled_locations a)"
    and a: "arts (svc_store svc) (Binding_Key b) = Some a"
    by (auto simp: ResolveHandoffCore_def Let_def case_prod_beta get_artifact Binding_Key_artifact_key
        split: if_splits sum.splits option.splits)
  have "a_RunID a = b_RunID b"
    using registry_okD(1) [of L "view (svc_store svc)" "Binding_Key b" a] a assms(1)
      Binding_Key_run [of L a b] by auto
  with write_through_simulates [OF _ filled_locations_filled, of "svc_store svc" a L] assms(1) w show ?thesis by simp
qed (use assms in simp)

lemma notify_simulates:
  assumes "good L svc" and "NotifyNodeTerminalCore S L now svc r n att state = (res, svc')"
  shows "simulates L r (svc_store svc) (svc_store svc')"
proof (cases "svc_store svc' = svc_store svc")
  case False
  let ?t = "\<lparr>t_RunID = r, t_NodeID = n, t_AttemptID = att, t_TerminalState = state, t_RecordedAt = now 0\<rparr>"
  from assms(2) False obtain e where t: "terminal_ok L ?t"
    and p: "RecordNodeTerminal S (svc_store svc) ?t = (e, svc_store svc')"
    by (auto simp: NotifyNodeTerminalCore_def terminal_ok_def split: if_splits option.splits prod.splits)
  note R = record_terminal [OF conjunct1 [OF assms(1)] p]
  show ?thesis
  proof (cases "terminal_verdict (terms (svc_store svc)) ?t = Some True")
    case True
    then have "terms (svc_store svc) (record_key ?t) = None"
      by (auto simp: terminal_verdict_def split: if_splits option.splits)
    with t have "reg_step L r (view (svc_store svc))
        ((view (svc_store svc))\<lparr>reg_terms := (reg_terms (view (svc_store svc)))(record_key ?t \<mapsto> ?t)\<rparr>)"
      by (intro reg_step.put_terminal) auto
    moreover have "view (svc_store svc') =
        (view (svc_store svc))\<lparr>reg_terms := (reg_terms (view (svc_store svc)))(record_key ?t \<mapsto> ?t)\<rparr>"
      using R True by (simp add: registry_of_def)
    ultimately show ?thesis using R by auto
  next
    case False
    with R have "view (svc_store svc') = view (svc_store svc)" by (simp add: registry_of_def)
    with R show ?thesis by simp
  qed
qed (use assms in simp)

section \<open>Run lifecycles\<close>

text \<open>The snapshot reads exactly the artifacts and terminals of the run.\<close>

lemma refresh_ok:
  assumes "inv st"
  obtains xs ts where "refreshLifecycleSnapshot S st l = Inr (snapshot xs ts l)"
    "run_artifacts (view st) (l_RunID l) xs" "run_terminals (view st) (l_RunID l) ts"
proof -
  obtain xs where xs: "ListArtifactsByRun S st (l_RunID l) = Inr xs" "run_artifacts (view st) (l_RunID l) xs"
    using list_by_run [OF assms] by (auto simp: run_artifacts_def)
  obtain ts where ts: "ListNodeTerminalsByRun S st (l_RunID l) = Inr ts" "run_terminals (view st) (l_RunID l) ts"
    using list_terminals [OF assms] by (auto simp: run_terminals_def)
  have "refreshLifecycleSnapshot S st l = Inr (snapshot xs ts l)"
    by (simp add: refreshLifecycleSnapshot_def xs ts)
  with xs(2) ts(2) show thesis by (rule that [rotated])
qed

lemma finish_upsert_ok:
  assumes "inv (svc_store svc)" and "TrimSpace (l_RunID l) \<noteq> []"
  obtains svc' where "finish_upsert S svc l = (Inr (), svc')" "inv (svc_store svc')"
    "view (svc_store svc') = (view (svc_store svc))
       \<lparr>reg_lifes := (reg_lifes (view (svc_store svc)))(l_RunID l \<mapsto> l)\<rparr>"
proof -
  obtain e st where u: "UpsertRunLifecycle S (svc_store svc) l = (e, st)" by fastforce
  note U = upsert_lifecycle [OF assms(1) u]
  show thesis
  proof (rule that)
    show "finish_upsert S svc l = (Inr (), with_store svc st)"
      using U u assms(2) by (auto simp: finish_upsert_def)
    show "view (svc_store (with_store svc st)) = (view (svc_store svc))
       \<lparr>reg_lifes := (reg_lifes (view (svc_store svc)))(l_RunID l \<mapsto> l)\<rparr>"
      using U assms(2) by (simp add: registry_of_def)
  qed (use U in simp)
qed

definition with_sample :: "string \<Rightarrow> RunLifecycle \<Rightarrow> RunLifecycle" where
  "with_sample sample l = (if l_SampleRunID l = [] then l\<lparr>l_SampleRunID := sample\<rparr> else l)"

lemma with_sample_frame [simp]:
  "l_RunID (with_sample sample l) = l_RunID l" "l_Finalized (with_sample sample l) = l_Finalized l"
  by (simp_all add: with_sample_def)

lemma finalize_ok:
  assumes "good L svc" and "TrimSpace r \<noteq> []"
    and "\<not> l_Finalized (load_lifecycle r (lifes (svc_store svc) r))"
  obtains xs ts svc' where "FinalizeRunCore S now svc r sample = (Inr (), svc')" "inv (svc_store svc')"
    "run_artifacts (view (svc_store svc)) r xs" "run_terminals (view (svc_store svc)) r ts"
    "view (svc_store svc') = (view (svc_store svc))\<lparr>reg_lifes := (reg_lifes (view (svc_store svc)))(r \<mapsto>
       finalize_lifecycle (now 0) (retentionPolicySource svc) (minRetention svc)
         (snapshot xs ts (with_sample sample (load_lifecycle r (lifes (svc_store svc) r)))))\<rparr>"
proof -
  let ?l1 = "with_sample sample (load_lifecycle r (lifes (svc_store svc) r))"
  have run: "l_RunID ?l1 = r"
    using load_run_id [of L "view (svc_store svc)" r] assms(1) by simp
  obtain xs ts where R: "refreshLifecycleSnapshot S (svc_store svc) ?l1 = Inr (snapshot xs ts ?l1)"
    "run_artifacts (view (svc_store svc)) r xs" "run_terminals (view (svc_store svc)) r ts"
    using refresh_ok [of "svc_store svc" ?l1] assms(1) run by metis
  let ?l = "finalize_lifecycle (now 0) (retentionPolicySource svc) (minRetention svc) (snapshot xs ts ?l1)"
  obtain svc' where U: "finish_upsert S (count_metric (SetGCBacklogBytes 0) svc) ?l = (Inr (), svc')"
    "inv (svc_store svc')" "view (svc_store svc') = (view (svc_store svc))
       \<lparr>reg_lifes := (reg_lifes (view (svc_store svc)))(r \<mapsto> ?l)\<rparr>"
    using finish_upsert_ok [of "count_metric (SetGCBacklogBytes 0) svc" ?l] assms(1,2) run by auto
  have "r \<noteq> []" using assms(2) by auto
  then have "FinalizeRunCore S now svc r sample = (Inr (), svc')"
    using assms R(1) U(1) get_lifecycle [of "svc_store svc" r]
    by (simp add: FinalizeRunCore_def Let_def with_sample_def split: if_splits)
  with R U show thesis by (intro that)
qed

lemma finalize_noop:
  assumes "inv (svc_store svc)" and "r \<noteq> []" and "l_Finalized (load_lifecycle r (lifes (svc_store svc) r))"
  shows "FinalizeRunCore S now svc r sample = (Inr (), svc)"
  using assms by (simp add: FinalizeRunCore_def get_lifecycle Let_def)

lemma evaluate_ok:
  assumes "good L svc" and "TrimSpace r \<noteq> []"
  obtains xs ts svc' where "EvaluateRunGCCore S now svc r = (Inr (), svc')" "inv (svc_store svc')"
    "run_artifacts (view (svc_store svc)) r xs" "run_terminals (view (svc_store svc)) r ts"
    "view (svc_store svc') = (view (svc_store svc))\<lparr>reg_lifes := (reg_lifes (view (svc_store svc)))(r \<mapsto>
       evaluate_gc now (snapshot xs ts (load_lifecycle r (lifes (svc_store svc) r))))\<rparr>"
proof -
  let ?l0 = "load_lifecycle r (lifes (svc_store svc) r)"
  have run: "l_RunID ?l0 = r"
    using load_run_id [of L "view (svc_store svc)" r] assms(1) by simp
  obtain xs ts where R: "refreshLifecycleSnapshot S (svc_store svc) ?l0 = Inr (snapshot xs ts ?l0)"
    "run_artifacts (view (svc_store svc)) r xs" "run_terminals (view (svc_store svc)) r ts"
    using refresh_ok [of "svc_store svc" ?l0] assms(1) run by metis
  let ?l = "evaluate_gc now (snapshot xs ts ?l0)"
  let ?svc = "count_metric (SetGCBacklogBytes (float64_of (estimateGCBacklogBytes ?l))) svc"
  obtain svc' where U: "finish_upsert S ?svc ?l = (Inr (), svc')"
    "inv (svc_store svc')" "view (svc_store svc') = (view (svc_store svc))
       \<lparr>reg_lifes := (reg_lifes (view (svc_store svc)))(r \<mapsto> ?l)\<rparr>"
    using finish_upsert_ok [of ?svc ?l] assms(1,2) run by auto
  have "r \<noteq> []" using assms(2) by auto
  then have "EvaluateRunGCCore S now svc r = (Inr (), svc')"
    using assms R(1) U(1) get_lifecycle [of "svc_store svc" r] by (simp add: EvaluateRunGCCore_def Let_def)
  with R U show thesis by (intro that)
qed

text \<open>A blank RunID reaches the store, which refuses it.\<close>

lemma lifecycle_blank:
  assumes "inv (svc_store svc)" and "TrimSpace (l_RunID l) = []" and "finish_upsert S svc l = (res, svc')"
  shows "(\<exists>e. res = Inl e) \<and> simulates L r (svc_store svc) (svc_store svc')"
proof -
  obtain e st where u: "UpsertRunLifecycle S (svc_store svc) l = (e, st)" by fastforce
  note U = upsert_lifecycle [OF assms(1) u]
  with assms(2) have same: "view st = view (svc_store svc)" by (simp add: registry_of_def)
  from U u assms(2,3) obtain e' where "res = Inl (StoreFailed e')" "svc' = with_store svc st"
    by (auto simp: finish_upsert_def)
  with same U show ?thesis by (simp add: same)
qed

lemma finalize_blank:
  assumes "good L svc" and "TrimSpace r = []" and "FinalizeRunCore S now svc r sample = (res, svc')"
  shows "(\<exists>e. res = Inl e) \<and> simulates L r (svc_store svc) (svc_store svc')"
proof -
  let ?l1 = "with_sample sample (load_lifecycle r (lifes (svc_store svc) r))"
  have none: "lifes (svc_store svc) r = None"
    using assms(1,2) registry_okD(3) [of L "view (svc_store svc)" r]
    by (cases "lifes (svc_store svc) r") (auto simp: lifecycle_ok_def)
  then have run: "l_RunID ?l1 = r" "\<not> l_Finalized ?l1"
    by (simp_all add: load_lifecycle_def zero_lifecycle_def)
  obtain xs ts where R: "refreshLifecycleSnapshot S (svc_store svc) ?l1 = Inr (snapshot xs ts ?l1)"
    using refresh_ok [of "svc_store svc" ?l1] assms(1) by metis
  let ?l = "finalize_lifecycle (now 0) (retentionPolicySource svc) (minRetention svc) (snapshot xs ts ?l1)"
  show ?thesis
  proof (cases "r = []")
    case False
    then have "finish_upsert S (count_metric (SetGCBacklogBytes 0) svc) ?l = (res, svc')"
      using assms(1,3) R run get_lifecycle [of "svc_store svc" r]
      by (simp add: FinalizeRunCore_def Let_def with_sample_def split: if_splits)
    from lifecycle_blank [OF _ _ this, of L r] show ?thesis using assms(1,2) run by simp
  qed (use assms in \<open>auto simp: FinalizeRunCore_def\<close>)
qed

lemma evaluate_blank:
  assumes "good L svc" and "TrimSpace r = []" and "EvaluateRunGCCore S now svc r = (res, svc')"
  shows "(\<exists>e. res = Inl e) \<and> simulates L r (svc_store svc) (svc_store svc')"
proof -
  let ?l0 = "load_lifecycle r (lifes (svc_store svc) r)"
  have run: "l_RunID ?l0 = r" using load_run_id [of L "view (svc_store svc)" r] assms(1) by simp
  obtain xs ts where R: "refreshLifecycleSnapshot S (svc_store svc) ?l0 = Inr (snapshot xs ts ?l0)"
    using refresh_ok [of "svc_store svc" ?l0] assms(1) by metis
  let ?l = "evaluate_gc now (snapshot xs ts ?l0)"
  show ?thesis
  proof (cases "r = []")
    case False
    then have "finish_upsert S (count_metric (SetGCBacklogBytes (float64_of (estimateGCBacklogBytes ?l))) svc) ?l
        = (res, svc')"
      using assms(1,3) R get_lifecycle [of "svc_store svc" r] by (simp add: EvaluateRunGCCore_def Let_def)
    from lifecycle_blank [OF _ _ this, of L r] show ?thesis using assms(1,2) run by simp
  qed (use assms in \<open>auto simp: EvaluateRunGCCore_def\<close>)
qed

lemma finalize_simulates:
  assumes "good L svc" and "FinalizeRunCore S now svc r sample = (res, svc')"
  shows "simulates L r (svc_store svc) (svc_store svc')"
proof (cases "TrimSpace r = [] \<or> l_Finalized (load_lifecycle r (lifes (svc_store svc) r))")
  case True
  then show ?thesis
    using assms finalize_blank [OF assms(1) _ assms(2)] finalize_noop [of svc r now sample]
    by (cases "r = []") (auto simp: FinalizeRunCore_def)
next
  case False
  then obtain xs ts svc1 where F: "FinalizeRunCore S now svc r sample = (Inr (), svc1)" "inv (svc_store svc1)"
    "run_artifacts (view (svc_store svc)) r xs" "run_terminals (view (svc_store svc)) r ts"
    "view (svc_store svc1) = (view (svc_store svc))\<lparr>reg_lifes := (reg_lifes (view (svc_store svc)))(r \<mapsto>
       finalize_lifecycle (now 0) (retentionPolicySource svc) (minRetention svc)
         (snapshot xs ts (with_sample sample (load_lifecycle r (lifes (svc_store svc) r)))))\<rparr>"
    using finalize_ok [OF assms(1)] by metis
  have "reg_step L r (view (svc_store svc)) (view (svc_store svc1))"
    unfolding F(5) using False F(3,4)
    by (intro reg_step.finalize_run [of _ "load_lifecycle r (lifes (svc_store svc) r)"])
      (simp_all add: with_sample_def)
  with F(1,2) assms(2) show ?thesis by auto
qed

lemma evaluate_simulates:
  assumes "good L svc" and "EvaluateRunGCCore S now svc r = (res, svc')"
  shows "simulates L r (svc_store svc) (svc_store svc')"
proof (cases "TrimSpace r = []")
  case False
  then obtain xs ts svc1 where F: "EvaluateRunGCCore S now svc r = (Inr (), svc1)" "inv (svc_store svc1)"
    "run_artifacts (view (svc_store svc)) r xs" "run_terminals (view (svc_store svc)) r ts"
    "view (svc_store svc1) = (view (svc_store svc))\<lparr>reg_lifes := (reg_lifes (view (svc_store svc)))(r \<mapsto>
       evaluate_gc now (snapshot xs ts (load_lifecycle r (lifes (svc_store svc) r))))\<rparr>"
    using evaluate_ok [OF assms(1)] by metis
  have "reg_step L r (view (svc_store svc)) (view (svc_store svc1))"
    unfolding F(5) using reg_step.evaluate_run [OF False F(3,4)] by simp
  with F(1,2) assms(2) show ?thesis by auto
qed (use evaluate_blank [OF assms(1) _ assms(2)] in blast)

end

end
