(* ===== verification/Resolve_Laws.thy ===== *)
theory Resolve_Laws
  imports Service
begin

text \<open>
  The decision part of \<^verbatim>\<open>ResolveHandoffCore\<close>: which sources become candidates, what every
  candidate promises, and how the decision follows from the policy, the consumer's node and
  the candidates.  Nothing here depends on a store backend.
\<close>

section \<open>Eligible sources\<close>

definition eligible :: "golib \<Rightarrow> 's Service \<Rightarrow> Artifact \<Rightarrow> ArtifactSource \<Rightarrow> bool" where
  "eligible L svc a x \<longleftrightarrow> s_State x = StateReady \<and> ValidateArtifactSourceForArtifact L a x = None \<and>
     validateCandidateSource L x (httpAllowedHosts svc) (allowAnyHTTPSource svc) = None"

lemma eligible_sources: "candidateEligibleArtifactSources L svc a ss = filter (eligible L svc a) ss"
  by (simp add: candidateEligibleArtifactSources_def eligible_def [abs_def])

lemma containsHost_iff [simp]: "containsHost hs h \<longleftrightarrow> h \<in> set hs"
  by (induction hs) auto

text \<open>What the candidate check guarantees about the host of an HTTP source.\<close>

definition host_permitted :: "golib \<Rightarrow> string list \<Rightarrow> bool \<Rightarrow> string \<Rightarrow> bool" where
  "host_permitted L allowed allowAny uri \<longleftrightarrow>
     (\<exists>u. url_Parse L uri = Some u \<and> TrimSpace (Hostname u) \<noteq> [] \<and> (allowed \<noteq> [] \<or> allowAny) \<and>
        (allowed \<noteq> [] \<longrightarrow> ToLower (unicode_lower L) (TrimSpace (Hostname u)) \<in> set allowed) \<and>
        \<not> ip_blocked (TrimSpace (Hostname u)))"

lemma validateCandidateSource_host:
  assumes "validateCandidateSource L x allowed allowAny = None" and "HTTP (s_Location x) = Some h"
  shows "host_permitted L allowed allowAny (h_URI h)"
  using assms
  by (auto simp: validateCandidateSource_def host_permitted_def Let_def split: option.splits if_splits)

lemma eligible_http:
  assumes "eligible L svc a x" and "HTTP (s_Location x) = Some h"
  shows "host_permitted L (httpAllowedHosts svc) (allowAnyHTTPSource svc) (h_URI h)"
    "plain_http_uri (h_URI h)" "h_Headers h = []"
proof -
  have ok: "validateHTTPSource L h = None"
    using assms
    by (auto simp: eligible_def ValidateArtifactSourceForArtifact_None ValidateArtifactSource_None)
  then show "plain_http_uri (h_URI h)" by (rule validateHTTPSource_plain)
  from ok show "h_Headers h = []" by (simp add: validateHTTPSource_None)
  show "host_permitted L (httpAllowedHosts svc) (allowAnyHTTPSource svc) (h_URI h)"
    using assms by (auto simp: eligible_def intro: validateCandidateSource_host)
qed

lemma eligible_digest: "eligible L svc a x \<Longrightarrow> s_Digest x = a_Digest a \<and> TrimSpace (a_Digest a) \<noteq> []"
  by (auto simp: eligible_def ValidateArtifactSourceForArtifact_None)

lemma firstReadyNodeLocalSource_Some:
  assumes "firstReadyNodeLocalSource (filter (eligible L svc a) ss) = Some x"
  shows "x \<in> set ss" "eligible L svc a x" "\<exists>nl. NodeLocal (s_Location x) = Some nl \<and> nl_Path nl \<noteq> []"
proof -
  have "x \<in> set (filter (eligible L svc a) ss) \<and>
      (case NodeLocal (s_Location x) of Some nl \<Rightarrow> nl_Path nl \<noteq> [] | None \<Rightarrow> False)"
    using assms unfolding firstReadyNodeLocalSource_def find_Some_iff by (metis nth_mem)
  then show "x \<in> set ss" "eligible L svc a x" "\<exists>nl. NodeLocal (s_Location x) = Some nl \<and> nl_Path nl \<noteq> []"
    by (auto split: option.splits)
qed

lemma firstReadyHTTPSource_Some:
  assumes "firstReadyHTTPSource (filter (eligible L svc a) ss) = Some x"
  shows "x \<in> set ss" "eligible L svc a x" "\<exists>h. HTTP (s_Location x) = Some h \<and> h_URI h \<noteq> []"
proof -
  have "x \<in> set (filter (eligible L svc a) ss) \<and>
      (case HTTP (s_Location x) of Some h \<Rightarrow> h_URI h \<noteq> [] | None \<Rightarrow> False)"
    using assms unfolding firstReadyHTTPSource_def find_Some_iff by (metis nth_mem)
  then show "x \<in> set ss" "eligible L svc a x" "\<exists>h. HTTP (s_Location x) = Some h \<and> h_URI h \<noteq> []"
    by (auto split: option.splits)
qed

section \<open>Candidates\<close>

text \<open>
  \<open>candidate_from L svc b a ss c\<close>: the candidate \<open>c\<close> describes an eligible source of \<open>ss\<close>, of
  the kind its mode says, and carries the digest and size of the artifact.
\<close>

definition candidate_from :: "golib \<Rightarrow> 's Service \<Rightarrow> Binding \<Rightarrow> Artifact \<Rightarrow> ArtifactSource list \<Rightarrow>
    MaterializationCandidate \<Rightarrow> bool" where
  "candidate_from L svc b a ss c \<longleftrightarrow>
     (\<exists>x \<in> set ss. eligible L svc a x \<and> c_SourceRef c = s_SourceID x \<and>
        c_SourceLocation c = Some (s_Location x) \<and> c_ExpectedDigest c = expected_digest b a \<and>
        c_ExpectedSize c = a_SizeBytes a \<and> c_LocalPath c = local_path b \<and>
        (c_Mode c = LocalReuse \<and> c_URI c = [] \<and>
           (\<exists>nl. NodeLocal (s_Location x) = Some nl \<and> nl_Path nl \<noteq> []) \<or>
         c_Mode c = RemoteFetch \<and> (\<exists>h. HTTP (s_Location x) = Some h \<and> h_URI h = c_URI c \<and> c_URI c \<noteq> [])))"

definition the_locals :: "golib \<Rightarrow> 's Service \<Rightarrow> Binding \<Rightarrow> string \<Rightarrow> Artifact \<Rightarrow> ArtifactSource list \<Rightarrow>
    MaterializationCandidate list" where
  "the_locals L svc b target a ss =
     local_candidates b a (firstReadyNodeLocalSource (candidateEligibleArtifactSources L svc a ss)) target"

definition the_remotes :: "golib \<Rightarrow> 's Service \<Rightarrow> Binding \<Rightarrow> string \<Rightarrow> Artifact \<Rightarrow> ArtifactSource list \<Rightarrow>
    MaterializationCandidate list" where
  "the_remotes L svc b target a ss =
     remote_candidates b a (firstReadyHTTPSource (candidateEligibleArtifactSources L svc a ss))
       (the_locals L svc b target a ss)"

definition the_producer :: "golib \<Rightarrow> 's Service \<Rightarrow> Artifact \<Rightarrow> ArtifactSource list \<Rightarrow> string" where
  "the_producer L svc a ss =
     producer_node a (firstReadyNodeLocalSource (candidateEligibleArtifactSources L svc a ss))"

lemma resolve_registered_eq:
  "resolve_registered L svc b target a ss =
     (if target \<noteq> []
      then decide_scheduled (b_ConsumePolicy b) target (the_producer L svc a ss)
             (the_locals L svc b target a ss) (the_remotes L svc b target a ss)
      else (decide_planning (b_ConsumePolicy b) (the_producer L svc a ss)
             (the_locals L svc b target a ss) (the_remotes L svc b target a ss), False))"
  by (simp add: resolve_registered_def the_producer_def the_locals_def the_remotes_def Let_def)

lemma the_locals_from:
  assumes "c \<in> set (the_locals L svc b target a ss)"
  shows "candidate_from L svc b a ss c" "c_Mode c = LocalReuse"
proof -
  obtain x where x: "firstReadyNodeLocalSource (filter (eligible L svc a) ss) = Some x"
    and c: "localCandidate b a x (target = []) = Some c"
    using assms [unfolded the_locals_def local_candidates_def eligible_sources]
    by (simp split: option.splits) metis
  note X = firstReadyNodeLocalSource_Some [OF x]
  from c show "c_Mode c = LocalReuse"
    by (auto simp: localCandidate_def Let_def split: if_splits)
  from c have "c_SourceRef c = s_SourceID x" "c_SourceLocation c = Some (s_Location x)"
    "c_ExpectedDigest c = expected_digest b a" "c_ExpectedSize c = a_SizeBytes a"
    "c_LocalPath c = local_path b" "c_Mode c = LocalReuse" "c_URI c = []"
    by (auto simp: localCandidate_def Let_def split: if_splits)
  then show "candidate_from L svc b a ss c"
    unfolding candidate_from_def using X by blast
qed

lemma the_remotes_from:
  assumes "c \<in> set (the_remotes L svc b target a ss)"
  shows "candidate_from L svc b a ss c" "c_Mode c = RemoteFetch"
proof -
  obtain x p where x: "firstReadyHTTPSource (filter (eligible L svc a) ss) = Some x"
    and c: "remoteCandidate b a x p = Some c"
    using assms [unfolded the_remotes_def remote_candidates_def eligible_sources]
    by (simp split: option.splits) metis
  note X = firstReadyHTTPSource_Some [OF x]
  from c show "c_Mode c = RemoteFetch"
    by (auto simp: remoteCandidate_def Let_def split: if_splits)
  from c have "c_SourceRef c = s_SourceID x" "c_SourceLocation c = Some (s_Location x)"
    "c_ExpectedDigest c = expected_digest b a" "c_ExpectedSize c = a_SizeBytes a"
    "c_LocalPath c = local_path b" "c_Mode c = RemoteFetch"
    "c_URI c = (case HTTP (s_Location x) of Some h \<Rightarrow> h_URI h | None \<Rightarrow> [])"
    by (auto simp: remoteCandidate_def Let_def split: if_splits)
  then show "candidate_from L svc b a ss c"
    unfolding candidate_from_def using X by fastforce
qed

section \<open>Decisions\<close>

text \<open>
  A refusal carries nothing to materialise and is retryable only while the producer is
  pending; a resolution carries candidates, and its plan is one of them.
\<close>

definition plan_of :: "MaterializationCandidate list \<Rightarrow> MaterializationPlan \<Rightarrow> bool" where
  "plan_of cs plan \<longleftrightarrow> (\<exists>c \<in> set cs. plan = legacyPlanFromCandidate c)"

definition well_decided :: "ResolvedHandoff \<Rightarrow> bool" where
  "well_decided r \<longleftrightarrow>
     (if r_Status r = RESOLVED
      then r_Decision r \<in> {DecLocalReuse, DecRemoteFetch} \<and> \<not> r_Retryable r \<and>
           plan_of (r_MaterializationCandidates r) (r_MaterializationPlan r)
      else r_Decision r \<in> {DecUnavailable, DecProducerFailed} \<and>
           r_MaterializationPlan r = no_plan \<and> r_MaterializationCandidates r = [] \<and>
           (r_Retryable r \<longleftrightarrow> r_Status r = PENDING) \<and>
           (r_Decision r = DecProducerFailed \<longleftrightarrow> r_Status r = PRODUCER_FAILED))"

lemma refusal_well_decided:
  "st \<noteq> RESOLVED \<Longrightarrow> (rt \<longleftrightarrow> st = PENDING) \<Longrightarrow>
   d \<in> {DecUnavailable, DecProducerFailed} \<Longrightarrow> (d = DecProducerFailed \<longleftrightarrow> st = PRODUCER_FAILED) \<Longrightarrow>
     well_decided (refusal st d reason rt)"
  by (auto simp: well_decided_def refusal_def)

lemma resolution_well_decided:
  "d \<in> {DecLocalReuse, DecRemoteFetch} \<Longrightarrow> plan_of cs plan \<Longrightarrow>
     well_decided (resolution d intent plan cs reason)"
  by (simp add: well_decided_def resolution_def)

lemma well_decided_placement [simp]: "well_decided (r\<lparr>r_PlacementIntent := p\<rparr>) = well_decided r"
  by (simp add: well_decided_def)

lemma plan_of_hd [simp]: "cs \<noteq> [] \<Longrightarrow> plan_of (xs @ cs) (legacyPlanFromCandidate (hd cs))"
  "cs \<noteq> [] \<Longrightarrow> plan_of (cs @ xs) (legacyPlanFromCandidate (hd cs))"
  "cs \<noteq> [] \<Longrightarrow> plan_of cs (legacyPlanFromCandidate (hd cs))"
  by (auto simp: plan_of_def)

lemma decide_scheduled_well: "well_decided (fst (decide_scheduled p target pnode locals remotes))"
  by (auto simp: decide_scheduled_def intro!: resolution_well_decided refusal_well_decided)

lemma decide_planning_well: "well_decided (decide_planning p pnode locals remotes)"
  by (auto simp: decide_planning_def intro!: resolution_well_decided refusal_well_decided)

lemma resolve_registered_well: "well_decided (fst (resolve_registered L svc b target a ss))"
  by (simp add: resolve_registered_eq decide_scheduled_well decide_planning_well)

lemma resolve_unregistered_well: "well_decided (resolve_unregistered b t)"
  by (auto simp: resolve_unregistered_def intro!: refusal_well_decided split: option.splits)

lemma digest_refusal_well: "digest_refusal b a = Some r \<Longrightarrow> well_decided r"
  by (auto simp: digest_refusal_def intro!: refusal_well_decided split: if_splits)

lemma decide_candidates:
  "set (r_MaterializationCandidates (fst (decide_scheduled p target pnode locals remotes)))
     \<subseteq> set locals \<union> set remotes"
  "set (r_MaterializationCandidates (decide_planning p pnode locals remotes)) \<subseteq> set locals \<union> set remotes"
  by (auto simp: decide_scheduled_def decide_planning_def resolution_def refusal_def)

lemma resolve_registered_candidates:
  assumes "c \<in> set (r_MaterializationCandidates (fst (resolve_registered L svc b target a ss)))"
  shows "candidate_from L svc b a ss c"
proof -
  from assms have "c \<in> set (the_locals L svc b target a ss) \<union> set (the_remotes L svc b target a ss)"
    unfolding resolve_registered_eq using decide_candidates by (fastforce split: if_splits)
  then show ?thesis by (auto dest: the_locals_from(1) the_remotes_from(1))
qed

text \<open>A binding that demands the producer's node is never given a remote plan.\<close>

lemma same_node_only_local:
  assumes "\<forall>c \<in> set locals. c_Mode c = LocalReuse"
  shows "r_Decision (fst (decide_scheduled SameNodeOnly target pnode locals remotes)) \<noteq> DecRemoteFetch"
    "mp_Mode (r_MaterializationPlan (fst (decide_scheduled SameNodeOnly target pnode locals remotes)))
       \<noteq> RemoteFetch"
    "r_Decision (decide_planning SameNodeOnly pnode locals remotes) \<noteq> DecRemoteFetch"
    "mp_Mode (r_MaterializationPlan (decide_planning SameNodeOnly pnode locals remotes)) \<noteq> RemoteFetch"
  using assms
  by (cases locals; simp add: decide_scheduled_def decide_planning_def resolution_def refusal_def
      legacyPlanFromCandidate_def no_plan_def)+

end
