(* ===== verification/System.thy ===== *)
theory System
  imports Service_Laws Resolve_Laws Memory_Store
begin

text \<open>
  The service under any sequence of requests.  A request is a call of one of the service's
  exported methods that may write; the reads change nothing.  The simulation of
  \<^verbatim>\<open>Service_Laws\<close> lifts to sequences of requests, with any readings of the clock, and is
  instantiated on the in-memory backend.
\<close>

datatype request =
    RegisterArtifact Artifact
  | AddSource string ArtifactSource
  | UpdateSourceState string SourceState
  | VerifySource string
  | ResolveHandoff Binding string
  | NotifyNodeTerminal string string string string
  | FinalizeRun string string
  | EvaluateRunGC string

fun serve :: "'s store \<Rightarrow> golib \<Rightarrow> 's Service \<Rightarrow> clock \<times> request \<Rightarrow> 's Service" where
  "serve S L svc (now, RegisterArtifact a) = snd (RegisterArtifactCore S L now svc a)"
| "serve S L svc (now, AddSource aid s) = snd (AddSourceCore S L now svc aid s)"
| "serve S L svc (now, UpdateSourceState sid st) = snd (UpdateSourceStateCore S now svc sid st)"
| "serve S L svc (now, VerifySource sid) = snd (VerifySourceCore S L now svc sid)"
| "serve S L svc (now, ResolveHandoff b target) = snd (ResolveHandoffCore S L now svc b target)"
| "serve S L svc (now, NotifyNodeTerminal r n att st) = snd (NotifyNodeTerminalCore S L now svc r n att st)"
| "serve S L svc (now, FinalizeRun r sample) = snd (FinalizeRunCore S now svc r sample)"
| "serve S L svc (now, EvaluateRunGC r) = snd (EvaluateRunGCCore S now svc r)"

definition serve_all :: "'s store \<Rightarrow> golib \<Rightarrow> 's Service \<Rightarrow> (clock \<times> request) list \<Rightarrow> 's Service" where
  "serve_all S L svc reqs = foldl (serve S L) svc reqs"

lemma serve_all_simps [simp]:
  "serve_all S L svc [] = svc" "serve_all S L svc (q # reqs) = serve_all S L (serve S L svc q) reqs"
  "serve_all S L svc (reqs @ reqs') = serve_all S L (serve_all S L svc reqs) reqs'"
  by (simp_all add: serve_all_def)

text \<open>The one run a request is about.\<close>

fun request_run :: "registry \<Rightarrow> request \<Rightarrow> string" where
  "request_run R (RegisterArtifact a) = a_RunID a"
| "request_run R (AddSource aid s) = artifact_run R aid"
| "request_run R (UpdateSourceState sid st) = source_run R sid"
| "request_run R (VerifySource sid) = source_run R sid"
| "request_run R (ResolveHandoff b target) = b_RunID b"
| "request_run R (NotifyNodeTerminal r n att st) = r"
| "request_run R (FinalizeRun r sample) = r"
| "request_run R (EvaluateRunGC r) = r"

context run_store
begin

lemma serve_simulates:
  assumes "good L svc"
  shows "simulates L (request_run (view (svc_store svc)) req) (svc_store svc) (svc_store (serve S L svc (now, req)))"
  using assms
  by (cases req)
    (simp_all add: register_simulates [OF assms prod.collapse [symmetric]]
      add_source_simulates [OF assms prod.collapse [symmetric]]
      update_source_simulates [OF assms prod.collapse [symmetric]]
      verify_source_simulates [OF assms prod.collapse [symmetric]]
      resolve_simulates [OF assms prod.collapse [symmetric]]
      notify_simulates [OF assms prod.collapse [symmetric]]
      finalize_simulates [OF assms prod.collapse [symmetric]]
      evaluate_simulates [OF assms prod.collapse [symmetric]])

lemma serve_slice:
  assumes "good L svc" and "r \<noteq> request_run (view (svc_store svc)) req"
  shows "slice (view (svc_store (serve S L svc (now, req)))) r = slice (view (svc_store svc)) r"
  using serve_simulates [OF assms(1)] reg_steps_slice assms by blast

lemma serve_all_runs:
  "good L svc \<Longrightarrow> inv (svc_store (serve_all S L svc reqs)) \<and>
     reg_runs L (view (svc_store svc)) (view (svc_store (serve_all S L svc reqs)))"
proof (induction reqs arbitrary: svc)
  case (Cons q reqs)
  obtain now req where q: "q = (now, req)" by fastforce
  note s = serve_simulates [OF Cons.prems, of now req]
  with Cons.prems have "good L (serve S L svc q)" unfolding q by (blast intro: reg_steps_ok)
  from Cons.IH [OF this] s reg_steps_runs show ?case unfolding q by fastforce
qed simp

lemma serve_all_good: "good L svc \<Longrightarrow> good L (serve_all S L svc reqs)"
  using serve_all_runs [of svc L reqs] reg_runs_ok by blast

lemma serve_all_grows:
  "good L svc \<Longrightarrow> grows (view (svc_store svc)) (view (svc_store (serve_all S L svc reqs)))"
  using serve_all_runs [of svc L reqs] reg_runs_grows by blast

end

text \<open>The settings of the service are fixed at construction.\<close>

definition settings :: "'s Service \<Rightarrow> duration \<times> string \<times> string list \<times> bool" where
  "settings svc = (minRetention svc, retentionPolicySource svc, httpAllowedHosts svc, allowAnyHTTPSource svc)"

lemma settings_with [simp]:
  "settings (with_store svc st) = settings svc" "settings (count_metric f svc) = settings svc"
  by (simp_all add: settings_def with_store_def count_metric_def)

lemma settings_put_one: "settings (snd (put_one_source S svc x)) = settings svc"
  by (simp add: put_one_source_def split: prod.splits)

lemma settings_reload: "settings (snd (store_and_reload S svc x)) = settings svc"
  using settings_put_one [of S svc x]
  by (auto simp: store_and_reload_def split: prod.splits option.splits sum.splits)

lemma settings_upsert: "settings (snd (finish_upsert S svc l)) = settings svc"
  by (auto simp: finish_upsert_def split: prod.splits option.splits)

lemma settings_register: "settings (snd (RegisterArtifactCore S L now svc a)) = settings svc"
  by (auto simp: RegisterArtifactCore_def Let_def split: prod.splits option.splits sum.splits)

lemma settings_add: "settings (snd (AddSourceCore S L now svc aid x)) = settings svc"
proof -
  have "settings svc' = settings svc" if "put_one_source S svc y = (e, svc')" for y e svc'
    using settings_put_one [of S svc y] that by simp
  then show ?thesis
    by (auto simp: AddSourceCore_def split: prod.splits option.splits sum.splits store_error.splits)
qed

lemma settings_update: "settings (snd (UpdateSourceStateCore S now svc sid st)) = settings svc"
  by (auto simp: UpdateSourceStateCore_def settings_reload split: option.splits sum.splits)

lemma settings_verify: "settings (snd (VerifySourceCore S L now svc sid)) = settings svc"
proof -
  have "settings svc' = settings svc" if "store_and_reload S svc y = (e, svc')" for y e svc'
    using settings_reload [of S svc y] that by simp
  then show ?thesis
    by (auto simp: VerifySourceCore_def split: prod.splits option.splits sum.splits)
qed

lemma settings_resolve: "settings (snd (ResolveHandoffCore S L now svc b target)) = settings svc"
  by (auto simp: ResolveHandoffCore_def Let_def split: prod.splits option.splits sum.splits)

lemma settings_notify: "settings (snd (NotifyNodeTerminalCore S L now svc r n att st)) = settings svc"
  by (auto simp: NotifyNodeTerminalCore_def split: prod.splits option.splits)

lemma settings_finalize: "settings (snd (FinalizeRunCore S now svc r sample)) = settings svc"
  by (auto simp: FinalizeRunCore_def Let_def settings_upsert split: sum.splits)

lemma settings_evaluate: "settings (snd (EvaluateRunGCCore S now svc r)) = settings svc"
  by (auto simp: EvaluateRunGCCore_def Let_def settings_upsert split: sum.splits)

lemma serve_all_settings: "settings (serve_all S L svc reqs) = settings svc"
proof (induction reqs arbitrary: svc)
  case (Cons q reqs)
  obtain now req where q: "q = (now, req)" by fastforce
  have "settings (serve S L svc q) = settings svc"
    unfolding q by (cases req) (simp_all add: settings_register settings_add settings_update settings_verify
        settings_resolve settings_notify settings_finalize settings_evaluate)
  with Cons show ?case by simp
qed simp

section \<open>The in-memory service\<close>

definition mem_registry :: "MemoryStore \<Rightarrow> registry" where
  "mem_registry s = \<lparr>reg_arts = map_of (artifacts s), reg_terms = map_of (nodeTerminals s),
     reg_lifes = map_of (runLifecycles s), reg_srcs = map_of (sources s)\<rparr>"

lemma mem_registry_view:
  "registry_of (\<lambda>s. map_of (artifacts s)) (\<lambda>s. map_of (nodeTerminals s)) (\<lambda>s. map_of (runLifecycles s))
     (\<lambda>s. map_of (sources s)) = mem_registry"
  by (simp add: fun_eq_iff registry_of_def mem_registry_def)

lemma mem_registry_fields [simp]:
  "reg_arts (mem_registry s) = map_of (artifacts s)"
  "reg_terms (mem_registry s) = map_of (nodeTerminals s)"
  "reg_lifes (mem_registry s) = map_of (runLifecycles s)"
  "reg_srcs (mem_registry s) = map_of (sources s)"
  by (simp_all add: mem_registry_def)

text \<open>The state of a service that was started empty and has served the given requests.\<close>

definition mem_service :: "golib \<Rightarrow> (service_error \<Rightarrow> string) \<Rightarrow> string \<Rightarrow> string \<Rightarrow>
    (clock \<times> request) list \<Rightarrow> MemoryStore Service" where
  "mem_service L text hosts anyHost reqs =
     serve_all (memory_store L) L (projr (NewService L text hosts anyHost None NewMemoryStore)) reqs"

definition mem_good :: "golib \<Rightarrow> MemoryStore Service \<Rightarrow> bool" where
  "mem_good L svc \<longleftrightarrow> mem_inv (svc_store svc) \<and> registry_ok L (mem_registry (svc_store svc))"

lemma mem_goodD:
  "mem_good L svc \<Longrightarrow> mem_inv (svc_store svc) \<and> registry_ok L (registry_of (\<lambda>s. map_of (artifacts s))
     (\<lambda>s. map_of (nodeTerminals s)) (\<lambda>s. map_of (runLifecycles s)) (\<lambda>s. map_of (sources s)) (svc_store svc))"
  by (simp add: mem_good_def mem_registry_view)

lemma mem_registry_new: "mem_registry NewMemoryStore = empty_registry"
  by (simp add: mem_registry_def NewMemoryStore_def empty_registry_def)

lemma mem_good_serve: "mem_good L svc \<Longrightarrow> mem_good L (serve_all (memory_store L) L svc reqs)"
  using mem.serve_all_good by (simp add: mem_good_def mem_registry_view)

lemma mem_service_good: "mem_good L (mem_service L text hosts anyHost reqs)"
  unfolding mem_service_def by (rule mem_good_serve) (simp add: mem_good_def NewService_def mem_registry_new)

lemma mem_serve_grows:
  "mem_good L svc \<Longrightarrow>
     grows (mem_registry (svc_store svc)) (mem_registry (svc_store (serve_all (memory_store L) L svc reqs)))"
  using mem.serve_all_grows by (simp add: mem_good_def mem_registry_view)

lemma mem_service_append:
  "mem_service L text hosts anyHost (reqs @ reqs') =
     serve_all (memory_store L) L (mem_service L text hosts anyHost reqs) reqs'"
  by (simp add: mem_service_def)

end
