(* ===== verification/Effects.thy ===== *)
theory Effects
  imports System
begin

text \<open>
  What the operations return and what they leave alone, over any store that meets the
  contract.
\<close>

section \<open>Resolution\<close>

text \<open>The answer to a valid request, as a function of what the store holds.\<close>

definition resolve_answer :: "golib \<Rightarrow> 's Service \<Rightarrow> registry \<Rightarrow> Binding \<Rightarrow> string \<Rightarrow>
    ArtifactSource list \<Rightarrow> ResolvedHandoff" where
  "resolve_answer L svc R b target ss =
     (if (\<exists>l. reg_lifes R (b_RunID b) = Some l \<and> l_GCEligible l)
      then refusal GC_EXPIRED DecUnavailable ''run is GC eligible'' False
      else case reg_arts R (Binding_Key b) of
        None \<Rightarrow> resolve_unregistered b
                 (reg_terms R (terminal_key (b_RunID b) (b_ProducerNodeID b) (b_ProducerAttemptID b)))
      | Some a \<Rightarrow>
          (case digest_refusal b a of
             Some r \<Rightarrow> r
           | None \<Rightarrow> fst (resolve_registered L svc b target a ss)))"

lemma resolve_registered_metrics [simp]:
  "resolve_registered L (count_metric f svc) b target a ss = resolve_registered L svc b target a ss"
  "resolve_registered L (with_store svc st) b target a ss = resolve_registered L svc b target a ss"
  by (simp_all add: resolve_registered_def candidateEligibleArtifactSources_def count_metric_def
      with_store_def)

lemma resolve_registered_status:
  "r_Status (fst (resolve_registered L svc b target a ss)) \<in> {RESOLVED, POLICY_BLOCKED, UNAVAILABLE}"
  by (auto simp: resolve_registered_eq decide_scheduled_def decide_planning_def resolution_def refusal_def)

lemma resolve_unregistered_status:
  "r_Status (resolve_unregistered b t) \<in> {PENDING, PRODUCER_FAILED, MISSING}"
  by (auto simp: resolve_unregistered_def refusal_def split: option.splits)

lemma digest_refusal_status: "digest_refusal b a = Some r \<Longrightarrow> r_Status r = DIGEST_MISMATCH"
  by (auto simp: digest_refusal_def refusal_def split: if_splits)

lemma resolve_answer_expired:
  "r_Status (resolve_answer L svc R b target ss) = GC_EXPIRED \<longleftrightarrow>
     (\<exists>l. reg_lifes R (b_RunID b) = Some l \<and> l_GCEligible l)"
proof (cases "\<exists>l. reg_lifes R (b_RunID b) = Some l \<and> l_GCEligible l")
  case False
  have "r_Status (fst (resolve_registered L svc b target a ss)) \<noteq> GC_EXPIRED" for a
    using resolve_registered_status [of L svc b target a ss] by auto
  moreover have "r_Status (resolve_unregistered b t) \<noteq> GC_EXPIRED" for t
    using resolve_unregistered_status [of b t] by auto
  ultimately show ?thesis
    using False by (auto simp: resolve_answer_def dest: digest_refusal_status split: option.splits)
qed (simp add: resolve_answer_def refusal_def)

lemma resolve_answer_candidates:
  assumes "c \<in> set (r_MaterializationCandidates (resolve_answer L svc R b target ss))"
  obtains a x where "reg_arts R (Binding_Key b) = Some a"
    "b_ExpectedDigest b = [] \<or> b_ExpectedDigest b = a_Digest a" "x \<in> set ss" "eligible L svc a x"
    "c_SourceRef c = s_SourceID x" "c_ExpectedDigest c = expected_digest b a" "c_ExpectedSize c = a_SizeBytes a"
    "c_Mode c = RemoteFetch \<longrightarrow> (\<exists>h. HTTP (s_Location x) = Some h \<and> h_URI h = c_URI c)"
proof -
  have "r_MaterializationCandidates (resolve_unregistered b t) = []" for t
    by (simp add: resolve_unregistered_def refusal_def split: option.splits)
  moreover have "r_MaterializationCandidates r = []" if "digest_refusal b a = Some r" for a r
    using that by (auto simp: digest_refusal_def refusal_def split: if_splits)
  ultimately obtain a where a: "reg_arts R (Binding_Key b) = Some a" "digest_refusal b a = None"
    "c \<in> set (r_MaterializationCandidates (fst (resolve_registered L svc b target a ss)))"
    using assms by (auto simp: resolve_answer_def refusal_def split: if_splits option.splits)
  from a(2) have "b_ExpectedDigest b = [] \<or> b_ExpectedDigest b = a_Digest a"
    by (auto simp: digest_refusal_def split: if_splits)
  with resolve_registered_candidates [OF a(3)] a(1) that show thesis
    by (auto simp: candidate_from_def)
qed

lemma resolve_answer_same_node:
  assumes "b_ConsumePolicy b = SameNodeOnly"
  shows "r_Decision (resolve_answer L svc R b target ss) \<noteq> DecRemoteFetch \<and>
     mp_Mode (r_MaterializationPlan (resolve_answer L svc R b target ss)) \<noteq> RemoteFetch"
proof -
  have "\<forall>c \<in> set (the_locals L svc b t a ss). c_Mode c = LocalReuse" for t a
    by (auto dest: the_locals_from(2))
  from same_node_only_local [OF this] show ?thesis
    using assms
    by (simp add: resolve_answer_def resolve_registered_eq resolve_unregistered_def digest_refusal_def
        refusal_def no_plan_def split: option.splits)
qed

lemma resolve_answer_well: "well_decided (resolve_answer L svc R b target ss)"
  by (auto simp: resolve_answer_def resolve_registered_well resolve_unregistered_well digest_refusal_well
      intro!: refusal_well_decided split: option.splits)

context run_store
begin

text \<open>The sources a resolution of the artifact considers.\<close>

definition sources_considered :: "golib \<Rightarrow> clock \<Rightarrow> 's \<Rightarrow> Artifact \<Rightarrow> ArtifactSource list \<Rightarrow> bool" where
  "sources_considered L now st a ss \<longleftrightarrow>
     (if \<exists>x \<in> ran (srcs st). s_ArtifactID x = a_ArtifactID a
      then distinct ss \<and> set ss = {x \<in> ran (srcs st). s_ArtifactID x = a_ArtifactID a}
      else ss = initialSourcesForArtifact L a (now 0))"

lemma resolve_eq:
  assumes "good L svc" and "binding_error b = None"
  obtains ss where "fst (ResolveHandoffCore S L now svc b target) =
      Inr (resolve_answer L svc (view (svc_store svc)) b target ss)"
    "\<And>a. arts (svc_store svc) (Binding_Key b) = Some a \<Longrightarrow> sources_considered L now (svc_store svc) a ss"
proof -
  let ?st = "svc_store svc"
  have good: "inv ?st" "registry_ok L (view ?st)" using assms(1) by auto
  show thesis
  proof (cases "arts ?st (Binding_Key b)")
    case None
    then show thesis
      using assms(2) good
      by (intro that [of "[]"])
        (auto simp: ResolveHandoffCore_def resolve_answer_def get_lifecycle get_artifact get_terminal
          Binding_Key_artifact_key Let_def split: option.splits)
  next
    case (Some a)
    have live: "live (arts ?st) (a_ArtifactID a)"
      using Some by (auto simp: live_def ran_def)
    obtain xs where xs: "ListArtifactSources S ?st (a_ArtifactID a) = Inr xs" "distinct xs"
      "set xs = {x \<in> ran (srcs ?st). s_ArtifactID x = a_ArtifactID a}"
      using list_sources [OF good(1), of "a_ArtifactID a"] live by auto
    let ?ss = "effectiveArtifactSources L a xs (now 0)"
    have con: "sources_considered L now ?st a ?ss"
      using xs(2,3) by (cases xs) (auto simp: sources_considered_def effectiveArtifactSources_def)
    have "fst (ResolveHandoffCore S L now svc b target) =
        Inr (resolve_answer L svc (view ?st) b target ?ss)"
      using Some xs(1) assms(2) good
      by (auto simp: ResolveHandoffCore_def resolve_answer_def get_lifecycle get_artifact
          Binding_Key_artifact_key Let_def case_prod_beta split: option.splits)
    with con Some show thesis by (intro that [of ?ss]) auto
  qed
qed

lemma resolve_invalid:
  "binding_error b = Some e \<Longrightarrow> fst (ResolveHandoffCore S L now svc b target) = Inl e"
  by (simp add: ResolveHandoffCore_def Let_def)

lemma resolve_store:
  assumes "good L svc"
  shows "terms (svc_store (snd (ResolveHandoffCore S L now svc b target))) = terms (svc_store svc)"
    "lifes (svc_store (snd (ResolveHandoffCore S L now svc b target))) = lifes (svc_store svc)"
    "srcs (svc_store (snd (ResolveHandoffCore S L now svc b target))) = srcs (svc_store svc)"
  using assms write_through
  by (auto simp: ResolveHandoffCore_def Let_def case_prod_beta split: sum.splits option.splits)

end

section \<open>Registration\<close>

definition retime :: "time \<Rightarrow> ArtifactSource \<Rightarrow> ArtifactSource" where
  "retime t x = x\<lparr>s_CreatedAt := t, s_UpdatedAt := t\<rparr>"

lemma retime_fields [simp]:
  "s_SourceID (retime t x) = s_SourceID x" "s_ArtifactID (retime t x) = s_ArtifactID x"
  "s_Location (retime t x) = s_Location x" "s_Digest (retime t x) = s_Digest x"
  by (simp_all add: retime_def)

text \<open>The initial sources of an artifact depend on the clock in their time stamps only.\<close>

lemma validate_source_times:
  "ValidateArtifactSourceForArtifact L (a\<lparr>a_CreatedAt := c\<rparr>) (x\<lparr>s_CreatedAt := t1, s_UpdatedAt := t2\<rparr>) = None \<longleftrightarrow>
     ValidateArtifactSourceForArtifact L a x = None"
  by (simp add: ValidateArtifactSourceForArtifact_None ValidateArtifactSource_None)

lemma appendSource_retime:
  "appendSource L (a\<lparr>a_CreatedAt := c\<rparr>) t' b loc (map (retime t') ss) =
     map (retime t') (appendSource L a t b loc ss)"
proof (cases "LocationFingerprint loc = []")
  case False
  let ?x = "\<lambda>t. \<lparr>s_SourceID = SourceID (a_ArtifactID a) b (LocationFingerprint loc),
      s_ArtifactID = a_ArtifactID a, s_BackendID = b, s_Digest = a_Digest a, s_State = StateReady,
      s_LocationFingerprint = LocationFingerprint loc, s_Location = fill_node a loc, s_CreatedAt = t,
      s_UpdatedAt = t, s_LastVerifiedAt = 0, s_LastError = []\<rparr>"
  have "ValidateArtifactSourceForArtifact L (a\<lparr>a_CreatedAt := c\<rparr>) (?x t') = None \<longleftrightarrow>
      ValidateArtifactSourceForArtifact L a (?x t) = None"
    using validate_source_times [where L = L and a = a and c = c and x = "?x t" and ?t1.0 = t' and ?t2.0 = t']
    by simp
  moreover have "fill_node (a\<lparr>a_CreatedAt := c\<rparr>) loc = fill_node a loc"
    by (simp add: fill_node_def split: option.splits)
  moreover have "list_ex (\<lambda>y. s_SourceID y = sid) (map (retime t') ss) = list_ex (\<lambda>y. s_SourceID y = sid) ss"
    for sid by (induction ss) auto
  moreover have "retime t' (?x t) = ?x t'" by (simp add: retime_def)
  ultimately show ?thesis using False by (simp add: appendSource_def Let_def)
qed (simp add: appendSource_def)

lemma appendLocation_retime:
  "appendLocation L (a\<lparr>a_CreatedAt := c\<rparr>) t' (map (retime t') ss) loc =
     map (retime t') (appendLocation L a t ss loc)"
  by (simp add: appendLocation_def appendSource_retime [where t = t])

lemma initial_sources_retime:
  "initialSourcesForArtifact L (a\<lparr>a_CreatedAt := c\<rparr>) t' =
     map (retime t') (initialSourcesForArtifact L a t)"
proof -
  have "foldl (appendLocation L (a\<lparr>a_CreatedAt := c\<rparr>) t') (map (retime t') ss) ls =
      map (retime t') (foldl (appendLocation L a t) ss ls)" for ss ls
    by (induction ls arbitrary: ss) (simp_all add: appendLocation_retime [where t = t])
  from this [of "[]"] show ?thesis
    by (simp add: initialSourcesForArtifact_def Let_def appendSource_retime [where t = t])
qed

lemma availability_retime [simp]: "availability (map (retime t) ss) = availability ss"
proof -
  have "list_ex P (map (retime t) ss) = list_ex P ss" if "\<And>x. P (retime t x) = P x" for P
    using that by (induction ss) auto
  then show ?thesis by (simp add: availability_def has_node_local_def has_http_def)
qed

lemma register_request_time:
  assumes "register_request L t a0 = Inr a"
  shows "register_request L t' a0 =
     Inr (a\<lparr>a_CreatedAt := if IsZero (a_CreatedAt a0) then t' else a_CreatedAt a\<rparr>)"
  using assms
  by (cases a0, cases "ArtifactKey_Validate L \<lparr>k_RunID = a_RunID a0, k_ProducerNodeID = a_ProducerNodeID a0,
        k_ProducerAttemptID = a_ProducerAttemptID a0, k_OutputName = a_OutputName a0\<rparr>")
    (auto simp: register_request_def Let_def CanonicalID_def Artifact_Key_def split: if_splits)

context run_store
begin

text \<open>A registration that returns an error changed nothing, or lost the race for a source ID.\<close>

lemma register_error:
  assumes "good L svc" and "RegisterArtifactCore S L now svc a0 = (Inl e, svc')"
  shows "svc' = svc \<or> (\<exists>sid aid. e = StoreFailed (SourceOwnershipConflict sid aid) \<and>
     srcs (svc_store svc') = srcs (svc_store svc))"
proof (cases "svc' = svc")
  case False
  with assms obtain a se st where a: "register_request L (now 0) a0 = Inr a"
    and c: "register_check (arts (svc_store svc) (Artifact_Key a)) a = None"
    and p: "PutArtifactSources S (put_state (svc_store svc) a) (a_ArtifactID a)
        (initialSourcesForArtifact L a (now 1)) = (Some se, st)"
    and e: "e = StoreFailed se" "svc' = with_store svc st"
    by (auto simp: register_eq Let_def split: sum.splits option.splits prod.splits)
  note ok = register_request_ok [OF a]
  have put: "put_verdict (arts (svc_store svc)) a \<noteq> None"
    by (rule register_check_put [where A = "arts (svc_store svc)", OF ok c])
  have inv: "inv (put_state (svc_store svc) a)"
    using put_state_simulates [OF _ _ ok] assms(1) by blast
  have "sources_for (a_ArtifactID a) (initialSourcesForArtifact L a (now 1))"
    using initial_sources_ok [OF _ ok put] assms(1) by (auto simp: sources_for_def source_ok_in_def)
  from put_artifact_sources [OF inv this p] e show ?thesis
    using put_state_arts(5) [OF _ put] assms(1) by (auto split: if_splits)
qed simp

text \<open>What a successful registration leaves in the store.\<close>

lemma register_success:
  assumes "good L svc" and "RegisterArtifactCore S L now svc a0 = (Inr av, svc')"
  obtains a where "register_request L (now 0) a0 = Inr a"
    "register_check (arts (svc_store svc) (Artifact_Key a)) a = None"
    "ValidateArtifactForRegistration L a = None"
    "av = availability (initialSourcesForArtifact L a (now 1))"
    "\<exists>a'. arts (svc_store svc') (Artifact_Key a) = Some a' \<and> a_Digest a' = a_Digest a"
    "\<And>k. k \<noteq> Artifact_Key a \<Longrightarrow> arts (svc_store svc') k = arts (svc_store svc) k"
    "terms (svc_store svc') = terms (svc_store svc)" "lifes (svc_store svc') = lifes (svc_store svc)"
    "srcs (svc_store svc') = put_sources keep (initialSourcesForArtifact L a (now 1)) (srcs (svc_store svc))"
proof -
  from assms obtain a st where a: "register_request L (now 0) a0 = Inr a"
    and c: "register_check (arts (svc_store svc) (Artifact_Key a)) a = None"
    and v: "ValidateArtifactForRegistration L a = None"
    and p: "PutArtifactSources S (put_state (svc_store svc) a) (a_ArtifactID a)
        (initialSourcesForArtifact L a (now 1)) = (None, st)"
    and e: "av = availability (initialSourcesForArtifact L a (now 1))" "svc_store svc' = st"
    by (auto simp: register_eq Let_def split: sum.splits option.splits prod.splits)
  note ok = register_request_ok [OF a]
  have put: "put_verdict (arts (svc_store svc)) a \<noteq> None"
    by (rule register_check_put [where A = "arts (svc_store svc)", OF ok c])
  have inv: "inv (put_state (svc_store svc) a)"
    using put_state_simulates [OF _ _ ok] assms(1) by blast
  have for': "sources_for (a_ArtifactID a) (initialSourcesForArtifact L a (now 1))"
    using initial_sources_ok [OF _ ok put] assms(1) by (auto simp: sources_for_def source_ok_in_def)
  note P = put_artifact_sources [OF inv for' p]
  note A = put_state_arts [OF conjunct1 [OF assms(1)] put]
  show thesis
    by (rule that [OF a c v e(1)]) (use P A e(2) in \<open>auto split: if_splits\<close>)
qed

lemma put_sources_owner:
  assumes "\<forall>s \<in> set ss. s_ArtifactID s = aid"
    and "sid \<in> s_SourceID ` set ss \<or> (\<exists>x. m sid = Some x \<and> s_ArtifactID x = aid)"
  shows "\<exists>x. put_sources keep ss m sid = Some x \<and> s_ArtifactID x = aid"
  using assms
proof (induction ss arbitrary: m)
  case (Cons s ss)
  let ?m = "m(s_SourceID s \<mapsto> keep (m (s_SourceID s)) s)"
  have "s_ArtifactID (keep (m (s_SourceID s)) s) = aid"
    using Cons.prems(1) keep_same by (auto simp: same_source_def)
  with Cons.prems have "sid \<in> s_SourceID ` set ss \<or> (\<exists>x. ?m sid = Some x \<and> s_ArtifactID x = aid)"
    by auto
  from Cons.IH [where m = ?m, OF _ this] Cons.prems(1) show ?case
    by (simp add: put_sources_def fun_upd_def)
qed (simp add: put_sources_def)

lemma put_sources_other:
  "sid \<notin> s_SourceID ` set ss \<Longrightarrow> put_sources keep ss m sid = m sid"
  by (induction ss arbitrary: m) (auto simp: put_sources_def)

text \<open>
  A registration with a digest can be repeated after any further requests: it succeeds again
  with the same answer.
\<close>

lemma register_replay:
  assumes good: "good L svc" and first: "RegisterArtifactCore S L now svc a0 = (Inr av, svc1)"
    and digest: "a_Digest a0 \<noteq> []"
  shows "fst (RegisterArtifactCore S L now' (serve_all S L svc1 reqs) a0) = Inr av"
proof -
  from register_success [OF good first] obtain a a' where
    a: "register_request L (now 0) a0 = Inr a" and v: "ValidateArtifactForRegistration L a = None"
    and av: "av = availability (initialSourcesForArtifact L a (now 1))"
    and a': "arts (svc_store svc1) (Artifact_Key a) = Some a'" "a_Digest a' = a_Digest a"
    and srcs1: "srcs (svc_store svc1) = put_sources keep (initialSourcesForArtifact L a (now 1)) (srcs (svc_store svc))"
    by metis
  let ?svc2 = "serve_all S L svc1 reqs" let ?st2 = "svc_store ?svc2"
  have good1: "good L svc1"
    using register_simulates [OF good first] good by (blast intro: reg_steps_ok)
  have good2: "good L ?svc2" by (rule serve_all_good [OF good1])
  note G = growsD [OF serve_all_grows [OF good1, of reqs], simplified]
  have d: "a_Digest a = a_Digest a0"
    using a by (auto simp: register_request_def Let_def split: if_splits option.splits)
  define c where "c = (if IsZero (a_CreatedAt a0) then now' 0 else a_CreatedAt a)"
  let ?a = "a\<lparr>a_CreatedAt := c\<rparr>"
  have a2: "register_request L (now' 0) a0 = Inr ?a"
    using register_request_time [OF a] by (simp add: c_def)
  note ok = register_request_ok [OF a2]
  have key: "Artifact_Key ?a = Artifact_Key a" by (simp add: Artifact_Key_def)
  from G(1) [OF a'(1)] a'(2) d digest obtain a2' where
    "arts ?st2 (Artifact_Key a) = Some a2'" "a_Digest a2' = a_Digest a"
    by (metis artifact_grows_digest)
  then have c2: "register_check (arts ?st2 (Artifact_Key ?a)) ?a = None"
    by (simp add: key register_check_def)
  have v2: "ValidateArtifactForRegistration L ?a = None"
    using v by (simp add: ValidateArtifactForRegistration_def split: option.splits if_splits)
  have put: "put_verdict (arts ?st2) ?a \<noteq> None"
    by (rule register_check_put [where A = "arts ?st2", OF ok c2])
  let ?ini = "initialSourcesForArtifact L ?a (now' 1)"
  have ini: "?ini = map (retime (now' 1)) (initialSourcesForArtifact L a (now 1))"
    by (rule initial_sources_retime)
  have "\<not> owned_elsewhere (srcs ?st2) (a_ArtifactID ?a) ?ini"
  proof -
    have "s_ArtifactID x = a_ArtifactID a"
      if "s \<in> set ?ini" "srcs ?st2 (s_SourceID s) = Some x" for s x
    proof -
      from that(1) have "s_SourceID s \<in> s_SourceID ` set (initialSourcesForArtifact L a (now 1))"
        unfolding ini by auto
      then obtain y where "srcs (svc_store svc1) (s_SourceID s) = Some y" "s_ArtifactID y = a_ArtifactID a"
        using put_sources_owner initial_sources_set unfolding srcs1 by metis
      with G(4) [OF this(1)] that(2) show ?thesis by auto
    qed
    then show ?thesis by (auto simp: owned_elsewhere_def)
  qed
  moreover have "sources_for (a_ArtifactID ?a) ?ini"
    using initial_sources_ok [OF _ ok put] good2 by (auto simp: sources_for_def source_ok_in_def)
  moreover have "inv (put_state ?st2 ?a)" using put_state_simulates [OF _ _ ok] good2 by blast
  moreover have "srcs (put_state ?st2 ?a) = srcs ?st2" using put_state_arts(5) [OF _ put] good2 by blast
  moreover obtain e st where p: "PutArtifactSources S (put_state ?st2 ?a) (a_ArtifactID ?a) ?ini = (e, st)"
    by fastforce
  ultimately have "e = None"
    using put_artifact_sources [of "put_state ?st2 ?a" "a_ArtifactID ?a" ?ini e st] by simp
  moreover have "availability ?ini = av" unfolding ini av by simp
  ultimately show ?thesis using good2 a2 c2 v2 p by (simp add: register_eq Let_def)
qed

end

section \<open>Garbage collection\<close>

lemma evaluate_gc_eligible:
  "l_GCEligible (evaluate_gc now l) \<longleftrightarrow>
     l_Finalized l \<and> l_TerminalNodeCount l \<noteq> 0 \<and> l_RetainedArtifactCount l \<noteq> 0 \<and>
     (\<forall>u. l_RetentionUntil l = Some u \<longrightarrow> u \<le> now 0)"
  by (auto simp: evaluate_gc_def gc_blocked_def split: option.splits)

definition collectable :: "registry \<Rightarrow> string \<Rightarrow> time \<Rightarrow> bool" where
  "collectable R r t \<longleftrightarrow>
     (\<exists>l u. reg_lifes R r = Some l \<and> l_Finalized l \<and> l_RetentionUntil l = Some u \<and> u \<le> t) \<and>
     (\<exists>a \<in> ran (reg_arts R). a_RunID a = r) \<and> (\<exists>x \<in> ran (reg_terms R). t_RunID x = r)"

lemma collectable_grows:
  assumes "grows R R'" and "collectable R r t" and "t \<le> t'"
  shows "collectable R' r t'"
proof -
  from assms(2) obtain l u a x where l: "reg_lifes R r = Some l" "l_Finalized l" "l_RetentionUntil l = Some u" "u \<le> t"
    and a: "a \<in> ran (reg_arts R)" "a_RunID a = r" and x: "x \<in> ran (reg_terms R)" "t_RunID x = r"
    by (auto simp: collectable_def)
  obtain ka kx where ka: "reg_arts R ka = Some a" and kx: "reg_terms R kx = Some x" using a x by (auto simp: ran_def)
  obtain l' where "reg_lifes R' r = Some l'" "l_Finalized l'" "l_RetentionUntil l' = Some u"
    using growsD(3) [OF assms(1) l(1)] l by (auto simp: lifecycle_grows_def)
  moreover obtain a' where "reg_arts R' ka = Some a'" "a_RunID a' = r"
    using growsD(1) [OF assms(1) ka] a(2) by (auto simp: artifact_grows_def same_identity_def)
  moreover have "reg_terms R' kx = Some x" using growsD(2) [OF assms(1) kx] by auto
  ultimately have "a' \<in> ran (reg_arts R')" "x \<in> ran (reg_terms R')" by (auto intro: ranI)
  with \<open>reg_lifes R' r = Some l'\<close> \<open>l_Finalized l'\<close> \<open>l_RetentionUntil l' = Some u\<close> \<open>a_RunID a' = r\<close>
  show ?thesis using l(4) assms(3) x(2) unfolding collectable_def by fastforce
qed

lemma evaluate_collectable:
  assumes "registry_ok L R" and "run_artifacts R r xs" and "run_terminals R r ts"
  shows "l_GCEligible (evaluate_gc now (snapshot xs ts (load_lifecycle r (reg_lifes R r)))) \<longleftrightarrow>
     collectable R r (now 0)"
proof -
  have "(xs \<noteq> []) = (\<exists>a \<in> ran (reg_arts R). a_RunID a = r)"
    using assms(2) by (cases xs) (auto simp: run_artifacts_def)
  moreover have "(ts \<noteq> []) = (\<exists>x \<in> ran (reg_terms R). t_RunID x = r)"
    using assms(3) by (cases ts) (auto simp: run_terminals_def)
  moreover have "\<exists>u. l_RetentionUntil l = Some u" if "reg_lifes R r = Some l" "l_Finalized l" for l
    using registry_okD(3) [OF assms(1) that(1)] that(2) by (auto simp: lifecycle_ok_def)
  ultimately show ?thesis
    by (cases "reg_lifes R r")
      (auto simp: evaluate_gc_eligible snapshot_def load_lifecycle_def zero_lifecycle_def collectable_def)
qed

context run_store
begin

lemma evaluate_judges:
  assumes "good L svc" and "TrimSpace r \<noteq> []" and "EvaluateRunGCCore S now svc r = (res, svc')"
  shows "res = Inr () \<and> (\<exists>l. lifes (svc_store svc') r = Some l \<and>
     (l_GCEligible l \<longleftrightarrow> collectable (view (svc_store svc)) r (now 0)))"
proof -
  obtain xs ts svc1 where F: "EvaluateRunGCCore S now svc r = (Inr (), svc1)"
    "run_artifacts (view (svc_store svc)) r xs" "run_terminals (view (svc_store svc)) r ts"
    "view (svc_store svc1) = (view (svc_store svc))\<lparr>reg_lifes := (reg_lifes (view (svc_store svc)))(r \<mapsto>
       evaluate_gc now (snapshot xs ts (load_lifecycle r (lifes (svc_store svc) r))))\<rparr>"
    using evaluate_ok [OF assms(1,2)] by metis
  have "reg_lifes (view (svc_store svc1)) r =
      Some (evaluate_gc now (snapshot xs ts (load_lifecycle r (lifes (svc_store svc) r))))"
    unfolding F(4) by simp
  moreover have "svc' = svc1" "res = Inr ()" using F(1) assms(3) by auto
  ultimately show ?thesis
    using evaluate_collectable [OF conjunct2 [OF assms(1)] F(2,3)] by simp
qed

lemma resolve_gc_expired:
  assumes "good L svc" and "fst (ResolveHandoffCore S L now svc b target) = Inr r"
  shows "r_Status r = GC_EXPIRED \<longleftrightarrow> (\<exists>l. lifes (svc_store svc) (b_RunID b) = Some l \<and> l_GCEligible l)"
proof -
  have "binding_error b = None" using assms(2) resolve_invalid [of b] by (cases "binding_error b") auto
  then obtain ss where "r = resolve_answer L svc (view (svc_store svc)) b target ss"
    using resolve_eq [OF assms(1)] assms(2) by (metis Inr_inject)
  then show ?thesis by (simp add: resolve_answer_expired)
qed

end

section \<open>Sources\<close>

context run_store
begin

lemma put_one_ok:
  assumes "good L svc" and "source_ok_in (arts (svc_store svc)) s"
    and own: "\<And>old. srcs (svc_store svc) (s_SourceID s) = Some old \<Longrightarrow> s_ArtifactID old = s_ArtifactID s"
  obtains svc' where "put_one_source S svc s = (None, svc')" "good L svc'"
    "arts (svc_store svc') = arts (svc_store svc)"
    "srcs (svc_store svc') =
       (srcs (svc_store svc))(s_SourceID s \<mapsto> keep (srcs (svc_store svc) (s_SourceID s)) s)"
proof -
  obtain e svc' where p: "put_one_source S svc s = (e, svc')" by fastforce
  then have q: "PutArtifactSources S (svc_store svc) (s_ArtifactID s) [s] = (e, svc_store svc')"
    by (auto simp: put_one_source_def split: prod.splits)
  have "sources_for (s_ArtifactID s) [s]" using assms(2) by (simp add: sources_for_def source_ok_in_def)
  note P = put_artifact_sources [OF _ this q]
  have "\<not> owned_elsewhere (srcs (svc_store svc)) (s_ArtifactID s) [s]"
    using own by (auto simp: owned_elsewhere_def)
  moreover obtain a where "arts (svc_store svc) (s_ArtifactID s) = Some a"
    using assms(2) by (auto simp: source_ok_in_def)
  then have "good L svc'"
    using put_one_simulates [OF assms(1,2) p] assms(1) by (blast intro: reg_steps_ok)
  ultimately show thesis
    using that [of svc'] p P assms(1) by (simp add: put_sources_def)
qed

lemma reload_ok:
  assumes "good L svc" and "srcs (svc_store svc) sid = Some old"
    and id: "s_SourceID s = s_SourceID old" "s_ArtifactID s = s_ArtifactID old" "s_Digest s = s_Digest old"
  obtains svc' where "store_and_reload S svc s = (Inr (keep (Some old) s), svc')"
    "srcs (svc_store svc') = (srcs (svc_store svc))(sid \<mapsto> keep (Some old) s)"
    "arts (svc_store svc') = arts (svc_store svc)"
proof -
  have sid: "s_SourceID old = sid" using registry_okD(4) assms(1,2) by fastforce
  have ok: "source_ok_in (arts (svc_store svc)) s"
    by (rule source_ok_in_update [OF stored_source_ok [OF assms(1,2)] id])
  obtain svc' where P: "put_one_source S svc s = (None, svc')" "good L svc'"
    "arts (svc_store svc') = arts (svc_store svc)"
    "srcs (svc_store svc') = (srcs (svc_store svc))(sid \<mapsto> keep (srcs (svc_store svc) sid) s)"
    using put_one_ok [OF assms(1) ok] assms(2) id sid by (metis option.inject)
  have "GetArtifactSource S (svc_store svc') sid = Inr (Some (keep (Some old) s))"
    using get_source_ok [where L = L] P assms(2) by simp
  with P assms(2) id sid show thesis by (intro that [of svc']) (simp_all add: store_and_reload_def)
qed

lemma verify_source_ok:
  assumes "good L svc" and "srcs (svc_store svc) sid = Some x" and "s_State x \<noteq> StateDeleted"
    and "TrimSpace sid \<noteq> []"
  obtains a y svc' where "arts (svc_store svc) (s_ArtifactID x) = Some a"
    "VerifySourceCore S L now svc sid =
       (Inr (y, verify_error L svc a x = None,
          (case verify_error L svc a x of Some e \<Rightarrow> errorText svc e | None \<Rightarrow> [])), svc')"
    "srcs (svc_store svc') = (srcs (svc_store svc))(sid \<mapsto> y)"
    "s_State y = (if verify_error L svc a x = None then StateReady else StateUnreachable)"
    "s_ArtifactID y = s_ArtifactID x" "s_Location y = s_Location x" "s_LastVerifiedAt y = now 0"
proof -
  obtain a where a: "arts (svc_store svc) (s_ArtifactID x) = Some a"
    using stored_source_ok [OF assms(1,2)] by (auto simp: source_ok_in_def)
  define s where "s = x\<lparr>s_State := if verify_error L svc a x = None then StateReady else StateUnreachable,
      s_LastError := (case verify_error L svc a x of Some e \<Rightarrow> errorText svc e | None \<Rightarrow> []),
      s_LastVerifiedAt := now 0, s_UpdatedAt := now 0\<rparr>"
  obtain svc' where R: "store_and_reload S svc s = (Inr (keep (Some x) s), svc')"
    "srcs (svc_store svc') = (srcs (svc_store svc))(sid \<mapsto> keep (Some x) s)"
    using reload_ok [OF assms(1,2), of s] by (auto simp: s_def)
  have same: "same_source s (keep (Some x) s)" by (rule keep_same)
  show thesis
  proof (rule that [OF a _ R(2)])
    show "VerifySourceCore S L now svc sid =
       (Inr (keep (Some x) s, verify_error L svc a x = None,
          (case verify_error L svc a x of Some e \<Rightarrow> errorText svc e | None \<Rightarrow> [])), svc')"
      using assms a R(1)
      by (cases "verify_error L svc a x")
        (simp_all add: VerifySourceCore_def get_source_ok [where L = L] get_by_id_ok [where L = L] s_def)
  qed (use same in \<open>auto simp: same_source_def s_def\<close>)
qed

text \<open>Adding a source under an ID of another artifact is refused and changes nothing.\<close>

lemma add_source_conflict:
  assumes "good L svc" and "TrimSpace aid \<noteq> []" and "arts (svc_store svc) aid = Some a"
    and "complete_source L (now 0) aid a s0 = Inr s"
    and "srcs (svc_store svc) (s_SourceID s) = Some old" and "s_ArtifactID old \<noteq> aid"
  shows "fst (AddSourceCore S L now svc aid s0) = Inl (SourceOwnedElsewhere (s_SourceID s))"
    "view (svc_store (snd (AddSourceCore S L now svc aid s0))) = view (svc_store svc)"
proof -
  have s: "s_ArtifactID s = aid" "s_SourceID s \<noteq> []"
    using complete_source_ok [OF assms(4)]
    by (auto simp: ValidateArtifactSourceForArtifact_None ValidateArtifactSource_None)
  obtain e svc' where p: "put_one_source S svc s = (e, svc')" by fastforce
  then have q: "PutArtifactSources S (svc_store svc) aid [s] = (e, svc_store svc')"
    using s by (auto simp: put_one_source_def split: prod.splits)
  have "sources_for aid [s]" "owned_elsewhere (srcs (svc_store svc)) aid [s]"
    using s assms(5,6) by (auto simp: sources_for_def owned_elsewhere_def)
  with put_artifact_sources [OF _ this(1) q] assms(1) obtain sid where
    e: "e = Some (SourceOwnershipConflict sid aid)" and v: "view (svc_store svc') = view (svc_store svc)"
    by (auto simp: registry_of_def)
  have core: "AddSourceCore S L now svc aid s0 = (Inl (SourceOwnedElsewhere (s_SourceID s)), svc')"
    using assms(1-4) p e by (simp add: AddSourceCore_def get_by_id_ok [where L = L])
  then show "fst (AddSourceCore S L now svc aid s0) = Inl (SourceOwnedElsewhere (s_SourceID s))" by simp
  from core v show "view (svc_store (snd (AddSourceCore S L now svc aid s0))) = view (svc_store svc)" by simp
qed

text \<open>Otherwise the source is stored, and what is returned is what the store now holds.\<close>

lemma add_source_ok:
  assumes "good L svc" and "TrimSpace aid \<noteq> []" and "arts (svc_store svc) aid = Some a"
    and "complete_source L (now 0) aid a s0 = Inr s"
    and "\<And>old. srcs (svc_store svc) (s_SourceID s) = Some old \<Longrightarrow> s_ArtifactID old = aid"
  obtains x svc' where "AddSourceCore S L now svc aid s0 = (Inr x, svc')" "same_source s x"
    "srcs (svc_store svc') = (srcs (svc_store svc))(s_SourceID s \<mapsto> x)"
proof -
  have s: "s_ArtifactID s = aid" "source_ok_in (arts (svc_store svc)) s"
    using complete_source_ok [OF assms(4)] assms(3) by (auto intro: validated_source_ok [of L a s _ a])
  let ?x = "keep (srcs (svc_store svc) (s_SourceID s)) s"
  obtain svc' where P: "put_one_source S svc s = (None, svc')" "good L svc'"
    "srcs (svc_store svc') = (srcs (svc_store svc))(s_SourceID s \<mapsto> ?x)"
    using put_one_ok [OF assms(1) s(2)] assms(5) s(1) by metis
  have "AddSourceCore S L now svc aid s0 = (Inr ?x, svc')"
    using assms(1-4) P by (simp add: AddSourceCore_def get_by_id_ok [where L = L] get_source_ok [where L = L])
  then show thesis using keep_same P(3) by (rule that)
qed

end

section \<open>The in-memory service\<close>

text \<open>The sources a resolution considers: the stored ones, or those the artifact itself implies.\<close>

definition considered :: "golib \<Rightarrow> clock \<Rightarrow> MemoryStore \<Rightarrow> Artifact \<Rightarrow> ArtifactSource list \<Rightarrow> bool" where
  "considered L now st a ss \<longleftrightarrow>
     (if \<exists>x \<in> ran (map_of (sources st)). s_ArtifactID x = a_ArtifactID a
      then distinct ss \<and> set ss = {x \<in> ran (map_of (sources st)). s_ArtifactID x = a_ArtifactID a}
      else ss = initialSourcesForArtifact L a (now 0))"

lemma mem_resolve_eq:
  assumes "mem_good L svc" and "binding_error b = None"
  obtains ss where "fst (ResolveHandoffCore (memory_store L) L now svc b target) =
      Inr (resolve_answer L svc (mem_registry (svc_store svc)) b target ss)"
    "\<And>a. map_of (artifacts (svc_store svc)) (Binding_Key b) = Some a \<Longrightarrow> considered L now (svc_store svc) a ss"
proof -
  have "mem_inv (svc_store svc) \<and> registry_ok L (registry_of (\<lambda>s. map_of (artifacts s))
      (\<lambda>s. map_of (nodeTerminals s)) (\<lambda>s. map_of (runLifecycles s)) (\<lambda>s. map_of (sources s)) (svc_store svc))"
    using assms(1) by (simp add: mem_good_def mem_registry_view)
  from this assms(2) show thesis
    by (rule mem.resolve_eq [where now = now and target = target])
      (rule that, simp_all add: mem_registry_view mem.sources_considered_def considered_def)
qed

lemma mem_resolve_invalid:
  "fst (ResolveHandoffCore (memory_store L) L now svc b target) = Inr r \<Longrightarrow> binding_error b = None"
  using mem.resolve_invalid by (cases "binding_error b") fastforce+

end
