(* ===== verification/Demo.thy ===== *)
theory Demo
  imports Effects
begin

text \<open>
  Concrete values for the witnesses: a library instance, a clock, an artifact without
  locations, and the in-memory service after it has been registered, reported terminal,
  finalized and judged.
\<close>

definition demo_lib :: golib where
  "demo_lib = \<lparr>unicode_lower = (\<lambda>s. s), bracket_host = (\<lambda>_. None), map_order = insertion_order\<rparr>"

definition demo_clock :: clock where
  "demo_clock i = 1000 + int i"

definition late_clock :: clock where
  "late_clock i = minutes 60 + int i"

definition demo_artifact :: Artifact where
  "demo_artifact = zero_artifact
     \<lparr>a_RunID := ''r1'', a_ProducerNodeID := ''n1'', a_ProducerAttemptID := ''1'', a_OutputName := ''out'',
      a_Digest := ''sha256:d'', a_SizeBytes := 7, a_CreatedAt := 5\<rparr>"

definition demo_key :: string where
  "demo_key = ''run/r1/n1/1/out''"

definition demo_stored :: Artifact where
  "demo_stored = demo_artifact\<lparr>a_ArtifactID := demo_key\<rparr>"

definition demo_text :: "service_error \<Rightarrow> string" where
  "demo_text e = ''error''"

definition demo_service :: "(clock \<times> request) list \<Rightarrow> MemoryStore Service" where
  "demo_service reqs = mem_service demo_lib demo_text [] [] reqs"

lemma demo_good [simp]: "mem_good demo_lib (demo_service reqs)"
  by (simp add: demo_service_def mem_service_good)

lemma demo_snoc: "demo_service (reqs @ [q]) = serve (memory_store demo_lib) demo_lib (demo_service reqs) q"
  by (simp add: demo_service_def mem_service_def)

lemma demo_start: "svc_store (demo_service []) = NewMemoryStore"
  by (simp add: demo_service_def mem_service_def NewService_def)

lemma trim_r1 [simp]: "TrimSpace ''r1'' = ''r1''"
  by (rule TrimSpace_graphic) (simp_all add: graphic_def)

lemma demo_fields [simp]:
  "a_RunID demo_artifact = ''r1''" "a_ProducerNodeID demo_artifact = ''n1''"
  "a_ProducerAttemptID demo_artifact = ''1''" "a_OutputName demo_artifact = ''out''"
  "a_Digest demo_artifact = ''sha256:d''" "a_Locations demo_artifact = []" "a_URI demo_artifact = []"
  "a_RunID demo_stored = ''r1''" "a_Digest demo_stored = ''sha256:d''" "a_ArtifactID demo_stored = demo_key"
  "a_Locations demo_stored = []" "a_URI demo_stored = []" "Artifact_Key demo_stored = demo_key"
  "a_SizeBytes demo_stored = 7"
  by (simp_all add: demo_artifact_def demo_stored_def zero_artifact_def demo_key_def Artifact_Key_def
      ArtifactKey_String_def sep_def runNamespace_def)

lemma demo_key_string:
  "ArtifactKey_String \<lparr>k_RunID = ''r1'', k_ProducerNodeID = ''n1'', k_ProducerAttemptID = ''1'',
     k_OutputName = ''out''\<rparr> = demo_key"
  by (simp add: demo_key_def ArtifactKey_String_def sep_def runNamespace_def)

lemma demo_valid:
  "ArtifactKey_Validate demo_lib \<lparr>k_RunID = ''r1'', k_ProducerNodeID = ''n1'', k_ProducerAttemptID = ''1'',
     k_OutputName = ''out''\<rparr> = None"
  by (simp add: ArtifactKey_Validate_None)

lemma demo_request: "register_request demo_lib t demo_artifact = Inr demo_stored"
  by (simp add: register_request_def demo_valid Let_def IsZero_def demo_artifact_def
      zero_artifact_def demo_stored_def demo_key_def CanonicalID_def Artifact_Key_def
      ArtifactKey_String_def sep_def runNamespace_def)

definition demo_registered :: "MemoryStore" where
  "demo_registered = NewMemoryStore\<lparr>artifacts := [(demo_key, demo_stored)]\<rparr>"

abbreviation demo_register :: "clock \<times> request" where
  "demo_register \<equiv> (demo_clock, RegisterArtifact demo_artifact)"

lemma demo_stored_identity [simp]:
  "a_ProducerNodeID demo_stored = ''n1''" "a_ProducerAttemptID demo_stored = ''1''"
  "a_OutputName demo_stored = ''out''"
  by (simp_all add: demo_stored_def)

lemma demo_locations [simp]: "demo_stored\<lparr>a_Locations := []\<rparr> = demo_stored"
  by (simp add: demo_stored_def demo_artifact_def zero_artifact_def)

lemma demo_register_core:
  assumes "svc_store svc = NewMemoryStore"
  shows "RegisterArtifactCore (memory_store demo_lib) demo_lib now svc demo_artifact =
     (Inr UNAVAILABLE_STATE, count_metric IncArtifactsRegistered (with_store svc demo_registered))"
  using assms
  by (simp add: RegisterArtifactCore_def demo_request mem_GetArtifact_def register_check_def
      ValidateArtifactForRegistration_def mem_PutArtifact_def initialSourcesForArtifact_def
      mem_WriteThrough_def filled_locations_def mem_PutArtifactSources_def availability_def
      NewMemoryStore_def demo_registered_def Let_def)

lemma demo_after_register: "svc_store (demo_service [demo_register]) = demo_registered"
  using demo_snoc [of "[]" demo_register] by (simp add: demo_register_core demo_start)

section \<open>A run to its end\<close>

definition demo_terminal :: NodeTerminalRecord where
  "demo_terminal = \<lparr>t_RunID = ''r1'', t_NodeID = ''n1'', t_AttemptID = ''1'',
     t_TerminalState = ''Succeeded'', t_RecordedAt = 1000\<rparr>"

abbreviation demo_notify :: "clock \<times> request" where
  "demo_notify \<equiv> (demo_clock, NotifyNodeTerminal ''r1'' ''n1'' ''1'' ''Succeeded'')"

definition demo_reported :: MemoryStore where
  "demo_reported = demo_registered\<lparr>nodeTerminals := [(''run/r1/n1/1'', demo_terminal)]\<rparr>"

lemma demo_attempt_valid:
  "NodeAttemptKey_Validate demo_lib \<lparr>n_RunID = ''r1'', n_NodeID = ''n1'', n_AttemptID = ''1''\<rparr> = None"
  by (simp add: NodeAttemptKey_Validate_None)

lemma demo_attempt_key:
  "NodeAttemptKey_String \<lparr>n_RunID = ''r1'', n_NodeID = ''n1'', n_AttemptID = ''1''\<rparr> = ''run/r1/n1/1''"
  by (simp add: NodeAttemptKey_String_def sep_def runNamespace_def)

lemma demo_after_notify: "svc_store (demo_service [demo_register, demo_notify]) = demo_reported"
  using demo_snoc [of "[demo_register]" demo_notify]
  by (simp add: NotifyNodeTerminalCore_def demo_attempt_valid demo_after_register mem_RecordNodeTerminal_def
      demo_attempt_key demo_reported_def demo_terminal_def demo_registered_def NewMemoryStore_def
      demo_clock_def Let_def)

abbreviation demo_finalize :: "clock \<times> request" where
  "demo_finalize \<equiv> (demo_clock, FinalizeRun ''r1'' ''s1'')"

definition demo_lifecycle :: RunLifecycle where
  "demo_lifecycle = zero_lifecycle
     \<lparr>l_RunID := ''r1'', l_SampleRunID := ''s1'', l_Finalized := True, l_FinalizedAt := Some 1000,
      l_RetentionPolicySource := ''service_default'', l_RetentionDuration := minutes 15,
      l_RetentionUntil := Some (1000 + minutes 15), l_GCEligible := False, l_GCEligibleAt := None,
      l_GCBlockedReason := ''gc_not_evaluated'', l_TerminalNodeCount := 1, l_SucceededNodeCount := 1,
      l_FailedNodeCount := 0, l_CanceledNodeCount := 0, l_RetainedArtifactCount := 1,
      l_RetainedArtifactBytes := 7\<rparr>"

definition demo_finalized :: MemoryStore where
  "demo_finalized = demo_reported\<lparr>runLifecycles := [(''r1'', demo_lifecycle)]\<rparr>"

lemma demo_settings [simp]:
  "minRetention (demo_service reqs) = minutes 15"
  "retentionPolicySource (demo_service reqs) = ''service_default''"
  using serve_all_settings [of "memory_store demo_lib" demo_lib
      "projr (NewService demo_lib demo_text [] [] None NewMemoryStore)" reqs]
  by (simp_all add: demo_service_def mem_service_def settings_def NewService_def)

lemma demo_hosts: "httpAllowedHosts (demo_service reqs) = []" "\<not> allowAnyHTTPSource (demo_service reqs)"
  using serve_all_settings [of "memory_store demo_lib" demo_lib
      "projr (NewService demo_lib demo_text [] [] None NewMemoryStore)" reqs]
  by (simp_all add: demo_service_def mem_service_def settings_def NewService_def parseAllowedHTTPHosts_def
      parseBoolEnv_def ToLower_def)

lemma demo_reported_lists [simp]:
  "mem_ListArtifactsByRun demo_lib demo_reported ''r1'' = Inr [demo_stored]"
  "mem_ListNodeTerminalsByRun demo_lib demo_reported ''r1'' = Inr [demo_terminal]"
  by (simp_all add: mem_ListArtifactsByRun_def mem_ListNodeTerminalsByRun_def demo_reported_def
      demo_registered_def NewMemoryStore_def range_map_def demo_lib_def demo_terminal_def)

lemma demo_snapshot:
  "snapshot [demo_stored] [demo_terminal] l =
     l\<lparr>l_RetainedArtifactCount := 1, l_RetainedArtifactBytes := 7, l_TerminalNodeCount := 1,
       l_SucceededNodeCount := 1, l_FailedNodeCount := 0, l_CanceledNodeCount := 0\<rparr>"
  by (simp add: snapshot_def retained_bytes_def terminal_count_def demo_terminal_def word_sless_alt)

lemma demo_reported_lifecycles [simp]: "runLifecycles demo_reported = []"
  by (simp add: demo_reported_def demo_registered_def NewMemoryStore_def)

lemma demo_finalize_core:
  assumes "svc_store svc = demo_reported"
  shows "FinalizeRunCore (memory_store demo_lib) now svc ''r1'' sample =
     finish_upsert (memory_store demo_lib) (count_metric (SetGCBacklogBytes 0) svc)
       (finalize_lifecycle (now 0) (retentionPolicySource svc) (minRetention svc)
         (snapshot [demo_stored] [demo_terminal] (zero_lifecycle\<lparr>l_RunID := ''r1'', l_SampleRunID := sample\<rparr>)))"
  using assms
  by (simp add: FinalizeRunCore_def mem_GetRunLifecycle_def load_lifecycle_def Let_def
      refreshLifecycleSnapshot_def zero_lifecycle_def)

lemma demo_after_finalize:
  "svc_store (demo_service [demo_register, demo_notify, demo_finalize]) = demo_finalized"
  using demo_snoc [of "[demo_register, demo_notify]" demo_finalize]
  by (simp add: demo_finalize_core demo_after_notify demo_snapshot finish_upsert_def
      mem_UpsertRunLifecycle_def demo_finalized_def demo_lifecycle_def finalize_lifecycle_def
      zero_lifecycle_def demo_clock_def)

section \<open>A source and its resolution\<close>

definition demo_source_request :: ArtifactSource where
  "demo_source_request = zero_source
     \<lparr>s_SourceID := ''s-1'', s_BackendID := ''node-local-default'', s_LocationFingerprint := ''fp'',
      s_Location := \<lparr>NodeLocal = Some \<lparr>nl_NodeName = ''node-a'', nl_Path = ''/data/x''\<rparr>, HTTP = None\<rparr>\<rparr>"

definition demo_source :: ArtifactSource where
  "demo_source = demo_source_request
     \<lparr>s_ArtifactID := demo_key, s_Digest := ''sha256:d'', s_State := StateReady,
      s_CreatedAt := 1000, s_UpdatedAt := 1000\<rparr>"

lemma demo_trims [simp]:
  "TrimSpace ''s-1'' = ''s-1''" "TrimSpace ''node-local-default'' = ''node-local-default''"
  "TrimSpace ''fp'' = ''fp''" "TrimSpace demo_key = demo_key" "TrimSpace ''sha256:d'' = ''sha256:d''"
  "demo_key \<noteq> []"
  by (simp_all add: TrimSpace_graphic graphic_def demo_key_def)

lemma demo_source_fields [simp]:
  "s_SourceID demo_source = ''s-1''" "s_ArtifactID demo_source = demo_key"
  "s_Digest demo_source = ''sha256:d''" "s_State demo_source = StateReady"
  "s_BackendID demo_source = ''node-local-default''"
  "s_Location demo_source = \<lparr>NodeLocal = Some \<lparr>nl_NodeName = ''node-a'', nl_Path = ''/data/x''\<rparr>, HTTP = None\<rparr>"
  by (simp_all add: demo_source_def demo_source_request_def)

lemma demo_source_valid: "ValidateArtifactSourceForArtifact L demo_stored demo_source = None"
  by (simp add: ValidateArtifactSourceForArtifact_None ValidateArtifactSource_None BackendTypeForID_def)

lemma demo_complete: "complete_source L 1000 demo_key demo_stored demo_source_request = Inr demo_source"
  using demo_source_valid [of L]
  by (simp add: complete_source_def demo_source_request_def demo_source_def zero_source_def Let_def
      SourceState_Validate_def IsZero_def)

abbreviation demo_add :: "clock \<times> request" where
  "demo_add \<equiv> (demo_clock, AddSource demo_key demo_source_request)"

definition demo_sourced :: MemoryStore where
  "demo_sourced = demo_registered\<lparr>sources := [(''s-1'', demo_source)], sourcesByArtifactID := [(demo_key, [''s-1''])]\<rparr>"

lemma demo_by_id:
  "artifacts st = [(demo_key, demo_stored)] \<Longrightarrow> mem_GetArtifactByID demo_lib st demo_key = Inr (Some demo_stored)"
  by (simp add: mem_GetArtifactByID_def range_map_def demo_lib_def)

lemma demo_add_core:
  assumes "svc_store svc = demo_registered"
  shows "AddSourceCore (memory_store demo_lib) demo_lib demo_clock svc demo_key demo_source_request =
    (Inr demo_source, with_store svc demo_sourced)"
proof -
  have reg: "artifacts demo_registered = [(demo_key, demo_stored)]" "sources demo_registered = []"
    "sourcesByArtifactID demo_registered = []" "artifacts demo_sourced = [(demo_key, demo_stored)]"
    "sources demo_sourced = [(''s-1'', demo_source)]"
    by (simp_all add: demo_registered_def demo_sourced_def NewMemoryStore_def)
  have put: "mem_PutArtifactSources demo_registered demo_key [demo_source] = (None, demo_sourced)"
    using reg by (simp add: mem_PutArtifactSources_def ownership_conflict_def own_source_def write_source_def
        index_of_def demo_sourced_def Let_def)
  have "mem_GetArtifactSource demo_lib demo_sourced ''s-1'' = Inr (Some demo_source)"
    using reg by (simp add: mem_GetArtifactSource_def liveArtifactLocked_def range_map_def demo_lib_def)
  with put assms show ?thesis
    by (simp add: AddSourceCore_def demo_by_id reg demo_complete demo_clock_def put_one_source_def)
qed

lemma demo_after_add: "svc_store (demo_service [demo_register, demo_add]) = demo_sourced"
  using demo_snoc [of "[demo_register]" demo_add] by (simp add: demo_add_core demo_after_register)

definition demo_binding :: Binding where
  "demo_binding = \<lparr>b_BindingName = ''in'', b_RunID = ''r1'', b_SampleRunID = [], b_ChildNodeID = ''n2'',
     b_ChildInputName = ''data'', b_ProducerNodeID = ''n1'', b_ProducerAttemptID = ''1'',
     b_ChildAttemptID = [], b_ProducerOutputName = ''out'', b_ArtifactID = [],
     b_ConsumePolicy = SameNodeOnly, b_ExpectedDigest = ''sha256:d'', b_Required = True\<rparr>"

lemma demo_binding_fields [simp]:
  "binding_error demo_binding = None" "Binding_Key demo_binding = demo_key"
  "b_RunID demo_binding = ''r1''" "b_ExpectedDigest demo_binding = ''sha256:d''"
  "b_ConsumePolicy demo_binding = SameNodeOnly" "b_ProducerNodeID demo_binding = ''n1''"
  "b_ProducerAttemptID demo_binding = ''1''" "b_ProducerOutputName demo_binding = ''out''"
  by (simp_all add: demo_binding_def binding_error_def ConsumePolicy_Validate_def Binding_Key_def demo_key_def
      ArtifactKey_String_def sep_def runNamespace_def)

definition demo_candidate :: MaterializationCandidate where
  "demo_candidate = hd (local_candidates demo_binding demo_stored (Some demo_source) ''node-a'')"

lemma demo_locals: "local_candidates demo_binding demo_stored (Some demo_source) ''node-a'' = [demo_candidate]"
  by (simp add: demo_candidate_def local_candidates_def localCandidate_def expected_digest_def Let_def)

lemma demo_candidate_fields [simp]: "c_Mode demo_candidate = LocalReuse"
  by (simp add: demo_candidate_def local_candidates_def localCandidate_def expected_digest_def Let_def)

lemma demo_eligible: "candidateEligibleArtifactSources L svc demo_stored [demo_source] = [demo_source]"
  by (simp add: candidateEligibleArtifactSources_def demo_source_valid validateCandidateSource_def)

lemma demo_resolve:
  assumes "svc_store svc = demo_sourced"
  shows "fst (ResolveHandoffCore (memory_store demo_lib) demo_lib now svc demo_binding ''node-a'') =
    Inr (resolution DecLocalReuse \<lparr>pi_Mode = PreferredNode, pi_NodeName = ''node-a''\<rparr>
           (legacyPlanFromCandidate demo_candidate) [demo_candidate] ''artifact available on target node'')"
proof -
  have reg: "artifacts demo_sourced = [(demo_key, demo_stored)]" "runLifecycles demo_sourced = []"
    "sources demo_sourced = [(''s-1'', demo_source)]" "sourcesByArtifactID demo_sourced = [(demo_key, [''s-1''])]"
    by (simp_all add: demo_registered_def demo_sourced_def NewMemoryStore_def)
  have "mem_GetArtifact demo_sourced (b_RunID demo_binding) (b_ProducerNodeID demo_binding)
      (b_ProducerAttemptID demo_binding) (b_ProducerOutputName demo_binding) = Inr (Some demo_stored)"
    using reg by (simp add: mem_GetArtifact_def demo_key_string)
  moreover have "mem_ListArtifactSources demo_lib demo_sourced demo_key = Inr [demo_source]"
    using reg by (simp add: mem_ListArtifactSources_def liveArtifactLocked_def range_map_def demo_lib_def
        index_of_def)
  moreover have "firstReadyNodeLocalSource [demo_source] = Some demo_source" "firstReadyHTTPSource [demo_source] = None"
    by (simp_all add: firstReadyNodeLocalSource_def firstReadyHTTPSource_def)
  ultimately show ?thesis
    using assms reg
    by (simp add: ResolveHandoffCore_def Let_def mem_GetRunLifecycle_def digest_refusal_def
        effectiveArtifactSources_def resolve_registered_def demo_locals remote_candidates_def producer_node_def
        decide_scheduled_def demo_eligible)
qed

section \<open>A second artifact of the same run\<close>

definition demo_key2 :: string where
  "demo_key2 = ''run/r1/n1/1/o2''"

definition demo_artifact2 :: Artifact where
  "demo_artifact2 = demo_artifact\<lparr>a_OutputName := ''o2''\<rparr>"

definition demo_stored2 :: Artifact where
  "demo_stored2 = demo_artifact2\<lparr>a_ArtifactID := demo_key2\<rparr>"

abbreviation demo_register2 :: "clock \<times> request" where
  "demo_register2 \<equiv> (demo_clock, RegisterArtifact demo_artifact2)"

lemma demo_fields2 [simp]:
  "a_RunID demo_stored2 = ''r1''" "a_ProducerNodeID demo_stored2 = ''n1''"
  "a_ProducerAttemptID demo_stored2 = ''1''" "a_OutputName demo_stored2 = ''o2''"
  "a_Digest demo_stored2 = ''sha256:d''" "a_ArtifactID demo_stored2 = demo_key2" "a_Locations demo_stored2 = []"
  "a_URI demo_stored2 = []" "Artifact_Key demo_stored2 = demo_key2" "demo_key2 \<noteq> demo_key" "demo_key \<noteq> demo_key2"
  "demo_stored2\<lparr>a_Locations := []\<rparr> = demo_stored2" "TrimSpace demo_key2 = demo_key2" "demo_key2 \<noteq> []"
  by (simp_all add: demo_stored2_def demo_artifact2_def demo_artifact_def zero_artifact_def demo_key2_def
      demo_key_def Artifact_Key_def ArtifactKey_String_def sep_def runNamespace_def TrimSpace_graphic graphic_def)

lemma demo_key_string2:
  "ArtifactKey_String \<lparr>k_RunID = ''r1'', k_ProducerNodeID = ''n1'', k_ProducerAttemptID = ''1'',
     k_OutputName = ''o2''\<rparr> = demo_key2"
  by (simp add: demo_key2_def ArtifactKey_String_def sep_def runNamespace_def)

lemma demo_request2: "register_request demo_lib t demo_artifact2 = Inr demo_stored2"
proof -
  have "ArtifactKey_Validate demo_lib \<lparr>k_RunID = ''r1'', k_ProducerNodeID = ''n1'', k_ProducerAttemptID = ''1'',
     k_OutputName = ''o2''\<rparr> = None"
    by (simp add: ArtifactKey_Validate_None)
  then show ?thesis
    by (simp add: register_request_def Let_def IsZero_def demo_artifact2_def demo_artifact_def
        zero_artifact_def demo_stored2_def demo_key_string2 CanonicalID_def Artifact_Key_def)
qed

definition demo_registered2 :: MemoryStore where
  "demo_registered2 = demo_sourced\<lparr>artifacts := [(demo_key, demo_stored), (demo_key2, demo_stored2)]\<rparr>"

lemma demo_after_register2:
  "svc_store (demo_service [demo_register, demo_add, demo_register2]) = demo_registered2"
  using demo_snoc [of "[demo_register, demo_add]" demo_register2]
  by (simp add: demo_after_add RegisterArtifactCore_def demo_request2 mem_GetArtifact_def register_check_def
      ValidateArtifactForRegistration_def mem_PutArtifact_def initialSourcesForArtifact_def
      mem_WriteThrough_def filled_locations_def mem_PutArtifactSources_def
      NewMemoryStore_def demo_registered_def demo_registered2_def demo_sourced_def Let_def demo_key_string2)

lemma demo_clock_0: "demo_clock 0 = 1000"
  by (simp add: demo_clock_def)

lemma demo_complete2:
  "complete_source L 1000 demo_key2 demo_stored2 demo_source_request =
     Inr (demo_source\<lparr>s_ArtifactID := demo_key2\<rparr>)"
proof -
  have "ValidateArtifactSourceForArtifact L demo_stored2 (demo_source\<lparr>s_ArtifactID := demo_key2\<rparr>) = None"
    by (simp add: ValidateArtifactSourceForArtifact_None ValidateArtifactSource_None BackendTypeForID_def)
  then show ?thesis
    by (simp add: complete_source_def demo_source_request_def demo_source_def zero_source_def Let_def
        SourceState_Validate_def IsZero_def)
qed

end
