(* ===== verification/Go_Time.thy ===== *)
theory Go_Time
  imports Prelude
begin

text \<open>
  The parts of Go's \<^verbatim>\<open>time\<close> and \<^verbatim>\<open>strconv\<close> that the outer layers use to print instants and
  durations.  An instant is a number of nanoseconds since Go's zero time, the start of year 1,
  in UTC and in the proleptic Gregorian calendar.
\<close>

section \<open>Decimal numbers\<close>

text \<open>\<open>digits w n\<close>: the last \<open>w\<close> decimal digits of \<open>n\<close>, most significant first.\<close>

fun digits :: "nat \<Rightarrow> nat \<Rightarrow> string" where
  "digits 0 n = []"
| "digits (Suc w) n = digits w (n div 10) @ [char_of (48 + n mod 10)]"

fun undigits :: "nat \<Rightarrow> string \<Rightarrow> nat option" where
  "undigits acc [] = Some acc"
| "undigits acc (c # s) =
     (if 48 \<le> (of_char c :: nat) \<and> (of_char c :: nat) \<le> 57
      then undigits (acc * 10 + (of_char c - 48)) s else None)"

lemma length_digits [simp]: "length (digits w n) = w"
  by (induction w arbitrary: n) auto

lemma digits_numeral:
  "digits (numeral k) n = digits (pred_numeral k) (n div 10) @ [char_of (48 + n mod 10)]"
  by (simp only: numeral_eq_Suc digits.simps)

lemma undigits_append:
  "undigits acc (xs @ ys) = (case undigits acc xs of Some a \<Rightarrow> undigits a ys | None \<Rightarrow> None)"
  by (induction xs arbitrary: acc) auto

lemma undigits_digits: "undigits acc (digits w n) = Some (acc * 10 ^ w + n mod 10 ^ w)"
proof (induction w arbitrary: n)
  case (Suc w)
  have "n mod 10 ^ Suc w = n div 10 mod 10 ^ w * 10 + n mod 10"
    using mod_mult2_eq [of n 10 "10 ^ w"] by simp
  then show ?case
    by (simp add: undigits_append Suc algebra_simps)
qed simp

fun decimal :: "nat \<Rightarrow> string" where
  "decimal n = (if n < 10 then [] else decimal (n div 10)) @ [char_of (48 + n mod 10)]"

declare decimal.simps [simp del]

lemma undigits_decimal: "undigits 0 (decimal n) = Some n"
proof (induction n rule: decimal.induct)
  case (1 n)
  have "n mod 10 \<le> 9" using mod_less_divisor [of 10 n] by linarith
  with 1 show ?case by (subst decimal.simps) (simp add: undigits_append)
qed

text \<open>\<^verbatim>\<open>strconv.FormatInt\<close> and \<^verbatim>\<open>strconv.ParseInt\<close> to base 10, the latter for 64 bits.\<close>

definition int_text :: "int \<Rightarrow> string" where
  "int_text i = (if i < 0 then CHR ''-'' # decimal (nat (- i)) else decimal (nat i))"

definition parse_int64 :: "bool \<Rightarrow> string \<Rightarrow> int option" where
  "parse_int64 neg ds =
     (case undigits 0 ds of
        None \<Rightarrow> None
      | Some n \<Rightarrow>
          if neg then (if int n \<le> 2 ^ 63 then Some (- int n) else None)
          else (if int n < 2 ^ 63 then Some (int n) else None))"

definition ParseInt64 :: "string \<Rightarrow> int option" where
  "ParseInt64 s =
     (let neg = HasPrefix s ''-''; ds = (if neg \<or> HasPrefix s ''+'' then tl s else s)
      in if ds = [] then None else parse_int64 neg ds)"

lemma decimal_digits: "list_all (\<lambda>c. 48 \<le> (of_char c :: nat) \<and> (of_char c :: nat) \<le> 57) (decimal n)"
proof (induction n rule: decimal.induct)
  case (1 n)
  have "n mod 10 \<le> 9" using mod_less_divisor [of 10 n] by linarith
  with 1 show ?case by (subst decimal.simps) simp
qed

lemma decimal_not_Nil [simp]: "decimal n \<noteq> []"
  by (subst decimal.simps) simp

lemma decimal_zero: "decimal 0 = ''0''"
  by (subst decimal.simps) (simp add: char_of_def bit_0)

lemma decimal_head: "0 < n \<Longrightarrow> hd (decimal n) \<noteq> CHR ''0''"
proof (induction n rule: decimal.induct)
  case (1 n)
  show ?case
  proof (cases "n < 10")
    case True
    then have "of_char (hd (decimal n)) = (48 + n :: nat)" by (subst decimal.simps) simp
    then show ?thesis using 1(2) by auto
  next
    case False
    then show ?thesis using 1 by (subst decimal.simps) simp
  qed
qed

lemma decimal_head_digit: "48 \<le> (of_char (hd (decimal n)) :: nat)" "(of_char (hd (decimal n)) :: nat) \<le> 57"
  using decimal_digits [of n] by (auto simp: list_all_iff)

lemma decimal_no_sign [simp]: "\<not> HasPrefix (decimal n) ''-''" "\<not> HasPrefix (decimal n) ''+''"
  using decimal_head_digit [of n] by (cases "decimal n"; auto)+

lemma ParseInt64_int_text: "- (2 ^ 63) \<le> i \<Longrightarrow> i < 2 ^ 63 \<Longrightarrow> ParseInt64 (int_text i) = Some i"
  by (auto simp: ParseInt64_def int_text_def parse_int64_def undigits_decimal Let_def)

section \<open>The calendar\<close>

definition days_before_year :: "nat \<Rightarrow> nat" where
  "days_before_year y = (let z = y - 1 in 365 * z + z div 4 - z div 100 + z div 400)"

definition leap :: "nat \<Rightarrow> bool" where
  "leap y \<longleftrightarrow> 4 dvd y \<and> (\<not> 100 dvd y \<or> 400 dvd y)"

definition year_days :: "nat \<Rightarrow> nat" where
  "year_days y = (if leap y then 366 else 365)"

lemma div_step: "Suc z div k = z div k + of_bool (k dvd Suc z)"
  by (simp add: div_Suc dvd_eq_mod_eq_0)

lemma days_before_year_Suc:
  assumes "0 < y"
  shows "days_before_year (Suc y) = days_before_year y + year_days y"
proof -
  obtain z where y: "y = Suc z" using assms by (cases y) auto
  define a b c where "a = z div 4" and "b = z div 100" and "c = z div 400"
  define p q r where "p = (4 dvd y)" and "q = (100 dvd y)" and "r = (400 dvd y)"
  have qr: "q \<Longrightarrow> p" "r \<Longrightarrow> q"
    unfolding p_def q_def r_def using dvd_trans [of 4 100 y] dvd_trans [of 100 400 y] by simp_all
  have "b \<le> a" unfolding a_def b_def by (simp add: div_le_mono2)
  moreover have "days_before_year y = 365 * z + a - b + c"
    by (simp add: days_before_year_def y a_def b_def c_def Let_def)
  moreover have "days_before_year (Suc y) = 365 * Suc z + (a + of_bool p) - (b + of_bool q) + (c + of_bool r)"
    unfolding days_before_year_def Let_def diff_Suc_1 y a_def b_def c_def p_def q_def r_def
    by (simp only: div_step)
  moreover have "year_days y = (if p \<and> (\<not> q \<or> r) then 366 else 365)"
    by (simp only: year_days_def leap_def p_def q_def r_def)
  ultimately show ?thesis using qr by (cases p; cases q; cases r) simp_all
qed

text \<open>The year of a day: from a lower estimate upwards.\<close>

function find_year :: "nat \<Rightarrow> nat \<Rightarrow> nat" where
  "find_year d y = (if 0 < y \<and> days_before_year (Suc y) \<le> d then find_year d (Suc y) else y)"
  by auto
termination
proof (relation "measure (\<lambda>(d, y). Suc d - days_before_year y)", goal_cases)
  case (2 d y)
  then show ?case using days_before_year_Suc [of y] by (auto simp: year_days_def)
qed simp

declare find_year.simps [simp del]

definition year_of :: "nat \<Rightarrow> nat" where
  "year_of d = find_year d (d div 366 + 1)"

lemma find_year_spec:
  assumes "0 < y" and "days_before_year y \<le> d"
  shows "days_before_year (find_year d y) \<le> d \<and> d < days_before_year (Suc (find_year d y)) \<and> 0 < find_year d y"
  using assms
proof (induction d y rule: find_year.induct)
  case (1 d y)
  then show ?case by (subst find_year.simps) (auto simp: find_year.simps [of d y])
qed

lemma year_of_spec: "days_before_year (year_of d) \<le> d \<and> d < days_before_year (Suc (year_of d)) \<and> 0 < year_of d"
proof -
  have "days_before_year (d div 366 + 1) \<le> 366 * (d div 366)"
    by (simp add: days_before_year_def Let_def)
  also have "\<dots> \<le> d" by simp
  finally show ?thesis unfolding year_of_def by (intro find_year_spec) auto
qed

text \<open>Months.\<close>

definition month_lengths :: "nat \<Rightarrow> nat list" where
  "month_lengths y = [31, if leap y then 29 else 28, 31, 30, 31, 30, 31, 31, 30, 31, 30, 31]"

fun month_day :: "nat list \<Rightarrow> nat \<Rightarrow> nat \<times> nat" where
  "month_day [] d = (0, d)"
| "month_day (l # ls) d =
     (if d < l then (0, d) else (case month_day ls (d - l) of (m, d') \<Rightarrow> (Suc m, d')))"

lemma month_day_spec:
  assumes "d < sum_list ls" and "month_day ls d = (m, d')"
  shows "m < length ls \<and> d' < ls ! m \<and> sum_list (take m ls) + d' = d"
  using assms
proof (induction ls arbitrary: d m)
  case (Cons l ls)
  show ?case
  proof (cases "d < l")
    case False
    with Cons.prems obtain m0 where m0: "month_day ls (d - l) = (m0, d')" "m = Suc m0" "d - l < sum_list ls"
      by (auto split: prod.splits)
    from Cons.IH [OF m0(3,1)] m0(2) False show ?thesis by auto
  qed (use Cons.prems in auto)
qed simp

lemma sum_month_lengths: "sum_list (month_lengths y) = year_days y"
  by (simp add: month_lengths_def year_days_def)

text \<open>
  Year, month (from 1) and day of the month (from 1) of a day, and back.  A cycle of 400 years
  has 146097 days, so days before year 1 are handled by the cycle they fall in.
\<close>

definition civil :: "int \<Rightarrow> int \<times> nat \<times> nat" where
  "civil d =
     (let n = nat (d mod 146097); y = year_of n; (m, k) = month_day (month_lengths y) (n - days_before_year y)
      in (400 * (d div 146097) + int y, Suc m, Suc k))"

definition cycle_year :: "int \<Rightarrow> nat" where
  "cycle_year y = nat ((y - 1) mod 400) + 1"

definition valid_date :: "int \<Rightarrow> nat \<Rightarrow> nat \<Rightarrow> bool" where
  "valid_date y m d \<longleftrightarrow> 1 \<le> m \<and> m \<le> 12 \<and> 1 \<le> d \<and> d \<le> month_lengths (cycle_year y) ! (m - 1)"

definition day_number :: "int \<Rightarrow> nat \<Rightarrow> nat \<Rightarrow> int" where
  "day_number y m d =
     146097 * ((y - 1) div 400) + int (days_before_year (cycle_year y)) +
     int (sum_list (take (m - 1) (month_lengths (cycle_year y)))) + int (d - 1)"

lemma days_before_year_mono: "0 < y \<Longrightarrow> days_before_year y \<le> days_before_year (y + k)"
  by (induction k) (auto simp: days_before_year_Suc)

lemma year_of_cycle:
  assumes "n < 146097"
  shows "year_of n \<le> 400"
proof (rule ccontr)
  assume "\<not> year_of n \<le> 400"
  then have "days_before_year 401 \<le> days_before_year (year_of n)"
    using days_before_year_mono [of 401 "year_of n - 401"] by simp
  moreover have "days_before_year 401 = 146097" by (simp add: days_before_year_def)
  ultimately show False using year_of_spec [of n] assms by linarith
qed

lemma civil_valid:
  assumes "civil d = (y, m, k)"
  shows "valid_date y m k \<and> day_number y m k = d"
proof -
  define n where "n = nat (d mod 146097)"
  define z where "z = year_of n"
  obtain m0 k0 where mk: "month_day (month_lengths z) (n - days_before_year z) = (m0, k0)" by fastforce
  have n: "n < 146097" "d = 146097 * (d div 146097) + int n"
    by (simp_all add: n_def)
  have z: "days_before_year z \<le> n" "n < days_before_year (Suc z)" "0 < z" "z \<le> 400"
    using year_of_spec [of n] year_of_cycle [OF n(1)] by (simp_all add: z_def)
  then have "n - days_before_year z < sum_list (month_lengths z)"
    using days_before_year_Suc [of z] by (simp add: sum_month_lengths)
  note M = month_day_spec [OF this mk]
  have ymk: "y = 400 * (d div 146097) + int z" "m = Suc m0" "k = Suc k0"
    using assms mk by (auto simp: civil_def Let_def n_def z_def)
  have y1: "y - 1 = 400 * (d div 146097) + int (z - 1)" using ymk(1) z(3) by simp
  have "int (z - 1) < 400" using z(4) by simp
  then have "(y - 1) mod 400 = int (z - 1)" "(y - 1) div 400 = d div 146097"
    unfolding y1 by simp_all
  then have "cycle_year y = z" "(y - 1) div 400 = d div 146097"
    using z(3) by (simp_all add: cycle_year_def)
  moreover have "length (month_lengths z) = 12" by (simp add: month_lengths_def)
  ultimately show ?thesis
    using M ymk z(1) n(2) by (auto simp: valid_date_def day_number_def)
qed

section \<open>RFC 3339\<close>

definition format_year :: "int \<Rightarrow> string" where
  "format_year y =
     (if y < 0 then ''-'' @ (if - y < 10000 then digits 4 (nat (- y)) else decimal (nat (- y)))
      else if y < 10000 then digits 4 (nat y) else decimal (nat y))"

definition strip_zeros :: "string \<Rightarrow> string" where
  "strip_zeros s = rev (dropWhile (\<lambda>c. c = CHR ''0'') (rev s))"

definition format_fraction :: "nat \<Rightarrow> string" where
  "format_fraction n = (if n = 0 then [] else CHR ''.'' # strip_zeros (digits 9 n))"

text \<open>\<^verbatim>\<open>t.UTC().Format(time.RFC3339Nano)\<close>\<close>

definition FormatRFC3339Nano :: "time \<Rightarrow> string" where
  "FormatRFC3339Nano t =
     (let secs = t div 1000000000; sod = nat (secs mod 86400)
      in case civil (secs div 86400) of (y, m, d) \<Rightarrow>
           format_year y @ ''-'' @ digits 2 m @ ''-'' @ digits 2 d @ ''T'' @
           digits 2 (sod div 3600) @ '':'' @ digits 2 (sod div 60 mod 60) @ '':'' @ digits 2 (sod mod 60) @
           format_fraction (nat (t mod 1000000000)) @ ''Z'')"

text \<open>
  \<^verbatim>\<open>time.Parse(time.RFC3339Nano, s)\<close> on a string that ends in the zone Z.  Other zones and the
  looser forms the library tolerates are not produced by the formatter; they are left to the
  argument \<open>other\<close>.
\<close>

definition parse_fraction :: "string \<Rightarrow> nat option" where
  "parse_fraction s =
     (if s = ''Z'' then Some 0
      else case s of
        [] \<Rightarrow> None
      | c # r \<Rightarrow>
          let ds = butlast r
          in if c = CHR ''.'' \<and> r \<noteq> [] \<and> last r = CHR ''Z'' \<and> ds \<noteq> [] \<and> length ds \<le> 9
             then map_option (\<lambda>n. n * 10 ^ (9 - length ds)) (undigits 0 ds) else None)"

definition parse_Z :: "string \<Rightarrow> time option" where
  "parse_Z s =
     (if length s < 20 \<or> s ! 4 \<noteq> CHR ''-'' \<or> s ! 7 \<noteq> CHR ''-'' \<or> s ! 10 \<noteq> CHR ''T'' \<or>
         s ! 13 \<noteq> CHR '':'' \<or> s ! 16 \<noteq> CHR '':'' then None
      else case (undigits 0 (take 4 s), undigits 0 (take 2 (drop 5 s)), undigits 0 (take 2 (drop 8 s)),
                 undigits 0 (take 2 (drop 11 s)), undigits 0 (take 2 (drop 14 s)),
                 undigits 0 (take 2 (drop 17 s)), parse_fraction (drop 19 s)) of
        (Some y, Some m, Some d, Some hh, Some mm, Some ss, Some f) \<Rightarrow>
          if valid_date (int y) m d \<and> hh < 24 \<and> mm < 60 \<and> ss < 60
          then Some ((day_number (int y) m d * 86400 + int (hh * 3600 + mm * 60 + ss)) * 1000000000 + int f)
          else None
      | _ \<Rightarrow> None)"

definition ParseRFC3339Nano :: "(string \<Rightarrow> time option) \<Rightarrow> string \<Rightarrow> time option" where
  "ParseRFC3339Nano other s = (case parse_Z s of Some t \<Rightarrow> Some t | None \<Rightarrow> other s)"

lemma strip_zeros_spec: "\<exists>k. s = strip_zeros s @ replicate k (CHR ''0'')"
proof -
  have "rev s = takeWhile (\<lambda>c. c = CHR ''0'') (rev s) @ dropWhile (\<lambda>c. c = CHR ''0'') (rev s)" by simp
  moreover have "takeWhile (\<lambda>c. c = CHR ''0'') (rev s) =
      replicate (length (takeWhile (\<lambda>c. c = CHR ''0'') (rev s))) (CHR ''0'')"
    by (auto simp: list_eq_iff_nth_eq dest: set_takeWhileD [OF nth_mem])
  ultimately have "rev s = replicate (length (takeWhile (\<lambda>c. c = CHR ''0'') (rev s))) (CHR ''0'') @
      dropWhile (\<lambda>c. c = CHR ''0'') (rev s)" by metis
  then show ?thesis unfolding strip_zeros_def by (metis rev_append rev_replicate rev_rev_ident)
qed

lemma undigits_zeros: "undigits acc (replicate k (CHR ''0'')) = Some (acc * 10 ^ k)"
  by (induction k arbitrary: acc) auto

lemma parse_format_fraction:
  assumes "n < 10 ^ 9"
  shows "parse_fraction (format_fraction n @ ''Z'') = Some n"
proof (cases "n = 0")
  case False
  let ?ds = "strip_zeros (digits 9 n)"
  obtain k where k: "digits 9 n = ?ds @ replicate k (CHR ''0'')" using strip_zeros_spec by blast
  have val: "undigits 0 (digits 9 n) = Some n" using assms by (simp add: undigits_digits)
  obtain v where v: "undigits 0 ?ds = Some v"
    using val unfolding k [symmetric] by (subst (asm) k) (auto simp: undigits_append split: option.splits)
  with val have n: "v * 10 ^ k = n"
    by (subst (asm) k) (simp add: undigits_append undigits_zeros)
  have len: "length ?ds + k = 9" using k by (metis length_append length_digits length_replicate)
  have "?ds \<noteq> []" using v n False by (cases ?ds) auto
  moreover have "9 - length ?ds = k" "length ?ds \<le> 9" using len by simp_all
  ultimately show ?thesis using v n False by (simp add: parse_fraction_def format_fraction_def Let_def)
qed (simp add: parse_fraction_def format_fraction_def)

text \<open>Parsing gives back every instant of the years 0 to 9999 that was formatted.\<close>

lemma parse_format_time:
  assumes "civil (t div 1000000000 div 86400) = (y, m, d)" and "0 \<le> y" and "y < 10000"
  shows "parse_Z (FormatRFC3339Nano t) = Some t"
proof -
  define secs where "secs = t div 1000000000"
  define sod where "sod = nat (secs mod 86400)"
  define f where "f = nat (t mod 1000000000)"
  have C: "valid_date y m d" "day_number y m d = secs div 86400"
    using civil_valid [OF assms(1)] by (simp_all add: secs_def)
  have md: "m < 100" "d < 100"
  proof -
    have "\<forall>l \<in> set (month_lengths z). l \<le> 31" for z by (simp add: month_lengths_def)
    moreover have "m - 1 < length (month_lengths (cycle_year y))"
      using C(1) by (auto simp: valid_date_def month_lengths_def)
    ultimately have "month_lengths (cycle_year y) ! (m - 1) \<le> 31" by (meson nth_mem)
    then show "m < 100" "d < 100" using C(1) by (auto simp: valid_date_def)
  qed
  have sod: "sod < 86400" "int sod = secs mod 86400" by (simp_all add: sod_def)
  have "sod div 3600 = sod div 60 div 60" using div_mult2_eq [of sod 60 60] by simp
  then have "sod div 3600 * 3600 + sod div 60 mod 60 * 60 + sod mod 60 = sod"
    using mult_div_mod_eq [of 60 sod] mult_div_mod_eq [of 60 "sod div 60"] by linarith
  then have hms: "sod div 3600 < 24" "sod div 60 mod 60 < 60" "sod mod 60 < 60"
    "sod div 3600 * 3600 + sod div 60 mod 60 * 60 + sod mod 60 = sod"
    using sod(1) by (simp_all add: less_mult_imp_div_less)
  have f: "f < 10 ^ 9" "int f = t mod 1000000000" by (simp_all add: f_def)
  have fmt: "FormatRFC3339Nano t = digits 4 (nat y) @ ''-'' @ digits 2 m @ ''-'' @ digits 2 d @ ''T'' @
     digits 2 (sod div 3600) @ '':'' @ digits 2 (sod div 60 mod 60) @ '':'' @ digits 2 (sod mod 60) @
     (format_fraction f @ ''Z'')"
    using assms by (simp add: FormatRFC3339Nano_def Let_def format_year_def secs_def sod_def f_def)
  have time: "((secs div 86400) * 86400 + int sod) * 1000000000 + int f = t"
    unfolding sod(2) f(2) secs_def by simp
  note parts = undigits_digits [of 0 4 "nat y"] undigits_digits [of 0 2 m] undigits_digits [of 0 2 d]
    undigits_digits [of 0 2 "sod div 3600"] undigits_digits [of 0 2 "sod div 60 mod 60"]
    undigits_digits [of 0 2 "sod mod 60"] parse_format_fraction [OF f(1)]
  have small: "nat y mod 10 ^ 4 = nat y" "m mod 10\<^sup>2 = m" "d mod 10\<^sup>2 = d"
    "sod div 3600 mod 10\<^sup>2 = sod div 3600" "sod div 60 mod 60 mod 10\<^sup>2 = sod div 60 mod 60"
    "sod mod 60 mod 10\<^sup>2 = sod mod 60"
    using assms(2,3) md hms by simp_all
  have len: "length (format_fraction f @ ''Z'') \<ge> 1" by simp
  show ?thesis
    unfolding fmt parse_Z_def
    using assms(2) parts small len C hms time
    by (simp add: nth_append add.assoc)
qed

text \<open>The instants of the years 1 to 9999.\<close>

definition four_digit_year :: "time \<Rightarrow> bool" where
  "four_digit_year t \<longleftrightarrow> 0 \<le> t \<and> t < 315537897600 * 1000000000"

lemma year_of_less:
  assumes "n < days_before_year y" and "0 < y"
  shows "year_of n < y"
proof (rule ccontr)
  assume "\<not> year_of n < y"
  then have "days_before_year y \<le> days_before_year (year_of n)"
    using days_before_year_mono [OF assms(2), of "year_of n - y"] by simp
  then show False using year_of_spec [of n] assms(1) by linarith
qed

lemma civil_year:
  assumes "0 \<le> d" and "d < 3652059" and "civil d = (y, m, k)"
  shows "0 \<le> y" "y < 10000"
proof -
  define n where "n = nat (d mod 146097)"
  have y: "y = 400 * (d div 146097) + int (year_of n)"
    using assms(3) by (auto simp: civil_def Let_def n_def split: prod.splits)
  have n: "n < 146097" "d = 146097 * (d div 146097) + int n" by (simp_all add: n_def)
  have q: "0 \<le> d div 146097" "d div 146097 \<le> 24" using assms(1,2) by linarith+
  show "0 \<le> y" using y q(1) by simp
  show "y < 10000"
  proof (cases "d div 146097 = 24")
    case True
    then have "n < days_before_year 400"
      using n(2) assms(2) by (simp add: days_before_year_def Let_def)
    then have "year_of n < 400" by (rule year_of_less) simp
    then show ?thesis using y True by simp
  next
    case False
    then have "d div 146097 \<le> 23" using q(2) by linarith
    then show ?thesis using y year_of_cycle [OF n(1)] by simp
  qed
qed

lemma parse_format_instant:
  assumes "four_digit_year t"
  shows "ParseRFC3339Nano other (FormatRFC3339Nano t) = Some t"
proof -
  let ?d = "t div 1000000000 div 86400"
  obtain y m k where c: "civil ?d = (y, m, k)" by (cases "civil ?d")
  have "0 \<le> ?d" "?d < 3652059"
    using assms unfolding four_digit_year_def by linarith+
  from parse_format_time [OF c civil_year [OF this c]] show ?thesis
    by (simp add: ParseRFC3339Nano_def)
qed

section \<open>Durations\<close>

text \<open>
  \<^verbatim>\<open>time.Duration.String\<close>.  Below a second the unit is ns, the two UTF-8 bytes of the micro sign
  with s, or ms; from a second on, hours, minutes and seconds, the leading ones left out when
  they are zero.
\<close>

definition fmtFrac :: "nat \<Rightarrow> nat \<Rightarrow> string" where
  "fmtFrac prec u =
     (let s = strip_zeros (digits prec u) in if s = [] then [] else CHR ''.'' # s)"

definition duration_unsigned :: "nat \<Rightarrow> string" where
  "duration_unsigned u =
     (if u = 0 then ''0s''
      else if u < 1000 then decimal u @ ''ns''
      else if u < 1000000 then decimal (u div 1000) @ fmtFrac 3 u @ bytes [194, 181] @ ''s''
      else if u < 1000000000 then decimal (u div 1000000) @ fmtFrac 6 u @ ''ms''
      else let secs = u div 1000000000; mins = secs div 60; hours = mins div 60
           in (if 0 < hours then decimal hours @ ''h'' else []) @
              (if 0 < mins then decimal (mins mod 60) @ ''m'' else []) @
              decimal (secs mod 60) @ fmtFrac 9 u @ ''s'')"

definition Duration_String :: "duration \<Rightarrow> string" where
  "Duration_String d = (if d < 0 then CHR ''-'' # duration_unsigned (nat (- d)) else duration_unsigned (nat d))"

text \<open>The service's retention window.\<close>

lemma Duration_String_minutes15: "Duration_String (minutes 15) = ''15m0s''"
  by (simp add: Duration_String_def duration_unsigned_def minutes_def fmtFrac_def Let_def
      decimal.simps strip_zeros_def digits_numeral char_of_def bit_iff_odd)

end
