(* ===== verification/Go_Json.thy ===== *)
theory Go_Json
  imports Go_Time
begin

text \<open>
  The parts of Go's \<^verbatim>\<open>unicode/utf8\<close> and \<^verbatim>\<open>encoding/json\<close> that write and read the JSON columns of the
  SQLite backend: the text of a value with the HTML-safe escapes of \<^verbatim>\<open>json.Marshal\<close>, and the parser
  behind \<^verbatim>\<open>json.Unmarshal\<close>, from bytes to a value.  How a value fills a struct is the business of
  the theories that own the struct.
\<close>

abbreviation dquote :: char where "dquote \<equiv> CHR 0x22"
abbreviation bslash :: char where "bslash \<equiv> CHR 0x5C"

section \<open>UTF-8\<close>

definition byte_in :: "nat \<Rightarrow> nat \<Rightarrow> char \<Rightarrow> bool" where
  "byte_in lo hi c \<longleftrightarrow> lo \<le> of_char c \<and> of_char c \<le> hi"

text \<open>What a first byte announces: the number of bytes and the range of the second one.\<close>

definition rune_shape :: "char \<Rightarrow> (nat \<times> nat \<times> nat) option" where
  "rune_shape c =
     (if byte_in 0 127 c then Some (1, 0, 0)
      else if byte_in 194 223 c then Some (2, 128, 191)
      else if byte_in 224 224 c then Some (3, 160, 191)
      else if byte_in 237 237 c then Some (3, 128, 159)
      else if byte_in 225 239 c then Some (3, 128, 191)
      else if byte_in 240 240 c then Some (4, 144, 191)
      else if byte_in 241 243 c then Some (4, 128, 191)
      else if byte_in 244 244 c then Some (4, 128, 143)
      else None)"

text \<open>\<^verbatim>\<open>utf8.DecodeRune\<close>: the length of the encoded rune a string starts with, 0 if it is invalid.\<close>

fun rune_size :: "string \<Rightarrow> nat" where
  "rune_size [] = 0"
| "rune_size (c # s) =
     (case rune_shape c of
        None \<Rightarrow> 0
      | Some (k, lo, hi) \<Rightarrow>
          if k = 1 then 1
          else (case s of
                  [] \<Rightarrow> 0
                | a # t \<Rightarrow>
                    if byte_in lo hi a \<and> k - 2 \<le> length t \<and> list_all (byte_in 128 191) (take (k - 2) t)
                    then k else 0))"

lemma rune_size_le: "rune_size s \<le> length s"
  by (cases s rule: rune_size.cases) (auto split: list.splits option.splits)

lemma rune_size_append: "0 < rune_size s \<Longrightarrow> rune_size (s @ t) = rune_size s"
  by (cases s rule: rune_size.cases) (auto split: list.splits option.splits if_splits)

declare rune_size.simps(2) [simp del]

definition ascii_byte :: "char \<Rightarrow> bool" where
  "ascii_byte c \<longleftrightarrow> byte_in 0 127 c"

function valid_utf8 :: "string \<Rightarrow> bool" where
  "valid_utf8 [] = True"
| "valid_utf8 (c # s) =
     (let k = rune_size (c # s) in if k = 0 then False else valid_utf8 (drop k (c # s)))"
  by pat_completeness auto
termination by (relation "measure length") auto

text \<open>\<^verbatim>\<open>utf8.AppendRune\<close> of a code point, and the replacement character.\<close>

definition replacement :: string where
  "replacement = bytes [239, 191, 189]"

definition encode_rune :: "nat \<Rightarrow> string" where
  "encode_rune n =
     (if n < 128 then bytes [n]
      else if n < 2048 then bytes [192 + n div 64, 128 + n mod 64]
      else if 55296 \<le> n \<and> n < 57344 \<or> 1114111 < n then replacement
      else if n < 65536 then bytes [224 + n div 4096, 128 + n div 64 mod 64, 128 + n mod 64]
      else bytes [240 + n div 262144, 128 + n div 4096 mod 64, 128 + n div 64 mod 64, 128 + n mod 64])"

section \<open>String literals\<close>

definition hex_char :: "nat \<Rightarrow> char" where
  "hex_char n = char_of (if n < 10 then n + 48 else n + 87)"

text \<open>What \<^verbatim>\<open>json.Marshal\<close> writes for an ASCII byte.\<close>

definition escape_ascii :: "char \<Rightarrow> string" where
  "escape_ascii c =
     (let n = of_char c :: nat
      in if c = dquote \<or> c = bslash then [bslash, c]
         else if n = 8 then bslash # ''b''
         else if n = 12 then bslash # ''f''
         else if n = 10 then bslash # ''n''
         else if n = 13 then bslash # ''r''
         else if n = 9 then bslash # ''t''
         else if n < 32 \<or> c = CHR ''<'' \<or> c = CHR ''>'' \<or> c = CHR ''&''
           then bslash # ''u00'' @ [hex_char (n div 16), hex_char (n mod 16)]
         else [c])"

definition escape_rune :: "string \<Rightarrow> string" where
  "escape_rune u =
     (if u = bytes [226, 128, 168] then bslash # ''u2028''
      else if u = bytes [226, 128, 169] then bslash # ''u2029''
      else u)"

function json_escape :: "string \<Rightarrow> string" where
  "json_escape [] = []"
| "json_escape (c # s) =
     (if ascii_byte c then escape_ascii c @ json_escape s
      else let k = rune_size (c # s)
           in if k = 0 then bslash # ''ufffd'' @ json_escape s
              else escape_rune (take k (c # s)) @ json_escape (drop k (c # s)))"
  by pat_completeness auto
termination by (relation "measure length") auto

text \<open>The scanner's check of a literal: up to the closing quote, escapes well formed.\<close>

definition hex_value :: "char \<Rightarrow> nat option" where
  "hex_value c =
     (let n = of_char c :: nat
      in if 48 \<le> n \<and> n \<le> 57 then Some (n - 48)
         else if 97 \<le> n \<and> n \<le> 102 then Some (n - 87)
         else if 65 \<le> n \<and> n \<le> 70 then Some (n - 55)
         else None)"

fun hex4 :: "string \<Rightarrow> nat option" where
  "hex4 (a # b # c # d # s) =
     (case (hex_value a, hex_value b, hex_value c, hex_value d) of
        (Some w, Some x, Some y, Some z) \<Rightarrow> Some (((w * 16 + x) * 16 + y) * 16 + z)
      | _ \<Rightarrow> None)"
| "hex4 s = None"

definition short_escapes :: "(char \<times> char) list" where
  "short_escapes =
     [(dquote, dquote), (bslash, bslash), (CHR ''/'', CHR ''/''), (CHR ''b'', char_of (8 :: nat)),
      (CHR ''f'', char_of (12 :: nat)), (CHR ''n'', char_of (10 :: nat)), (CHR ''r'', char_of (13 :: nat)),
      (CHR ''t'', char_of (9 :: nat))]"

fun scan_string :: "string \<Rightarrow> (string \<times> string) option" where
  "scan_string [] = None"
| "scan_string (c # s) =
     (if c = dquote then Some ([], s)
      else if c = bslash then
        (case s of
           [] \<Rightarrow> None
         | e # r \<Rightarrow>
             if map_of short_escapes e \<noteq> None \<or> e = CHR ''u'' \<and> hex4 r \<noteq> None
             then map_option (\<lambda>(raw, rest). (c # e # raw, rest)) (scan_string r) else None)
      else if (of_char c :: nat) < 32 then None
      else map_option (\<lambda>(raw, rest). (c # raw, rest)) (scan_string s))"

text \<open>\<^verbatim>\<open>unquote\<close>: surrogate pairs are joined, lone surrogates and invalid bytes are replaced.\<close>

definition low_surrogate :: "string \<Rightarrow> nat option" where
  "low_surrogate s =
     (case s of
        a # b # r \<Rightarrow>
          if a = bslash \<and> b = CHR ''u'' then
            (case hex4 r of Some n \<Rightarrow> if 56320 \<le> n \<and> n < 57344 then Some n else None | None \<Rightarrow> None)
          else None
      | _ \<Rightarrow> None)"

function unquote :: "string \<Rightarrow> string" where
  "unquote [] = []"
| "unquote (c # s) =
     (if c = bslash then
        (case s of
           [] \<Rightarrow> []
         | e # r \<Rightarrow>
             if e = CHR ''u'' then
               (case hex4 r of
                  None \<Rightarrow> []
                | Some n \<Rightarrow>
                    let r' = drop 4 r
                    in if 55296 \<le> n \<and> n < 56320 \<and> low_surrogate r' \<noteq> None
                       then encode_rune (65536 + (n - 55296) * 1024 + (the (low_surrogate r') - 56320)) @
                            unquote (drop 6 r')
                       else encode_rune n @ unquote r')
             else (case map_of short_escapes e of Some x \<Rightarrow> x | None \<Rightarrow> e) # unquote r)
      else if ascii_byte c then c # unquote s
      else let k = rune_size (c # s)
           in if k = 0 then replacement @ unquote s
              else take k (c # s) @ unquote (drop k (c # s)))"
  by pat_completeness auto
termination by (relation "measure length") auto

section \<open>A literal reads back as it was written\<close>

lemma ascii_rune [simp]: "ascii_byte c \<Longrightarrow> rune_size (c # s) = 1"
  by (simp add: rune_size.simps rune_shape_def ascii_byte_def)

lemma hex_value_hex_char: "n < 16 \<Longrightarrow> hex_value (hex_char n) = Some n"
  by (auto simp: hex_value_def hex_char_def Let_def)

lemma hex_value_zero [simp]: "hex_value (CHR ''0'') = Some 0"
  by (simp add: hex_value_def)

lemma hex_char_plain:
  assumes "n < 16"
  shows "hex_char n \<noteq> dquote" "hex_char n \<noteq> bslash" "\<not> (of_char (hex_char n) :: nat) < 32"
proof -
  have "of_char (hex_char n) \<in> {48..57} \<union> {97..102 :: nat}"
    using assms by (auto simp: hex_char_def)
  moreover have "of_char dquote = (34 :: nat)" "of_char bslash = (92 :: nat)" by simp_all
  ultimately show "hex_char n \<noteq> dquote" "hex_char n \<noteq> bslash" "\<not> (of_char (hex_char n) :: nat) < 32"
    by auto
qed

lemma of_char_eq_char_of: "of_char c = (n :: nat) \<Longrightarrow> c = char_of n"
  by (metis char_of_char)

text \<open>The bytes an escape for ASCII may stand for.\<close>

lemma scan_escape_ascii:
  assumes "ascii_byte c"
  shows "scan_string (escape_ascii c @ t) = map_option (\<lambda>(raw, rest). (escape_ascii c @ raw, rest)) (scan_string t)"
proof -
  let ?n = "of_char c :: nat"
  have "?n div 16 < 16" "?n mod 16 < 16"
    using assms by (auto simp: ascii_byte_def byte_in_def)
  note h = hex_char_plain [OF this(1)] hex_char_plain [OF this(2)] hex_value_hex_char [OF this(1)]
    hex_value_hex_char [OF this(2)]
  have "map_of short_escapes x = None \<longleftrightarrow> x \<notin> set (map fst short_escapes)" for x
    by (simp add: map_of_eq_None_iff)
  moreover have "map_option (f \<circ> g) x = map_option f (map_option g x)" for f g and x :: "(string \<times> string) option"
    by (simp add: option.map_comp)
  ultimately show ?thesis using h
    by (auto simp: escape_ascii_def Let_def short_escapes_def option.map_comp comp_def case_prod_unfold)
qed

lemma unquote_escape_ascii:
  assumes "ascii_byte c"
  shows "unquote (escape_ascii c @ t) = c # unquote t"
proof -
  let ?n = "of_char c :: nat"
  have n: "?n div 16 < 16" "?n mod 16 < 16" "?n < 128" "?n div 16 * 16 + ?n mod 16 = ?n"
    using assms by (auto simp: ascii_byte_def byte_in_def)
  have "hex4 (CHR ''0'' # CHR ''0'' # hex_char (?n div 16) # hex_char (?n mod 16) # t) = Some ?n"
    using n hex_value_hex_char [OF n(1)] hex_value_hex_char [OF n(2)] by simp
  moreover have "encode_rune ?n = [c]" using n(3) by (simp add: encode_rune_def bytes_def)
  ultimately show ?thesis using assms n(3)
    by (auto simp: escape_ascii_def Let_def short_escapes_def dest!: of_char_eq_char_of)
qed

lemma rune_bytes:
  assumes "\<not> ascii_byte c" and "0 < rune_size (c # s)"
  shows "\<forall>x \<in> set (take (rune_size (c # s)) (c # s)). \<not> ascii_byte x"
proof -
  obtain k lo hi where sh: "rune_shape c = Some (k, lo, hi)" "k \<noteq> 1"
    using assms by (auto simp: rune_size.simps rune_shape_def ascii_byte_def split: option.splits if_splits)
  then have lo: "128 \<le> lo" "2 \<le> k"
    using assms(1) by (auto simp: rune_shape_def ascii_byte_def split: if_splits)
  obtain a t where s: "s = a # t" using assms(2) sh by (cases s) (auto simp: rune_size.simps)
  then have "rune_size (c # s) = k" "byte_in lo hi a" "list_all (byte_in 128 191) (take (k - 2) t)"
    using assms(2) sh by (auto simp: rune_size.simps split: if_splits)
  moreover have "take k (c # a # t) = c # a # take (k - 2) t"
    using lo(2) by (cases k; cases "k - 1") auto
  ultimately show ?thesis
    using assms(1) lo(1) s by (auto simp: ascii_byte_def byte_in_def list_all_iff)
qed

lemma scan_raw:
  assumes "\<forall>x \<in> set u. \<not> ascii_byte x"
  shows "scan_string (u @ t) = map_option (\<lambda>(raw, rest). (u @ raw, rest)) (scan_string t)"
  using assms
proof (induction u)
  case (Cons c u)
  then have "c \<noteq> dquote" "c \<noteq> bslash" "\<not> (of_char c :: nat) < 32"
    by (auto simp: ascii_byte_def byte_in_def)
  with Cons show ?case by (simp add: option.map_comp comp_def case_prod_unfold)
qed (simp add: case_prod_unfold option.map_ident)

lemma scan_escape_rune:
  assumes "\<not> ascii_byte c" and "0 < rune_size (c # s)"
  shows "scan_string (escape_rune (take (rune_size (c # s)) (c # s)) @ t) =
    map_option (\<lambda>(raw, rest). (escape_rune (take (rune_size (c # s)) (c # s)) @ raw, rest)) (scan_string t)"
  using scan_raw [OF rune_bytes [OF assms]]
  by (auto simp: escape_rune_def short_escapes_def hex_value_def Let_def option.map_comp comp_def case_prod_unfold)

lemma scan_json_escape: "scan_string (json_escape s @ dquote # t) = Some (json_escape s, t)"
proof (induction s rule: json_escape.induct)
  case (2 c s)
  show ?case
  proof (cases "ascii_byte c \<or> rune_size (c # s) = 0")
    case True
    then show ?thesis using 2
      by (auto simp: scan_escape_ascii Let_def short_escapes_def hex_value_def)
  next
    case False
    then show ?thesis using 2 scan_escape_rune [of c s] by (simp add: Let_def)
  qed
qed simp

lemma unquote_unit:
  assumes "\<not> ascii_byte c" and "rune_size (c # u @ t) = Suc (length u)"
  shows "unquote (c # u @ t) = c # u @ unquote t"
proof -
  have "c \<noteq> bslash" using assms(1) by (auto simp: ascii_byte_def byte_in_def)
  with assms show ?thesis by (simp add: Let_def)
qed

lemma unquote_rune:
  assumes "\<not> ascii_byte c" and "0 < rune_size (c # s)"
  shows "unquote (take (rune_size (c # s)) (c # s) @ t) = take (rune_size (c # s)) (c # s) @ unquote t"
proof -
  let ?k = "rune_size (c # s)"
  have u: "take ?k (c # s) = c # take (?k - 1) s" using assms(2) by (cases ?k) auto
  have "rune_size (take ?k (c # s)) = ?k"
    using assms(2) rune_size_le [of "c # s"]
    by (auto simp: rune_size.simps take_Cons' list_all_iff split: option.splits list.splits if_splits)
  then have "rune_size (c # take (?k - 1) s @ t) = ?k"
    using rune_size_append [of "take ?k (c # s)" t] assms(2) u by simp
  moreover have "Suc (length (take (?k - 1) s)) = ?k" using rune_size_le [of "c # s"] assms(2) by simp
  ultimately show ?thesis using unquote_unit [OF assms(1), of "take (?k - 1) s" t] u by simp
qed

lemma unquote_escape_rune:
  assumes "\<not> ascii_byte c" and "0 < rune_size (c # s)"
  shows "unquote (escape_rune (take (rune_size (c # s)) (c # s)) @ t) = take (rune_size (c # s)) (c # s) @ unquote t"
  using unquote_rune [OF assms]
  by (auto simp: escape_rune_def hex_value_def Let_def encode_rune_def bytes_def)

lemma unquote_json_escape: "valid_utf8 s \<Longrightarrow> unquote (json_escape s) = s"
proof (induction s rule: json_escape.induct)
  case (2 c s)
  show ?case
  proof (cases "ascii_byte c")
    case True
    with 2 show ?thesis by (simp add: unquote_escape_ascii)
  next
    case False
    moreover from 2 have "0 < rune_size (c # s)" by (auto simp: Let_def split: if_splits)
    ultimately show ?thesis using 2 unquote_escape_rune [of c s] by (simp add: Let_def)
  qed
qed simp

section \<open>Values and their text\<close>

text \<open>A number and a string are kept as their text, the string without its quotes.\<close>

datatype json =
    JNull
  | JBool bool
  | JNum string
  | JStr string
  | JArr "json list"
  | JObj "(string \<times> json) list"

definition quoted :: "string \<Rightarrow> string" where
  "quoted s = dquote # json_escape s @ [dquote]"

definition json_string :: "string \<Rightarrow> json" where
  "json_string s = JStr (json_escape s)"

definition json_int :: "int \<Rightarrow> json" where
  "json_int i = JNum (int_text i)"

fun print_json :: "json \<Rightarrow> string" where
  "print_json JNull = ''null''"
| "print_json (JBool b) = (if b then ''true'' else ''false'')"
| "print_json (JNum n) = n"
| "print_json (JStr raw) = dquote # raw @ [dquote]"
| "print_json (JArr vs) = ''['' @ Join (map print_json vs) '','' @ '']''"
| "print_json (JObj ms) = ''{'' @ Join (map (\<lambda>(k, v). quoted k @ '':'' @ print_json v) ms) '','' @ ''}''"

section \<open>The parser\<close>

definition skip_ws :: "string \<Rightarrow> string" where
  "skip_ws s = dropWhile (\<lambda>c. of_char c \<in> {32, 9, 10, 13 :: nat}) s"

definition digit_byte :: "char \<Rightarrow> bool" where
  "digit_byte c \<longleftrightarrow> byte_in 48 57 c"

definition scan_digits :: "string \<Rightarrow> (string \<times> string) option" where
  "scan_digits s =
     (let ds = takeWhile digit_byte s in if ds = [] then None else Some (ds, dropWhile digit_byte s))"

text \<open>Integer part, fraction and exponent of a number; each returns its text and the rest.\<close>

definition scan_int :: "string \<Rightarrow> (string \<times> string) option" where
  "scan_int s =
     (case s of
        [] \<Rightarrow> None
      | c # r \<Rightarrow> if c = CHR ''0'' then Some (''0'', r) else scan_digits s)"

definition scan_frac :: "string \<Rightarrow> (string \<times> string) option" where
  "scan_frac s =
     (case s of
        c # r \<Rightarrow> if c = CHR ''.'' then map_option (\<lambda>(ds, t). (c # ds, t)) (scan_digits r) else Some ([], s)
      | [] \<Rightarrow> Some ([], s))"

definition scan_exp :: "string \<Rightarrow> (string \<times> string) option" where
  "scan_exp s =
     (case s of
        [] \<Rightarrow> Some ([], s)
      | c # r \<Rightarrow>
          if c = CHR ''e'' \<or> c = CHR ''E'' then
            (case r of
               [] \<Rightarrow> None
             | g # r' \<Rightarrow>
                 if g = CHR ''+'' \<or> g = CHR ''-'' then map_option (\<lambda>(ds, t). (c # g # ds, t)) (scan_digits r')
                 else map_option (\<lambda>(ds, t). (c # ds, t)) (scan_digits r))
          else Some ([], s))"

definition scan_number :: "string \<Rightarrow> (string \<times> string) option" where
  "scan_number s =
     (let (sign, s0) = (case s of c # r \<Rightarrow> if c = CHR ''-'' then ([c], r) else ([], s) | [] \<Rightarrow> ([], s))
      in case scan_int s0 of
           None \<Rightarrow> None
         | Some (i, s1) \<Rightarrow>
            (case scan_frac s1 of
               None \<Rightarrow> None
             | Some (f, s2) \<Rightarrow>
                (case scan_exp s2 of
                   None \<Rightarrow> None
                 | Some (e, s3) \<Rightarrow> Some (sign @ i @ f @ e, s3))))"

text \<open>
  One value, the elements of an array up to its bracket, the members of an object up to its
  brace.  The first argument is fuel: a nested value costs two calls per byte at most, so twice the
  length of the text is enough.  The second is the nesting still allowed; the library's limit
  is 10000.
\<close>

fun parse_value :: "nat \<Rightarrow> nat \<Rightarrow> string \<Rightarrow> (json \<times> string) option"
  and parse_elems :: "nat \<Rightarrow> nat \<Rightarrow> string \<Rightarrow> (json list \<times> string) option"
  and parse_members :: "nat \<Rightarrow> nat \<Rightarrow> string \<Rightarrow> ((string \<times> json) list \<times> string) option" where
  "parse_value 0 d s = None"
| "parse_value (Suc n) d s =
     (case skip_ws s of
        [] \<Rightarrow> None
      | c # r \<Rightarrow>
          if c = dquote then map_option (\<lambda>(raw, t). (JStr raw, t)) (scan_string r)
          else if c = CHR ''['' then
            (if d = 0 then None
             else case skip_ws r of
               [] \<Rightarrow> None
             | b # t \<Rightarrow> if b = CHR '']'' then Some (JArr [], t)
                       else map_option (\<lambda>(vs, t). (JArr vs, t)) (parse_elems n (d - 1) r))
          else if c = CHR ''{'' then
            (if d = 0 then None
             else case skip_ws r of
               [] \<Rightarrow> None
             | b # t \<Rightarrow> if b = CHR ''}'' then Some (JObj [], t)
                       else map_option (\<lambda>(ms, t). (JObj ms, t)) (parse_members n (d - 1) r))
          else if HasPrefix (c # r) ''null'' then Some (JNull, drop 4 (c # r))
          else if HasPrefix (c # r) ''true'' then Some (JBool True, drop 4 (c # r))
          else if HasPrefix (c # r) ''false'' then Some (JBool False, drop 5 (c # r))
          else map_option (\<lambda>(num, t). (JNum num, t)) (scan_number (c # r)))"
| "parse_elems 0 d s = None"
| "parse_elems (Suc n) d s =
     (case parse_value n d s of
        None \<Rightarrow> None
      | Some (v, r) \<Rightarrow>
          (case skip_ws r of
             [] \<Rightarrow> None
           | c # t \<Rightarrow> if c = CHR '']'' then Some ([v], t)
                     else if c = CHR '','' then map_option (\<lambda>(vs, u). (v # vs, u)) (parse_elems n d t)
                     else None))"
| "parse_members 0 d s = None"
| "parse_members (Suc n) d s =
     (case skip_ws s of
        [] \<Rightarrow> None
      | q # s1 \<Rightarrow>
          if q \<noteq> dquote then None
          else case scan_string s1 of
            None \<Rightarrow> None
          | Some (raw, s2) \<Rightarrow>
             (case skip_ws s2 of
                [] \<Rightarrow> None
              | b # s3 \<Rightarrow>
                  if b \<noteq> CHR '':'' then None
                  else case parse_value n d s3 of
                    None \<Rightarrow> None
                  | Some (v, r) \<Rightarrow>
                     (case skip_ws r of
                        [] \<Rightarrow> None
                      | c # t \<Rightarrow>
                          if c = CHR ''}'' then Some ([(unquote raw, v)], t)
                          else if c = CHR '','' then
                            map_option (\<lambda>(ms, u). ((unquote raw, v) # ms, u)) (parse_members n d t)
                          else None)))"

definition json_parse :: "string \<Rightarrow> json option" where
  "json_parse s =
     (case parse_value (Suc (2 * length s)) 10000 s of
        Some (v, r) \<Rightarrow> if skip_ws r = [] then Some v else None
      | None \<Rightarrow> None)"

section \<open>Printed values parse back\<close>

text \<open>Values as a program builds them, with valid keys, of at most the given nesting.\<close>

fun fits :: "nat \<Rightarrow> json \<Rightarrow> bool" where
  "fits d JNull = True"
| "fits d (JBool b) = True"
| "fits d (JNum n) = (\<exists>i. n = int_text i)"
| "fits d (JStr raw) = (\<exists>s. raw = json_escape s)"
| "fits d (JArr vs) = (0 < d \<and> (\<forall>v \<in> set vs. fits (d - 1) v))"
| "fits d (JObj ms) = (0 < d \<and> (\<forall>(k, v) \<in> set ms. valid_utf8 k \<and> fits (d - 1) v))"

lemma skip_ws_Cons [simp]: "of_char c \<notin> {32, 9, 10, 13 :: nat} \<Longrightarrow> skip_ws (c # s) = c # s"
  by (simp add: skip_ws_def)

text \<open>What follows a value inside an array or an object, at the end or at the end of a line.\<close>

definition delimited :: "string \<Rightarrow> bool" where
  "delimited t \<longleftrightarrow> (case t of [] \<Rightarrow> True | c # _ \<Rightarrow> c \<in> set '',]}'' \<or> c = CHR 0x0A)"

lemma delimited_simps [simp]:
  "delimited []" "delimited (CHR '','' # t)" "delimited (CHR '']'' # t)" "delimited (CHR ''}'' # t)"
  "delimited (CHR 0x0A # t)"
  by (simp_all add: delimited_def)

lemma decimal_digit_byte: "list_all digit_byte (decimal n)"
  using decimal_digits [of n] by (auto simp: list_all_iff digit_byte_def byte_in_def)

lemma delimited_head: "delimited (c # t) \<Longrightarrow> \<not> digit_byte c \<and> c \<noteq> CHR ''.'' \<and> c \<noteq> CHR ''e'' \<and> c \<noteq> CHR ''E''"
  by (auto simp: delimited_def digit_byte_def byte_in_def)

lemma scan_digits_decimal:
  assumes "delimited t"
  shows "scan_digits (decimal n @ t) = Some (decimal n, t)"
proof -
  have "takeWhile digit_byte t = [] \<and> dropWhile digit_byte t = t"
    using assms delimited_head by (cases t) auto
  moreover have "\<forall>x \<in> set (decimal n). digit_byte x" using decimal_digit_byte by (simp add: list_all_iff)
  ultimately show ?thesis by (simp add: scan_digits_def Let_def takeWhile_append2 dropWhile_append2)
qed

lemma scan_int_decimal:
  assumes "delimited t"
  shows "scan_int (decimal n @ t) = Some (decimal n, t)"
proof (cases "n = 0")
  case True
  then show ?thesis by (simp add: scan_int_def decimal_zero)
next
  case False
  then obtain c r where "decimal n = c # r" "c \<noteq> CHR ''0''" using decimal_head [of n] by (cases "decimal n") auto
  then show ?thesis using scan_digits_decimal [OF assms, of n] by (simp add: scan_int_def)
qed

lemma decimal_Cons:
  obtains c r where "decimal n = c # r" "digit_byte c"
  using decimal_digit_byte [of n] by (cases "decimal n") auto

lemma scan_number_int:
  assumes "delimited t"
  shows "scan_number (int_text i @ t) = Some (int_text i, t)"
proof -
  have "scan_frac t = Some ([], t) \<and> scan_exp t = Some ([], t)"
    using assms delimited_head by (cases t) (auto simp: scan_frac_def scan_exp_def)
  note tail = this
  obtain c r where c: "decimal (nat i) = c # r" "digit_byte c" by (rule decimal_Cons)
  then have "c \<noteq> CHR ''-''" by (auto simp: digit_byte_def byte_in_def)
  with c(1) show ?thesis
    using tail scan_int_decimal [OF assms, of "nat i"] scan_int_decimal [OF assms, of "nat (- i)"]
    by (auto simp: scan_number_def int_text_def)
qed

lemma int_text_Cons:
  obtains c r where "int_text i = c # r" "digit_byte c \<or> c = CHR ''-''"
  by (cases "i < 0") (auto simp: int_text_def intro: decimal_Cons)

lemma number_start:
  assumes "digit_byte c \<or> c = CHR ''-''"
  shows "of_char c \<notin> {32, 9, 10, 13 :: nat}" "c \<notin> set ''[]{}ntf''" "c \<noteq> dquote"
  using assms by (auto simp: digit_byte_def byte_in_def)

lemma print_head:
  assumes "fits d v"
  obtains c r where "print_json v = c # r" "of_char c \<notin> {32, 9, 10, 13 :: nat}" "c \<noteq> CHR '']''"
proof (cases v)
  case (JBool b)
  then show ?thesis using that by (cases b) auto
next
  case (JNum n)
  then obtain i where "n = int_text i" using assms by auto
  with JNum that number_start show ?thesis by (metis int_text_Cons print_json.simps(3) list.set_intros(1,2) set_append Un_iff)
qed (use assms that in auto)

lemma print_nonempty: "fits d v \<Longrightarrow> 0 < length (print_json v)"
  by (elim print_head) simp

lemma Join_Cons: "vs \<noteq> [] \<Longrightarrow> Join (v # vs) sep = v @ sep @ Join vs sep"
  by (cases vs) simp_all

lemma parse_elems_print:
  assumes "vs \<noteq> []"
    and "\<And>v n t. v \<in> set vs \<Longrightarrow> length (print_json v) \<le> n \<Longrightarrow> delimited t \<Longrightarrow>
      parse_value n d (print_json v @ t) = Some (v, t)"
    and "length (Join (map print_json vs) '','') < n"
  shows "parse_elems n d (Join (map print_json vs) '','' @ CHR '']'' # t) = Some (vs, t)"
  using assms
proof (induction vs arbitrary: n rule: list_nonempty_induct)
  case (single v)
  then show ?case by (cases n) simp_all
next
  case (cons v vs)
  then obtain m where n: "n = Suc m" "length (print_json v) \<le> m" "length (Join (map print_json vs) '','') < m"
    by (cases n) (auto simp: Join_Cons)
  show ?case
    using cons.prems(1) [of v m] cons.IH [OF _ n(3)] cons.prems(1) cons.hyps n(1,2)
    by (simp add: Join_Cons)
qed

lemma parse_members_print:
  assumes "ms \<noteq> []" and "\<And>k v. (k, v) \<in> set ms \<Longrightarrow> valid_utf8 k"
    and "\<And>k v n t. (k, v) \<in> set ms \<Longrightarrow> length (print_json v) \<le> n \<Longrightarrow> delimited t \<Longrightarrow>
      parse_value n d (print_json v @ t) = Some (v, t)"
    and "length (Join (map (\<lambda>(k, v). quoted k @ '':'' @ print_json v) ms) '','') < n"
  shows "parse_members n d (Join (map (\<lambda>(k, v). quoted k @ '':'' @ print_json v) ms) '','' @ CHR ''}'' # t) =
    Some (ms, t)"
  using assms
proof (induction ms arbitrary: n rule: list_nonempty_induct)
  case (single m)
  obtain k v where "m = (k, v)" by fastforce
  with single show ?case
    by (cases n) (simp_all add: quoted_def scan_json_escape unquote_json_escape)
next
  case (cons m ms)
  obtain k v where m: "m = (k, v)" by fastforce
  with cons.prems(3) cons.hyps obtain l where n: "n = Suc l" "length (print_json v) \<le> l"
    "length (Join (map (\<lambda>(k, v). quoted k @ '':'' @ print_json v) ms) '','') < l"
    by (cases n) (auto simp: Join_Cons)
  have "valid_utf8 k" using cons.prems(1) [of k v] m by simp
  moreover have "parse_members l d (Join (map (\<lambda>(k, v). quoted k @ '':'' @ print_json v) ms) '','' @ CHR ''}'' # t) =
      Some (ms, t)"
  proof (rule cons.IH [OF _ _ n(3)])
    show "valid_utf8 k'" if "(k', v') \<in> set ms" for k' v' using cons.prems(1) [of k' v'] that by simp
    show "parse_value i d (print_json v' @ u) = Some (v', u)"
      if "(k', v') \<in> set ms" "length (print_json v') \<le> i" "delimited u" for k' v' i u
      using cons.prems(2) [of k' v' i u] that by simp
  qed
  ultimately show ?case
    using cons.prems(2) [of k v l] cons.hyps n(1,2) m
    by (simp add: Join_Cons quoted_def scan_json_escape unquote_json_escape)
qed

lemma parse_value_print:
  "fits d v \<Longrightarrow> length (print_json v) \<le> n \<Longrightarrow> delimited t \<Longrightarrow> parse_value n d (print_json v @ t) = Some (v, t)"
proof (induction v arbitrary: d n t)
  case JNull
  then show ?case by (cases n) simp_all
next
  case (JBool b)
  then show ?case by (cases n; cases b) simp_all
next
  case (JStr raw)
  then show ?case by (cases n) (auto simp: scan_json_escape)
next
  case (JNum num)
  then obtain i m where i: "num = int_text i" "n = Suc m"
    using print_nonempty [OF JNum.prems(1)] by (cases n) auto
  obtain c r where c: "int_text i = c # r" "digit_byte c \<or> c = CHR ''-''" by (rule int_text_Cons)
  note s = number_start [OF c(2)]
  have "skip_ws (int_text i @ t) = int_text i @ t" using s(1) c(1) by simp
  then show ?case using i s c scan_number_int [OF JNum.prems(3), of i] by simp
next
  case (JArr vs)
  then obtain m e where n: "n = Suc m" "d = Suc e" by (cases n; cases d) auto
  show ?case
  proof (cases "vs = []")
    case False
    then obtain v vs' where vs: "vs = v # vs'" by (cases vs) auto
    with JArr.prems n have "fits e v" by simp
    then obtain c r where c: "print_json v = c # r" "of_char c \<notin> {32, 9, 10, 13 :: nat}" "c \<noteq> CHR '']''"
      by (rule print_head)
    have "parse_elems m e (Join (map print_json vs) '','' @ CHR '']'' # t) = Some (vs, t)"
      by (rule parse_elems_print [OF False]) (use JArr n in auto)
    moreover obtain r' where "Join (map print_json vs) '','' = c # r'"
      using c(1) vs by (cases vs') auto
    ultimately show ?thesis using n c by simp
  qed (use n in simp)
next
  case (JObj ms)
  then obtain m e where n: "n = Suc m" "d = Suc e" by (cases n; cases d) auto
  show ?case
  proof (cases "ms = []")
    case False
    have "parse_members m e (Join (map (\<lambda>(k, v). quoted k @ '':'' @ print_json v) ms) '','' @ CHR ''}'' # t) =
        Some (ms, t)"
      by (rule parse_members_print [OF False]) (use JObj n in fastforce)+
    moreover obtain r' where "Join (map (\<lambda>(k, v). quoted k @ '':'' @ print_json v) ms) '','' = dquote # r'"
      using False by (cases ms; cases "tl ms") (auto simp: quoted_def)
    ultimately show ?thesis using n by simp
  qed (use n in simp)
qed

theorem json_parse_print:
  assumes "fits 10000 v"
  shows "json_parse (print_json v) = Some v"
proof -
  have "parse_value (Suc (2 * length (print_json v))) 10000 (print_json v @ []) = Some (v, [])"
    by (rule parse_value_print [OF assms]) simp_all
  then show ?thesis by (simp add: json_parse_def skip_ws_def)
qed

section \<open>The fuel is enough\<close>

lemma skip_ws_length: "length (skip_ws s) \<le> length s"
  by (simp add: skip_ws_def length_dropWhile_le)

lemma skip_ws_Cons_length: "skip_ws s = c # r \<Longrightarrow> length r < length s"
  using skip_ws_length [of s] by simp

declare scan_string.simps(2) [simp del]

lemma scan_string_length: "scan_string s = Some (raw, t) \<Longrightarrow> length t < length s"
proof (induction "length s" arbitrary: s raw rule: less_induct)
  case less
  then obtain c r where s: "s = c # r" by (cases s) auto
  consider "c = dquote" | e u raw' where "c = bslash" "r = e # u" "scan_string u = Some (raw', t)"
    | raw' where "scan_string r = Some (raw', t)"
    using less.prems s by (auto simp: scan_string.simps(2) [of c r] split: if_splits list.splits)
  then show ?case
  proof cases
    case 1
    with less.prems s show ?thesis by (simp add: scan_string.simps(2))
  next
    case 2
    with less.hyps [of u raw'] s show ?thesis by simp
  next
    case 3
    with less.hyps [of r raw'] s show ?thesis by simp
  qed
qed

lemma scan_digits_length: "scan_digits s = Some (ds, t) \<Longrightarrow> length t < length s"
proof -
  assume "scan_digits s = Some (ds, t)"
  then have "takeWhile digit_byte s \<noteq> []" "t = dropWhile digit_byte s"
    by (auto simp: scan_digits_def Let_def split: if_splits)
  then show ?thesis using arg_cong [OF takeWhile_dropWhile_id [of digit_byte s], of length] by (cases "takeWhile digit_byte s") auto
qed

lemma scan_number_length:
  assumes num: "scan_number s = Some (num, t)"
  shows "length t < length s"
proof -
  let ?p = "case s of c # r \<Rightarrow> if c = CHR ''-'' then ([c], r) else ([], s) | [] \<Rightarrow> ([], s)"
  have "length (snd ?p) \<le> length s" by (auto split: list.splits)
  moreover obtain i s1 f s2 e where "scan_int (snd ?p) = Some (i, s1)"
    "scan_frac s1 = Some (f, s2)" "scan_exp s2 = Some (e, t)"
    using num by (auto simp: scan_number_def Let_def case_prod_unfold split: option.splits)
  moreover from this(1) have "length s1 < length (snd ?p)"
    by (auto simp: scan_int_def dest: scan_digits_length split: list.splits if_splits)
  moreover from \<open>scan_frac s1 = _\<close> have "length s2 \<le> length s1"
    by (auto simp: scan_frac_def dest!: scan_digits_length split: list.splits if_splits)
  moreover from \<open>scan_exp s2 = _\<close> have "length t \<le> length s2"
    by (auto simp: scan_exp_def dest!: scan_digits_length split: list.splits if_splits)
  ultimately show ?thesis by linarith
qed

lemma parse_lengths:
  "(\<forall>d s v t. parse_value n d s = Some (v, t) \<longrightarrow> length t < length s) \<and>
   (\<forall>d s vs t. parse_elems n d s = Some (vs, t) \<longrightarrow> length t < length s) \<and>
   (\<forall>d s ms t. parse_members n d s = Some (ms, t) \<longrightarrow> length t < length s)"
proof (induction n)
  case (Suc n)
  then have V: "length t < length s" if "parse_value n d s = Some (v, t)" for d s v t using that by blast
  from Suc have E: "length t < length s" if "parse_elems n d s = Some (vs, t)" for d s vs t using that by blast
  from Suc have M: "length t < length s" if "parse_members n d s = Some (ms, t)" for d s ms t using that by blast
  have "length t < length s" if p: "parse_value (Suc n) d s = Some (v, t)" for d s v t
  proof -
    obtain c r where sk: "skip_ws s = c # r" using p by (auto split: list.splits)
    have "length t < length (c # r)" using p sk
      by (auto split: list.splits if_splits
          dest!: scan_string_length scan_number_length E M skip_ws_Cons_length)
    then show ?thesis using skip_ws_length [of s] sk by simp
  qed
  moreover have "length t < length s" if p: "parse_elems (Suc n) d s = Some (vs, t)" for d s vs t
    using p by (auto split: list.splits if_splits option.splits dest!: V E skip_ws_Cons_length)
  moreover have "length t < length s" if p: "parse_members (Suc n) d s = Some (ms, t)" for d s ms t
    using p by (auto split: list.splits if_splits option.splits
        dest!: V M skip_ws_Cons_length scan_string_length)
  ultimately show ?case by blast
qed simp

lemmas parse_length = parse_lengths [THEN conjunct1, rule_format]

text \<open>Beyond twice the length of the text, more fuel changes nothing.\<close>

lemma parse_fuel:
  "(\<forall>m d s. 2 * length s < n \<longrightarrow> 2 * length s < m \<longrightarrow> parse_value n d s = parse_value m d s) \<and>
   (\<forall>m d s. Suc (2 * length s) < n \<longrightarrow> Suc (2 * length s) < m \<longrightarrow> parse_elems n d s = parse_elems m d s) \<and>
   (\<forall>m d s. Suc (2 * length s) < n \<longrightarrow> Suc (2 * length s) < m \<longrightarrow> parse_members n d s = parse_members m d s)"
proof (induction n)
  case (Suc n)
  then have V: "parse_value n d s = parse_value m d s" if "2 * length s < n" "2 * length s < m" for m d s
    using that by blast
  from Suc have E: "parse_elems n d s = parse_elems m d s" if "Suc (2 * length s) < n" "Suc (2 * length s) < m" for m d s
    using that by blast
  from Suc have M: "parse_members n d s = parse_members m d s" if "Suc (2 * length s) < n" "Suc (2 * length s) < m" for m d s
    using that by blast
  have SV: "parse_value (Suc n) d s = parse_value (Suc m) d s" if "2 * length s < Suc n" "2 * length s < Suc m" for m d s
  proof (cases "skip_ws s")
    case (Cons c r)
    from skip_ws_Cons_length [OF Cons] that have "parse_elems n (d - 1) r = parse_elems m (d - 1) r"
      "parse_members n (d - 1) r = parse_members m (d - 1) r" by (intro E M; linarith)+
    then show ?thesis using Cons by (simp split: list.split)
  qed simp
  have SE: "parse_elems (Suc n) d s = parse_elems (Suc m) d s"
    if l: "Suc (2 * length s) < Suc n" "Suc (2 * length s) < Suc m" for m d s
  proof -
    have "parse_elems n d t = parse_elems m d t" if "parse_value m d s = Some (v, r)" "skip_ws r = c # t" for v r c t
      using skip_ws_Cons_length [OF that(2)] parse_length [OF that(1)] l by (intro E; linarith)
    then show ?thesis using V [of s m d] l by (auto split: option.splits list.splits)
  qed
  have SM: "parse_members (Suc n) d s = parse_members (Suc m) d s"
    if l: "Suc (2 * length s) < Suc n" "Suc (2 * length s) < Suc m" for m d s
  proof -
    have v: "parse_value n d u = parse_value m d u" if "length u < length s" for u
      using that l by (intro V; linarith)
    have ms: "parse_members n d t = parse_members m d t" if "length t < length s" for t
      using that l by (intro M; linarith)
    show ?thesis
    proof (cases "skip_ws s")
      case s: (Cons q s1)
      show ?thesis
      proof (cases "scan_string s1")
        case (Some p)
        then obtain raw s2 where p: "scan_string s1 = Some (raw, s2)" by (cases p) auto
        show ?thesis
        proof (cases "skip_ws s2")
          case s2: (Cons b s3)
          have s3: "length s3 < length s"
            using skip_ws_Cons_length [OF s] skip_ws_Cons_length [OF s2] scan_string_length [OF p] by linarith
          have "parse_members n d t = parse_members m d t" if "parse_value m d s3 = Some (w, r)" "skip_ws r = c # t" for w r c t
            using skip_ws_Cons_length [OF that(2)] parse_length [OF that(1)] s3 by (intro ms; linarith)
          then show ?thesis using s p s2 v [OF s3] by (auto split: option.splits list.splits)
        qed (use s p in simp)
      qed (use s in simp)
    qed simp
  qed
  show ?case
  proof (intro conjI allI impI)
    fix m d and s :: string assume "2 * length s < Suc n" "2 * length s < m"
    then show "parse_value (Suc n) d s = parse_value m d s" using SV [of s "m - 1" d] by (cases m) simp_all
  next
    fix m d and s :: string assume "Suc (2 * length s) < Suc n" "Suc (2 * length s) < m"
    then show "parse_elems (Suc n) d s = parse_elems m d s" using SE [of s "m - 1" d] by (cases m) simp_all
  next
    fix m d and s :: string assume "Suc (2 * length s) < Suc n" "Suc (2 * length s) < m"
    then show "parse_members (Suc n) d s = parse_members m d s" using SM [of s "m - 1" d] by (cases m) simp_all
  qed
qed simp

lemma json_parse_fuel:
  assumes "2 * length s < n"
  shows "json_parse s =
    (case parse_value n 10000 s of Some (v, r) \<Rightarrow> if skip_ws r = [] then Some v else None | None \<Rightarrow> None)"
  using parse_fuel [THEN conjunct1, rule_format, OF _ assms, of "Suc (2 * length s)" 10000]
  by (simp add: json_parse_def)

lemma valid_ascii: "list_all ascii_byte s \<Longrightarrow> valid_utf8 s"
  by (induction s) (simp_all add: Let_def)

declare valid_utf8.simps(2) [simp del] json_escape.simps(2) [simp del] unquote.simps(2) [simp del]

end
