(* ===== verification/Sqlite_Store.thy ===== *)
theory Sqlite_Store
  imports Store Go_Time Go_Json
begin

text \<open>
  \<^verbatim>\<open>pkg/inventory/sqlite.go\<close>: the durable backend.  A table is a map from its primary key to a row
  with the columns of the schema; a statement is what SQL says it does to those maps.  The rows
  keep instants and locations as text.  The text is written and read through a codec, so that
  the same statements can also be read over unencoded columns: \<open>go_codec\<close> is the program's
  codec, \<open>plain_codec\<close> the identity.

  The engine behind \<^verbatim>\<open>database/sql\<close> is the record \<open>engine\<close>: the order in which it delivers rows
  that no ORDER BY sorts, and the steps it fails.  Every method of the store may meet another
  engine, so that within one request one method can commit and the next fail; two calls of the
  same read within a request meet the same one.  A method whose transaction fails changes
  nothing here; \<^verbatim>\<open>Sqlite_Tx\<close> runs its statements, with the deferred rollback, and shows this.
\<close>

section \<open>Engine, codec, tables\<close>

datatype sql_step = Begin | Query | Exec nat | Commit

record engine =
  row_order :: iteration
  fails :: "sql_step \<Rightarrow> string option"

record ('t, 'l, 'm) codec =
  timeToStr :: "time \<Rightarrow> 't"
  parseTimeStr :: "'t \<Rightarrow> time option"
  marshalLocations :: "Location list \<Rightarrow> 'l"
  unmarshalLocations :: "'l \<Rightarrow> Location list option"
  marshalLocation :: "Location \<Rightarrow> 'm"
  unmarshalLocation :: "'m \<Rightarrow> Location option"

record ('t, 'l) artifact_row =
  ar_run_id :: string
  ar_sample_run_id :: string
  ar_producer_node_id :: string
  ar_producer_attempt_id :: string
  ar_output_name :: string
  ar_artifact_id :: string
  ar_digest :: string
  ar_logical_uri :: string
  ar_node_name :: string
  ar_uri :: string
  ar_locations_json :: 'l
  ar_size_bytes :: "64 word"
  ar_created_at :: 't

record ('t, 'm) source_row =
  sr_source_id :: string
  sr_artifact_id :: string
  sr_backend_id :: string
  sr_digest :: string
  sr_state :: string
  sr_location_fingerprint :: string
  sr_location_json :: 'm
  sr_created_at :: 't
  sr_updated_at :: 't
  sr_last_verified_at :: 't
  sr_last_error :: string

record 't terminal_row =
  tr_run_id :: string
  tr_sample_run_id :: string
  tr_node_id :: string
  tr_attempt_id :: string
  tr_terminal_state :: string
  tr_recorded_at :: 't

record 't lifecycle_row =
  lr_run_id :: string
  lr_sample_run_id :: string
  lr_finalized :: int
  lr_finalized_at :: "'t option"
  lr_retention_policy_source :: string
  lr_retention_duration_ns :: int
  lr_retention_until :: "'t option"
  lr_gc_eligible :: int
  lr_gc_eligible_at :: "'t option"
  lr_gc_blocked_reason :: string
  lr_terminal_node_count :: int
  lr_succeeded_node_count :: int
  lr_failed_node_count :: int
  lr_canceled_node_count :: int
  lr_retained_artifact_count :: int
  lr_retained_artifact_bytes :: "64 word"

record ('t, 'l, 'm) database =
  tbl_artifacts :: "('t, 'l) artifact_row gomap"
  tbl_artifact_sources :: "('t, 'm) source_row gomap"
  tbl_node_terminals :: "'t terminal_row gomap"
  tbl_sample_run_lifecycles :: "'t lifecycle_row gomap"
  tbl_run_lifecycles :: "'t lifecycle_row gomap"
  tbl_schema_meta :: "string gomap"

section \<open>Columns\<close>

definition zero_time :: "time option \<Rightarrow> time" where
  "zero_time r = (case r of Some t \<Rightarrow> t | None \<Rightarrow> 0)"

definition boolToInt :: "bool \<Rightarrow> int" where
  "boolToInt b = (if b then 1 else 0)"

definition nullTimeToStr :: "('t, 'l, 'm) codec \<Rightarrow> time option \<Rightarrow> 't option" where
  "nullTimeToStr C t = map_option (timeToStr C) t"

definition nullStrToTime :: "('t, 'l, 'm) codec \<Rightarrow> 't option \<Rightarrow> time option" where
  "nullStrToTime C s = (case s of None \<Rightarrow> None | Some x \<Rightarrow> parseTimeStr C x)"

definition artifact_values :: "('t, 'l, 'm) codec \<Rightarrow> Artifact \<Rightarrow> ('t, 'l) artifact_row" where
  "artifact_values C a =
     \<lparr>ar_run_id = a_RunID a, ar_sample_run_id = a_SampleRunID a,
      ar_producer_node_id = a_ProducerNodeID a, ar_producer_attempt_id = a_ProducerAttemptID a,
      ar_output_name = a_OutputName a, ar_artifact_id = a_ArtifactID a, ar_digest = a_Digest a,
      ar_logical_uri = a_LogicalURI a, ar_node_name = a_NodeName a, ar_uri = a_URI a,
      ar_locations_json = marshalLocations C (a_Locations a), ar_size_bytes = a_SizeBytes a,
      ar_created_at = timeToStr C (a_CreatedAt a)\<rparr>"

text \<open>The conflict clause of the artifact insert keeps the five identity columns of the row.\<close>

definition artifact_conflict :: "('t, 'l) artifact_row \<Rightarrow> ('t, 'l) artifact_row \<Rightarrow> ('t, 'l) artifact_row" where
  "artifact_conflict old excluded =
     old\<lparr>ar_artifact_id := ar_artifact_id excluded, ar_digest := ar_digest excluded,
         ar_logical_uri := ar_logical_uri excluded, ar_node_name := ar_node_name excluded,
         ar_uri := ar_uri excluded, ar_locations_json := ar_locations_json excluded,
         ar_size_bytes := ar_size_bytes excluded, ar_created_at := ar_created_at excluded\<rparr>"

definition scanArtifact :: "('t, 'l, 'm) codec \<Rightarrow> ('t, 'l) artifact_row \<Rightarrow> store_error + Artifact" where
  "scanArtifact C row =
     (case unmarshalLocations C (ar_locations_json row) of
        None \<Rightarrow> Inl (DriverError ''unmarshal locations_json'')
      | Some locations \<Rightarrow> Inr
          \<lparr>a_RunID = ar_run_id row, a_SampleRunID = ar_sample_run_id row,
           a_ProducerNodeID = ar_producer_node_id row, a_ProducerAttemptID = ar_producer_attempt_id row,
           a_OutputName = ar_output_name row, a_ArtifactID = ar_artifact_id row, a_Digest = ar_digest row,
           a_LogicalURI = ar_logical_uri row, a_NodeName = ar_node_name row, a_URI = ar_uri row,
           a_Locations = locations, a_SizeBytes = ar_size_bytes row,
           a_CreatedAt = zero_time (parseTimeStr C (ar_created_at row))\<rparr>)"

definition source_values :: "('t, 'l, 'm) codec \<Rightarrow> ArtifactSource \<Rightarrow> ('t, 'm) source_row" where
  "source_values C s =
     \<lparr>sr_source_id = s_SourceID s, sr_artifact_id = s_ArtifactID s, sr_backend_id = s_BackendID s,
      sr_digest = s_Digest s, sr_state = s_State s, sr_location_fingerprint = s_LocationFingerprint s,
      sr_location_json = marshalLocation C (s_Location s), sr_created_at = timeToStr C (s_CreatedAt s),
      sr_updated_at = timeToStr C (s_UpdatedAt s), sr_last_verified_at = timeToStr C (s_LastVerifiedAt s),
      sr_last_error = s_LastError s\<rparr>"

definition source_conflict :: "('t, 'm) source_row \<Rightarrow> ('t, 'm) source_row \<Rightarrow> ('t, 'm) source_row" where
  "source_conflict old excluded =
     old\<lparr>sr_state := sr_state excluded, sr_location_json := sr_location_json excluded,
         sr_updated_at := sr_updated_at excluded, sr_last_verified_at := sr_last_verified_at excluded,
         sr_last_error := sr_last_error excluded\<rparr>"

definition scanSource :: "('t, 'l, 'm) codec \<Rightarrow> ('t, 'm) source_row \<Rightarrow> store_error + ArtifactSource" where
  "scanSource C row =
     (case unmarshalLocation C (sr_location_json row) of
        None \<Rightarrow> Inl (DriverError ''unmarshal location_json'')
      | Some location \<Rightarrow> Inr
          \<lparr>s_SourceID = sr_source_id row, s_ArtifactID = sr_artifact_id row, s_BackendID = sr_backend_id row,
           s_Digest = sr_digest row, s_State = sr_state row,
           s_LocationFingerprint = sr_location_fingerprint row, s_Location = location,
           s_CreatedAt = zero_time (parseTimeStr C (sr_created_at row)),
           s_UpdatedAt = zero_time (parseTimeStr C (sr_updated_at row)),
           s_LastVerifiedAt = zero_time (parseTimeStr C (sr_last_verified_at row)),
           s_LastError = sr_last_error row\<rparr>)"

definition terminal_values :: "('t, 'l, 'm) codec \<Rightarrow> NodeTerminalRecord \<Rightarrow> 't terminal_row" where
  "terminal_values C r =
     \<lparr>tr_run_id = t_RunID r, tr_sample_run_id = [], tr_node_id = t_NodeID r, tr_attempt_id = t_AttemptID r,
      tr_terminal_state = t_TerminalState r, tr_recorded_at = timeToStr C (t_RecordedAt r)\<rparr>"

definition scanTerminal :: "('t, 'l, 'm) codec \<Rightarrow> 't terminal_row \<Rightarrow> NodeTerminalRecord" where
  "scanTerminal C row =
     \<lparr>t_RunID = tr_run_id row, t_NodeID = tr_node_id row, t_AttemptID = tr_attempt_id row,
      t_TerminalState = tr_terminal_state row,
      t_RecordedAt = zero_time (parseTimeStr C (tr_recorded_at row))\<rparr>"

definition lifecycle_values :: "('t, 'l, 'm) codec \<Rightarrow> RunLifecycle \<Rightarrow> 't lifecycle_row" where
  "lifecycle_values C lc =
     \<lparr>lr_run_id = l_RunID lc, lr_sample_run_id = l_SampleRunID lc, lr_finalized = boolToInt (l_Finalized lc),
      lr_finalized_at = nullTimeToStr C (l_FinalizedAt lc),
      lr_retention_policy_source = l_RetentionPolicySource lc,
      lr_retention_duration_ns = l_RetentionDuration lc,
      lr_retention_until = nullTimeToStr C (l_RetentionUntil lc),
      lr_gc_eligible = boolToInt (l_GCEligible lc), lr_gc_eligible_at = nullTimeToStr C (l_GCEligibleAt lc),
      lr_gc_blocked_reason = l_GCBlockedReason lc, lr_terminal_node_count = l_TerminalNodeCount lc,
      lr_succeeded_node_count = l_SucceededNodeCount lc, lr_failed_node_count = l_FailedNodeCount lc,
      lr_canceled_node_count = l_CanceledNodeCount lc,
      lr_retained_artifact_count = l_RetainedArtifactCount lc,
      lr_retained_artifact_bytes = l_RetainedArtifactBytes lc\<rparr>"

definition scanRunLifecycle :: "('t, 'l, 'm) codec \<Rightarrow> 't lifecycle_row \<Rightarrow> RunLifecycle" where
  "scanRunLifecycle C row =
     \<lparr>l_RunID = lr_run_id row, l_SampleRunID = lr_sample_run_id row, l_Finalized = (lr_finalized row \<noteq> 0),
      l_FinalizedAt = nullStrToTime C (lr_finalized_at row),
      l_RetentionPolicySource = lr_retention_policy_source row,
      l_RetentionDuration = lr_retention_duration_ns row,
      l_RetentionUntil = nullStrToTime C (lr_retention_until row),
      l_GCEligible = (lr_gc_eligible row \<noteq> 0), l_GCEligibleAt = nullStrToTime C (lr_gc_eligible_at row),
      l_GCBlockedReason = lr_gc_blocked_reason row, l_TerminalNodeCount = lr_terminal_node_count row,
      l_SucceededNodeCount = lr_succeeded_node_count row, l_FailedNodeCount = lr_failed_node_count row,
      l_CanceledNodeCount = lr_canceled_node_count row,
      l_RetainedArtifactCount = lr_retained_artifact_count row,
      l_RetainedArtifactBytes = lr_retained_artifact_bytes row\<rparr>"

section \<open>Transactions\<close>

definition step_error :: "engine \<Rightarrow> sql_step list \<Rightarrow> store_error option" where
  "step_error E steps = first_error (\<lambda>s. map_option DriverError (fails E s)) steps"

text \<open>The last steps of a transaction: a failure rolls back to \<open>db\<close>, otherwise \<open>db'\<close> is committed.\<close>

definition transact :: "engine \<Rightarrow> sql_step list \<Rightarrow> 'db \<Rightarrow> 'db \<Rightarrow> store_error option \<times> 'db" where
  "transact E steps db db' =
     (case step_error E steps of Some e \<Rightarrow> (Some e, db) | None \<Rightarrow> (None, db'))"

section \<open>Artifacts\<close>

definition sq_PutArtifact :: "engine \<Rightarrow> ('t, 'l, 'm) codec \<Rightarrow> ('t, 'l, 'm) database \<Rightarrow> Artifact \<Rightarrow>
    store_error option \<times> ('t, 'l, 'm) database" where
  "sq_PutArtifact E C db a =
     (if TrimSpace (a_RunID a) = [] then (Some (StoreRunIDRequired ''put artifact''), db)
      else case step_error E [Begin, Query] of
        Some e \<Rightarrow> (Some e, db)
      | None \<Rightarrow>
         (let key = Artifact_Key a;
              put = (\<lambda>row. transact E [Exec 0, Commit] db
                       (db\<lparr>tbl_artifacts := AList.update key row (tbl_artifacts db)\<rparr>))
          in case map_of (tbl_artifacts db) key of
               Some old \<Rightarrow>
                 if ar_digest old \<noteq> [] then
                   if a_Digest a = [] then (Some (DigestClearRefused key (ar_digest old)), db)
                   else if ar_digest old \<noteq> a_Digest a then
                     (Some (DigestConflict key (ar_digest old) (a_Digest a)), db)
                   else transact E [Commit] db db
                 else put (artifact_conflict old (artifact_values C a))
             | None \<Rightarrow> put (artifact_values C a)))"

fun scan_rows :: "('r \<Rightarrow> store_error + 'a) \<Rightarrow> 'r list \<Rightarrow> store_error + 'a list" where
  "scan_rows scan [] = Inr []"
| "scan_rows scan (r # rs) =
     (case scan r of
        Inl e \<Rightarrow> Inl e
      | Inr x \<Rightarrow> (case scan_rows scan rs of Inl e \<Rightarrow> Inl e | Inr xs \<Rightarrow> Inr (x # xs)))"

definition scan_first :: "('r \<Rightarrow> store_error + 'a) \<Rightarrow> 'r list \<Rightarrow> store_error + 'a option" where
  "scan_first scan rows =
     (case rows of [] \<Rightarrow> Inr None | r # _ \<Rightarrow> (case scan r of Inl e \<Rightarrow> Inl e | Inr x \<Rightarrow> Inr (Some x)))"

text \<open>Rows of a SELECT with a WHERE clause, in the engine's order; legacy rows are filtered out.\<close>

definition select_artifacts :: "engine \<Rightarrow> ('t, 'l, 'm) database \<Rightarrow>
    (('t, 'l) artifact_row \<Rightarrow> bool) \<Rightarrow> ('t, 'l) artifact_row list" where
  "select_artifacts E db cond =
     filter (\<lambda>r. cond r \<and> ar_run_id r \<noteq> []) (range_map (row_order E) (tbl_artifacts db))"

definition on_query :: "engine \<Rightarrow> (store_error + 'a) \<Rightarrow> store_error + 'a" where
  "on_query E result = (case step_error E [Query] of Some e \<Rightarrow> Inl e | None \<Rightarrow> result)"

definition listArtifactsWhere :: "engine \<Rightarrow> ('t, 'l, 'm) codec \<Rightarrow> ('t, 'l, 'm) database \<Rightarrow>
    (('t, 'l) artifact_row \<Rightarrow> bool) \<Rightarrow> store_error + Artifact list" where
  "listArtifactsWhere E C db cond = on_query E (scan_rows (scanArtifact C) (select_artifacts E db cond))"

text \<open>A lookup by the primary key sees at most one row.\<close>

definition sq_GetArtifact :: "engine \<Rightarrow> ('t, 'l, 'm) codec \<Rightarrow> ('t, 'l, 'm) database \<Rightarrow>
    string \<Rightarrow> string \<Rightarrow> string \<Rightarrow> string \<Rightarrow> store_error + Artifact option" where
  "sq_GetArtifact E C db runID producerNodeID attemptID outputName =
     on_query E (scan_first (scanArtifact C)
       (case map_of (tbl_artifacts db) (ArtifactKey_String
          \<lparr>k_RunID = runID, k_ProducerNodeID = producerNodeID, k_ProducerAttemptID = attemptID,
           k_OutputName = outputName\<rparr>) of
          Some row \<Rightarrow> if ar_run_id row \<noteq> [] then [row] else []
        | None \<Rightarrow> []))"

definition sq_GetArtifactByID :: "engine \<Rightarrow> ('t, 'l, 'm) codec \<Rightarrow> ('t, 'l, 'm) database \<Rightarrow> string \<Rightarrow>
    store_error + Artifact option" where
  "sq_GetArtifactByID E C db artifactID =
     on_query E (scan_first (scanArtifact C) (select_artifacts E db (\<lambda>r. ar_artifact_id r = artifactID)))"

definition sq_ListArtifactsByRun :: "engine \<Rightarrow> ('t, 'l, 'm) codec \<Rightarrow> ('t, 'l, 'm) database \<Rightarrow> string \<Rightarrow>
    store_error + Artifact list" where
  "sq_ListArtifactsByRun E C db runID = listArtifactsWhere E C db (\<lambda>r. ar_run_id r = runID)"

definition sq_ListArtifactsBySampleRun :: "engine \<Rightarrow> ('t, 'l, 'm) codec \<Rightarrow> ('t, 'l, 'm) database \<Rightarrow> string \<Rightarrow>
    store_error + Artifact list" where
  "sq_ListArtifactsBySampleRun E C db sampleRunID =
     listArtifactsWhere E C db (\<lambda>r. ar_sample_run_id r = sampleRunID)"

section \<open>Sources\<close>

definition sq_own_source :: "string \<Rightarrow> ArtifactSource \<Rightarrow> ArtifactSource" where
  "sq_own_source artifactID source =
     (if s_ArtifactID source = [] then source\<lparr>s_ArtifactID := artifactID\<rparr> else source)"

text \<open>The statements of the loop, one per source; a statement that affects no row is a conflict.\<close>

fun exec_sources :: "engine \<Rightarrow> ('t, 'l, 'm) codec \<Rightarrow> string \<Rightarrow> nat \<Rightarrow> ('t, 'm) source_row gomap \<Rightarrow>
    ArtifactSource list \<Rightarrow> store_error + ('t, 'm) source_row gomap" where
  "exec_sources E C artifactID i tbl [] = Inr tbl"
| "exec_sources E C artifactID i tbl (source0 # ss) =
     (let source = sq_own_source artifactID source0; row = source_values C source; key = s_SourceID source
      in case step_error E [Exec i] of
           Some e \<Rightarrow> Inl e
         | None \<Rightarrow>
            (case map_of tbl key of
               None \<Rightarrow> exec_sources E C artifactID (Suc i) (AList.update key row tbl) ss
             | Some old \<Rightarrow>
                 if sr_artifact_id old = sr_artifact_id row
                 then exec_sources E C artifactID (Suc i) (AList.update key (source_conflict old row) tbl) ss
                 else Inl (SourceOwnershipConflict key (s_ArtifactID source))))"

definition sq_PutArtifactSources :: "engine \<Rightarrow> ('t, 'l, 'm) codec \<Rightarrow> ('t, 'l, 'm) database \<Rightarrow> string \<Rightarrow>
    ArtifactSource list \<Rightarrow> store_error option \<times> ('t, 'l, 'm) database" where
  "sq_PutArtifactSources E C db artifactID ss =
     (case step_error E [Begin] of
        Some e \<Rightarrow> (Some e, db)
      | None \<Rightarrow>
         (case exec_sources E C artifactID 0 (tbl_artifact_sources db) ss of
            Inl e \<Rightarrow> (Some e, db)
          | Inr tbl \<Rightarrow> transact E [Commit] db (db\<lparr>tbl_artifact_sources := tbl\<rparr>)))"

definition liveSourceFilter :: "('t, 'l, 'm) database \<Rightarrow> string \<Rightarrow> bool" where
  "liveSourceFilter db artifactID =
     list_ex (\<lambda>r. ar_artifact_id r = artifactID \<and> ar_run_id r \<noteq> []) (map snd (tbl_artifacts db))"

definition sq_ListArtifactSources :: "engine \<Rightarrow> ('t, 'l, 'm) codec \<Rightarrow> ('t, 'l, 'm) database \<Rightarrow> string \<Rightarrow>
    store_error + ArtifactSource list" where
  "sq_ListArtifactSources E C db artifactID =
     on_query E (scan_rows (scanSource C) (sort_key sr_source_id
       (filter (\<lambda>r. sr_artifact_id r = artifactID \<and> liveSourceFilter db (sr_artifact_id r))
         (range_map (row_order E) (tbl_artifact_sources db)))))"

definition sq_GetArtifactSource :: "engine \<Rightarrow> ('t, 'l, 'm) codec \<Rightarrow> ('t, 'l, 'm) database \<Rightarrow> string \<Rightarrow>
    store_error + ArtifactSource option" where
  "sq_GetArtifactSource E C db sourceID =
     on_query E (scan_first (scanSource C)
       (case map_of (tbl_artifact_sources db) sourceID of
          Some row \<Rightarrow> if liveSourceFilter db (sr_artifact_id row) then [row] else []
        | None \<Rightarrow> []))"

section \<open>Terminals and lifecycles\<close>

definition sq_RecordNodeTerminal :: "engine \<Rightarrow> ('t, 'l, 'm) codec \<Rightarrow> ('t, 'l, 'm) database \<Rightarrow>
    NodeTerminalRecord \<Rightarrow> store_error option \<times> ('t, 'l, 'm) database" where
  "sq_RecordNodeTerminal E C db r =
     (if TrimSpace (t_RunID r) = [] then (Some (StoreRunIDRequired ''record node terminal''), db)
      else let key = NodeAttemptKey_String
             \<lparr>n_RunID = t_RunID r, n_NodeID = t_NodeID r, n_AttemptID = t_AttemptID r\<rparr>
       in case step_error E [Begin, Query] of
            Some e \<Rightarrow> (Some e, db)
          | None \<Rightarrow>
             (case map_of (tbl_node_terminals db) key of
                Some existing \<Rightarrow>
                  if tr_terminal_state existing = t_TerminalState r then transact E [Commit] db db
                  else (Some (TerminalConflict (t_RunID r) (t_NodeID r) (t_AttemptID r)
                          (tr_terminal_state existing) (t_TerminalState r)), db)
              | None \<Rightarrow> transact E [Exec 0, Commit] db
                  (db\<lparr>tbl_node_terminals := AList.update key (terminal_values C r) (tbl_node_terminals db)\<rparr>)))"

definition sq_GetNodeTerminal :: "engine \<Rightarrow> ('t, 'l, 'm) codec \<Rightarrow> ('t, 'l, 'm) database \<Rightarrow>
    string \<Rightarrow> string \<Rightarrow> string \<Rightarrow> store_error + NodeTerminalRecord option" where
  "sq_GetNodeTerminal E C db runID nodeID attemptID =
     on_query E (Inr
       (case map_of (tbl_node_terminals db) (NodeAttemptKey_String
          \<lparr>n_RunID = runID, n_NodeID = nodeID, n_AttemptID = attemptID\<rparr>) of
          Some row \<Rightarrow> if tr_run_id row \<noteq> [] then Some (scanTerminal C row) else None
        | None \<Rightarrow> None))"

definition sq_ListNodeTerminalsByRun :: "engine \<Rightarrow> ('t, 'l, 'm) codec \<Rightarrow> ('t, 'l, 'm) database \<Rightarrow> string \<Rightarrow>
    store_error + NodeTerminalRecord list" where
  "sq_ListNodeTerminalsByRun E C db runID =
     on_query E (Inr (map (scanTerminal C)
       (filter (\<lambda>r. tr_run_id r = runID \<and> tr_run_id r \<noteq> []) (range_map (row_order E) (tbl_node_terminals db)))))"

definition sq_UpsertRunLifecycle :: "engine \<Rightarrow> ('t, 'l, 'm) codec \<Rightarrow> ('t, 'l, 'm) database \<Rightarrow>
    RunLifecycle \<Rightarrow> store_error option \<times> ('t, 'l, 'm) database" where
  "sq_UpsertRunLifecycle E C db lc =
     (if TrimSpace (l_RunID lc) = [] then (Some (StoreRunIDRequired ''upsert run lifecycle''), db)
      else transact E [Exec 0] db
        (db\<lparr>tbl_run_lifecycles := AList.update (l_RunID lc) (lifecycle_values C lc) (tbl_run_lifecycles db)\<rparr>))"

definition sq_GetRunLifecycle :: "engine \<Rightarrow> ('t, 'l, 'm) codec \<Rightarrow> ('t, 'l, 'm) database \<Rightarrow> string \<Rightarrow>
    store_error + RunLifecycle option" where
  "sq_GetRunLifecycle E C db runID =
     on_query E (Inr (map_option (scanRunLifecycle C) (map_of (tbl_run_lifecycles db) runID)))"

definition sq_ListRunLifecyclesBySample :: "engine \<Rightarrow> ('t, 'l, 'm) codec \<Rightarrow> ('t, 'l, 'm) database \<Rightarrow>
    string \<Rightarrow> store_error + RunLifecycle list" where
  "sq_ListRunLifecyclesBySample E C db sampleRunID =
     on_query E (Inr (map (scanRunLifecycle C) (sort_key lr_run_id
       (filter (\<lambda>r. lr_sample_run_id r = sampleRunID) (range_map (row_order E) (tbl_run_lifecycles db))))))"

text \<open>
  The engine each method meets.  The rows hold text, so no pointer into them survives a call.
\<close>

datatype sql_method =
    In_PutArtifact
  | In_GetArtifact
  | In_GetArtifactByID
  | In_ListArtifactsByRun
  | In_ListArtifactsBySampleRun
  | In_PutArtifactSources
  | In_GetArtifactSource
  | In_ListArtifactSources
  | In_ListNodeTerminalsByRun
  | In_RecordNodeTerminal
  | In_GetNodeTerminal
  | In_UpsertRunLifecycle
  | In_GetRunLifecycle
  | In_ListRunLifecyclesBySample

definition sqlite_store :: "(sql_method \<Rightarrow> engine) \<Rightarrow> ('t, 'l, 'm) codec \<Rightarrow> ('t, 'l, 'm) database store" where
  "sqlite_store E C =
     \<lparr>PutArtifact = sq_PutArtifact (E In_PutArtifact) C,
      GetArtifact = sq_GetArtifact (E In_GetArtifact) C,
      GetArtifactByID = sq_GetArtifactByID (E In_GetArtifactByID) C,
      ListArtifactsByRun = sq_ListArtifactsByRun (E In_ListArtifactsByRun) C,
      ListArtifactsBySampleRun = sq_ListArtifactsBySampleRun (E In_ListArtifactsBySampleRun) C,
      PutArtifactSources = sq_PutArtifactSources (E In_PutArtifactSources) C,
      GetArtifactSource = sq_GetArtifactSource (E In_GetArtifactSource) C,
      ListArtifactSources = sq_ListArtifactSources (E In_ListArtifactSources) C,
      ListNodeTerminalsByRun = sq_ListNodeTerminalsByRun (E In_ListNodeTerminalsByRun) C,
      RecordNodeTerminal = sq_RecordNodeTerminal (E In_RecordNodeTerminal) C,
      GetNodeTerminal = sq_GetNodeTerminal (E In_GetNodeTerminal) C,
      UpsertRunLifecycle = sq_UpsertRunLifecycle (E In_UpsertRunLifecycle) C,
      GetRunLifecycle = sq_GetRunLifecycle (E In_GetRunLifecycle) C,
      ListRunLifecyclesBySample = sq_ListRunLifecyclesBySample (E In_ListRunLifecyclesBySample) C,
      WriteThrough = (\<lambda>db a ls. db)\<rparr>"

lemma sqlite_store_methods [simp]:
  "PutArtifact (sqlite_store E C) = sq_PutArtifact (E In_PutArtifact) C"
  "GetArtifact (sqlite_store E C) = sq_GetArtifact (E In_GetArtifact) C"
  "GetArtifactByID (sqlite_store E C) = sq_GetArtifactByID (E In_GetArtifactByID) C"
  "ListArtifactsByRun (sqlite_store E C) = sq_ListArtifactsByRun (E In_ListArtifactsByRun) C"
  "ListArtifactsBySampleRun (sqlite_store E C) = sq_ListArtifactsBySampleRun (E In_ListArtifactsBySampleRun) C"
  "PutArtifactSources (sqlite_store E C) = sq_PutArtifactSources (E In_PutArtifactSources) C"
  "GetArtifactSource (sqlite_store E C) = sq_GetArtifactSource (E In_GetArtifactSource) C"
  "ListArtifactSources (sqlite_store E C) = sq_ListArtifactSources (E In_ListArtifactSources) C"
  "ListNodeTerminalsByRun (sqlite_store E C) = sq_ListNodeTerminalsByRun (E In_ListNodeTerminalsByRun) C"
  "RecordNodeTerminal (sqlite_store E C) = sq_RecordNodeTerminal (E In_RecordNodeTerminal) C"
  "GetNodeTerminal (sqlite_store E C) = sq_GetNodeTerminal (E In_GetNodeTerminal) C"
  "UpsertRunLifecycle (sqlite_store E C) = sq_UpsertRunLifecycle (E In_UpsertRunLifecycle) C"
  "GetRunLifecycle (sqlite_store E C) = sq_GetRunLifecycle (E In_GetRunLifecycle) C"
  "ListRunLifecyclesBySample (sqlite_store E C) = sq_ListRunLifecyclesBySample (E In_ListRunLifecyclesBySample) C"
  "WriteThrough (sqlite_store E C) = (\<lambda>db a ls. db)"
  by (simp_all add: sqlite_store_def)

end
