(* ===== verification/Sqlite_Codec.thy ===== *)
theory Sqlite_Codec
  imports Sqlite_Store
begin

text \<open>
  The text columns of the SQLite backend: instants in RFC 3339 and locations in JSON, with the
  struct tags of \<^verbatim>\<open>pkg/domain/types.go\<close> (\<^verbatim>\<open>omitempty\<close> fields, pointers that may be nil), and the way
  \<^verbatim>\<open>json.Unmarshal\<close> fills those structs: keys match up to case, null leaves a string as it is and
  clears a pointer, a value of the wrong kind is an error.
\<close>

section \<open>Locations as JSON values\<close>

definition string_field :: "string \<Rightarrow> string \<Rightarrow> (string \<times> json) list" where
  "string_field name v = (if v = [] then [] else [(name, json_string v)])"

definition json_of_node_local :: "NodeLocalLocation \<Rightarrow> json" where
  "json_of_node_local nl = JObj (string_field ''nodeName'' (nl_NodeName nl) @ string_field ''path'' (nl_Path nl))"

definition json_of_http :: "HTTPSource \<Rightarrow> json" where
  "json_of_http h =
     JObj (string_field ''uri'' (h_URI h) @
           (if h_Headers h = [] then []
            else [(''headers'', JObj (map (\<lambda>(k, v). (k, json_string v)) (sort_key fst (h_Headers h))))]))"

definition json_of_location :: "Location \<Rightarrow> json" where
  "json_of_location l =
     JObj ((case NodeLocal l of Some nl \<Rightarrow> [(''nodeLocal'', json_of_node_local nl)] | None \<Rightarrow> []) @
           (case HTTP l of Some h \<Rightarrow> [(''http'', json_of_http h)] | None \<Rightarrow> []))"

section \<open>Locations from JSON values\<close>

text \<open>
  \<^verbatim>\<open>foldName\<close>, as far as it can produce an ASCII name: ASCII letters, the long s (U+017F) and the
  Kelvin sign (U+212A) fold to lower case.
\<close>

fun fold_name :: "string \<Rightarrow> string" where
  "fold_name (a # b # c # s) =
     (if [a, b, c] = bytes [226, 132, 170] then CHR ''k'' # fold_name s
      else if [a, b] = bytes [197, 191] then CHR ''s'' # fold_name (c # s)
      else lower_ascii a # fold_name (b # c # s))"
| "fold_name [a, b] = (if [a, b] = bytes [197, 191] then ''s'' else [lower_ascii a, lower_ascii b])"
| "fold_name [a] = [lower_ascii a]"
| "fold_name [] = []"

definition is_field :: "string \<Rightarrow> string \<Rightarrow> bool" where
  "is_field name key \<longleftrightarrow> fold_name key = fold_name name"

definition string_into :: "string \<Rightarrow> json \<Rightarrow> string option" where
  "string_into old j = (case j of JStr raw \<Rightarrow> Some (unquote raw) | JNull \<Rightarrow> Some old | _ \<Rightarrow> None)"

fun members_into :: "('a \<Rightarrow> string \<Rightarrow> json \<Rightarrow> 'a option) \<Rightarrow> (string \<times> json) list \<Rightarrow> 'a \<Rightarrow> 'a option" where
  "members_into f [] x = Some x"
| "members_into f ((k, v) # ms) x = (case f x k v of None \<Rightarrow> None | Some y \<Rightarrow> members_into f ms y)"

text \<open>A struct: null leaves it alone.  A pointer: null clears it, an object fills its target.\<close>

definition struct_into :: "('a \<Rightarrow> string \<Rightarrow> json \<Rightarrow> 'a option) \<Rightarrow> 'a \<Rightarrow> json \<Rightarrow> 'a option" where
  "struct_into f old j = (case j of JObj ms \<Rightarrow> members_into f ms old | JNull \<Rightarrow> Some old | _ \<Rightarrow> None)"

definition pointer_into :: "('a \<Rightarrow> string \<Rightarrow> json \<Rightarrow> 'a option) \<Rightarrow> 'a \<Rightarrow> 'a option \<Rightarrow> json \<Rightarrow> 'a option option" where
  "pointer_into f zero old j =
     (if j = JNull then Some None
      else map_option Some (struct_into f (case old of Some x \<Rightarrow> x | None \<Rightarrow> zero) j))"

definition node_local_field :: "NodeLocalLocation \<Rightarrow> string \<Rightarrow> json \<Rightarrow> NodeLocalLocation option" where
  "node_local_field nl key v =
     (if is_field ''nodeName'' key then map_option (\<lambda>s. nl\<lparr>nl_NodeName := s\<rparr>) (string_into (nl_NodeName nl) v)
      else if is_field ''path'' key then map_option (\<lambda>s. nl\<lparr>nl_Path := s\<rparr>) (string_into (nl_Path nl) v)
      else Some nl)"

definition headers_into :: "string gomap \<Rightarrow> json \<Rightarrow> string gomap option" where
  "headers_into old j =
     (case j of
        JNull \<Rightarrow> Some []
      | JObj ms \<Rightarrow> members_into (\<lambda>m k v. map_option (\<lambda>s. AList.update k s m) (string_into [] v)) ms old
      | _ \<Rightarrow> None)"

definition http_field :: "HTTPSource \<Rightarrow> string \<Rightarrow> json \<Rightarrow> HTTPSource option" where
  "http_field h key v =
     (if is_field ''uri'' key then map_option (\<lambda>s. h\<lparr>h_URI := s\<rparr>) (string_into (h_URI h) v)
      else if is_field ''headers'' key then map_option (\<lambda>m. h\<lparr>h_Headers := m\<rparr>) (headers_into (h_Headers h) v)
      else Some h)"

definition location_field :: "Location \<Rightarrow> string \<Rightarrow> json \<Rightarrow> Location option" where
  "location_field l key v =
     (if is_field ''nodeLocal'' key then
        map_option (\<lambda>p. l\<lparr>NodeLocal := p\<rparr>)
          (pointer_into node_local_field \<lparr>nl_NodeName = [], nl_Path = []\<rparr> (NodeLocal l) v)
      else if is_field ''http'' key then
        map_option (\<lambda>p. l\<lparr>HTTP := p\<rparr>) (pointer_into http_field \<lparr>h_URI = [], h_Headers = []\<rparr> (HTTP l) v)
      else Some l)"

definition location_of_json :: "json \<Rightarrow> Location option" where
  "location_of_json j = struct_into location_field zero_location j"

fun all_some :: "'a option list \<Rightarrow> 'a list option" where
  "all_some [] = Some []"
| "all_some (x # xs) =
     (case x of None \<Rightarrow> None | Some y \<Rightarrow> map_option (\<lambda>ys. y # ys) (all_some xs))"

definition locations_of_json :: "json \<Rightarrow> Location list option" where
  "locations_of_json j =
     (case j of JNull \<Rightarrow> Some [] | JArr vs \<Rightarrow> all_some (map location_of_json vs) | _ \<Rightarrow> None)"

section \<open>The codec of the program\<close>

text \<open>\<open>other\<close> parses the time stamps that this program does not write (other zones, looser forms).\<close>

definition go_codec :: "(string \<Rightarrow> time option) \<Rightarrow> (string, string, string) codec" where
  "go_codec other =
     \<lparr>timeToStr = FormatRFC3339Nano,
      parseTimeStr = ParseRFC3339Nano other,
      marshalLocations = (\<lambda>ls. if ls = [] then ''[]'' else print_json (JArr (map json_of_location ls))),
      unmarshalLocations = (\<lambda>s. case json_parse s of Some j \<Rightarrow> locations_of_json j | None \<Rightarrow> None),
      marshalLocation = (\<lambda>l. print_json (json_of_location l)),
      unmarshalLocation = (\<lambda>s. case json_parse s of Some j \<Rightarrow> location_of_json j | None \<Rightarrow> None)\<rparr>"

definition plain_codec :: "(time, Location list, Location) codec" where
  "plain_codec =
     \<lparr>timeToStr = id, parseTimeStr = Some, marshalLocations = id, unmarshalLocations = Some,
      marshalLocation = id, unmarshalLocation = Some\<rparr>"

lemma go_codec_sel [simp]:
  "timeToStr (go_codec other) = FormatRFC3339Nano"
  "parseTimeStr (go_codec other) = ParseRFC3339Nano other"
  "marshalLocation (go_codec other) l = print_json (json_of_location l)"
  "marshalLocations (go_codec other) ls = (if ls = [] then ''[]'' else print_json (JArr (map json_of_location ls)))"
  "unmarshalLocations (go_codec other) s = (case json_parse s of Some j \<Rightarrow> locations_of_json j | None \<Rightarrow> None)"
  "unmarshalLocation (go_codec other) s = (case json_parse s of Some j \<Rightarrow> location_of_json j | None \<Rightarrow> None)"
  by (simp_all add: go_codec_def)

lemma plain_codec_sel [simp]:
  "timeToStr plain_codec = id" "parseTimeStr plain_codec = Some" "marshalLocations plain_codec = id"
  "unmarshalLocations plain_codec = Some" "marshalLocation plain_codec = id" "unmarshalLocation plain_codec = Some"
  by (simp_all add: plain_codec_def)

section \<open>What the codec keeps\<close>

text \<open>Locations of valid UTF-8 text without headers; the service accepts no headers.\<close>

definition textual_location :: "Location \<Rightarrow> bool" where
  "textual_location l \<longleftrightarrow>
     (\<forall>nl. NodeLocal l = Some nl \<longrightarrow> valid_utf8 (nl_NodeName nl) \<and> valid_utf8 (nl_Path nl)) \<and>
     (\<forall>h. HTTP l = Some h \<longrightarrow> valid_utf8 (h_URI h) \<and> h_Headers h = [])"

lemma fold_names [simp]:
  "fold_name ''nodeName'' = ''nodename''" "fold_name ''path'' = ''path''" "fold_name ''uri'' = ''uri''"
  "fold_name ''headers'' = ''headers''" "fold_name ''nodeLocal'' = ''nodelocal''" "fold_name ''http'' = ''http''"
  by code_simp+

declare fold_name.simps [simp del]

lemma field_table [simp]:
  "is_field name name" "\<not> is_field ''nodeName'' ''path''" "\<not> is_field ''nodeLocal'' ''http''"
  by (simp_all add: is_field_def)

lemma string_into_string [simp]: "valid_utf8 s \<Longrightarrow> string_into old (json_string s) = Some s"
  by (simp add: string_into_def json_string_def unquote_json_escape)

lemma node_local_of_json:
  "valid_utf8 (nl_NodeName nl) \<Longrightarrow> valid_utf8 (nl_Path nl) \<Longrightarrow>
     struct_into node_local_field \<lparr>nl_NodeName = [], nl_Path = []\<rparr> (json_of_node_local nl) = Some nl"
  by (simp add: struct_into_def json_of_node_local_def string_field_def node_local_field_def)

lemma http_of_json:
  "valid_utf8 (h_URI h) \<Longrightarrow> h_Headers h = [] \<Longrightarrow>
     struct_into http_field \<lparr>h_URI = [], h_Headers = []\<rparr> (json_of_http h) = Some h"
  by (simp add: struct_into_def json_of_http_def string_field_def http_field_def)

lemma location_json_roundtrip:
  assumes "textual_location l"
  shows "location_of_json (json_of_location l) = Some l"
proof -
  have "json_of_node_local nl \<noteq> JNull" "json_of_http h \<noteq> JNull" for nl h
    by (simp_all add: json_of_node_local_def json_of_http_def)
  note nonnull = this
  have nl: "location_field l0 ''nodeLocal'' (json_of_node_local nl) = Some (l0\<lparr>NodeLocal := Some nl\<rparr>)"
    if "NodeLocal l0 = None" "valid_utf8 (nl_NodeName nl)" "valid_utf8 (nl_Path nl)" for l0 nl
    using that nonnull node_local_of_json by (simp add: location_field_def pointer_into_def)
  have ht: "location_field l0 ''http'' (json_of_http h) = Some (l0\<lparr>HTTP := Some h\<rparr>)"
    if "HTTP l0 = None" "valid_utf8 (h_URI h)" "h_Headers h = []" for l0 h
    using that nonnull http_of_json by (simp add: location_field_def pointer_into_def)
  obtain n h where l: "l = \<lparr>NodeLocal = n, HTTP = h\<rparr>" by (cases l) auto
  show ?thesis using assms unfolding l
    by (cases n; cases h) (simp_all add: location_of_json_def json_of_location_def textual_location_def
        struct_into_def nl ht zero_location_def)
qed

lemma valid_field_names [simp]:
  "valid_utf8 ''nodeName''" "valid_utf8 ''path''" "valid_utf8 ''uri''" "valid_utf8 ''nodeLocal''" "valid_utf8 ''http''"
  by (simp_all add: valid_ascii ascii_byte_def byte_in_def)

lemma fits_location:
  assumes "textual_location l" and "3 \<le> d"
  shows "fits d (json_of_location l)"
proof -
  obtain e where "d = Suc (Suc (Suc e))" using assms(2) by (metis Suc_le_D numeral_3_eq_3 Suc_le_mono)
  then show ?thesis using assms(1)
    by (auto simp: json_of_location_def json_of_node_local_def json_of_http_def string_field_def json_string_def
        textual_location_def split: option.splits)
qed

lemma all_some_map: "\<forall>x \<in> set xs. f x = Some (g x) \<Longrightarrow> all_some (map f xs) = Some (map g xs)"
  by (induction xs) auto

lemma locations_text_roundtrip:
  assumes "\<forall>l \<in> set ls. textual_location l"
  shows "unmarshalLocations (go_codec other) (marshalLocations (go_codec other) ls) = Some ls"
proof (cases "ls = []")
  case True
  have "json_parse (print_json (JArr [])) = Some (JArr [])" by (rule json_parse_print) simp
  then show ?thesis using True by (simp add: locations_of_json_def)
next
  case False
  have "json_parse (print_json (JArr (map json_of_location ls))) = Some (JArr (map json_of_location ls))"
    by (rule json_parse_print) (use assms fits_location in auto)
  moreover have "all_some (map location_of_json (map json_of_location ls)) = Some (map id ls)"
    unfolding map_map by (rule all_some_map) (use assms location_json_roundtrip in auto)
  ultimately show ?thesis using False by (simp add: locations_of_json_def)
qed

lemma location_roundtrip_text:
  assumes "textual_location l"
  shows "unmarshalLocation (go_codec other) (marshalLocation (go_codec other) l) = Some l"
proof -
  have "json_parse (print_json (json_of_location l)) = Some (json_of_location l)"
    by (rule json_parse_print) (use assms fits_location in auto)
  then show ?thesis using location_json_roundtrip [OF assms] by simp
qed

end
