(* ===== verification/Sqlite_Laws.thy ===== *)
theory Sqlite_Laws
  imports Sqlite_Codec System Effects
begin

text \<open>
  The SQLite backend fulfils the store contract.  The proof is over unencoded columns and an
  engine that does not fail; \<^verbatim>\<open>Sqlite_Refine\<close> carries the results to the program's columns.
\<close>

definition sound_engine :: "iteration \<Rightarrow> engine" where
  "sound_engine ord = \<lparr>row_order = ord, fails = (\<lambda>_. None)\<rparr>"

abbreviation sound_engines :: "iteration \<Rightarrow> sql_method \<Rightarrow> engine" where
  "sound_engines ord \<equiv> (\<lambda>_. sound_engine ord)"

lemma sound_engine_sel [simp]: "row_order (sound_engine ord) = ord" "fails (sound_engine ord) = (\<lambda>_. None)"
  by (simp_all add: sound_engine_def)

lemma sound_step_error [simp]: "step_error (sound_engine ord) steps = None"
  unfolding step_error_def by (rule iffD2 [OF first_error_None]) simp

lemma sound_steps [simp]:
  "transact (sound_engine ord) steps db db' = (None, db')" "on_query (sound_engine ord) r = r"
  by (simp_all add: transact_def on_query_def)

type_synonym plain_db = "(time, Location list, Location) database"

section \<open>Rows over unencoded columns\<close>

definition artifact_of_row :: "(time, Location list) artifact_row \<Rightarrow> Artifact" where
  "artifact_of_row r =
     \<lparr>a_RunID = ar_run_id r, a_SampleRunID = ar_sample_run_id r, a_ProducerNodeID = ar_producer_node_id r,
      a_ProducerAttemptID = ar_producer_attempt_id r, a_OutputName = ar_output_name r,
      a_ArtifactID = ar_artifact_id r, a_Digest = ar_digest r, a_LogicalURI = ar_logical_uri r,
      a_NodeName = ar_node_name r, a_URI = ar_uri r, a_Locations = ar_locations_json r,
      a_SizeBytes = ar_size_bytes r, a_CreatedAt = ar_created_at r\<rparr>"

definition source_of_row :: "(time, Location) source_row \<Rightarrow> ArtifactSource" where
  "source_of_row r =
     \<lparr>s_SourceID = sr_source_id r, s_ArtifactID = sr_artifact_id r, s_BackendID = sr_backend_id r,
      s_Digest = sr_digest r, s_State = sr_state r, s_LocationFingerprint = sr_location_fingerprint r,
      s_Location = sr_location_json r, s_CreatedAt = sr_created_at r, s_UpdatedAt = sr_updated_at r,
      s_LastVerifiedAt = sr_last_verified_at r, s_LastError = sr_last_error r\<rparr>"

abbreviation terminal_of_row :: "time terminal_row \<Rightarrow> NodeTerminalRecord" where
  "terminal_of_row \<equiv> scanTerminal plain_codec"

abbreviation lifecycle_of_row :: "time lifecycle_row \<Rightarrow> RunLifecycle" where
  "lifecycle_of_row \<equiv> scanRunLifecycle plain_codec"

lemma scan_plain [simp]:
  "scanArtifact plain_codec r = Inr (artifact_of_row r)" "scanSource plain_codec s = Inr (source_of_row s)"
  by (simp_all add: scanArtifact_def artifact_of_row_def scanSource_def source_of_row_def zero_time_def)

lemma scan_rows_plain [simp]:
  "scan_rows (scanArtifact plain_codec) rs = Inr (map artifact_of_row rs)"
  "scan_rows (scanSource plain_codec) ss = Inr (map source_of_row ss)"
  by (induction rs, simp_all) (induction ss, simp_all)

lemma rows_of_values [simp]:
  "artifact_of_row (artifact_values plain_codec a) = a"
  "source_of_row (source_values plain_codec x) = x"
  "terminal_of_row (terminal_values plain_codec t) = t"
  by (simp_all add: artifact_of_row_def artifact_values_def source_of_row_def source_values_def
      scanTerminal_def terminal_values_def zero_time_def)

lemma null_plain [simp]: "nullStrToTime plain_codec t = t" "nullTimeToStr plain_codec t = t"
  by (simp_all add: nullStrToTime_def nullTimeToStr_def option.map_id split: option.splits)

lemma lifecycle_of_values [simp]: "lifecycle_of_row (lifecycle_values plain_codec l) = l"
  by (simp add: scanRunLifecycle_def lifecycle_values_def boolToInt_def)

lemma artifact_of_row_inj: "artifact_of_row r = artifact_of_row r' \<Longrightarrow> r = r'"
  by (cases r; cases r') (simp add: artifact_of_row_def)

lemma source_of_row_inj: "source_of_row r = source_of_row r' \<Longrightarrow> r = r'"
  by (cases r; cases r') (simp add: source_of_row_def)

lemma artifact_of_row_fields [simp]:
  "a_RunID (artifact_of_row r) = ar_run_id r" "a_SampleRunID (artifact_of_row r) = ar_sample_run_id r"
  "a_ArtifactID (artifact_of_row r) = ar_artifact_id r" "a_Digest (artifact_of_row r) = ar_digest r"
  by (simp_all add: artifact_of_row_def)

lemma source_of_row_fields [simp]:
  "s_SourceID (source_of_row r) = sr_source_id r" "s_ArtifactID (source_of_row r) = sr_artifact_id r"
  by (simp_all add: source_of_row_def)

lemma terminal_of_row_fields [simp]:
  "t_RunID (terminal_of_row r) = tr_run_id r" "t_TerminalState (terminal_of_row r) = tr_terminal_state r"
  by (simp_all add: scanTerminal_def)

lemma lifecycle_of_row_fields [simp]:
  "l_RunID (lifecycle_of_row r) = lr_run_id r" "l_SampleRunID (lifecycle_of_row r) = lr_sample_run_id r"
  by (simp_all add: scanRunLifecycle_def)

section \<open>The four maps\<close>

definition sq_arts :: "plain_db \<Rightarrow> string \<rightharpoonup> Artifact" where
  "sq_arts db k =
     (case map_of (tbl_artifacts db) k of
        Some r \<Rightarrow> if ar_run_id r \<noteq> [] then Some (artifact_of_row r) else None
      | None \<Rightarrow> None)"

definition sq_terms :: "plain_db \<Rightarrow> string \<rightharpoonup> NodeTerminalRecord" where
  "sq_terms db k =
     (case map_of (tbl_node_terminals db) k of
        Some r \<Rightarrow> if tr_run_id r \<noteq> [] then Some (terminal_of_row r) else None
      | None \<Rightarrow> None)"

definition sq_lifes :: "plain_db \<Rightarrow> string \<rightharpoonup> RunLifecycle" where
  "sq_lifes db k = map_option lifecycle_of_row (map_of (tbl_run_lifecycles db) k)"

definition sq_srcs :: "plain_db \<Rightarrow> string \<rightharpoonup> ArtifactSource" where
  "sq_srcs db k = map_option source_of_row (map_of (tbl_artifact_sources db) k)"

text \<open>
  A row without a run is a legacy row.  Its key has fewer separators than any key this program
  writes, as the pre-F4 forms do, or is the key of an empty run.
\<close>

definition slashes :: "string \<Rightarrow> nat" where
  "slashes k = length (filter (\<lambda>c. c = CHR ''/'') k)"

definition legacy_key :: "nat \<Rightarrow> string \<Rightarrow> bool" where
  "legacy_key n k \<longleftrightarrow> slashes k < n \<or> slashes k = n \<and> HasPrefix k ''run//''"

definition sq_inv :: "plain_db \<Rightarrow> bool" where
  "sq_inv db \<longleftrightarrow>
     wf_map (tbl_artifacts db) \<and> wf_map (tbl_artifact_sources db) \<and> wf_map (tbl_node_terminals db) \<and>
     wf_map (tbl_run_lifecycles db) \<and>
     (\<forall>k r. map_of (tbl_artifacts db) k = Some r \<longrightarrow>
        (if ar_run_id r = [] then legacy_key 4 k
         else Artifact_Key (artifact_of_row r) = k \<and> TrimSpace (ar_run_id r) \<noteq> [])) \<and>
     (\<forall>k r. map_of (tbl_node_terminals db) k = Some r \<longrightarrow>
        (if tr_run_id r = [] then legacy_key 3 k
         else record_key (terminal_of_row r) = k \<and> TrimSpace (tr_run_id r) \<noteq> [])) \<and>
     (\<forall>k r. map_of (tbl_run_lifecycles db) k = Some r \<longrightarrow> lr_run_id r = k) \<and>
     (\<forall>k r. map_of (tbl_artifact_sources db) k = Some r \<longrightarrow> sr_source_id r = k \<and> k \<noteq> [])"

lemma sq_invD:
  assumes "sq_inv db"
  shows "wf_map (tbl_artifacts db)" "wf_map (tbl_artifact_sources db)" "wf_map (tbl_node_terminals db)"
    "wf_map (tbl_run_lifecycles db)"
    "map_of (tbl_artifacts db) k = Some r \<Longrightarrow> ar_run_id r = [] \<Longrightarrow> legacy_key 4 k"
    "map_of (tbl_artifacts db) k = Some r \<Longrightarrow> ar_run_id r \<noteq> [] \<Longrightarrow>
       Artifact_Key (artifact_of_row r) = k \<and> TrimSpace (ar_run_id r) \<noteq> []"
    "map_of (tbl_node_terminals db) k = Some t \<Longrightarrow> tr_run_id t = [] \<Longrightarrow> legacy_key 3 k"
    "map_of (tbl_node_terminals db) k = Some t \<Longrightarrow> tr_run_id t \<noteq> [] \<Longrightarrow>
       record_key (terminal_of_row t) = k \<and> TrimSpace (tr_run_id t) \<noteq> []"
    "map_of (tbl_run_lifecycles db) k = Some l \<Longrightarrow> lr_run_id l = k"
    "map_of (tbl_artifact_sources db) k = Some s \<Longrightarrow> sr_source_id s = k \<and> k \<noteq> []"
  using assms unfolding sq_inv_def by (auto split: if_splits)

lemma run_key_not_legacy:
  "a_RunID a \<noteq> [] \<Longrightarrow> \<not> legacy_key 4 (Artifact_Key a)" "t_RunID t \<noteq> [] \<Longrightarrow> \<not> legacy_key 3 (record_key t)"
  by (cases "a_RunID a"; cases "t_RunID t";
      simp add: legacy_key_def slashes_def Artifact_Key_def ArtifactKey_String_def record_key_def terminal_key_def
        NodeAttemptKey_String_def sep_def runNamespace_def HasPrefix_iff)+

text \<open>The row under a key of a run is no legacy row.\<close>

lemma row_of_key:
  assumes "sq_inv db" and "map_of (tbl_artifacts db) (Artifact_Key a) = Some r" and "a_RunID a \<noteq> []"
  shows "ar_run_id r \<noteq> []"
  using sq_invD(5) [OF assms(1,2)] run_key_not_legacy(1) [OF assms(3)] by blast

lemma terminal_row_of_key:
  assumes "sq_inv db" and "map_of (tbl_node_terminals db) (record_key t) = Some r" and "t_RunID t \<noteq> []"
  shows "tr_run_id r \<noteq> []"
  using sq_invD(7) [OF assms(1,2)] run_key_not_legacy(2) [OF assms(3)] by blast

lemma sq_arts_key:
  assumes "sq_inv db" and "a_RunID a \<noteq> []"
  shows "sq_arts db (Artifact_Key a) = map_option artifact_of_row (map_of (tbl_artifacts db) (Artifact_Key a))"
  using row_of_key [OF assms(1) _ assms(2)] by (auto simp: sq_arts_def split: option.splits)

lemma sq_terms_key:
  assumes "sq_inv db" and "t_RunID t \<noteq> []"
  shows "sq_terms db (record_key t) = map_option terminal_of_row (map_of (tbl_node_terminals db) (record_key t))"
  using terminal_row_of_key [OF assms(1) _ assms(2)] by (auto simp: sq_terms_def split: option.splits)

lemma ran_sq_arts:
  assumes "sq_inv db"
  shows "ran (sq_arts db) = artifact_of_row ` {r \<in> ran (map_of (tbl_artifacts db)). ar_run_id r \<noteq> []}"
  by (auto simp: ran_def sq_arts_def split: option.splits if_splits)

lemma ran_sq_terms: "ran (sq_terms db) = terminal_of_row ` {r \<in> ran (map_of (tbl_node_terminals db)). tr_run_id r \<noteq> []}"
  by (auto simp: ran_def sq_terms_def split: option.splits if_splits)

lemma ran_sq_lifes: "ran (sq_lifes db) = lifecycle_of_row ` ran (map_of (tbl_run_lifecycles db))"
  by (auto simp: ran_def sq_lifes_def)

lemma ran_sq_srcs: "ran (sq_srcs db) = source_of_row ` ran (map_of (tbl_artifact_sources db))"
  by (auto simp: ran_def sq_srcs_def)

section \<open>Writes\<close>

text \<open>What a write keeps of the row it finds: the conflict clauses of the two inserts.\<close>

definition sq_stored :: "Artifact option \<Rightarrow> Artifact \<Rightarrow> Artifact" where
  "sq_stored olda a =
     (case olda of
        None \<Rightarrow> a
      | Some old \<Rightarrow> a\<lparr>a_RunID := a_RunID old, a_SampleRunID := a_SampleRunID old,
          a_ProducerNodeID := a_ProducerNodeID old, a_ProducerAttemptID := a_ProducerAttemptID old,
          a_OutputName := a_OutputName old\<rparr>)"

definition sq_keep :: "ArtifactSource option \<Rightarrow> ArtifactSource \<Rightarrow> ArtifactSource" where
  "sq_keep olds s =
     (case olds of
        None \<Rightarrow> s
      | Some old \<Rightarrow> s\<lparr>s_BackendID := s_BackendID old, s_Digest := s_Digest old,
          s_LocationFingerprint := s_LocationFingerprint old, s_CreatedAt := s_CreatedAt old\<rparr>)"

lemma artifact_conflict_plain:
  "artifact_of_row (artifact_conflict old (artifact_values plain_codec a)) =
     sq_stored (Some (artifact_of_row old)) a"
  "ar_run_id (artifact_conflict old (artifact_values plain_codec a)) = ar_run_id old"
  by (simp_all add: artifact_conflict_def artifact_values_def artifact_of_row_def sq_stored_def)

lemma source_conflict_plain:
  assumes "sr_source_id old = s_SourceID s" and "sr_artifact_id old = s_ArtifactID s"
  shows "source_of_row (source_conflict old (source_values plain_codec s)) =
     sq_keep (Some (source_of_row old)) s"
  using assms by (simp add: source_conflict_def source_values_def source_of_row_def sq_keep_def)

lemma source_conflict_ids [simp]:
  "sr_source_id (source_conflict old new) = sr_source_id old"
  "sr_artifact_id (source_conflict old new) = sr_artifact_id old"
  by (simp_all add: source_conflict_def)

lemma artifact_write_inv:
  assumes "sq_inv db" and "Artifact_Key (artifact_of_row row) = k" and "TrimSpace (ar_run_id row) \<noteq> []"
  shows "sq_inv (db\<lparr>tbl_artifacts := AList.update k row (tbl_artifacts db)\<rparr>)"
  using assms by (auto simp: sq_inv_def update_conv)

lemma sq_arts_write:
  assumes "ar_run_id row \<noteq> []"
  shows "sq_arts (db\<lparr>tbl_artifacts := AList.update k row (tbl_artifacts db)\<rparr>) =
     (sq_arts db)(k \<mapsto> artifact_of_row row)"
  using assms by (auto simp: sq_arts_def update_conv fun_eq_iff)

lemma sq_maps_frame [simp]:
  "sq_terms (db\<lparr>tbl_artifacts := x\<rparr>) = sq_terms db" "sq_lifes (db\<lparr>tbl_artifacts := x\<rparr>) = sq_lifes db"
  "sq_srcs (db\<lparr>tbl_artifacts := x\<rparr>) = sq_srcs db"
  "sq_arts (db\<lparr>tbl_node_terminals := y\<rparr>) = sq_arts db" "sq_lifes (db\<lparr>tbl_node_terminals := y\<rparr>) = sq_lifes db"
  "sq_srcs (db\<lparr>tbl_node_terminals := y\<rparr>) = sq_srcs db"
  "sq_arts (db\<lparr>tbl_run_lifecycles := z\<rparr>) = sq_arts db" "sq_terms (db\<lparr>tbl_run_lifecycles := z\<rparr>) = sq_terms db"
  "sq_srcs (db\<lparr>tbl_run_lifecycles := z\<rparr>) = sq_srcs db"
  "sq_arts (db\<lparr>tbl_artifact_sources := w\<rparr>) = sq_arts db" "sq_terms (db\<lparr>tbl_artifact_sources := w\<rparr>) = sq_terms db"
  "sq_lifes (db\<lparr>tbl_artifact_sources := w\<rparr>) = sq_lifes db"
  by (simp_all add: sq_arts_def sq_terms_def sq_lifes_def sq_srcs_def fun_eq_iff)

lemma sq_PutArtifact_spec:
  assumes inv: "sq_inv db" and put: "sq_PutArtifact (sound_engine ord) plain_codec db a = (e, db')"
  shows "sq_inv db' \<and> sq_terms db' = sq_terms db \<and> sq_lifes db' = sq_lifes db \<and> sq_srcs db' = sq_srcs db \<and>
     (e = None \<longleftrightarrow> put_verdict (sq_arts db) a \<noteq> None) \<and>
     sq_arts db' = (if put_verdict (sq_arts db) a = Some True
                    then (sq_arts db)(Artifact_Key a \<mapsto> sq_stored (sq_arts db (Artifact_Key a)) a)
                    else sq_arts db)"
proof (cases "TrimSpace (a_RunID a) = []")
  case True
  then show ?thesis using assms by (auto simp: sq_PutArtifact_def put_verdict_def)
next
  case run: False
  then have named: "a_RunID a \<noteq> []" by auto
  note arts = sq_arts_key [OF inv named]
  show ?thesis
  proof (cases "map_of (tbl_artifacts db) (Artifact_Key a)")
    case None
    let ?row = "artifact_values plain_codec a"
    have eff: "e = None" "db' = db\<lparr>tbl_artifacts := AList.update (Artifact_Key a) ?row (tbl_artifacts db)\<rparr>"
      using put run None by (auto simp: sq_PutArtifact_def Let_def)
    have row: "ar_run_id ?row = a_RunID a" by (simp add: artifact_values_def)
    have "put_verdict (sq_arts db) a = Some True"
      using run None arts by (simp add: put_verdict_def)
    then show ?thesis
      using eff run None arts artifact_write_inv [OF inv, of ?row "Artifact_Key a"]
        sq_arts_write [of ?row "Artifact_Key a" db] row
      by (auto simp: sq_stored_def dest: TrimSpace_nonempty)
  next
    case (Some old)
    have old: "ar_run_id old \<noteq> []" "Artifact_Key (artifact_of_row old) = Artifact_Key a"
      "TrimSpace (ar_run_id old) \<noteq> []"
      using row_of_key [OF inv Some named] sq_invD(6) [OF inv Some] by auto
    show ?thesis
    proof (cases "ar_digest old = []")
      case True
      let ?row = "artifact_conflict old (artifact_values plain_codec a)"
      have eff: "e = None" "db' = db\<lparr>tbl_artifacts := AList.update (Artifact_Key a) ?row (tbl_artifacts db)\<rparr>"
        using put run Some True by (auto simp: sq_PutArtifact_def Let_def)
      have key: "Artifact_Key (artifact_of_row ?row) = Artifact_Key a"
        using old(2) unfolding artifact_conflict_plain by (simp add: sq_stored_def Artifact_Key_def)
      have "put_verdict (sq_arts db) a = Some True"
        using run Some arts True by (simp add: put_verdict_def)
      then show ?thesis
        using eff run Some arts artifact_write_inv [OF inv key] sq_arts_write [of ?row "Artifact_Key a" db] old
        by (simp add: artifact_conflict_plain)
    next
      case False
      then show ?thesis
        using put run Some arts inv by (auto simp: sq_PutArtifact_def put_verdict_def Let_def split: if_splits)
    qed
  qed
qed

lemma sq_RecordNodeTerminal_spec:
  assumes inv: "sq_inv db" and put: "sq_RecordNodeTerminal (sound_engine ord) plain_codec db t = (e, db')"
  shows "sq_inv db' \<and> sq_arts db' = sq_arts db \<and> sq_lifes db' = sq_lifes db \<and> sq_srcs db' = sq_srcs db \<and>
     (e = None \<longleftrightarrow> terminal_verdict (sq_terms db) t \<noteq> None) \<and>
     sq_terms db' = (if terminal_verdict (sq_terms db) t = Some True
                     then (sq_terms db)(record_key t \<mapsto> t) else sq_terms db)"
proof (cases "TrimSpace (t_RunID t) = []")
  case True
  then show ?thesis using assms by (auto simp: sq_RecordNodeTerminal_def terminal_verdict_def)
next
  case run: False
  have key: "NodeAttemptKey_String \<lparr>n_RunID = t_RunID t, n_NodeID = t_NodeID t, n_AttemptID = t_AttemptID t\<rparr> =
      record_key t"
    by (simp add: record_key_def terminal_key_def)
  have named: "t_RunID t \<noteq> []" using run by auto
  note terms = sq_terms_key [OF inv named]
  show ?thesis
  proof (cases "map_of (tbl_node_terminals db) (record_key t)")
    case None
    let ?row = "terminal_values plain_codec t"
    let ?db = "db\<lparr>tbl_node_terminals := AList.update (record_key t) ?row (tbl_node_terminals db)\<rparr>"
    have eff: "e = None" "db' = ?db"
      using put run None by (auto simp: sq_RecordNodeTerminal_def Let_def key)
    have row: "tr_run_id ?row = t_RunID t" by (simp add: terminal_values_def)
    have "sq_inv ?db" using inv run row by (auto simp: sq_inv_def update_conv)
    moreover have "sq_terms ?db = (sq_terms db)(record_key t \<mapsto> t)"
      using run row by (auto simp: sq_terms_def update_conv fun_eq_iff)
    moreover have "terminal_verdict (sq_terms db) t = Some True"
      using run None terms by (simp add: terminal_verdict_def)
    ultimately show ?thesis using eff by simp
  next
    case (Some old)
    then show ?thesis
      using put run terms inv
      by (auto simp: sq_RecordNodeTerminal_def terminal_verdict_def Let_def key split: if_splits)
  qed
qed

lemma sq_UpsertRunLifecycle_spec:
  assumes inv: "sq_inv db" and put: "sq_UpsertRunLifecycle (sound_engine ord) plain_codec db l = (e, db')"
  shows "sq_inv db' \<and> sq_arts db' = sq_arts db \<and> sq_terms db' = sq_terms db \<and> sq_srcs db' = sq_srcs db \<and>
     (e = None \<longleftrightarrow> TrimSpace (l_RunID l) \<noteq> []) \<and>
     sq_lifes db' = (if TrimSpace (l_RunID l) \<noteq> [] then (sq_lifes db)(l_RunID l \<mapsto> l) else sq_lifes db)"
proof (cases "TrimSpace (l_RunID l) = []")
  case True
  then show ?thesis using assms by (auto simp: sq_UpsertRunLifecycle_def)
next
  case False
  let ?db = "db\<lparr>tbl_run_lifecycles := AList.update (l_RunID l) (lifecycle_values plain_codec l) (tbl_run_lifecycles db)\<rparr>"
  have "lr_run_id (lifecycle_values plain_codec l) = l_RunID l" by (simp add: lifecycle_values_def)
  then have "sq_inv ?db" using inv by (auto simp: sq_inv_def update_conv)
  moreover have "sq_lifes ?db = (sq_lifes db)(l_RunID l \<mapsto> l)"
    by (auto simp: sq_lifes_def update_conv fun_eq_iff)
  ultimately show ?thesis using put False by (auto simp: sq_UpsertRunLifecycle_def)
qed

section \<open>The loop over sources\<close>

definition source_map :: "(time, Location) source_row gomap \<Rightarrow> string \<rightharpoonup> ArtifactSource" where
  "source_map tbl k = map_option source_of_row (map_of tbl k)"

definition source_table_ok :: "(time, Location) source_row gomap \<Rightarrow> bool" where
  "source_table_ok tbl \<longleftrightarrow> wf_map tbl \<and> (\<forall>k r. map_of tbl k = Some r \<longrightarrow> sr_source_id r = k \<and> k \<noteq> [])"

lemma source_map_update: "source_map (AList.update k r tbl) = (source_map tbl)(k \<mapsto> source_of_row r)"
  by (auto simp: source_map_def update_conv fun_eq_iff)

lemma source_table_update:
  "source_table_ok tbl \<Longrightarrow> sr_source_id r = k \<Longrightarrow> k \<noteq> [] \<Longrightarrow> source_table_ok (AList.update k r tbl)"
  by (auto simp: source_table_ok_def update_conv)

lemma owned_elsewhere_Cons:
  "owned_elsewhere m aid (s # ss) \<longleftrightarrow>
     (\<exists>old. m (s_SourceID s) = Some old \<and> s_ArtifactID old \<noteq> aid) \<or> owned_elsewhere m aid ss"
  by (simp add: owned_elsewhere_def)

lemma owned_elsewhere_write:
  assumes "\<And>old. m k = Some old \<Longrightarrow> s_ArtifactID old = aid" and "s_ArtifactID x = aid"
  shows "owned_elsewhere (m(k \<mapsto> x)) aid ss \<longleftrightarrow> owned_elsewhere m aid ss"
proof -
  have "(\<exists>old. (m(k \<mapsto> x)) i = Some old \<and> s_ArtifactID old \<noteq> aid) \<longleftrightarrow>
      (\<exists>old. m i = Some old \<and> s_ArtifactID old \<noteq> aid)" for i
    using assms by (cases "i = k") auto
  then show ?thesis by (simp only: owned_elsewhere_def)
qed

lemma exec_sources_spec:
  assumes "source_table_ok tbl" and "sources_for aid ss"
  shows "if owned_elsewhere (source_map tbl) aid ss
     then \<exists>sid. exec_sources (sound_engine ord) plain_codec aid i tbl ss = Inl (SourceOwnershipConflict sid aid)
     else \<exists>tbl'. exec_sources (sound_engine ord) plain_codec aid i tbl ss = Inr tbl' \<and> source_table_ok tbl' \<and>
            source_map tbl' = put_sources sq_keep ss (source_map tbl)"
  using assms
proof (induction ss arbitrary: i tbl)
  case Nil
  then show ?case by (simp add: owned_elsewhere_def put_sources_def)
next
  case (Cons s ss)
  have s: "s_ArtifactID s = aid" "s_SourceID s \<noteq> []" and rest: "sources_for aid ss"
    using Cons.prems(2) by (auto simp: sources_for_def)
  have own: "sq_own_source aid s = s" using s(1) by (simp add: sq_own_source_def)
  let ?k = "s_SourceID s" and ?row = "source_values plain_codec s"
  have row: "sr_source_id ?row = ?k" "sr_artifact_id ?row = aid" using s(1) by (simp_all add: source_values_def)
  show ?case
  proof (cases "\<exists>old. source_map tbl ?k = Some old \<and> s_ArtifactID old \<noteq> aid")
    case True
    then show ?thesis
      using s(1) by (auto simp: own row Let_def owned_elsewhere_Cons source_map_def split: option.splits)
  next
    case False
    define new where "new = (case map_of tbl ?k of None \<Rightarrow> ?row | Some old \<Rightarrow> source_conflict old ?row)"
    have keys: "\<And>r. map_of tbl ?k = Some r \<Longrightarrow> sr_source_id r = ?k"
      using Cons.prems(1) by (auto simp: source_table_ok_def)
    have ids: "\<And>old. map_of tbl ?k = Some old \<Longrightarrow> sr_artifact_id old = aid"
      using False by (auto simp: source_map_def)
    have val: "source_of_row new = sq_keep (source_map tbl ?k) s"
      using keys ids s(1)
      by (cases "map_of tbl ?k") (simp_all add: new_def source_map_def sq_keep_def [of None] source_conflict_plain)
    have new: "sr_source_id new = ?k" "s_ArtifactID (source_of_row new) = aid"
      using keys [of "the (map_of tbl ?k)"] ids [of "the (map_of tbl ?k)"] row
      by (auto simp: new_def source_conflict_ids split: option.split)
    have step: "exec_sources (sound_engine ord) plain_codec aid i tbl (s # ss) =
        exec_sources (sound_engine ord) plain_codec aid (Suc i) (AList.update ?k new tbl) ss"
      using ids s(1) by (simp add: own row Let_def new_def split: option.splits)
    have "source_table_ok (AList.update ?k new tbl)"
      by (rule source_table_update [OF Cons.prems(1) new(1) s(2)])
    note IH = Cons.IH [OF this rest, of "Suc i"]
    have "owned_elsewhere (source_map (AList.update ?k new tbl)) aid ss \<longleftrightarrow>
        owned_elsewhere (source_map tbl) aid (s # ss)"
      using False new(2) owned_elsewhere_write [of "source_map tbl" ?k aid]
      by (auto simp: source_map_update owned_elsewhere_Cons)
    moreover have "put_sources sq_keep ss (source_map (AList.update ?k new tbl)) =
        put_sources sq_keep (s # ss) (source_map tbl)"
      by (simp add: put_sources_def source_map_update val)
    ultimately show ?thesis using IH by (simp only: step)
  qed
qed

lemma sq_inv_sources:
  "sq_inv db \<Longrightarrow> source_table_ok tbl \<Longrightarrow> sq_inv (db\<lparr>tbl_artifact_sources := tbl\<rparr>)"
  by (auto simp: sq_inv_def source_table_ok_def)

lemma sq_srcs_source_map: "sq_srcs db = source_map (tbl_artifact_sources db)"
  by (simp add: sq_srcs_def source_map_def fun_eq_iff)

lemma sq_PutArtifactSources_spec:
  assumes inv: "sq_inv db" and "sources_for aid ss"
    and put: "sq_PutArtifactSources (sound_engine ord) plain_codec db aid ss = (e, db')"
  shows "sq_inv db' \<and> sq_arts db' = sq_arts db \<and> sq_terms db' = sq_terms db \<and> sq_lifes db' = sq_lifes db \<and>
     (if owned_elsewhere (sq_srcs db) aid ss
      then (\<exists>sid. e = Some (SourceOwnershipConflict sid aid)) \<and> sq_srcs db' = sq_srcs db
      else e = None \<and> sq_srcs db' = put_sources sq_keep ss (sq_srcs db))"
proof -
  have "source_table_ok (tbl_artifact_sources db)"
    using inv by (auto simp: sq_inv_def source_table_ok_def)
  note spec = exec_sources_spec [OF this assms(2), of ord 0]
  show ?thesis
  proof (cases "owned_elsewhere (sq_srcs db) aid ss")
    case True
    then show ?thesis
      using spec put inv unfolding sq_srcs_source_map by (auto simp: sq_PutArtifactSources_def)
  next
    case False
    then obtain tbl' where "exec_sources (sound_engine ord) plain_codec aid 0 (tbl_artifact_sources db) ss = Inr tbl'"
      "source_table_ok tbl'" "source_map tbl' = put_sources sq_keep ss (source_map (tbl_artifact_sources db))"
      using spec unfolding sq_srcs_source_map by auto
    with put have eff: "e = None" "db' = db\<lparr>tbl_artifact_sources := tbl'\<rparr>"
      by (simp_all add: sq_PutArtifactSources_def)
    then show ?thesis
      using False sq_inv_sources [OF inv \<open>source_table_ok tbl'\<close>] \<open>source_map tbl' = _\<close>
      by (simp add: sq_srcs_source_map)
  qed
qed

section \<open>Queries\<close>

text \<open>Rows with distinct keys are scanned to distinct values, in any order.\<close>

lemma distinct_scanned:
  assumes "wf_map m" and key: "\<And>k v. map_of m k = Some v \<Longrightarrow> P v \<Longrightarrow> g (f v) = k"
  shows "distinct (map f (filter P (range_map ord m)))"
proof -
  have wf: "distinct (map fst m)" using assms(1) by (simp add: wf_map_def)
  have "map (\<lambda>v. g (f v)) (filter P (map snd m)) = map fst (filter (P \<circ> snd) m)"
    using wf key by (auto simp: filter_map intro!: map_cong)
  moreover have "distinct (map fst (filter (P \<circ> snd) m))" using wf by (rule distinct_map_filter)
  ultimately have "distinct (map g (map f (filter P (map snd m))))" by (simp add: comp_def)
  then have "distinct (map f (filter P (map snd m)))" using distinct_map by blast
  moreover have "mset (map f (filter P (range_map ord m))) = mset (map f (filter P (map snd m)))"
    using mset_range_map [OF assms(1)] by (simp add: mset_map mset_filter)
  ultimately show ?thesis using mset_eq_imp_distinct_iff by blast
qed

lemma distinct_map_sort: "distinct (map f xs) \<Longrightarrow> distinct (map f (sort_key h xs))"
  by (simp add: distinct_map distinct_sort)

lemma listArtifactsWhere_spec:
  assumes inv: "sq_inv db" and cond: "\<And>r. cond r \<longleftrightarrow> Q (artifact_of_row r)"
  shows "\<exists>xs. listArtifactsWhere (sound_engine ord) plain_codec db cond = Inr xs \<and> distinct xs \<and>
     set xs = {a \<in> ran (sq_arts db). Q a}"
proof -
  let ?rows = "select_artifacts (sound_engine ord) db cond"
  have "distinct (map artifact_of_row ?rows)"
    unfolding select_artifacts_def
    by (rule distinct_scanned [where g = Artifact_Key]) (use inv sq_invD(1,6) in auto)
  moreover have "set (map artifact_of_row ?rows) = {a \<in> ran (sq_arts db). Q a}"
    using cond by (auto simp: select_artifacts_def ran_sq_arts [OF inv] set_range_map [OF sq_invD(1) [OF inv]])
  ultimately show ?thesis by (simp add: listArtifactsWhere_def)
qed

lemma sq_GetArtifactByID_spec:
  assumes inv: "sq_inv db"
  shows "\<exists>res. sq_GetArtifactByID (sound_engine ord) plain_codec db aid = Inr res \<and>
     (case res of Some a \<Rightarrow> a \<in> ran (sq_arts db) \<and> a_ArtifactID a = aid | None \<Rightarrow> \<not> live (sq_arts db) aid)"
proof -
  let ?rows = "select_artifacts (sound_engine ord) db (\<lambda>r. ar_artifact_id r = aid)"
  have rows: "set (map artifact_of_row ?rows) = {a \<in> ran (sq_arts db). a_ArtifactID a = aid}"
    by (auto simp: select_artifacts_def ran_sq_arts [OF inv] set_range_map [OF sq_invD(1) [OF inv]])
  show ?thesis
  proof (cases ?rows)
    case Nil
    then have "\<not> live (sq_arts db) aid" using rows by (auto simp: live_def)
    then show ?thesis using Nil by (simp add: sq_GetArtifactByID_def scan_first_def)
  next
    case (Cons r rs)
    then have "artifact_of_row r \<in> {a \<in> ran (sq_arts db). a_ArtifactID a = aid}"
      unfolding rows [symmetric] by simp
    then show ?thesis using Cons by (auto simp: sq_GetArtifactByID_def scan_first_def)
  qed
qed

lemma sq_live:
  assumes "sq_inv db"
  shows "liveSourceFilter db aid \<longleftrightarrow> live (sq_arts db) aid"
proof -
  have "snd ` set (tbl_artifacts db) = ran (map_of (tbl_artifacts db))"
    using sq_invD(1) [OF assms] set_range_map [of "tbl_artifacts db" insertion_order]
      mset_range_map [of "tbl_artifacts db" insertion_order] by (metis set_map set_mset_mset)
  then show ?thesis
    by (fastforce simp: liveSourceFilter_def live_def list_ex_iff ran_sq_arts [OF assms])
qed

lemma sq_ListArtifactSources_spec:
  assumes inv: "sq_inv db"
  shows "\<exists>xs. sq_ListArtifactSources (sound_engine ord) plain_codec db aid = Inr xs \<and> distinct xs \<and>
     set xs = {s \<in> ran (sq_srcs db). s_ArtifactID s = aid \<and> live (sq_arts db) aid}"
proof -
  let ?rows = "filter (\<lambda>r. sr_artifact_id r = aid \<and> liveSourceFilter db (sr_artifact_id r))
      (range_map ord (tbl_artifact_sources db))"
  have "distinct (map source_of_row ?rows)"
    by (rule distinct_scanned [where g = s_SourceID]) (use inv sq_invD(2,10) in auto)
  then have "distinct (map source_of_row (sort_key sr_source_id ?rows))" by (rule distinct_map_sort)
  moreover have "set (map source_of_row (sort_key sr_source_id ?rows)) =
      {s \<in> ran (sq_srcs db). s_ArtifactID s = aid \<and> live (sq_arts db) aid}"
    by (auto simp: ran_sq_srcs set_range_map [OF sq_invD(2) [OF inv]] sq_live [OF inv])
  ultimately show ?thesis by (simp add: sq_ListArtifactSources_def)
qed

lemma sq_ListNodeTerminalsByRun_spec:
  assumes inv: "sq_inv db"
  shows "\<exists>xs. sq_ListNodeTerminalsByRun (sound_engine ord) plain_codec db r = Inr xs \<and> distinct xs \<and>
     set xs = {t \<in> ran (sq_terms db). t_RunID t = r}"
proof -
  let ?rows = "filter (\<lambda>t. tr_run_id t = r \<and> tr_run_id t \<noteq> []) (range_map ord (tbl_node_terminals db))"
  have "distinct (map terminal_of_row ?rows)"
    by (rule distinct_scanned [where g = record_key]) (use inv sq_invD(3,8) in auto)
  moreover have "set (map terminal_of_row ?rows) = {t \<in> ran (sq_terms db). t_RunID t = r}"
    by (auto simp: ran_sq_terms set_range_map [OF sq_invD(3) [OF inv]])
  ultimately show ?thesis by (simp add: sq_ListNodeTerminalsByRun_def)
qed

lemma sq_ListRunLifecyclesBySample_spec:
  assumes inv: "sq_inv db"
  shows "\<exists>xs. sq_ListRunLifecyclesBySample (sound_engine ord) plain_codec db sample = Inr xs \<and> distinct xs \<and>
     set xs = {l \<in> ran (sq_lifes db). l_SampleRunID l = sample}"
proof -
  let ?rows = "filter (\<lambda>t. lr_sample_run_id t = sample) (range_map ord (tbl_run_lifecycles db))"
  have "distinct (map lifecycle_of_row ?rows)"
    by (rule distinct_scanned [where g = l_RunID]) (use inv sq_invD(4,9) in auto)
  then have "distinct (map lifecycle_of_row (sort_key lr_run_id ?rows))" by (rule distinct_map_sort)
  moreover have "set (map lifecycle_of_row (sort_key lr_run_id ?rows)) =
      {l \<in> ran (sq_lifes db). l_SampleRunID l = sample}"
    by (auto simp: ran_sq_lifes set_range_map [OF sq_invD(4) [OF inv]])
  ultimately show ?thesis by (simp add: sq_ListRunLifecyclesBySample_def)
qed

section \<open>The SQLite backend meets the contract\<close>

lemma sq_stored_laws:
  "same_identity a old \<Longrightarrow> same_artifact a (sq_stored (Some old) a)"
  "Artifact_Key old = Artifact_Key a \<Longrightarrow>
     Artifact_Key (sq_stored (Some old) a) = Artifact_Key a \<and> a_Digest (sq_stored (Some old) a) = a_Digest a"
  by (simp_all add: sq_stored_def same_identity_def same_artifact_def Artifact_Key_def)

lemma sq_keep_laws:
  "same_source s (sq_keep olds s)" "sq_keep (Some s) s = s" "s_Digest (sq_keep (Some old) s) = s_Digest old"
  by (simp_all add: sq_keep_def same_source_def split: option.split)

lemma sq_keys:
  assumes "sq_inv db"
  shows "sq_arts db k = Some a \<Longrightarrow> Artifact_Key a = k \<and> TrimSpace (a_RunID a) \<noteq> []"
    "sq_terms db k = Some t \<Longrightarrow> record_key t = k \<and> TrimSpace (t_RunID t) \<noteq> []"
    "sq_lifes db k = Some l \<Longrightarrow> l_RunID l = k" "sq_srcs db k = Some s \<Longrightarrow> s_SourceID s = k \<and> k \<noteq> []"
  using sq_invD(6) [OF assms, of k] sq_invD(8) [OF assms, of k] sq_invD(9) [OF assms, of k]
    sq_invD(10) [OF assms, of k]
  by (auto simp: sq_arts_def sq_terms_def sq_lifes_def sq_srcs_def split: option.splits if_splits)

lemma sq_gets:
  assumes "sq_inv db"
  shows "sq_GetArtifact (sound_engine ord) plain_codec db r n att out = Inr (sq_arts db (artifact_key r n att out))"
    "sq_GetArtifactSource (sound_engine ord) plain_codec db sid =
       Inr (case sq_srcs db sid of
              Some s \<Rightarrow> if live (sq_arts db) (s_ArtifactID s) then Some s else None | None \<Rightarrow> None)"
    "sq_GetNodeTerminal (sound_engine ord) plain_codec db r n att = Inr (sq_terms db (terminal_key r n att))"
    "sq_GetRunLifecycle (sound_engine ord) plain_codec db r = Inr (sq_lifes db r)"
  by (simp_all add: sq_GetArtifact_def artifact_key_def sq_arts_def scan_first_def sq_GetArtifactSource_def
      sq_srcs_def sq_live [OF assms] sq_GetNodeTerminal_def sq_terms_def terminal_key_def sq_GetRunLifecycle_def
      sq_lifes_def split: option.splits)

interpretation sq: run_store "sqlite_store (sound_engines ord) plain_codec" sq_inv sq_arts sq_terms sq_lifes
    sq_srcs sq_stored sq_keep
  for ord :: iteration
proof (unfold_locales, goal_cases)
  case 1 show ?case by (simp add: sq_stored_def)
next
  case 5 show ?case by (simp add: sq_keep_def)
next
  case 13 then show ?case by (simp add: sq_GetArtifactByID_spec)
next
  case (14 st r) then show ?case
    using listArtifactsWhere_spec [of st "\<lambda>x. ar_run_id x = r" "\<lambda>a. a_RunID a = r"]
    by (simp add: sq_ListArtifactsByRun_def)
next
  case (15 st sr) then show ?case
    using listArtifactsWhere_spec [of st "\<lambda>x. ar_sample_run_id x = sr" "\<lambda>a. a_SampleRunID a = sr"]
    by (simp add: sq_ListArtifactsBySampleRun_def)
next
  case 17 then show ?case by (simp add: sq_ListArtifactSources_spec)
next
  case 19 then show ?case by (simp add: sq_ListNodeTerminalsByRun_spec)
next
  case 21 then show ?case by (simp add: sq_ListRunLifecyclesBySample_spec)
next
  case 22 then show ?case using sq_PutArtifact_spec [OF 22(1)] by simp
next
  case 23 then show ?case using sq_PutArtifactSources_spec [OF 23(1,2)] by simp
next
  case 24 then show ?case using sq_RecordNodeTerminal_spec [OF 24(1)] by simp
next
  case 25 then show ?case using sq_UpsertRunLifecycle_spec [OF 25(1)] by simp
next
  case 12 then show ?case using sq_gets(1) by simp
next
  case 16 then show ?case using sq_gets(2) by simp
next
  case 18 then show ?case using sq_gets(3) by simp
next
  case 20 then show ?case using sq_gets(4) by simp
qed (simp_all add: sq_stored_laws sq_keep_laws sq_keys)

end
