(* ===== verification/Store_Image.thy ===== *)
theory Store_Image
  imports System Sqlite_Codec
begin

text \<open>
  When one store is the image of another under an abstraction of its state, the service behaves
  the same on both.  The stores need to agree only on values that the concrete one can represent:
  instants of the kind \<open>fit\<close>, locations of text.  The locale is the interface of such a pair of
  stores; its lemmas say that every operation answers alike and keeps the pair related.
\<close>

section \<open>Representable values\<close>

definition rep_artifact :: "(time \<Rightarrow> bool) \<Rightarrow> Artifact \<Rightarrow> bool" where
  "rep_artifact fit a \<longleftrightarrow> fit (a_CreatedAt a) \<and> (\<forall>l \<in> set (a_Locations a). textual_location l)"

definition rep_source :: "(time \<Rightarrow> bool) \<Rightarrow> ArtifactSource \<Rightarrow> bool" where
  "rep_source fit s \<longleftrightarrow>
     fit (s_CreatedAt s) \<and> fit (s_UpdatedAt s) \<and> fit (s_LastVerifiedAt s) \<and> textual_location (s_Location s)"

definition rep_terminal :: "(time \<Rightarrow> bool) \<Rightarrow> NodeTerminalRecord \<Rightarrow> bool" where
  "rep_terminal fit t \<longleftrightarrow> fit (t_RecordedAt t)"

definition rep_lifecycle :: "(time \<Rightarrow> bool) \<Rightarrow> RunLifecycle \<Rightarrow> bool" where
  "rep_lifecycle fit l \<longleftrightarrow>
     pred_option fit (l_FinalizedAt l) \<and> pred_option fit (l_RetentionUntil l) \<and> pred_option fit (l_GCEligibleAt l)"

text \<open>
  What a request must satisfy to be stored as it is.  Times come from the clock; a caller may
  also give the creation time of an artifact or of a source.
\<close>

fun rep_request :: "(time \<Rightarrow> bool) \<Rightarrow> request \<Rightarrow> bool" where
  "rep_request fit (RegisterArtifact a) \<longleftrightarrow>
     rep_artifact fit a \<and> valid_utf8 (a_NodeName a) \<and> valid_utf8 (a_URI a)"
| "rep_request fit (AddSource aid s) \<longleftrightarrow>
     fit (s_CreatedAt s) \<and> fit (s_LastVerifiedAt s) \<and> textual_location (s_Location s)"
| "rep_request fit _ \<longleftrightarrow> True"

definition rep_clock :: "(time \<Rightarrow> bool) \<Rightarrow> duration \<Rightarrow> clock \<Rightarrow> bool" where
  "rep_clock fit retention now \<longleftrightarrow> fit (now 0) \<and> fit (now 1) \<and> fit (now 0 + retention)"

lemma fill_node_textual:
  assumes "textual_location l" and "valid_utf8 (a_NodeName a)"
  shows "textual_location (fill_node a l)"
  using assms by (auto simp: fill_node_def textual_location_def split: option.splits)

lemma appendSource_rep:
  assumes "\<forall>x \<in> set ss. rep_source fit x" and "fit 0" and "fit now0"
    and "textual_location l" and "valid_utf8 (a_NodeName a)"
  shows "\<forall>x \<in> set (appendSource L a now0 b l ss). rep_source fit x"
  using assms fill_node_textual [OF assms(4,5)] by (auto simp: appendSource_def Let_def rep_source_def)

lemma initial_sources_rep:
  assumes "rep_artifact fit a" and "valid_utf8 (a_NodeName a)" and "valid_utf8 (a_URI a)" and "fit 0" and "fit now0"
  shows "\<forall>x \<in> set (initialSourcesForArtifact L a now0). rep_source fit x"
proof -
  have loop: "\<forall>x \<in> set (foldl (appendLocation L a now0) ss ls). rep_source fit x"
    if "\<forall>x \<in> set ss. rep_source fit x" "\<forall>l \<in> set ls. textual_location l" for ss ls
    using that
  proof (induction ls arbitrary: ss)
    case (Cons l ls)
    then have "\<forall>x \<in> set (appendLocation L a now0 ss l). rep_source fit x"
      using appendSource_rep [of ss fit now0 l a L] assms(2,4,5) by (simp add: appendLocation_def)
    then show ?case using Cons.IH [of "appendLocation L a now0 ss l"] Cons.prems(2) by simp
  qed simp
  have "textual_location \<lparr>NodeLocal = None, HTTP = Some \<lparr>h_URI = a_URI a, h_Headers = []\<rparr>\<rparr>"
    using assms(3) by (simp add: textual_location_def)
  moreover have first: "\<forall>x \<in> set (foldl (appendLocation L a now0) [] (a_Locations a)). rep_source fit x"
    by (rule loop) (use assms(1) in \<open>simp_all add: rep_artifact_def\<close>)
  ultimately have "\<forall>x \<in> set (appendSource L a now0 ''legacy-http''
      \<lparr>NodeLocal = None, HTTP = Some \<lparr>h_URI = a_URI a, h_Headers = []\<rparr>\<rparr>
      (foldl (appendLocation L a now0) [] (a_Locations a))). rep_source fit x"
    using appendSource_rep [OF _ assms(4,5) _ assms(2)] by blast
  then show ?thesis using first by (simp add: initialSourcesForArtifact_def Let_def)
qed

lemma register_request_rep:
  assumes "register_request L now0 a0 = Inr a" and "rep_request fit (RegisterArtifact a0)" and "fit now0"
  shows "rep_artifact fit a \<and> valid_utf8 (a_NodeName a) \<and> valid_utf8 (a_URI a)"
  using assms by (auto simp: register_request_def rep_artifact_def Let_def split: if_splits option.splits)

lemma complete_source_rep:
  assumes "complete_source L now0 aid a s0 = Inr s" and "rep_request fit (AddSource aid s0)" and "fit now0"
  shows "rep_source fit s"
  using assms by (auto simp: complete_source_def rep_source_def Let_def split: if_splits option.splits)

lemma lifecycle_rep:
  assumes "rep_lifecycle fit l"
  shows "rep_lifecycle fit (snapshot as ts l)" "rep_lifecycle fit (l\<lparr>l_SampleRunID := s\<rparr>)"
    "fit (now0 + d) \<Longrightarrow> fit now0 \<Longrightarrow> rep_lifecycle fit (finalize_lifecycle now0 src d l)"
    "fit (now 1) \<Longrightarrow> rep_lifecycle fit (evaluate_gc now l)"
  using assms by (simp_all add: rep_lifecycle_def snapshot_def finalize_lifecycle_def evaluate_gc_def gc_blocked_def)

section \<open>A store and its image\<close>

definition on_store :: "('s \<Rightarrow> 't) \<Rightarrow> 's Service \<Rightarrow> 't Service" where
  "on_store f svc =
     \<lparr>svc_store = f (svc_store svc), svc_metrics = svc_metrics svc, minRetention = minRetention svc,
      retentionPolicySource = retentionPolicySource svc, httpAllowedHosts = httpAllowedHosts svc,
      allowAnyHTTPSource = allowAnyHTTPSource svc, errorText = errorText svc\<rparr>"

lemma on_store_sel [simp]:
  "svc_store (on_store f svc) = f (svc_store svc)" "svc_metrics (on_store f svc) = svc_metrics svc"
  "minRetention (on_store f svc) = minRetention svc"
  "retentionPolicySource (on_store f svc) = retentionPolicySource svc"
  "httpAllowedHosts (on_store f svc) = httpAllowedHosts svc"
  "allowAnyHTTPSource (on_store f svc) = allowAnyHTTPSource svc" "errorText (on_store f svc) = errorText svc"
  by (simp_all add: on_store_def)

lemma on_store_ops [simp]:
  "with_store (on_store f svc) (f st) = on_store f (with_store svc st)"
  "count_metric g (on_store f svc) = on_store f (count_metric g svc)"
  by (simp_all add: on_store_def with_store_def count_metric_def)

lemma eligible_on_store [simp]:
  "candidateEligibleArtifactSources L (on_store f svc) = candidateEligibleArtifactSources L svc"
  "resolve_registered L (on_store f svc) = resolve_registered L svc"
  "verify_error L (on_store f svc) = verify_error L svc"
  by (simp_all add: candidateEligibleArtifactSources_def resolve_registered_def verify_error_def fun_eq_iff
      split: option.split)

locale store_image =
  fixes S :: "'s store" and T :: "'t store"
    and image :: "'s \<Rightarrow> 't" and ok :: "'s \<Rightarrow> bool" and fit :: "time \<Rightarrow> bool"
  assumes fit_zero: "fit 0"
    and reads: "ok st \<Longrightarrow> GetArtifact T (image st) = GetArtifact S st"
      "ok st \<Longrightarrow> GetArtifactByID T (image st) = GetArtifactByID S st"
      "ok st \<Longrightarrow> ListArtifactsByRun T (image st) = ListArtifactsByRun S st"
      "ok st \<Longrightarrow> ListArtifactsBySampleRun T (image st) = ListArtifactsBySampleRun S st"
      "ok st \<Longrightarrow> GetArtifactSource T (image st) = GetArtifactSource S st"
      "ok st \<Longrightarrow> ListArtifactSources T (image st) = ListArtifactSources S st"
      "ok st \<Longrightarrow> ListNodeTerminalsByRun T (image st) = ListNodeTerminalsByRun S st"
      "ok st \<Longrightarrow> GetNodeTerminal T (image st) = GetNodeTerminal S st"
      "ok st \<Longrightarrow> GetRunLifecycle T (image st) = GetRunLifecycle S st"
      "ok st \<Longrightarrow> ListRunLifecyclesBySample T (image st) = ListRunLifecyclesBySample S st"
    and read_source: "ok st \<Longrightarrow> GetArtifactSource S st sid = Inr (Some s) \<Longrightarrow> rep_source fit s"
    and read_lifecycle: "ok st \<Longrightarrow> GetRunLifecycle S st r = Inr (Some l) \<Longrightarrow> rep_lifecycle fit l"
    and put_artifact: "ok st \<Longrightarrow> rep_artifact fit a \<Longrightarrow> PutArtifact S st a = (e, st') \<Longrightarrow>
          ok st' \<and> PutArtifact T (image st) a = (e, image st')"
    and put_sources: "ok st \<Longrightarrow> \<forall>s \<in> set ss. rep_source fit s \<Longrightarrow> PutArtifactSources S st aid ss = (e, st') \<Longrightarrow>
          ok st' \<and> PutArtifactSources T (image st) aid ss = (e, image st')"
    and record_terminal: "ok st \<Longrightarrow> rep_terminal fit t \<Longrightarrow> RecordNodeTerminal S st t = (e, st') \<Longrightarrow>
          ok st' \<and> RecordNodeTerminal T (image st) t = (e, image st')"
    and upsert_lifecycle: "ok st \<Longrightarrow> rep_lifecycle fit l \<Longrightarrow> UpsertRunLifecycle S st l = (e, st') \<Longrightarrow>
          ok st' \<and> UpsertRunLifecycle T (image st) l = (e, image st')"
    and write_through: "ok st \<Longrightarrow> ok (WriteThrough S st a ls) \<and> WriteThrough T (image st) a ls = image (WriteThrough S st a ls)"
begin

abbreviation same :: "('s, 'a) outcome \<Rightarrow> ('t, 'a) outcome \<Rightarrow> bool" where
  "same x y \<equiv> y = (fst x, on_store image (snd x)) \<and> ok (svc_store (snd x))"

lemma register_same:
  assumes "ok (svc_store svc)" and "rep_request fit (RegisterArtifact a)" and "fit (now 0) \<and> fit (now 1)"
  shows "same (RegisterArtifactCore S L now svc a) (RegisterArtifactCore T L now (on_store image svc) a)"
proof (cases "register_request L (now 0) a")
  case (Inr b)
  have rep: "rep_artifact fit b" and ini: "\<forall>x \<in> set (initialSourcesForArtifact L b (now 1)). rep_source fit x"
    using register_request_rep [OF Inr assms(2)] assms(3) initial_sources_rep [where fit = fit and a = b and ?now0.0 = "now 1"] fit_zero by auto
  obtain e st1 where put: "PutArtifact S (svc_store svc) b = (e, st1)" by fastforce
  note put1 = put_artifact [OF assms(1) rep put]
  define st2 where "st2 = WriteThrough S st1 b (filled_locations b)"
  have w: "ok st2" "WriteThrough T (image st1) b (filled_locations b) = image st2"
    using write_through put1 by (auto simp: st2_def)
  obtain e3 st3 where put3: "PutArtifactSources S st2 (a_ArtifactID b) (initialSourcesForArtifact L b (now 1)) = (e3, st3)"
    by fastforce
  note put4 = put_sources [OF w(1) ini put3]
  show ?thesis
    using Inr assms(1) put put1 w put3 put4
    by (simp add: RegisterArtifactCore_def reads Let_def st2_def [symmetric] split: sum.split option.split)
qed (use assms(1) in \<open>simp add: RegisterArtifactCore_def\<close>)

lemma put_one_same:
  assumes "ok (svc_store svc)" and "rep_source fit x"
  shows "put_one_source T (on_store image svc) x =
      (fst (put_one_source S svc x), on_store image (snd (put_one_source S svc x))) \<and>
     ok (svc_store (snd (put_one_source S svc x)))"
  using put_sources [OF assms(1), of "[x]" "s_ArtifactID x"] assms(2)
  by (auto simp: put_one_source_def split: prod.splits)

lemma reload_same:
  assumes "ok (svc_store svc)" and "rep_source fit x"
  shows "same (store_and_reload S svc x) (store_and_reload T (on_store image svc) x)"
proof -
  obtain e svc' where "put_one_source S svc x = (e, svc')" by fastforce
  then show ?thesis
    using put_one_same [OF assms] by (simp add: store_and_reload_def reads split: option.split sum.split)
qed

lemma add_source_same:
  assumes "ok (svc_store svc)" and "rep_request fit (AddSource aid x)" and "fit (now 0) \<and> fit (now 1)"
  shows "same (AddSourceCore S L now svc aid x) (AddSourceCore T L now (on_store image svc) aid x)"
proof -
  have add: "same
      (case put_one_source S svc y of
         (Some e, svc') \<Rightarrow>
           (case e of SourceOwnershipConflict _ _ \<Rightarrow> (Inl (SourceOwnedElsewhere (s_SourceID y)), svc')
            | _ \<Rightarrow> (Inl (StoreFailed e), svc'))
       | (None, svc') \<Rightarrow>
           (case GetArtifactSource S (svc_store svc') (s_SourceID y) of
              Inl e \<Rightarrow> (Inl (StoreFailed e), svc')
            | Inr None \<Rightarrow> (Inl (SourceNotFoundAfterWrite (s_SourceID y)), svc')
            | Inr (Some z) \<Rightarrow> (Inr z, svc')))
      (case put_one_source T (on_store image svc) y of
         (Some e, svc') \<Rightarrow>
           (case e of SourceOwnershipConflict _ _ \<Rightarrow> (Inl (SourceOwnedElsewhere (s_SourceID y)), svc')
            | _ \<Rightarrow> (Inl (StoreFailed e), svc'))
       | (None, svc') \<Rightarrow>
           (case GetArtifactSource T (svc_store svc') (s_SourceID y) of
              Inl e \<Rightarrow> (Inl (StoreFailed e), svc')
            | Inr None \<Rightarrow> (Inl (SourceNotFoundAfterWrite (s_SourceID y)), svc')
            | Inr (Some z) \<Rightarrow> (Inr z, svc')))"
    if "rep_source fit y" for y
  proof -
    obtain e svc' where "put_one_source S svc y = (e, svc')" by fastforce
    then show ?thesis
      using put_one_same [OF assms(1) that] by (simp add: reads split: option.split sum.split store_error.split)
  qed
  show ?thesis
    using assms(1) add complete_source_rep [OF _ assms(2)] assms(3)
    by (simp add: AddSourceCore_def reads split: sum.split option.split)
qed

lemma update_source_same:
  assumes "ok (svc_store svc)" and "fit (now 0) \<and> fit (now 1)"
  shows "same (UpdateSourceStateCore S now svc sid st) (UpdateSourceStateCore T now (on_store image svc) sid st)"
proof -
  have "same (store_and_reload S svc (x\<lparr>s_State := st, s_UpdatedAt := now 0\<rparr>))
      (store_and_reload T (on_store image svc) (x\<lparr>s_State := st, s_UpdatedAt := now 0\<rparr>))"
    if "GetArtifactSource S (svc_store svc) sid = Inr (Some x)" for x
    using reload_same [OF assms(1)] read_source [OF assms(1) that] assms(2) by (simp add: rep_source_def)
  then show ?thesis
    using assms(1) by (simp add: UpdateSourceStateCore_def reads split: sum.split option.split)
qed

lemma verify_source_same:
  assumes "ok (svc_store svc)" and "fit (now 0) \<and> fit (now 1)"
  shows "same (VerifySourceCore S L now svc sid) (VerifySourceCore T L now (on_store image svc) sid)"
proof -
  have *: "same
      (case store_and_reload S svc (x\<lparr>s_State := st, s_LastError := e, s_LastVerifiedAt := now 0, s_UpdatedAt := now 0\<rparr>) of
         (Inl e', svc') \<Rightarrow> (Inl e', svc') | (Inr y, svc') \<Rightarrow> (Inr (y, v), svc'))
      (case store_and_reload T (on_store image svc)
          (x\<lparr>s_State := st, s_LastError := e, s_LastVerifiedAt := now 0, s_UpdatedAt := now 0\<rparr>) of
         (Inl e', svc') \<Rightarrow> (Inl e', svc') | (Inr y, svc') \<Rightarrow> (Inr (y, v), svc'))"
    if "GetArtifactSource S (svc_store svc) sid = Inr (Some x)" for x st e v
  proof -
    let ?x = "x\<lparr>s_State := st, s_LastError := e, s_LastVerifiedAt := now 0, s_UpdatedAt := now 0\<rparr>"
    obtain r svc' where "store_and_reload S svc ?x = (r, svc')" by fastforce
    moreover have "rep_source fit ?x" using read_source [OF assms(1) that] assms(2) by (simp add: rep_source_def)
    ultimately show ?thesis using reload_same [OF assms(1), of ?x] by (cases r) simp_all
  qed
  show ?thesis
    using assms(1) unfolding VerifySourceCore_def on_store_sel
    by (simp add: reads split: sum.split option.split) (intro allI impI conjI; simp only: *)
qed

lemma resolve_same:
  assumes "ok (svc_store svc)"
  shows "same (ResolveHandoffCore S L now svc b target) (ResolveHandoffCore T L now (on_store image svc) b target)"
proof -
  have [simp]: "svc_store (count_metric f svc) = svc_store svc" for f and svc :: "'x Service"
    by (simp add: count_metric_def)
  show ?thesis
    using assms write_through [OF assms]
    by (auto simp: ResolveHandoffCore_def reads Let_def split: sum.split option.split prod.split)
qed

lemma notify_same:
  assumes "ok (svc_store svc)" and "fit (now 0) \<and> fit (now 1)"
  shows "same (NotifyNodeTerminalCore S L now svc r n att st)
     (NotifyNodeTerminalCore T L now (on_store image svc) r n att st)"
proof -
  define t where "t = \<lparr>t_RunID = r, t_NodeID = n, t_AttemptID = att, t_TerminalState = st, t_RecordedAt = now 0\<rparr>"
  obtain e st' where put: "RecordNodeTerminal S (svc_store svc) t = (e, st')" by fastforce
  have "rep_terminal fit t" using assms(2) by (simp add: t_def rep_terminal_def)
  then show ?thesis
    using put assms(1) record_terminal [OF assms(1) _ put]
    unfolding NotifyNodeTerminalCore_def t_def [symmetric] by (simp split: option.split)
qed

lemma upsert_same:
  assumes "ok (svc_store svc)" and "rep_lifecycle fit l"
  shows "same (finish_upsert S svc l) (finish_upsert T (on_store image svc) l)"
proof -
  obtain e st' where put: "UpsertRunLifecycle S (svc_store svc) l = (e, st')" by fastforce
  then show ?thesis
    using upsert_lifecycle [OF assms put] by (simp add: finish_upsert_def split: option.split)
qed

lemma refresh_same:
  "ok st \<Longrightarrow> refreshLifecycleSnapshot T (image st) l = refreshLifecycleSnapshot S st l"
  "refreshLifecycleSnapshot S st l = Inr l' \<Longrightarrow> rep_lifecycle fit l \<Longrightarrow> rep_lifecycle fit l'"
  by (auto simp: refreshLifecycleSnapshot_def reads lifecycle_rep split: sum.splits)

lemma load_rep:
  "ok st \<Longrightarrow> GetRunLifecycle S st r = Inr found \<Longrightarrow> rep_lifecycle fit (load_lifecycle r found)"
  using read_lifecycle
  by (auto simp: load_lifecycle_def rep_lifecycle_def zero_lifecycle_def split: option.split)

lemma finalize_same:
  assumes "ok (svc_store svc)" and "rep_clock fit (minRetention svc) now"
  shows "same (FinalizeRunCore S now svc r sample) (FinalizeRunCore T now (on_store image svc) r sample)"
proof (cases "GetRunLifecycle S (svc_store svc) r")
  case (Inr found)
  define l1 where "l1 = (let l0 = load_lifecycle r found
      in if l_SampleRunID l0 = [] then l0\<lparr>l_SampleRunID := sample\<rparr> else l0)"
  have rep1: "rep_lifecycle fit l1"
    using load_rep [OF assms(1) Inr] by (simp add: l1_def Let_def lifecycle_rep)
  have up: "same (finish_upsert S (count_metric f svc) (finalize_lifecycle (now 0) src (minRetention svc) l2))
      (finish_upsert T (on_store image (count_metric f svc)) (finalize_lifecycle (now 0) src (minRetention svc) l2))"
    if "refreshLifecycleSnapshot S (svc_store svc) l1 = Inr l2" for l2 src f
    using upsert_same refresh_same(2) [OF that rep1] assms lifecycle_rep(3)
    by (simp add: rep_clock_def count_metric_def)
  show ?thesis
    using Inr assms(1) up
    by (simp add: FinalizeRunCore_def reads refresh_same Let_def l1_def [unfolded Let_def, symmetric] split: sum.split)
qed (use assms(1) in \<open>simp add: FinalizeRunCore_def reads\<close>)

lemma evaluate_same:
  assumes "ok (svc_store svc)" and "fit (now 0) \<and> fit (now 1)"
  shows "same (EvaluateRunGCCore S now svc r) (EvaluateRunGCCore T now (on_store image svc) r)"
proof (cases "GetRunLifecycle S (svc_store svc) r")
  case (Inr found)
  have up: "same (finish_upsert S (count_metric f svc) (evaluate_gc now l))
      (finish_upsert T (on_store image (count_metric f svc)) (evaluate_gc now l))"
    if "refreshLifecycleSnapshot S (svc_store svc) (load_lifecycle r found) = Inr l" for l f
    using upsert_same refresh_same(2) [OF that load_rep [OF assms(1) Inr]] assms lifecycle_rep(4)
    by (simp add: count_metric_def)
  show ?thesis
    using Inr assms(1) up by (simp add: EvaluateRunGCCore_def reads refresh_same Let_def split: sum.split)
qed (use assms(1) in \<open>simp add: EvaluateRunGCCore_def reads\<close>)

lemma serve_same:
  assumes "ok (svc_store svc)" and "rep_request fit q" and "rep_clock fit (minRetention svc) now"
  shows "serve T L (on_store image svc) (now, q) = on_store image (serve S L svc (now, q)) \<and>
     ok (svc_store (serve S L svc (now, q)))"
proof -
  have now: "fit (now 0) \<and> fit (now 1)" using assms(3) by (simp add: rep_clock_def)
  show ?thesis
    using assms now
    by (cases q) (simp_all add: register_same add_source_same update_source_same verify_source_same resolve_same
        notify_same finalize_same evaluate_same)
qed

lemma serve_all_same:
  assumes "ok (svc_store svc)"
    and "\<forall>(now, q) \<in> set reqs. rep_request fit q \<and> rep_clock fit (minRetention svc) now"
  shows "serve_all T L (on_store image svc) reqs = on_store image (serve_all S L svc reqs) \<and>
     ok (svc_store (serve_all S L svc reqs))"
  using assms
proof (induction reqs arbitrary: svc)
  case (Cons r reqs)
  obtain now q where r: "r = (now, q)" by fastforce
  have "minRetention (serve S L svc r) = minRetention svc"
    using serve_all_settings [of S L svc "[r]"] by (simp add: settings_def)
  then show ?case
    using Cons.IH [of "serve S L svc r"] serve_same [OF Cons.prems(1), of q now L] Cons.prems(2) by (simp add: r)
qed simp

end

end
