(* ===== verification/Sqlite_Refine.thy ===== *)
theory Sqlite_Refine
  imports Sqlite_Laws Store_Image
begin

text \<open>
  The rows of the program hold instants and locations as text.  Decoding every column gives a
  database over unencoded columns; every method of the store commutes with decoding, whatever
  the engine fails, as long as the values written survive the text.  Hence the contract proved
  in \<^verbatim>\<open>Sqlite_Laws\<close> and what follows from it hold of the program's own columns.
\<close>

section \<open>Decoded databases\<close>

definition decode_artifact :: "('t, 'l, 'm) codec \<Rightarrow> ('t, 'l) artifact_row \<Rightarrow> (time, Location list) artifact_row" where
  "decode_artifact C r =
     \<lparr>ar_run_id = ar_run_id r, ar_sample_run_id = ar_sample_run_id r,
      ar_producer_node_id = ar_producer_node_id r, ar_producer_attempt_id = ar_producer_attempt_id r,
      ar_output_name = ar_output_name r, ar_artifact_id = ar_artifact_id r, ar_digest = ar_digest r,
      ar_logical_uri = ar_logical_uri r, ar_node_name = ar_node_name r, ar_uri = ar_uri r,
      ar_locations_json = (case unmarshalLocations C (ar_locations_json r) of Some ls \<Rightarrow> ls | None \<Rightarrow> []),
      ar_size_bytes = ar_size_bytes r, ar_created_at = zero_time (parseTimeStr C (ar_created_at r))\<rparr>"

definition decode_source :: "('t, 'l, 'm) codec \<Rightarrow> ('t, 'm) source_row \<Rightarrow> (time, Location) source_row" where
  "decode_source C r =
     \<lparr>sr_source_id = sr_source_id r, sr_artifact_id = sr_artifact_id r, sr_backend_id = sr_backend_id r,
      sr_digest = sr_digest r, sr_state = sr_state r, sr_location_fingerprint = sr_location_fingerprint r,
      sr_location_json = (case unmarshalLocation C (sr_location_json r) of Some l \<Rightarrow> l | None \<Rightarrow> zero_location),
      sr_created_at = zero_time (parseTimeStr C (sr_created_at r)),
      sr_updated_at = zero_time (parseTimeStr C (sr_updated_at r)),
      sr_last_verified_at = zero_time (parseTimeStr C (sr_last_verified_at r)),
      sr_last_error = sr_last_error r\<rparr>"

definition decode_terminal :: "('t, 'l, 'm) codec \<Rightarrow> 't terminal_row \<Rightarrow> time terminal_row" where
  "decode_terminal C r =
     \<lparr>tr_run_id = tr_run_id r, tr_sample_run_id = tr_sample_run_id r, tr_node_id = tr_node_id r,
      tr_attempt_id = tr_attempt_id r, tr_terminal_state = tr_terminal_state r,
      tr_recorded_at = zero_time (parseTimeStr C (tr_recorded_at r))\<rparr>"

definition decode_lifecycle :: "('t, 'l, 'm) codec \<Rightarrow> 't lifecycle_row \<Rightarrow> time lifecycle_row" where
  "decode_lifecycle C r =
     \<lparr>lr_run_id = lr_run_id r, lr_sample_run_id = lr_sample_run_id r, lr_finalized = lr_finalized r,
      lr_finalized_at = nullStrToTime C (lr_finalized_at r),
      lr_retention_policy_source = lr_retention_policy_source r,
      lr_retention_duration_ns = lr_retention_duration_ns r,
      lr_retention_until = nullStrToTime C (lr_retention_until r), lr_gc_eligible = lr_gc_eligible r,
      lr_gc_eligible_at = nullStrToTime C (lr_gc_eligible_at r),
      lr_gc_blocked_reason = lr_gc_blocked_reason r, lr_terminal_node_count = lr_terminal_node_count r,
      lr_succeeded_node_count = lr_succeeded_node_count r, lr_failed_node_count = lr_failed_node_count r,
      lr_canceled_node_count = lr_canceled_node_count r,
      lr_retained_artifact_count = lr_retained_artifact_count r,
      lr_retained_artifact_bytes = lr_retained_artifact_bytes r\<rparr>"

definition on_values :: "('a \<Rightarrow> 'b) \<Rightarrow> 'a gomap \<Rightarrow> 'b gomap" where
  "on_values f m = map (apsnd f) m"

definition decode_db :: "('t, 'l, 'm) codec \<Rightarrow> ('t, 'l, 'm) database \<Rightarrow> plain_db" where
  "decode_db C db =
     \<lparr>tbl_artifacts = on_values (decode_artifact C) (tbl_artifacts db),
      tbl_artifact_sources = on_values (decode_source C) (tbl_artifact_sources db),
      tbl_node_terminals = on_values (decode_terminal C) (tbl_node_terminals db),
      tbl_sample_run_lifecycles = on_values (decode_lifecycle C) (tbl_sample_run_lifecycles db),
      tbl_run_lifecycles = on_values (decode_lifecycle C) (tbl_run_lifecycles db),
      tbl_schema_meta = tbl_schema_meta db\<rparr>"

text \<open>Rows a run can see are readable, and what they hold can be written again.\<close>

definition artifacts_readable :: "(string \<Rightarrow> time option) \<Rightarrow> (string, string) artifact_row gomap \<Rightarrow> bool" where
  "artifacts_readable other tbl \<longleftrightarrow>
     (\<forall>r \<in> ran (map_of tbl). ar_run_id r \<noteq> [] \<longrightarrow>
        unmarshalLocations (go_codec other) (ar_locations_json r) \<noteq> None)"

definition sources_readable :: "(string \<Rightarrow> time option) \<Rightarrow> (string, string) source_row gomap \<Rightarrow> bool" where
  "sources_readable other tbl \<longleftrightarrow>
     (\<forall>r \<in> ran (map_of tbl). unmarshalLocation (go_codec other) (sr_location_json r) \<noteq> None \<and>
        rep_source four_digit_year (source_of_row (decode_source (go_codec other) r)))"

definition lifecycles_readable :: "(string \<Rightarrow> time option) \<Rightarrow> string lifecycle_row gomap \<Rightarrow> bool" where
  "lifecycles_readable other tbl \<longleftrightarrow>
     (\<forall>r \<in> ran (map_of tbl). rep_lifecycle four_digit_year (scanRunLifecycle (go_codec other) r))"

definition readable :: "(string \<Rightarrow> time option) \<Rightarrow> (string, string, string) database \<Rightarrow> bool" where
  "readable other db \<longleftrightarrow>
     artifacts_readable other (tbl_artifacts db) \<and> sources_readable other (tbl_artifact_sources db) \<and>
     lifecycles_readable other (tbl_run_lifecycles db)"

lemma decode_db_sel [simp]:
  "tbl_artifacts (decode_db C db) = on_values (decode_artifact C) (tbl_artifacts db)"
  "tbl_artifact_sources (decode_db C db) = on_values (decode_source C) (tbl_artifact_sources db)"
  "tbl_node_terminals (decode_db C db) = on_values (decode_terminal C) (tbl_node_terminals db)"
  "tbl_run_lifecycles (decode_db C db) = on_values (decode_lifecycle C) (tbl_run_lifecycles db)"
  by (simp_all add: decode_db_def)

lemma on_values_laws [simp]:
  "map_of (on_values f m) k = map_option f (map_of m k)" "map fst (on_values f m) = map fst m"
  "on_values f (AList.update k v m) = AList.update k (f v) (on_values f m)"
  by (induction m) (auto simp: on_values_def)

lemma range_on_values [simp]: "range_map ord (on_values f m) = map f (range_map ord m)"
  by (auto simp: range_map_def List.map_filter_def option.map_sel intro!: map_cong filter_cong)

lemma decode_db_write [simp]:
  "decode_db C (db\<lparr>tbl_artifacts := m1\<rparr>) = (decode_db C db)\<lparr>tbl_artifacts := on_values (decode_artifact C) m1\<rparr>"
  "decode_db C (db\<lparr>tbl_artifact_sources := m2\<rparr>) =
     (decode_db C db)\<lparr>tbl_artifact_sources := on_values (decode_source C) m2\<rparr>"
  "decode_db C (db\<lparr>tbl_node_terminals := m3\<rparr>) =
     (decode_db C db)\<lparr>tbl_node_terminals := on_values (decode_terminal C) m3\<rparr>"
  "decode_db C (db\<lparr>tbl_run_lifecycles := m4\<rparr>) =
     (decode_db C db)\<lparr>tbl_run_lifecycles := on_values (decode_lifecycle C) m4\<rparr>"
  by (simp_all add: decode_db_def)

lemma decode_columns [simp]:
  "ar_run_id (decode_artifact C r) = ar_run_id r" "ar_sample_run_id (decode_artifact C r) = ar_sample_run_id r"
  "ar_artifact_id (decode_artifact C r) = ar_artifact_id r" "ar_digest (decode_artifact C r) = ar_digest r"
  "sr_source_id (decode_source C s) = sr_source_id s" "sr_artifact_id (decode_source C s) = sr_artifact_id s"
  "tr_run_id (decode_terminal C t) = tr_run_id t" "tr_terminal_state (decode_terminal C t) = tr_terminal_state t"
  "lr_run_id (decode_lifecycle C l) = lr_run_id l" "lr_sample_run_id (decode_lifecycle C l) = lr_sample_run_id l"
  by (simp_all add: decode_artifact_def decode_source_def decode_terminal_def decode_lifecycle_def)

section \<open>Scanning\<close>

lemma scan_decoded:
  "unmarshalLocations C (ar_locations_json r) \<noteq> None \<Longrightarrow>
     scanArtifact C r = Inr (artifact_of_row (decode_artifact C r))"
  "unmarshalLocation C (sr_location_json s) \<noteq> None \<Longrightarrow>
     scanSource C s = Inr (source_of_row (decode_source C s))"
  "scanTerminal C t = terminal_of_row (decode_terminal C t)"
  "scanRunLifecycle C l = lifecycle_of_row (decode_lifecycle C l)"
  by (auto simp: scanArtifact_def artifact_of_row_def decode_artifact_def scanSource_def source_of_row_def
      decode_source_def scanTerminal_def decode_terminal_def scanRunLifecycle_def decode_lifecycle_def zero_time_def)

lemma scan_rows_decoded:
  "\<forall>r \<in> set rs. scan r = Inr (g r) \<Longrightarrow> scan_rows scan rs = Inr (map g rs)"
  by (induction rs) auto

lemma scan_first_decoded:
  "\<forall>r \<in> set rs. scan r = Inr (g r) \<Longrightarrow> scan_first scan rs = Inr (case rs of [] \<Rightarrow> None | r # _ \<Rightarrow> Some (g r))"
  by (auto simp: scan_first_def split: list.split)

lemma sort_key_map: "(\<And>x. h (f x) = k x) \<Longrightarrow> sort_key h (map f xs) = map f (sort_key k xs)"
proof -
  assume key: "\<And>x. h (f x) = k x"
  have "insort_key h (f x) (map f ys) = map f (insort_key k x ys)" for x ys
    by (induction ys) (simp_all add: key)
  then show ?thesis by (induction xs) simp_all
qed

section \<open>Writing\<close>

lemma decode_values:
  "rep_artifact four_digit_year a \<Longrightarrow>
     decode_artifact (go_codec other) (artifact_values (go_codec other) a) = artifact_values plain_codec a"
  "rep_source four_digit_year s \<Longrightarrow>
     decode_source (go_codec other) (source_values (go_codec other) s) = source_values plain_codec s"
  "rep_terminal four_digit_year t \<Longrightarrow>
     decode_terminal (go_codec other) (terminal_values (go_codec other) t) = terminal_values plain_codec t"
  "rep_lifecycle four_digit_year l \<Longrightarrow>
     decode_lifecycle (go_codec other) (lifecycle_values (go_codec other) l) = lifecycle_values plain_codec l"
  using locations_text_roundtrip [of _ other] location_roundtrip_text [of _ other]
  by (auto simp: rep_artifact_def rep_source_def rep_terminal_def rep_lifecycle_def decode_artifact_def
      artifact_values_def decode_source_def source_values_def decode_terminal_def terminal_values_def
      decode_lifecycle_def lifecycle_values_def parse_format_instant zero_time_def nullStrToTime_def nullTimeToStr_def
      simp del: go_codec_sel(3-6) split: option.splits)

lemma decode_conflict:
  "decode_artifact C (artifact_conflict old r) = artifact_conflict (decode_artifact C old) (decode_artifact C r)"
  "decode_source C (source_conflict olds s) = source_conflict (decode_source C olds) (decode_source C s)"
  by (simp_all add: decode_artifact_def artifact_conflict_def decode_source_def source_conflict_def)

lemma ball_update:
  "\<forall>r \<in> ran (map_of m). P r \<Longrightarrow> P v \<Longrightarrow> \<forall>r \<in> ran (map_of (AList.update k v m)). P r"
  by (auto simp: update_conv ran_def)

lemma written_readable:
  "rep_artifact four_digit_year a \<Longrightarrow>
     unmarshalLocations (go_codec other) (ar_locations_json (artifact_values (go_codec other) a)) \<noteq> None"
  "rep_source four_digit_year s \<Longrightarrow>
     unmarshalLocation (go_codec other) (sr_location_json (source_values (go_codec other) s)) \<noteq> None"
  using locations_text_roundtrip [of "a_Locations a" other] location_roundtrip_text [of "s_Location s" other]
  by (simp_all add: rep_artifact_def rep_source_def artifact_values_def source_values_def del: go_codec_sel(3-6))

lemma artifacts_readable_update:
  assumes "artifacts_readable other tbl" and "unmarshalLocations (go_codec other) (ar_locations_json row) \<noteq> None"
  shows "artifacts_readable other (AList.update k row tbl)"
  unfolding artifacts_readable_def by (rule ball_update) (use assms in \<open>simp_all add: artifacts_readable_def\<close>)

lemma lifecycles_readable_update:
  assumes "lifecycles_readable other tbl" and "rep_lifecycle four_digit_year l"
  shows "lifecycles_readable other (AList.update k (lifecycle_values (go_codec other) l) tbl)"
proof -
  have "scanRunLifecycle (go_codec other) (lifecycle_values (go_codec other) l) = l"
    by (simp add: scan_decoded(4) [of "go_codec other"] decode_values(4) [OF assms(2)])
  then show ?thesis
    unfolding lifecycles_readable_def
    by (intro ball_update) (use assms in \<open>simp_all add: lifecycles_readable_def\<close>)
qed

lemma sources_readable_update:
  assumes "sources_readable other tbl" and "rep_source four_digit_year s"
    and "r = source_values (go_codec other) s \<or>
      (\<exists>old \<in> ran (map_of tbl). r = source_conflict old (source_values (go_codec other) s))"
  shows "sources_readable other (AList.update k r tbl)"
proof -
  let ?v = "source_values (go_codec other) s"
  have v: "source_of_row (decode_source (go_codec other) ?v) = s"
    using decode_values(2) [OF assms(2)] by simp
  have "unmarshalLocation (go_codec other) (sr_location_json r) \<noteq> None \<and>
      rep_source four_digit_year (source_of_row (decode_source (go_codec other) r))"
    using assms(3)
  proof
    assume "r = ?v"
    then show ?thesis using v assms(2) written_readable(2) [OF assms(2), of other] by (simp del: go_codec_sel)
  next
    assume "\<exists>old \<in> ran (map_of tbl). r = source_conflict old ?v"
    then obtain old where r: "r = source_conflict old ?v" and "old \<in> ran (map_of tbl)" by blast
    with assms(1) have "rep_source four_digit_year (source_of_row (decode_source (go_codec other) old))"
      by (simp add: sources_readable_def)
    then have "rep_source four_digit_year (source_of_row (source_conflict (decode_source (go_codec other) old)
        (source_values plain_codec s)))"
      using assms(2) by (simp add: rep_source_def source_of_row_def source_conflict_def source_values_def)
    moreover have "sr_location_json r = sr_location_json ?v" by (simp add: r source_conflict_def)
    ultimately show ?thesis
      using written_readable(2) [OF assms(2), of other]
      by (simp add: r decode_conflict decode_values(2) [OF assms(2)] del: go_codec_sel)
  qed
  then show ?thesis
    using assms(1) ball_update [of tbl] unfolding sources_readable_def by blast
qed

lemma exec_sources_decoded:
  assumes "sources_readable other tbl" and "\<forall>s \<in> set ss. rep_source four_digit_year s"
  shows "(case exec_sources E (go_codec other) aid i tbl ss of
      Inl e \<Rightarrow> exec_sources E plain_codec aid i (on_values (decode_source (go_codec other)) tbl) ss = Inl e
    | Inr tbl' \<Rightarrow> sources_readable other tbl' \<and>
        exec_sources E plain_codec aid i (on_values (decode_source (go_codec other)) tbl) ss =
          Inr (on_values (decode_source (go_codec other)) tbl'))" (is "?P i tbl ss")
  using assms
proof (induction ss arbitrary: i tbl)
  case (Cons s0 ss)
  define s where "s = sq_own_source aid s0"
  let ?v = "source_values (go_codec other) s" and ?D = "on_values (decode_source (go_codec other))"
  have rep: "rep_source four_digit_year s" and rest: "\<forall>x \<in> set ss. rep_source four_digit_year x"
    using Cons.prems(2) by (auto simp: s_def sq_own_source_def rep_source_def)
  note [simp] = Let_def s_def [symmetric] decode_values(2) [OF rep] decode_conflict
  have ids [simp]: "sr_artifact_id (source_values C s) = s_ArtifactID s" for C :: "('t, 'l, 'm) codec"
    by (simp add: source_values_def)
  have step: "?P i tbl (s0 # ss)"
    if "exec_sources E (go_codec other) aid i tbl (s0 # ss) =
        exec_sources E (go_codec other) aid (Suc i) (AList.update (s_SourceID s) r tbl) ss"
      "exec_sources E plain_codec aid i (?D tbl) (s0 # ss) =
        exec_sources E plain_codec aid (Suc i) (?D (AList.update (s_SourceID s) r tbl)) ss"
      "r = ?v \<or> (\<exists>old \<in> ran (map_of tbl). r = source_conflict old ?v)" for r
    unfolding that(1,2) by (rule Cons.IH [OF sources_readable_update [OF Cons.prems(1) rep that(3)] rest])
  show ?case
  proof (cases "step_error E [Exec i]")
    case None
    show ?thesis
    proof (cases "map_of tbl (s_SourceID s)")
      case new: None
      show ?thesis by (rule step [of ?v]) (use None new in simp_all)
    next
      case (Some old)
      show ?thesis
      proof (cases "sr_artifact_id old = s_ArtifactID s")
        case True
        show ?thesis by (rule step [of "source_conflict old ?v"]) (use None Some True in \<open>auto intro: ranI\<close>)
      next
        case False
        then show ?thesis using None Some by simp
      qed
    qed
  qed simp
qed simp

section \<open>Every method commutes with decoding\<close>

lemma in_ran_range: "r \<in> set (range_map ord m) \<Longrightarrow> r \<in> ran (map_of m)"
  by (auto simp: range_map_def in_set_map_filter ran_def)

lemma select_decoded:
  assumes "readable other db" and "\<And>r. cond (decode_artifact (go_codec other) r) = cond' r"
  shows "select_artifacts E (decode_db (go_codec other) db) cond =
      map (decode_artifact (go_codec other)) (select_artifacts E db cond')"
    "\<forall>r \<in> set (select_artifacts E db cond').
       scanArtifact (go_codec other) r = Inr (artifact_of_row (decode_artifact (go_codec other) r))"
proof -
  show "select_artifacts E (decode_db (go_codec other) db) cond =
      map (decode_artifact (go_codec other)) (select_artifacts E db cond')"
    by (simp add: select_artifacts_def filter_map comp_def assms(2))
  show "\<forall>r \<in> set (select_artifacts E db cond').
      scanArtifact (go_codec other) r = Inr (artifact_of_row (decode_artifact (go_codec other) r))"
  proof
    fix r assume "r \<in> set (select_artifacts E db cond')"
    then have "r \<in> ran (map_of (tbl_artifacts db))" "ar_run_id r \<noteq> []"
      by (auto simp: select_artifacts_def dest: in_ran_range)
    then show "scanArtifact (go_codec other) r = Inr (artifact_of_row (decode_artifact (go_codec other) r))"
      using assms(1) by (intro scan_decoded(1)) (auto simp: readable_def artifacts_readable_def simp del: go_codec_sel)
  qed
qed

lemma listWhere_decoded:
  assumes "readable other db" and "\<And>r. cond (decode_artifact (go_codec other) r) = cond' r"
  shows "listArtifactsWhere E plain_codec (decode_db (go_codec other) db) cond =
     listArtifactsWhere E (go_codec other) db cond'"
  using scan_rows_decoded [OF select_decoded(2) [of other db cond cond' E, OF assms]]
  by (simp add: listArtifactsWhere_def select_decoded(1) [of other db cond cond', OF assms] comp_def)

lemma by_id_decoded:
  assumes "readable other db"
  shows "sq_GetArtifactByID E plain_codec (decode_db (go_codec other) db) aid =
     sq_GetArtifactByID E (go_codec other) db aid"
proof -
  let ?c = "\<lambda>r. ar_artifact_id r = aid"
  have "\<And>r. ?c (decode_artifact (go_codec other) r) = ?c r" by simp
  note sel = select_decoded [of other db ?c ?c E, OF assms this]
  show ?thesis
    using scan_first_decoded [OF sel(2)]
    by (simp add: sq_GetArtifactByID_def sel(1) scan_first_def split: list.splits)
qed

lemma get_artifact_decoded:
  assumes "readable other db"
  shows "sq_GetArtifact E plain_codec (decode_db (go_codec other) db) r n att out =
     sq_GetArtifact E (go_codec other) db r n att out"
proof -
  have "scanArtifact (go_codec other) row = Inr (artifact_of_row (decode_artifact (go_codec other) row))"
    if "map_of (tbl_artifacts db) k = Some row" "ar_run_id row \<noteq> []" for k row
    using assms that by (intro scan_decoded(1)) (auto simp: readable_def artifacts_readable_def ran_def simp del: go_codec_sel)
  then show ?thesis by (auto simp: sq_GetArtifact_def scan_first_def split: option.splits)
qed

lemma live_decoded: "liveSourceFilter (decode_db C db) aid = liveSourceFilter db aid"
  by (simp add: liveSourceFilter_def on_values_def list_ex_iff)

lemma source_scan_decoded:
  "readable other db \<Longrightarrow> row \<in> ran (map_of (tbl_artifact_sources db)) \<Longrightarrow>
     scanSource (go_codec other) row = Inr (source_of_row (decode_source (go_codec other) row))"
  by (intro scan_decoded(2)) (auto simp: readable_def sources_readable_def simp del: go_codec_sel)

lemma get_source_decoded:
  assumes "readable other db"
  shows "sq_GetArtifactSource E plain_codec (decode_db (go_codec other) db) sid =
     sq_GetArtifactSource E (go_codec other) db sid"
  using source_scan_decoded [OF assms ranI]
  by (auto simp: sq_GetArtifactSource_def scan_first_def live_decoded split: option.splits)

lemma list_sources_decoded:
  assumes "readable other db"
  shows "sq_ListArtifactSources E plain_codec (decode_db (go_codec other) db) aid =
     sq_ListArtifactSources E (go_codec other) db aid"
proof -
  let ?rows = "filter (\<lambda>r. sr_artifact_id r = aid \<and> liveSourceFilter db (sr_artifact_id r))
      (range_map (row_order E) (tbl_artifact_sources db))"
  have "scan_rows (scanSource (go_codec other)) (sort_key sr_source_id ?rows) =
      Inr (map (\<lambda>r. source_of_row (decode_source (go_codec other) r)) (sort_key sr_source_id ?rows))"
    by (rule scan_rows_decoded) (use source_scan_decoded [OF assms] in \<open>auto dest: in_ran_range\<close>)
  then show ?thesis
    by (simp add: sq_ListArtifactSources_def filter_map comp_def live_decoded sort_key_map [where k = sr_source_id])
qed

lemma scan_terminal_fun: "scanTerminal C = (\<lambda>t. terminal_of_row (decode_terminal C t))"
  using scan_decoded(3) by (rule ext)

lemma scan_lifecycle_fun: "scanRunLifecycle C = (\<lambda>l. lifecycle_of_row (decode_lifecycle C l))"
  using scan_decoded(4) by (rule ext)

lemma terminals_decoded:
  "sq_ListNodeTerminalsByRun E plain_codec (decode_db (go_codec other) db) r =
     sq_ListNodeTerminalsByRun E (go_codec other) db r"
  "sq_GetNodeTerminal E plain_codec (decode_db (go_codec other) db) r n att =
     sq_GetNodeTerminal E (go_codec other) db r n att"
  by (simp_all add: scan_terminal_fun [of "go_codec other"] sq_ListNodeTerminalsByRun_def sq_GetNodeTerminal_def filter_map comp_def split: option.splits)

lemma lifecycles_decoded:
  "sq_GetRunLifecycle E plain_codec (decode_db (go_codec other) db) r = sq_GetRunLifecycle E (go_codec other) db r"
  "sq_ListRunLifecyclesBySample E plain_codec (decode_db (go_codec other) db) sample =
     sq_ListRunLifecyclesBySample E (go_codec other) db sample"
  by (simp_all add: scan_lifecycle_fun [of "go_codec other"] sq_GetRunLifecycle_def sq_ListRunLifecyclesBySample_def filter_map comp_def
      option.map_comp sort_key_map [where k = lr_run_id])

lemma put_artifact_decoded:
  assumes "readable other db" and rep: "rep_artifact four_digit_year a"
  shows "readable other (snd (sq_PutArtifact E (go_codec other) db a)) \<and>
     sq_PutArtifact E plain_codec (decode_db (go_codec other) db) a =
       apsnd (decode_db (go_codec other)) (sq_PutArtifact E (go_codec other) db a)"
proof -
  let ?v = "artifact_values (go_codec other) a"
  have rd: "readable other (db\<lparr>tbl_artifacts := AList.update k r (tbl_artifacts db)\<rparr>)"
    if "ar_locations_json r = ar_locations_json ?v" for k r
    using assms(1) that written_readable(1) [OF rep, of other] artifacts_readable_update [of other "tbl_artifacts db" r]
    by (simp add: readable_def del: go_codec_sel)
  have "ar_locations_json (artifact_conflict old ?v) = ar_locations_json ?v" for old
    by (simp add: artifact_conflict_def)
  then show ?thesis
    using assms(1)
    by (simp add: sq_PutArtifact_def Let_def transact_def rd decode_conflict decode_values(1) [OF rep]
        del: go_codec_sel split: option.split)
qed

lemma put_sources_decoded:
  assumes "readable other db" and "\<forall>s \<in> set ss. rep_source four_digit_year s"
  shows "readable other (snd (sq_PutArtifactSources E (go_codec other) db aid ss)) \<and>
     sq_PutArtifactSources E plain_codec (decode_db (go_codec other) db) aid ss =
       apsnd (decode_db (go_codec other)) (sq_PutArtifactSources E (go_codec other) db aid ss)"
proof -
  have "sources_readable other (tbl_artifact_sources db)" using assms(1) by (simp add: readable_def)
  from exec_sources_decoded [OF this assms(2), of E aid 0] assms(1) show ?thesis
    by (cases "exec_sources E (go_codec other) aid 0 (tbl_artifact_sources db) ss")
      (simp_all add: sq_PutArtifactSources_def transact_def readable_def split: option.split)
qed

lemma record_terminal_decoded:
  assumes "readable other db" and "rep_terminal four_digit_year t"
  shows "readable other (snd (sq_RecordNodeTerminal E (go_codec other) db t)) \<and>
     sq_RecordNodeTerminal E plain_codec (decode_db (go_codec other) db) t =
       apsnd (decode_db (go_codec other)) (sq_RecordNodeTerminal E (go_codec other) db t)"
  using assms
  by (simp add: sq_RecordNodeTerminal_def transact_def readable_def Let_def decode_values(3) split: option.split)

lemma upsert_lifecycle_decoded:
  assumes "readable other db" and "rep_lifecycle four_digit_year l"
  shows "readable other (snd (sq_UpsertRunLifecycle E (go_codec other) db l)) \<and>
     sq_UpsertRunLifecycle E plain_codec (decode_db (go_codec other) db) l =
       apsnd (decode_db (go_codec other)) (sq_UpsertRunLifecycle E (go_codec other) db l)"
  using assms lifecycles_readable_update [of other "tbl_run_lifecycles db" l]
  by (simp add: sq_UpsertRunLifecycle_def transact_def readable_def decode_values(4) split: option.split)

lemma read_source_rep:
  assumes "readable other db" and "sq_GetArtifactSource E (go_codec other) db sid = Inr (Some s)"
  shows "rep_source four_digit_year s"
proof -
  obtain row where row: "map_of (tbl_artifact_sources db) sid = Some row" "scanSource (go_codec other) row = Inr s"
    using assms(2) by (auto simp: sq_GetArtifactSource_def on_query_def scan_first_def split: option.splits if_splits sum.splits)
  have "row \<in> ran (map_of (tbl_artifact_sources db))" using row(1) by (rule ranI)
  then show ?thesis
    using row(2) assms(1) source_scan_decoded [OF assms(1)]
    by (auto simp: readable_def sources_readable_def simp del: go_codec_sel)
qed

lemma read_lifecycle_rep:
  assumes "readable other db" and "sq_GetRunLifecycle E (go_codec other) db r = Inr (Some l)"
  shows "rep_lifecycle four_digit_year l"
  using assms
  by (auto simp: sq_GetRunLifecycle_def on_query_def readable_def lifecycles_readable_def ran_def split: option.splits)

interpretation columns: store_image "sqlite_store E (go_codec other)" "sqlite_store E plain_codec"
    "decode_db (go_codec other)" "readable other" four_digit_year
  for E :: "sql_method \<Rightarrow> engine" and other :: "string \<Rightarrow> time option"
proof (unfold_locales, goal_cases)
  case 1 show ?case by (simp add: four_digit_year_def)
next
  case (4 st) then show ?case
    by (simp add: fun_eq_iff sq_ListArtifactsByRun_def listWhere_decoded [where cond' = "\<lambda>r. ar_run_id r = _"])
next
  case (5 st) then show ?case
    by (simp add: fun_eq_iff sq_ListArtifactsBySampleRun_def
        listWhere_decoded [where cond' = "\<lambda>r. ar_sample_run_id r = _"])
next
  case 12 then show ?case using read_source_rep by simp
next
  case 13 then show ?case using read_lifecycle_rep by simp
next
  case 14 then show ?case using put_artifact_decoded [OF 14(1,2)] by (metis apsnd_conv snd_conv sqlite_store_methods)
next
  case 15 then show ?case using put_sources_decoded [OF 15(1,2)] by (metis apsnd_conv snd_conv sqlite_store_methods)
next
  case 16 then show ?case using record_terminal_decoded [OF 16(1,2)] by (metis apsnd_conv snd_conv sqlite_store_methods)
next
  case 17 then show ?case using upsert_lifecycle_decoded [OF 17(1,2)] by (metis apsnd_conv snd_conv sqlite_store_methods)
qed (simp_all add: fun_eq_iff get_artifact_decoded by_id_decoded get_source_decoded list_sources_decoded
    terminals_decoded lifecycles_decoded)

end
