(* ===== verification/Store_Frame.thy ===== *)
theory Store_Frame
  imports Effects
begin

text \<open>
  An operation touches the store through its methods.  A relation between states that every
  writing method respects is therefore respected by every request.  The methods are called with
  what the service has checked: artifacts under their canonical ID, and sources of an artifact
  that a run owns, which the reads before the write have established.
\<close>

locale store_frame =
  fixes S :: "'s store" and keeps :: "'s \<Rightarrow> 's \<Rightarrow> bool" and own :: "'s \<Rightarrow> string \<Rightarrow> bool"
  assumes keeps_refl: "keeps st st"
    and keeps_trans: "keeps st st' \<Longrightarrow> keeps st' st'' \<Longrightarrow> keeps st st''"
    and own_canonical: "artifact_ok L a \<Longrightarrow> own st (a_ArtifactID a)"
    and own_found: "GetArtifactByID S st aid = Inr (Some a) \<Longrightarrow> own st aid"
    and own_source: "GetArtifactSource S st sid = Inr (Some x) \<Longrightarrow> own st (s_ArtifactID x)"
    and put_artifact_keeps: "artifact_ok L a \<Longrightarrow> keeps st (snd (PutArtifact S st a))"
    and put_sources_keeps: "own st aid \<Longrightarrow> \<forall>s \<in> set ss. s_ArtifactID s = aid \<Longrightarrow>
      keeps st (snd (PutArtifactSources S st aid ss))"
    and record_terminal_keeps: "keeps st (snd (RecordNodeTerminal S st t))"
    and write_through_keeps: "keeps st (WriteThrough S st a ls)"
begin

lemma keeps_writes:
  "artifact_ok L a \<Longrightarrow> PutArtifact S st a = (e, st') \<Longrightarrow> keeps st st'"
  "own st aid \<Longrightarrow> \<forall>s \<in> set ss. s_ArtifactID s = aid \<Longrightarrow> PutArtifactSources S st aid ss = (e, st') \<Longrightarrow> keeps st st'"
  "RecordNodeTerminal S st t = (e, st') \<Longrightarrow> keeps st st'"
  using put_artifact_keeps [of L a st] put_sources_keeps [of st aid ss] record_terminal_keeps [of st t] by simp_all

abbreviation frames :: "'s Service \<Rightarrow> ('s, 'a) outcome \<Rightarrow> bool" where
  "frames svc out \<equiv> keeps (svc_store svc) (svc_store (snd out))"

lemma register_keeps: "frames svc (RegisterArtifactCore S L now svc a0)"
proof (cases "register_request L (now 0) a0")
  case (Inr a)
  note ok = register_request_ok [OF Inr]
  obtain e st where p: "PutArtifact S (svc_store svc) a = (e, st)" by fastforce
  let ?w = "WriteThrough S st a (filled_locations a)"
  obtain e' st' where q: "PutArtifactSources S ?w (a_ArtifactID a) (initialSourcesForArtifact L a (now 1)) = (e', st')"
    by fastforce
  have 1: "keeps (svc_store svc) st" by (rule keeps_writes(1) [OF ok p])
  have "keeps ?w st'" by (rule keeps_writes(2) [OF own_canonical [OF ok] _ q]) (use initial_sources_set in blast)
  then have "keeps (svc_store svc) st'" using keeps_trans [OF keeps_trans [OF 1 write_through_keeps]] by blast
  with 1 show ?thesis
    using keeps_refl Inr p q by (auto simp: RegisterArtifactCore_def Let_def split: sum.split option.split)
qed (simp add: RegisterArtifactCore_def keeps_refl)

lemma put_one_keeps:
  "own (svc_store svc) (s_ArtifactID x) \<Longrightarrow> put_one_source S svc x = (e, svc') \<Longrightarrow> keeps (svc_store svc) (svc_store svc')"
  using keeps_writes(2) [where ss = "[x]"] by (auto simp: put_one_source_def split: prod.splits)

lemma reload_keeps: "own (svc_store svc) (s_ArtifactID x) \<Longrightarrow> frames svc (store_and_reload S svc x)"
  by (auto simp: store_and_reload_def dest: put_one_keeps split: prod.splits option.splits sum.splits)

lemma add_source_keeps: "frames svc (AddSourceCore S L now svc aid x)"
proof -
  have "keeps (svc_store svc) (svc_store svc')"
    if "GetArtifactByID S (svc_store svc) aid = Inr (Some a)" "complete_source L (now 0) aid a x = Inr s"
      "put_one_source S svc s = (e, svc')" for a s e svc'
    using put_one_keeps [OF _ that(3)] own_found [OF that(1)] complete_source_ok [OF that(2)] by simp
  then show ?thesis
    using keeps_refl by (auto simp: AddSourceCore_def split: sum.split option.split prod.split store_error.split)
qed

lemma update_source_keeps: "frames svc (UpdateSourceStateCore S now svc sid st)"
  using keeps_refl reload_keeps own_source by (auto simp: UpdateSourceStateCore_def split: sum.split option.split)

lemma verify_source_keeps: "frames svc (VerifySourceCore S L now svc sid)"
proof -
  have "frames svc (case store_and_reload S svc x of
      (Inl e', svc') \<Rightarrow> (Inl e', svc') | (Inr y, svc') \<Rightarrow> (Inr (y, v), svc'))"
    if "own (svc_store svc) (s_ArtifactID x)" for x and v :: "bool \<times> string"
    using reload_keeps [OF that] by (auto split: prod.split sum.split)
  then show ?thesis using keeps_refl own_source by (auto simp: VerifySourceCore_def split: sum.split option.split)
qed

lemma resolve_keeps: "frames svc (ResolveHandoffCore S L now svc b target)"
  using keeps_refl write_through_keeps
  by (auto simp: ResolveHandoffCore_def Let_def split: sum.split option.split prod.split)

lemma notify_keeps: "frames svc (NotifyNodeTerminalCore S L now svc r n att st)"
  using keeps_refl keeps_writes(3)
  by (auto simp: NotifyNodeTerminalCore_def split: sum.split option.split prod.split)

lemma serve_keeps_unjudged:
  assumes "\<forall>r sample. req \<noteq> FinalizeRun r sample" and "\<forall>r. req \<noteq> EvaluateRunGC r"
  shows "keeps (svc_store svc) (svc_store (serve S L svc (now, req)))"
  using assms by (cases req) (simp_all add: register_keeps add_source_keeps update_source_keeps verify_source_keeps
      resolve_keeps notify_keeps)

end

locale full_frame = store_frame +
  assumes upsert_keeps: "keeps st (snd (UpsertRunLifecycle S st l))"
begin

lemma finish_keeps: "frames svc (finish_upsert S (count_metric f svc) l)"
  using upsert_keeps [of "svc_store svc" l] by (auto simp: finish_upsert_def split: prod.split option.split)

lemma finalize_keeps: "frames svc (FinalizeRunCore S now svc r sample)"
  using keeps_refl finish_keeps by (auto simp: FinalizeRunCore_def Let_def split: sum.split)

lemma evaluate_keeps: "frames svc (EvaluateRunGCCore S now svc r)"
  using keeps_refl finish_keeps by (auto simp: EvaluateRunGCCore_def Let_def split: sum.split)

lemma serve_keeps: "keeps (svc_store svc) (svc_store (serve S L svc q))"
proof -
  obtain now req where "q = (now, req)" by fastforce
  then show ?thesis
    using serve_keeps_unjudged [of req] by (cases req) (simp_all add: finalize_keeps evaluate_keeps)
qed

end

section \<open>The lifecycles of the memory store\<close>

text \<open>Only a finalization and a judgement write a lifecycle.\<close>

lemma mem_lifecycles_kept:
  "runLifecycles (snd (mem_PutArtifact s a)) = runLifecycles s"
  "runLifecycles (snd (mem_PutArtifactSources s aid ss)) = runLifecycles s"
  "runLifecycles (snd (mem_RecordNodeTerminal s t)) = runLifecycles s"
  "runLifecycles (mem_WriteThrough s a ls) = runLifecycles s"
proof -
  have "runLifecycles (foldl (write_source aid) s ss) = runLifecycles s" for s
    by (induction ss arbitrary: s) simp_all
  then show "runLifecycles (snd (mem_PutArtifactSources s aid ss)) = runLifecycles s"
    by (simp add: mem_PutArtifactSources_def split: option.split)
qed (simp_all add: mem_PutArtifact_def mem_RecordNodeTerminal_def mem_WriteThrough_def Let_def split: option.split)

interpretation lifecycles: store_frame "memory_store L" "\<lambda>s s'. runLifecycles s' = runLifecycles s" "\<lambda>_ _. True"
  for L :: golib
  by unfold_locales (simp_all add: mem_lifecycles_kept)

text \<open>
  A run that has been judged collectable stays so as long as no judgement of it reads a clock
  before the end of its window.
\<close>

definition judged :: "MemoryStore \<Rightarrow> string \<Rightarrow> time \<Rightarrow> bool" where
  "judged s r t \<longleftrightarrow> collectable (mem_registry s) r t \<and>
     (\<exists>l. map_of (runLifecycles s) r = Some l \<and> l_GCEligible l)"

lemma other_run_lifecycle:
  assumes "mem_good L svc" and "r \<noteq> request_run (mem_registry (svc_store svc)) req"
  shows "map_of (runLifecycles (svc_store (serve (memory_store L) L svc (now, req)))) r =
     map_of (runLifecycles (svc_store svc)) r"
proof -
  have "slice (mem_registry (svc_store (serve (memory_store L) L svc (now, req)))) r = slice (mem_registry (svc_store svc)) r"
    using mem.serve_slice assms by (simp add: mem_good_def mem_registry_view)
  then have "(map_of (runLifecycles (svc_store (serve (memory_store L) L svc (now, req)))) |` {r}) r =
      (map_of (runLifecycles (svc_store svc)) |` {r}) r" by (simp add: slice_def)
  then show ?thesis by simp
qed

lemma judged_serve:
  assumes "mem_good L svc" and "judged (svc_store svc) r t" and "req = EvaluateRunGC r \<Longrightarrow> t \<le> now 0"
  shows "judged (svc_store (serve (memory_store L) L svc (now, req))) r t"
proof -
  let ?svc = "serve (memory_store L) L svc (now, req)"
  note good = mem_goodD [OF assms(1)]
  have col: "collectable (mem_registry (svc_store ?svc)) r t"
    using collectable_grows [OF mem_serve_grows [OF assms(1), of "[(now, req)]"], of r t t] assms(2)
    by (simp add: judged_def)
  obtain l where l: "map_of (runLifecycles (svc_store svc)) r = Some l" "l_GCEligible l" "l_Finalized l"
    using assms(2) by (auto simp: judged_def collectable_def)
  have run: "TrimSpace r \<noteq> []"
    using assms(1) registry_okD(3) [of L "mem_registry (svc_store svc)" r l] l(1)
    by (auto simp: mem_good_def lifecycle_ok_def)
  have "\<exists>l. map_of (runLifecycles (svc_store ?svc)) r = Some l \<and> l_GCEligible l"
  proof (cases "r = request_run (mem_registry (svc_store svc)) req \<and>
      ((\<exists>r sample. req = FinalizeRun r sample) \<or> (\<exists>r. req = EvaluateRunGC r))")
    case False
    then have "map_of (runLifecycles (svc_store ?svc)) r = map_of (runLifecycles (svc_store svc)) r"
      using lifecycles.serve_keeps_unjudged [where req = req and svc = svc and now = now] other_run_lifecycle [OF assms(1)] by metis
    then show ?thesis using l by auto
  next
    case True
    then consider sample where "req = FinalizeRun r sample" | "req = EvaluateRunGC r" by auto
    then show ?thesis
    proof cases
      case 1
      have "r \<noteq> []" using run by auto
      with 1 show ?thesis
        using mem.finalize_noop [where svc = svc and r = r and now = now and sample = sample] good l
        by (simp add: load_lifecycle_def)
    next
      case 2
      have "collectable (mem_registry (svc_store svc)) r (now 0)"
        using collectable_grows [OF grows_refl] assms(2) assms(3) [OF 2] by (auto simp: judged_def)
      with mem.evaluate_judges [OF good run prod.collapse [symmetric], where now = now] 2 show ?thesis
        by (auto simp: mem_registry_view)
    qed
  qed
  with col show ?thesis by (simp add: judged_def)
qed

lemma judged_serve_all:
  "mem_good L svc \<Longrightarrow> judged (svc_store svc) r t \<Longrightarrow> list_all (\<lambda>(now, req). req = EvaluateRunGC r \<longrightarrow> t \<le> now 0) reqs \<Longrightarrow>
     judged (svc_store (serve_all (memory_store L) L svc reqs)) r t"
proof (induction reqs arbitrary: svc)
  case (Cons q reqs)
  obtain now req where q: "q = (now, req)" by fastforce
  have "mem_good L (serve (memory_store L) L svc q)" using mem_good_serve [OF Cons.prems(1), of "[q]"] by simp
  moreover have "judged (svc_store (serve (memory_store L) L svc q)) r t"
    using judged_serve [OF Cons.prems(1,2), of req now] Cons.prems(3) q by simp
  ultimately show ?case using Cons.IH Cons.prems(3) by simp
qed simp

end
