(* ===== verification/Sqlite_Service.thy ===== *)
theory Sqlite_Service
  imports Sqlite_Refine Store_Frame
begin

text \<open>
  The service on the SQLite backend.  First what no request can undo, with any engine, failing
  at any step, and any codec; then the registry invariant on the program's own columns.
\<close>

section \<open>What only grows\<close>

text \<open>
  The keys and artifact IDs of runs.  What stands under another key, and a source of an artifact
  with another ID, is from before run identities.
\<close>

definition run_key :: "string \<Rightarrow> bool" where
  "run_key k \<longleftrightarrow> (\<exists>a. TrimSpace (a_RunID a) \<noteq> [] \<and> Artifact_Key a = k)"

definition legacy_source :: "('t, 'l, 'm) database \<Rightarrow> ('t, 'm) source_row \<Rightarrow> bool" where
  "legacy_source db r \<longleftrightarrow> \<not> run_key (sr_artifact_id r) \<and> \<not> liveSourceFilter db (sr_artifact_id r)"

text \<open>
  The columns no statement changes: a row with a digest and a row under a pre-F4 key stay as they
  are; a terminal stays; a source keeps its owner, backend, digest, fingerprint and creation
  time, and a source of a pre-F4 artifact stays as it is and out of sight; no row disappears; the
  pre-F4 lifecycles and the schema record are never written.
\<close>

definition artifact_row_keeps :: "string \<Rightarrow> ('t, 'l) artifact_row \<Rightarrow> ('t, 'l) artifact_row \<Rightarrow> bool" where
  "artifact_row_keeps k r r' \<longleftrightarrow>
     (ar_digest r \<noteq> [] \<or> \<not> run_key k \<longrightarrow> r' = r) \<and>
     ar_run_id r' = ar_run_id r \<and> ar_sample_run_id r' = ar_sample_run_id r"

definition source_row_keeps :: "('t, 'm) source_row \<Rightarrow> ('t, 'm) source_row \<Rightarrow> bool" where
  "source_row_keeps r r' \<longleftrightarrow>
     sr_source_id r' = sr_source_id r \<and> sr_artifact_id r' = sr_artifact_id r \<and>
     sr_backend_id r' = sr_backend_id r \<and> sr_digest r' = sr_digest r \<and>
     sr_location_fingerprint r' = sr_location_fingerprint r \<and> sr_created_at r' = sr_created_at r"

definition table_keeps :: "(string \<Rightarrow> 'r \<Rightarrow> 'r \<Rightarrow> bool) \<Rightarrow> 'r gomap \<Rightarrow> 'r gomap \<Rightarrow> bool" where
  "table_keeps P m m' \<longleftrightarrow>
     (\<forall>k r. map_of m k = Some r \<longrightarrow> (\<exists>r'. map_of m' k = Some r' \<and> P k r r'))"

definition sql_keeps :: "('t, 'l, 'm) database \<Rightarrow> ('t, 'l, 'm) database \<Rightarrow> bool" where
  "sql_keeps db db' \<longleftrightarrow>
     table_keeps artifact_row_keeps (tbl_artifacts db) (tbl_artifacts db') \<and>
     table_keeps (\<lambda>k. source_row_keeps) (tbl_artifact_sources db) (tbl_artifact_sources db') \<and>
     table_keeps (\<lambda>k r r'. legacy_source db r \<longrightarrow> r' = r \<and> legacy_source db' r)
       (tbl_artifact_sources db) (tbl_artifact_sources db') \<and>
     table_keeps (\<lambda>k r r'. r' = r) (tbl_node_terminals db) (tbl_node_terminals db') \<and>
     table_keeps (\<lambda>k r r'. True) (tbl_run_lifecycles db) (tbl_run_lifecycles db') \<and>
     tbl_sample_run_lifecycles db' = tbl_sample_run_lifecycles db \<and> tbl_schema_meta db' = tbl_schema_meta db"

lemma table_keeps_refl: "(\<And>k r. P k r r) \<Longrightarrow> table_keeps P m m"
  by (simp add: table_keeps_def)

lemma table_keeps_trans:
  assumes "table_keeps P m m'" "table_keeps P m' m''" "\<And>k r r' r''. P k r r' \<Longrightarrow> P k r' r'' \<Longrightarrow> P k r r''"
  shows "table_keeps P m m''"
  using assms unfolding table_keeps_def by metis

lemma table_keeps_update:
  assumes "\<And>k r. P k r r" and "\<And>r. map_of m k = Some r \<Longrightarrow> P k r v"
  shows "table_keeps P m (AList.update k v m)"
  using assms by (auto simp: table_keeps_def update_conv)

lemma row_keeps_refl [simp]: "artifact_row_keeps k r r" "source_row_keeps s s"
  by (simp_all add: artifact_row_keeps_def source_row_keeps_def)

lemma row_keeps_trans:
  "artifact_row_keeps k r r' \<Longrightarrow> artifact_row_keeps k r' r'' \<Longrightarrow> artifact_row_keeps k r r''"
  "source_row_keeps s s' \<Longrightarrow> source_row_keeps s' s'' \<Longrightarrow> source_row_keeps s s''"
  by (auto simp: artifact_row_keeps_def source_row_keeps_def)

lemma sql_keeps_refl [simp]: "sql_keeps db db"
  by (simp add: sql_keeps_def table_keeps_refl)

lemma sql_keeps_trans:
  assumes "sql_keeps db db'" and "sql_keeps db' db''"
  shows "sql_keeps db db''"
proof -
  have "table_keeps artifact_row_keeps (tbl_artifacts db) (tbl_artifacts db'')"
    by (rule table_keeps_trans) (use assms row_keeps_trans(1) in \<open>auto simp: sql_keeps_def\<close>)
  moreover have "table_keeps (\<lambda>k. source_row_keeps) (tbl_artifact_sources db) (tbl_artifact_sources db'')"
    by (rule table_keeps_trans) (use assms row_keeps_trans(2) in \<open>auto simp: sql_keeps_def\<close>)
  moreover have "table_keeps (\<lambda>k r r'. legacy_source db r \<longrightarrow> r' = r \<and> legacy_source db'' r)
      (tbl_artifact_sources db) (tbl_artifact_sources db'')"
  proof -
    have "table_keeps (\<lambda>k r r'. legacy_source db r \<longrightarrow> r' = r \<and> legacy_source db' r)
        (tbl_artifact_sources db) (tbl_artifact_sources db')"
      and "table_keeps (\<lambda>k r r'. legacy_source db' r \<longrightarrow> r' = r \<and> legacy_source db'' r)
        (tbl_artifact_sources db') (tbl_artifact_sources db'')"
      using assms by (simp_all add: sql_keeps_def)
    then show ?thesis unfolding table_keeps_def by metis
  qed
  moreover have "table_keeps (\<lambda>k r r'. r' = r) (tbl_node_terminals db) (tbl_node_terminals db'')"
    by (rule table_keeps_trans) (use assms in \<open>auto simp: sql_keeps_def\<close>)
  moreover have "table_keeps (\<lambda>k r r'. True) (tbl_run_lifecycles db) (tbl_run_lifecycles db'')"
    by (rule table_keeps_trans) (use assms in \<open>auto simp: sql_keeps_def\<close>)
  ultimately show ?thesis using assms by (simp add: sql_keeps_def)
qed

lemma transact_keeps: "sql_keeps db db' \<Longrightarrow> sql_keeps db (snd (transact E steps db db'))"
  by (simp add: transact_def split: option.split)

text \<open>An artifact written under its canonical ID brings no pre-F4 source back to light.\<close>

lemma set_alist_update: "set (AList.update k v m) \<subseteq> insert (k, v) (set m)"
  by (induction m) auto

lemma live_after_put:
  assumes "liveSourceFilter (db\<lparr>tbl_artifacts := AList.update k v (tbl_artifacts db)\<rparr>) aid"
  shows "liveSourceFilter db aid \<or> ar_artifact_id v = aid"
  using assms set_alist_update [of k v "tbl_artifacts db"] by (fastforce simp: liveSourceFilter_def list_ex_iff)

lemma put_row_keeps:
  assumes "\<And>r. map_of (tbl_artifacts db) k = Some r \<Longrightarrow> artifact_row_keeps k r v"
    and "run_key (ar_artifact_id v)"
  shows "sql_keeps db (db\<lparr>tbl_artifacts := AList.update k v (tbl_artifacts db)\<rparr>)"
proof -
  let ?db = "db\<lparr>tbl_artifacts := AList.update k v (tbl_artifacts db)\<rparr>"
  have "table_keeps artifact_row_keeps (tbl_artifacts db) (tbl_artifacts ?db)"
    using assms(1) by (auto intro: table_keeps_update)
  moreover have "legacy_source ?db r" if "legacy_source db r" for r
    using that assms(2) live_after_put by (fastforce simp: legacy_source_def)
  ultimately show ?thesis by (simp add: sql_keeps_def table_keeps_refl)
qed

lemma sq_put_artifact_keeps:
  assumes "artifact_ok L a"
  shows "sql_keeps db (snd (sq_PutArtifact E C db a))"
proof -
  have key: "run_key (Artifact_Key a)" "a_ArtifactID a = Artifact_Key a"
    using artifact_ok_run [OF assms] artifact_ok_id [OF assms] by (auto simp: run_key_def)
  have "sql_keeps db (db\<lparr>tbl_artifacts := AList.update (Artifact_Key a) v (tbl_artifacts db)\<rparr>)"
    if "\<And>r. map_of (tbl_artifacts db) (Artifact_Key a) = Some r \<Longrightarrow> ar_digest r = [] \<and> v = artifact_conflict r (artifact_values C a)"
      and "ar_artifact_id v = Artifact_Key a" for v
    by (rule put_row_keeps) (use that key in \<open>auto simp: artifact_row_keeps_def artifact_conflict_def\<close>)
  then show ?thesis
    using key by (auto simp: sq_PutArtifact_def Let_def artifact_conflict_def artifact_values_def
        intro!: transact_keeps split: option.split)
qed

lemma exec_sources_keeps:
  "exec_sources E C aid i tbl ss = Inr tbl' \<Longrightarrow> \<forall>s \<in> set ss. s_ArtifactID s = aid \<Longrightarrow>
     table_keeps (\<lambda>k r r'. source_row_keeps r r' \<and> (sr_artifact_id r \<noteq> aid \<longrightarrow> r' = r)) tbl tbl'"
proof (induction ss arbitrary: i tbl)
  case (Cons s ss)
  let ?s = "sq_own_source aid s" and ?P = "\<lambda>k r r'. source_row_keeps r r' \<and> (sr_artifact_id r \<noteq> aid \<longrightarrow> r' = r)"
  have own: "s_ArtifactID ?s = aid" using Cons.prems(2) by (simp add: sq_own_source_def)
  obtain v where "exec_sources E C aid (Suc i) (AList.update (s_SourceID ?s) v tbl) ss = Inr tbl'"
    and v: "\<And>r. map_of tbl (s_SourceID ?s) = Some r \<Longrightarrow> sr_artifact_id r = aid \<and> v = source_conflict r (source_values C ?s)"
    using Cons.prems(1) own by (auto simp: Let_def source_values_def split: option.splits if_splits)
  from Cons.IH [OF this(1)] Cons.prems(2) have rest: "table_keeps ?P (AList.update (s_SourceID ?s) v tbl) tbl'" by simp
  have "table_keeps ?P tbl (AList.update (s_SourceID ?s) v tbl)"
    by (rule table_keeps_update) (use v in \<open>auto simp: source_row_keeps_def source_conflict_def\<close>)
  from table_keeps_trans [OF this rest] show ?case by (simp add: source_row_keeps_def)
qed (simp add: table_keeps_refl)

text \<open>The artifact IDs sources may be written for: those of runs, and those a read has shown.\<close>

definition run_owned :: "('t, 'l, 'm) database \<Rightarrow> string \<Rightarrow> bool" where
  "run_owned db aid \<longleftrightarrow> run_key aid \<or> liveSourceFilter db aid"

lemma sq_put_sources_keeps:
  assumes "run_owned db aid" and "\<forall>s \<in> set ss. s_ArtifactID s = aid"
  shows "sql_keeps db (snd (sq_PutArtifactSources E C db aid ss))"
proof -
  have "sql_keeps db (db\<lparr>tbl_artifact_sources := tbl\<rparr>)"
    if "exec_sources E C aid 0 (tbl_artifact_sources db) ss = Inr tbl" for tbl
  proof -
    have t: "table_keeps (\<lambda>k r r'. source_row_keeps r r' \<and> (sr_artifact_id r \<noteq> aid \<longrightarrow> r' = r)) (tbl_artifact_sources db) tbl"
      by (rule exec_sources_keeps [OF that assms(2)])
    then have "table_keeps (\<lambda>k. source_row_keeps) (tbl_artifact_sources db) tbl" unfolding table_keeps_def by metis
    moreover have live: "legacy_source (db\<lparr>tbl_artifact_sources := tbl\<rparr>) r \<longleftrightarrow> legacy_source db r" for r
      by (simp add: legacy_source_def liveSourceFilter_def)
    moreover have "sr_artifact_id r \<noteq> aid" if "legacy_source db r" for r
      using that assms(1) by (auto simp: legacy_source_def run_owned_def)
    with t have "table_keeps (\<lambda>k r r'. legacy_source db r \<longrightarrow> r' = r) (tbl_artifact_sources db) tbl"
      unfolding table_keeps_def by metis
    ultimately show ?thesis by (simp add: sql_keeps_def table_keeps_refl)
  qed
  then show ?thesis by (auto simp: sq_PutArtifactSources_def intro!: transact_keeps split: option.split sum.split)
qed

lemma legacy_source_elsewhere [simp]:
  "legacy_source (db\<lparr>tbl_node_terminals := ts\<rparr>) r = legacy_source db r"
  "legacy_source (db\<lparr>tbl_run_lifecycles := ls\<rparr>) r = legacy_source db r"
  by (simp_all add: legacy_source_def liveSourceFilter_def)

lemma sq_record_terminal_keeps: "sql_keeps db (snd (sq_RecordNodeTerminal E C db t))"
  by (auto simp: sq_RecordNodeTerminal_def Let_def sql_keeps_def [of db "_\<lparr>tbl_node_terminals := _\<rparr>"]
      intro!: transact_keeps table_keeps_refl table_keeps_update split: option.split)

lemma sq_upsert_keeps: "sql_keeps db (snd (sq_UpsertRunLifecycle E C db l))"
  by (auto simp: sq_UpsertRunLifecycle_def sql_keeps_def [of db "_\<lparr>tbl_run_lifecycles := _\<rparr>"]
      intro!: transact_keeps table_keeps_refl table_keeps_update)

text \<open>What a read shows belongs to a run.\<close>

lemma range_map_values: "x \<in> set (range_map ord m) \<Longrightarrow> x \<in> snd ` set m"
  by (force simp: range_map_def List.map_filter_def dest: map_of_SomeD)

lemma sq_found_owned: "sq_GetArtifactByID E C db aid = Inr (Some a) \<Longrightarrow> run_owned db aid"
proof -
  assume "sq_GetArtifactByID E C db aid = Inr (Some a)"
  then obtain r where "r \<in> set (select_artifacts E db (\<lambda>r. ar_artifact_id r = aid))"
    by (fastforce simp: sq_GetArtifactByID_def on_query_def scan_first_def split: option.splits list.splits)
  then show ?thesis
    by (fastforce simp: select_artifacts_def run_owned_def liveSourceFilter_def list_ex_iff dest!: range_map_values)
qed

lemma sq_source_owned: "sq_GetArtifactSource E C db sid = Inr (Some x) \<Longrightarrow> run_owned db (s_ArtifactID x)"
  by (auto simp: sq_GetArtifactSource_def on_query_def scan_first_def scanSource_def run_owned_def
      split: option.splits list.splits sum.splits if_splits)

interpretation frame: full_frame "sqlite_store E C" sql_keeps run_owned
  for E :: "sql_method \<Rightarrow> engine" and C :: "('t, 'l, 'm) codec"
proof unfold_locales
  show "run_owned st (a_ArtifactID a)" if "artifact_ok L a" for L a and st :: "('t, 'l, 'm) database"
    using artifact_ok_run [OF that] artifact_ok_id [OF that] by (auto simp: run_owned_def run_key_def)
qed (simp_all add: sq_put_artifact_keeps sq_put_sources_keeps sq_record_terminal_keeps sq_upsert_keeps
    sq_found_owned sq_source_owned, rule sql_keeps_trans)

text \<open>Requests served one after the other, each by engines of its own.\<close>

definition serve_engines :: "('t, 'l, 'm) codec \<Rightarrow> golib \<Rightarrow> ('t, 'l, 'm) database Service \<Rightarrow>
    ((sql_method \<Rightarrow> engine) \<times> clock \<times> request) list \<Rightarrow> ('t, 'l, 'm) database Service" where
  "serve_engines C L = foldl (\<lambda>svc (E, q). serve (sqlite_store E C) L svc q)"

lemma serve_engines_keeps: "sql_keeps (svc_store svc) (svc_store (serve_engines C L svc reqs))"
proof (induction reqs arbitrary: svc)
  case (Cons x reqs)
  obtain E q where "x = (E, q)" by (rule prod.exhaust)
  then show ?case
    using sql_keeps_trans [OF frame.serve_keeps Cons.IH] by (simp add: serve_engines_def)
qed (simp add: serve_engines_def)

text \<open>A method that reports an error has changed nothing, whichever step failed.\<close>

lemma transact_error: "transact E steps db db' = (Some e, db'') \<Longrightarrow> db'' = db"
  by (auto simp: transact_def split: option.splits)

lemma write_errors:
  "sq_PutArtifact E C db a = (Some e, db') \<Longrightarrow> db' = db"
  "sq_PutArtifactSources E C db aid ss = (Some e, db') \<Longrightarrow> db' = db"
  "sq_RecordNodeTerminal E C db t = (Some e, db') \<Longrightarrow> db' = db"
  "sq_UpsertRunLifecycle E C db l = (Some e, db') \<Longrightarrow> db' = db"
  by (auto simp: sq_PutArtifact_def sq_PutArtifactSources_def sq_RecordNodeTerminal_def sq_UpsertRunLifecycle_def
      Let_def dest: transact_error split: if_splits option.splits sum.splits)

lemma transact_same: "f db' = f db \<Longrightarrow> f (snd (transact E steps db db')) = f db"
  by (simp add: transact_def split: option.split)

definition fixed_tables :: "('t, 'l, 'm) database \<Rightarrow> string gomap \<times> 't lifecycle_row gomap" where
  "fixed_tables db = (tbl_schema_meta db, tbl_sample_run_lifecycles db)"

lemma fixed_tables_update [simp]:
  "fixed_tables (db\<lparr>tbl_artifacts := as\<rparr>) = fixed_tables db"
  "fixed_tables (db\<lparr>tbl_artifact_sources := ss\<rparr>) = fixed_tables db"
  "fixed_tables (db\<lparr>tbl_node_terminals := ts\<rparr>) = fixed_tables db"
  "fixed_tables (db\<lparr>tbl_run_lifecycles := ls\<rparr>) = fixed_tables db"
  by (simp_all add: fixed_tables_def)

lemma writes_keep_fixed:
  "fixed_tables (snd (sq_PutArtifact E C db a)) = fixed_tables db"
  "fixed_tables (snd (sq_PutArtifactSources E C db aid ss)) = fixed_tables db"
  "fixed_tables (snd (sq_RecordNodeTerminal E C db t)) = fixed_tables db"
  "fixed_tables (snd (sq_UpsertRunLifecycle E C db l)) = fixed_tables db"
  by (auto simp: sq_PutArtifact_def sq_PutArtifactSources_def sq_RecordNodeTerminal_def sq_UpsertRunLifecycle_def
      Let_def intro!: transact_same [where f = fixed_tables] split: option.split sum.split)

section \<open>The registry on the program's columns\<close>

definition sql_registry :: "(string \<Rightarrow> time option) \<Rightarrow> (string, string, string) database \<Rightarrow> registry" where
  "sql_registry other db = registry_of sq_arts sq_terms sq_lifes sq_srcs (decode_db (go_codec other) db)"

definition sql_good :: "(string \<Rightarrow> time option) \<Rightarrow> golib \<Rightarrow> (string, string, string) database Service \<Rightarrow> bool" where
  "sql_good other L svc \<longleftrightarrow>
     readable other (svc_store svc) \<and> sq_inv (decode_db (go_codec other) (svc_store svc)) \<and>
     registry_ok L (sql_registry other (svc_store svc))"

definition storable :: "duration \<Rightarrow> (clock \<times> request) list \<Rightarrow> bool" where
  "storable retention reqs \<longleftrightarrow>
     (\<forall>(now, q) \<in> set reqs. rep_request four_digit_year q \<and> rep_clock four_digit_year retention now)"

definition empty_db :: "('t, 'l, 'm) database" where
  "empty_db = \<lparr>tbl_artifacts = [], tbl_artifact_sources = [], tbl_node_terminals = [],
     tbl_sample_run_lifecycles = [], tbl_run_lifecycles = [], tbl_schema_meta = []\<rparr>"

lemma sql_serve:
  assumes "sql_good other L svc" and "storable (minRetention svc) reqs"
  shows "sql_good other L (serve_all (sqlite_store (sound_engines ord) (go_codec other)) L svc reqs) \<and>
     grows (sql_registry other (svc_store svc))
       (sql_registry other (svc_store (serve_all (sqlite_store (sound_engines ord) (go_codec other)) L svc reqs)))"
proof -
  let ?D = "decode_db (go_codec other)" and ?svc' = "serve_all (sqlite_store (sound_engines ord) (go_codec other)) L svc reqs"
  let ?P = "sqlite_store (sound_engines ord) plain_codec"
  have rd: "readable other (svc_store svc)"
    and good: "sq_inv (svc_store (on_store ?D svc)) \<and> registry_ok L (registry_of sq_arts sq_terms sq_lifes sq_srcs (svc_store (on_store ?D svc)))"
    using assms(1) by (simp_all add: sql_good_def sql_registry_def)
  have same: "serve_all ?P L (on_store ?D svc) reqs = on_store ?D ?svc'" "readable other (svc_store ?svc')"
    using columns.serve_all_same [OF rd, of reqs "sound_engines ord" L] assms(2) by (auto simp: storable_def)
  show ?thesis
    using sq.serve_all_good [OF good, of ord reqs] sq.serve_all_grows [OF good, of ord reqs] same
    by (simp add: sql_good_def sql_registry_def)
qed

lemma empty_db_good: "svc_store svc = empty_db \<Longrightarrow> sql_good other L svc"
  by (simp add: sql_good_def sql_registry_def readable_def artifacts_readable_def sources_readable_def
      lifecycles_readable_def empty_db_def sq_inv_def registry_ok_def registry_of_def sq_arts_def sq_terms_def
      sq_lifes_def sq_srcs_def on_values_def)

end
