(* ===== verification/Demo_Sql.thy ===== *)
theory Demo_Sql
  imports Demo Sqlite_Service
begin

text \<open>The SQLite service on an empty database, for the witnesses.\<close>

definition demo_sql_service :: "(string, string, string) database Service" where
  "demo_sql_service = projr (NewService demo_lib demo_text [] [] None empty_db)"

lemma demo_sql_good: "sql_good other L demo_sql_service"
  by (rule empty_db_good) (simp add: demo_sql_service_def NewService_def)

lemma demo_storable: "storable (minRetention demo_sql_service) [demo_register, demo_notify, demo_finalize]"
  by (simp add: storable_def rep_artifact_def rep_clock_def four_digit_year_def demo_clock_def demo_sql_service_def
      NewService_def minutes_def demo_artifact_def zero_artifact_def)

end
