(* ===== verification/Sqlite_Migrate.thy ===== *)
theory Sqlite_Migrate
  imports Sqlite_Service "HOL-Library.Sublist"
begin

text \<open>
  Opening a database file: \<^verbatim>\<open>sqliteMigrate\<close>, \<^verbatim>\<open>migrateRunIdentity\<close>, \<^verbatim>\<open>addColumnIfMissingTx\<close>,
  \<^verbatim>\<open>LegacyDisposition\<close>, \<^verbatim>\<open>NewSQLiteStore\<close> and \<^verbatim>\<open>OpenStore\<close>.  A file written by an older binary may
  lack tables and columns, so here a table is a list of column names and rows from column names
  to values.  \<open>database_of\<close> reads such a file as the typed tables of \<^verbatim>\<open>Sqlite_Store\<close>.
\<close>

section \<open>Files and statements\<close>

datatype sql_value = SNull | SText string | SInt int

record sql_table =
  tb_columns :: "string list"
  tb_rows :: "sql_value gomap gomap"

record db_file =
  f_tables :: "sql_table gomap"
  f_indexes :: "string list"

datatype ddl =
    CREATE_TABLE string "string list"
  | CREATE_INDEX string string string
  | ADD_COLUMN string string sql_value

datatype sql_error =
    NoSuchTable string
  | NoSuchColumn string
  | DuplicateColumn string
  | UniqueConstraint string
  | StepFailed string

datatype migrate_error =
    SqlFailed sql_error
  | UnreadableVersion string
  | NewerVersion int

definition add_column :: "string \<Rightarrow> sql_value \<Rightarrow> sql_table \<Rightarrow> sql_table" where
  "add_column column def t =
     t\<lparr>tb_columns := tb_columns t @ [column],
       tb_rows := map (\<lambda>(k, row). (k, row @ [(column, def)])) (tb_rows t)\<rparr>"

fun exec_ddl :: "ddl \<Rightarrow> db_file \<Rightarrow> sql_error + db_file" where
  "exec_ddl (CREATE_TABLE name cols) f =
     (case map_of (f_tables f) name of
        Some _ \<Rightarrow> Inr f
      | None \<Rightarrow> Inr (f\<lparr>f_tables := f_tables f @ [(name, \<lparr>tb_columns = cols, tb_rows = []\<rparr>)]\<rparr>))"
| "exec_ddl (CREATE_INDEX name table column) f =
     (if name \<in> set (f_indexes f) then Inr f
      else case map_of (f_tables f) table of
        None \<Rightarrow> Inl (NoSuchTable table)
      | Some t \<Rightarrow>
          if column \<in> set (tb_columns t) then Inr (f\<lparr>f_indexes := f_indexes f @ [name]\<rparr>)
          else Inl (NoSuchColumn column))"
| "exec_ddl (ADD_COLUMN table column def) f =
     (case map_of (f_tables f) table of
        None \<Rightarrow> Inl (NoSuchTable table)
      | Some t \<Rightarrow>
          if column \<in> set (tb_columns t) then Inl (DuplicateColumn column)
          else Inr (f\<lparr>f_tables := AList.update table (add_column column def t) (f_tables f)\<rparr>))"

text \<open>The engine may fail any statement; they are numbered in the order of the migration.\<close>

definition step :: "engine \<Rightarrow> nat \<Rightarrow> (sql_error + 'a) \<Rightarrow> sql_error + 'a" where
  "step E i result = (case fails E (Exec i) of Some e \<Rightarrow> Inl (StepFailed e) | None \<Rightarrow> result)"

fun exec_all :: "engine \<Rightarrow> nat \<Rightarrow> ddl list \<Rightarrow> db_file \<Rightarrow> sql_error + db_file" where
  "exec_all E i [] f = Inr f"
| "exec_all E i (d # ds) f =
     (case step E i (exec_ddl d f) of Inl e \<Rightarrow> Inl e | Inr f' \<Rightarrow> exec_all E (Suc i) ds f')"

section \<open>The schema\<close>

definition lifecycle_columns :: "string list" where
  "lifecycle_columns =
     [''finalized'', ''finalized_at'', ''retention_policy_source'', ''retention_duration_ns'',
      ''retention_until'', ''gc_eligible'', ''gc_eligible_at'', ''gc_blocked_reason'',
      ''terminal_node_count'', ''succeeded_node_count'', ''failed_node_count'', ''canceled_node_count'',
      ''retained_artifact_count'', ''retained_artifact_bytes'']"

definition schema_ddl :: "ddl list" where
  "schema_ddl =
     [CREATE_TABLE ''artifacts''
        [''key'', ''run_id'', ''sample_run_id'', ''producer_node_id'', ''producer_attempt_id'', ''output_name'',
         ''artifact_id'', ''digest'', ''logical_uri'', ''node_name'', ''uri'', ''locations_json'', ''size_bytes'',
         ''created_at''],
      CREATE_TABLE ''artifact_sources''
        [''source_id'', ''artifact_id'', ''backend_id'', ''digest'', ''state'', ''location_fingerprint'',
         ''location_json'', ''created_at'', ''updated_at'', ''last_verified_at'', ''last_error''],
      CREATE_TABLE ''node_terminals''
        [''key'', ''run_id'', ''sample_run_id'', ''node_id'', ''attempt_id'', ''terminal_state'', ''recorded_at''],
      CREATE_TABLE ''sample_run_lifecycles'' (''sample_run_id'' # lifecycle_columns),
      CREATE_TABLE ''run_lifecycles'' (''run_id'' # ''sample_run_id'' # lifecycle_columns),
      CREATE_TABLE ''ah_schema_meta'' [''key'', ''value''],
      CREATE_INDEX ''idx_artifacts_artifact_id'' ''artifacts'' ''artifact_id'',
      CREATE_INDEX ''idx_artifacts_sample_run_id'' ''artifacts'' ''sample_run_id'',
      CREATE_INDEX ''idx_artifact_sources_artifact_id'' ''artifact_sources'' ''artifact_id'',
      CREATE_INDEX ''idx_node_terminals_sample_run_id'' ''node_terminals'' ''sample_run_id'',
      CREATE_INDEX ''idx_run_lifecycles_sample_run_id'' ''run_lifecycles'' ''sample_run_id'']"

definition alter_ddl :: "ddl list" where
  "alter_ddl =
     [ADD_COLUMN ''artifacts'' ''logical_uri'' (SText []),
      ADD_COLUMN ''artifacts'' ''locations_json'' (SText ''[]''),
      ADD_COLUMN ''artifact_sources'' ''last_verified_at'' (SText []),
      ADD_COLUMN ''artifact_sources'' ''last_error'' (SText [])]"

definition sqliteSchemaVersion :: int where
  "sqliteSchemaVersion = 2"

section \<open>The schema version\<close>

text \<open>
  \<^verbatim>\<open>fmt.Sscanf(s, "%d", &v)\<close>: blanks are skipped (a newline is an error, except that a carriage
  return before it is skipped too), then an optional sign, then at least one digit; what follows
  is ignored.  The number must fit into 64 bits.
\<close>

fun scan_blanks :: "nat \<Rightarrow> string \<Rightarrow> string option" where
  "scan_blanks 0 s = Some s"
| "scan_blanks (Suc n) s =
     (case s of
        [] \<Rightarrow> Some []
      | c # rest \<Rightarrow>
          if c = CHR 0x0A then None
          else if c = CHR 0x0D \<and> HasPrefix rest [CHR 0x0A] then scan_blanks n rest
          else case find (HasPrefix s) space_runes of
            Some r \<Rightarrow> scan_blanks n (drop (length r) s)
          | None \<Rightarrow> Some s)"

definition Sscanf_d :: "string \<Rightarrow> int option" where
  "Sscanf_d s =
     (case scan_blanks (length s) s of
        None \<Rightarrow> None
      | Some t \<Rightarrow>
         (let neg = HasPrefix t ''-'';
              u = (if neg \<or> HasPrefix t ''+'' then tl t else t);
              ds = takeWhile is_digit u
          in if ds = [] then None else parse_int64 neg ds))"

definition text_of :: "sql_value option \<Rightarrow> string" where
  "text_of v = (case v of Some (SText s) \<Rightarrow> s | _ \<Rightarrow> [])"

text \<open>
  The value of a key of the schema record.  The tables this program creates hold text there; for
  another value, which \<^verbatim>\<open>Scan\<close> would convert or refuse, the model reads the empty text.
\<close>

definition meta_value :: "db_file \<Rightarrow> string \<Rightarrow> string option" where
  "meta_value f k =
     (case map_of (f_tables f) ''ah_schema_meta'' of
        None \<Rightarrow> None
      | Some t \<Rightarrow> map_option (\<lambda>row. text_of (map_of row ''value'')) (map_of (tb_rows t) k))"

definition insert_meta :: "string \<Rightarrow> string \<Rightarrow> db_file \<Rightarrow> sql_error + db_file" where
  "insert_meta k v f =
     (case map_of (f_tables f) ''ah_schema_meta'' of
        None \<Rightarrow> Inl (NoSuchTable ''ah_schema_meta'')
      | Some t \<Rightarrow>
          if map_of (tb_rows t) k \<noteq> None then Inl (UniqueConstraint k)
          else Inr (f\<lparr>f_tables := AList.update ''ah_schema_meta''
                 (t\<lparr>tb_rows := tb_rows t @ [(k, [(''key'', SText k), (''value'', SText v)])]\<rparr>) (f_tables f)\<rparr>))"

section \<open>The run identity\<close>

definition addColumnIfMissingTx :: "engine \<Rightarrow> nat \<Rightarrow> string \<Rightarrow> string \<Rightarrow> sql_value \<Rightarrow> db_file \<Rightarrow>
    sql_error + db_file" where
  "addColumnIfMissingTx E i table column def f =
     (case step E i (Inr (case map_of (f_tables f) table of Some t \<Rightarrow> tb_columns t | None \<Rightarrow> [])) of
        Inl e \<Rightarrow> Inl e
      | Inr names \<Rightarrow>
          if column \<in> set names then Inr f else step E (Suc i) (exec_ddl (ADD_COLUMN table column def) f))"

text \<open>The rows of a table, and those without a run.\<close>

definition table_rows :: "db_file \<Rightarrow> string \<Rightarrow> sql_value gomap gomap" where
  "table_rows f name = (case map_of (f_tables f) name of Some t \<Rightarrow> tb_rows t | None \<Rightarrow> [])"

definition legacy_rows :: "db_file \<Rightarrow> string \<Rightarrow> sql_value gomap gomap" where
  "legacy_rows f name = filter (\<lambda>(k, row). map_of row ''run_id'' = Some (SText [])) (table_rows f name)"

definition legacy_counts :: "db_file \<Rightarrow> nat gomap" where
  "legacy_counts f =
     [(''legacy_unresolved_artifacts'', length (legacy_rows f ''artifacts'')),
      (''legacy_unresolved_node_terminals'', length (legacy_rows f ''node_terminals'')),
      (''legacy_unresolved_sample_run_lifecycles'', length (table_rows f ''sample_run_lifecycles''))]"

text \<open>The counts are recorded in the order in which Go iterates over its map.\<close>

fun record_counts :: "engine \<Rightarrow> nat \<Rightarrow> string list \<Rightarrow> db_file \<Rightarrow> sql_error + db_file" where
  "record_counts E i [] f = Inr f"
| "record_counts E i (k # rest) f =
     (case step E i (Inr (the (map_of (legacy_counts f) k))) of
        Inl e \<Rightarrow> Inl e
      | Inr n \<Rightarrow>
          (case step E (Suc i) (insert_meta k (decimal n) f) of
             Inl e \<Rightarrow> Inl e
           | Inr f' \<Rightarrow> record_counts E (i + 2) rest f'))"

definition check_version :: "string \<Rightarrow> migrate_error option" where
  "check_version current =
     (if current = [] then None
      else case Sscanf_d current of
        None \<Rightarrow> Some (UnreadableVersion current)
      | Some v \<Rightarrow> if sqliteSchemaVersion < v then Some (NewerVersion v) else None)"

definition migrateRunIdentity :: "engine \<Rightarrow> iteration \<Rightarrow> db_file \<Rightarrow> migrate_error + db_file" where
  "migrateRunIdentity E ord f =
     (case step E 11 (Inr (meta_value f ''schema_version'')) of
        Inl e \<Rightarrow> Inl (SqlFailed e)
      | Inr stamp \<Rightarrow>
         (let current = (case stamp of Some s \<Rightarrow> s | None \<Rightarrow> [])
          in case check_version current of
               Some e \<Rightarrow> Inl e
             | None \<Rightarrow>
               (case addColumnIfMissingTx E 12 ''artifacts'' ''run_id'' (SText []) f of
                  Inl e \<Rightarrow> Inl (SqlFailed e)
                | Inr f1 \<Rightarrow>
                  (case addColumnIfMissingTx E 14 ''node_terminals'' ''run_id'' (SText []) f1 of
                     Inl e \<Rightarrow> Inl (SqlFailed e)
                   | Inr f2 \<Rightarrow>
                     (case exec_all E 16
                         [CREATE_INDEX ''idx_artifacts_run_id'' ''artifacts'' ''run_id'',
                          CREATE_INDEX ''idx_node_terminals_run_id'' ''node_terminals'' ''run_id''] f2 of
                        Inl e \<Rightarrow> Inl (SqlFailed e)
                      | Inr f3 \<Rightarrow>
                        if current \<noteq> [] then Inr f3
                        else (case record_counts E 18 (visit ord (map fst (legacy_counts f3))) f3 of
                           Inl e \<Rightarrow> Inl (SqlFailed e)
                         | Inr f4 \<Rightarrow>
                           (case step E 24 (insert_meta ''schema_version'' (decimal (nat sqliteSchemaVersion)) f4) of
                              Inl e \<Rightarrow> Inl (SqlFailed e)
                            | Inr f5 \<Rightarrow> Inr f5)))))))"

text \<open>
  Text of the driver's errors, as far as the code looks at it.  A duplicate column is expected
  from an already migrated file.
\<close>

definition isDuplicateColumn :: "(sql_error \<Rightarrow> string) \<Rightarrow> sql_error \<Rightarrow> bool" where
  "isDuplicateColumn message e \<longleftrightarrow> Contains (message e) ''duplicate column name:''"

text \<open>The statements after the commit; each is its own transaction.\<close>

fun alter_all :: "(sql_error \<Rightarrow> string) \<Rightarrow> engine \<Rightarrow> nat \<Rightarrow> ddl list \<Rightarrow> db_file \<Rightarrow> migrate_error option \<times> db_file" where
  "alter_all message E i [] f = (None, f)"
| "alter_all message E i (d # ds) f =
     (case step E i (exec_ddl d f) of
        Inl e \<Rightarrow> if isDuplicateColumn message e then alter_all message E (Suc i) ds f else (Some (SqlFailed e), f)
      | Inr f' \<Rightarrow> alter_all message E (Suc i) ds f')"

definition migrate_tx :: "engine \<Rightarrow> iteration \<Rightarrow> db_file \<Rightarrow> migrate_error + db_file" where
  "migrate_tx E ord f =
     (case fails E Begin of
        Some e \<Rightarrow> Inl (SqlFailed (StepFailed e))
      | None \<Rightarrow>
         (case exec_all E 0 schema_ddl f of
            Inl e \<Rightarrow> Inl (SqlFailed e)
          | Inr f1 \<Rightarrow>
             (case migrateRunIdentity E ord f1 of
                Inl e \<Rightarrow> Inl e
              | Inr f2 \<Rightarrow>
                 (case fails E Commit of
                    Some e \<Rightarrow> Inl (SqlFailed (StepFailed e))
                  | None \<Rightarrow> Inr f2))))"

definition sqliteMigrate :: "(sql_error \<Rightarrow> string) \<Rightarrow> engine \<Rightarrow> iteration \<Rightarrow> db_file \<Rightarrow>
    migrate_error option \<times> db_file" where
  "sqliteMigrate message E ord f =
     (case migrate_tx E ord f of
        Inl e \<Rightarrow> (Some e, f)
      | Inr f' \<Rightarrow> alter_all message E 25 alter_ddl f')"

definition LegacyDisposition :: "engine \<Rightarrow> db_file \<Rightarrow> store_error + string gomap" where
  "LegacyDisposition E f =
     on_query E (Inr (map (\<lambda>(k, row). (k, text_of (map_of row ''value''))) (table_rows f ''ah_schema_meta'')))"

section \<open>Nothing is lost\<close>

text \<open>
  A later file extends an earlier one: every table is still there with its columns and rows, a
  row has at most gained columns, and only the schema record has gained rows.
\<close>

definition rows_extend :: "sql_value gomap gomap \<Rightarrow> sql_value gomap gomap \<Rightarrow> bool" where
  "rows_extend rs rs' \<longleftrightarrow> list_all2 (\<lambda>(k, r) (k', r'). k' = k \<and> prefix r r') rs rs'"

definition table_extends :: "string \<Rightarrow> sql_table \<Rightarrow> sql_table \<Rightarrow> bool" where
  "table_extends name t t' \<longleftrightarrow>
     prefix (tb_columns t) (tb_columns t') \<and>
     (if name = ''ah_schema_meta'' then prefix (tb_rows t) (tb_rows t') else rows_extend (tb_rows t) (tb_rows t'))"

definition extends :: "db_file \<Rightarrow> db_file \<Rightarrow> bool" where
  "extends f f' \<longleftrightarrow>
     set (f_indexes f) \<subseteq> set (f_indexes f') \<and>
     (\<forall>name t. map_of (f_tables f) name = Some t \<longrightarrow>
        (\<exists>t'. map_of (f_tables f') name = Some t' \<and> table_extends name t t'))"

lemma rows_extend_refl [simp]: "rows_extend rs rs"
  by (auto simp: rows_extend_def intro: list_all2_refl)

lemma rows_extend_trans: "rows_extend a b \<Longrightarrow> rows_extend b c \<Longrightarrow> rows_extend a c"
  unfolding rows_extend_def by (erule (1) list_all2_trans [rotated]) (auto intro: prefix_order.trans)

lemma table_extends_refl [simp]: "table_extends name t t"
  by (simp add: table_extends_def)

lemma table_extends_trans: "table_extends name a b \<Longrightarrow> table_extends name b c \<Longrightarrow> table_extends name a c"
  by (auto simp: table_extends_def intro: rows_extend_trans prefix_order.trans split: if_splits)

lemma extends_refl [simp]: "extends f f"
  by (simp add: extends_def)

lemma extends_trans: "extends a b \<Longrightarrow> extends b c \<Longrightarrow> extends a c"
  unfolding extends_def by (meson subset_trans table_extends_trans)

lemma extends_update:
  assumes "map_of (f_tables f) name = Some t" and "table_extends name t t'"
  shows "extends f (f\<lparr>f_tables := AList.update name t' (f_tables f)\<rparr>)"
  using assms by (auto simp: extends_def update_conv)

lemma add_column_extends: "name \<noteq> ''ah_schema_meta'' \<Longrightarrow> table_extends name t (add_column c d t)"
  by (auto simp: table_extends_def add_column_def rows_extend_def list.rel_map intro!: list_all2_refl)

fun ddl_ok :: "ddl \<Rightarrow> bool" where
  "ddl_ok (ADD_COLUMN table c d) \<longleftrightarrow> table \<noteq> ''ah_schema_meta''"
| "ddl_ok _ \<longleftrightarrow> True"

lemma exec_ddl_extends: "ddl_ok d \<Longrightarrow> exec_ddl d f = Inr f' \<Longrightarrow> extends f f'"
proof (induction d f rule: exec_ddl.induct)
  case (1 name cols f)
  then show ?case by (auto simp: extends_def map_add_def split: option.splits)
next
  case (2 name table column f)
  then show ?case by (auto simp: extends_def split: option.splits if_splits)
next
  case (3 table column def f)
  then obtain t where t: "map_of (f_tables f) table = Some t"
    and f': "f' = f\<lparr>f_tables := AList.update table (add_column column def t) (f_tables f)\<rparr>"
    by (auto split: option.splits if_splits)
  have "table_extends table t (add_column column def t)" using 3(1) by (intro add_column_extends) simp
  from extends_update [OF t this] show ?case unfolding f' .
qed

lemma step_Inr: "step E i r = Inr x \<Longrightarrow> r = Inr x"
  by (auto simp: step_def split: option.splits)

lemma exec_all_extends: "list_all ddl_ok ds \<Longrightarrow> exec_all E i ds f = Inr f' \<Longrightarrow> extends f f'"
proof (induction ds arbitrary: i f)
  case (Cons d ds)
  then obtain f1 where "exec_ddl d f = Inr f1" "exec_all E (Suc i) ds f1 = Inr f'"
    by (auto dest: step_Inr split: sum.splits)
  moreover from this Cons.prems(1) have "extends f f1" by (intro exec_ddl_extends) auto
  ultimately show ?case using Cons.IH [of "Suc i" f1] Cons.prems(1) by (auto intro: extends_trans)
qed simp

lemma insert_meta_extends: "insert_meta k v f = Inr f' \<Longrightarrow> extends f f'"
  by (auto simp: insert_meta_def table_extends_def intro!: extends_update split: option.splits if_splits)

lemma add_missing_extends:
  "table \<noteq> ''ah_schema_meta'' \<Longrightarrow> addColumnIfMissingTx E i table c d f = Inr f' \<Longrightarrow> extends f f'"
  using exec_ddl_extends [of "ADD_COLUMN table c d" f f']
  by (auto simp: addColumnIfMissingTx_def simp del: exec_ddl.simps dest!: step_Inr split: sum.splits if_splits)

lemma record_counts_extends: "record_counts E i ks f = Inr f' \<Longrightarrow> extends f f'"
proof (induction ks arbitrary: i f)
  case (Cons k ks)
  then obtain f1 n where "insert_meta k (decimal n) f = Inr f1" "record_counts E (i + 2) ks f1 = Inr f'"
    by (auto dest: step_Inr split: sum.splits)
  with Cons.IH insert_meta_extends extends_trans show ?case by metis
qed simp

definition run_indexes :: "ddl list" where
  "run_indexes = [CREATE_INDEX ''idx_artifacts_run_id'' ''artifacts'' ''run_id'',
     CREATE_INDEX ''idx_node_terminals_run_id'' ''node_terminals'' ''run_id'']"

definition current_version :: "db_file \<Rightarrow> string" where
  "current_version f = (case meta_value f ''schema_version'' of Some s \<Rightarrow> s | None \<Rightarrow> [])"

lemma identity_steps:
  assumes "migrateRunIdentity E ord f = Inr f'"
  shows "check_version (current_version f) = None \<and>
     (\<exists>f1 f2 f3. addColumnIfMissingTx E 12 ''artifacts'' ''run_id'' (SText []) f = Inr f1 \<and>
        addColumnIfMissingTx E 14 ''node_terminals'' ''run_id'' (SText []) f1 = Inr f2 \<and>
        exec_all E 16 run_indexes f2 = Inr f3 \<and>
        (if current_version f \<noteq> [] then f' = f3
         else \<exists>f4. record_counts E 18 (visit ord (map fst (legacy_counts f3))) f3 = Inr f4 \<and>
            insert_meta ''schema_version'' (decimal (nat sqliteSchemaVersion)) f4 = Inr f'))"
  using assms
  by (auto simp: migrateRunIdentity_def Let_def current_version_def run_indexes_def simp del: exec_all.simps
      dest!: step_Inr split: sum.splits option.splits if_splits)

lemma identity_extends:
  assumes "migrateRunIdentity E ord f = Inr f'"
  shows "extends f f'"
proof -
  obtain f1 f2 f3 where 1: "addColumnIfMissingTx E 12 ''artifacts'' ''run_id'' (SText []) f = Inr f1"
    and 2: "addColumnIfMissingTx E 14 ''node_terminals'' ''run_id'' (SText []) f1 = Inr f2"
    and 3: "exec_all E 16 run_indexes f2 = Inr f3"
    and 4: "if current_version f \<noteq> [] then f' = f3
         else \<exists>f4. record_counts E 18 (visit ord (map fst (legacy_counts f3))) f3 = Inr f4 \<and>
            insert_meta ''schema_version'' (decimal (nat sqliteSchemaVersion)) f4 = Inr f'"
    using identity_steps [OF assms] by blast
  have "extends f f1" "extends f1 f2" using add_missing_extends [OF _ 1] add_missing_extends [OF _ 2] by auto
  moreover have "extends f2 f3" by (rule exec_all_extends [OF _ 3]) (simp add: run_indexes_def)
  moreover have "extends f3 f'"
    using 4 by (auto dest!: record_counts_extends insert_meta_extends intro: extends_trans split: if_splits)
  ultimately show ?thesis using extends_trans by blast
qed

lemma alter_all_extends: "list_all ddl_ok ds \<Longrightarrow> extends f (snd (alter_all message E i ds f))"
proof (induction ds arbitrary: i f)
  case (Cons d ds)
  show ?case
  proof (cases "step E i (exec_ddl d f)")
    case (Inr f1)
    then have "extends f f1" using Cons.prems exec_ddl_extends by (auto dest: step_Inr)
    with Inr show ?thesis using Cons.IH [of f1 "Suc i"] Cons.prems by (auto intro: extends_trans)
  qed (use Cons in auto)
qed simp

lemma migrate_tx_extends: "migrate_tx E ord f = Inr f' \<Longrightarrow> extends f f'"
proof -
  assume tx: "migrate_tx E ord f = Inr f'"
  have "list_all ddl_ok schema_ddl" by (simp add: schema_ddl_def)
  then show ?thesis
    using tx identity_extends exec_all_extends [of schema_ddl E 0 f]
    by (auto simp: migrate_tx_def intro: extends_trans split: sum.splits option.splits)
qed

lemma migrate_extends: "extends f (snd (sqliteMigrate message E ord f))"
proof (cases "migrate_tx E ord f")
  case (Inr f')
  have "list_all ddl_ok alter_ddl" by (simp add: alter_ddl_def)
  with Inr show ?thesis
    using extends_trans [OF migrate_tx_extends alter_all_extends] by (simp add: sqliteMigrate_def)
qed (simp add: sqliteMigrate_def)

section \<open>Well-formed files\<close>

text \<open>Columns have distinct names and every row has exactly the columns of its table.\<close>

definition table_ok :: "string \<Rightarrow> sql_table \<Rightarrow> bool" where
  "table_ok name t \<longleftrightarrow>
     distinct (tb_columns t) \<and> list_all (\<lambda>(k, row). map fst row = tb_columns t) (tb_rows t) \<and>
     (name = ''ah_schema_meta'' \<longrightarrow> tb_columns t = [''key'', ''value''])"

definition file_ok :: "db_file \<Rightarrow> bool" where
  "file_ok f \<longleftrightarrow> list_all (\<lambda>(name, t). table_ok name t) (f_tables f)"

lemma file_okD: "file_ok f \<Longrightarrow> map_of (f_tables f) name = Some t \<Longrightarrow> table_ok name t"
  by (auto simp: file_ok_def list_all_iff dest: map_of_SomeD)

lemma file_ok_update:
  "file_ok f \<Longrightarrow> table_ok name t \<Longrightarrow> file_ok (f\<lparr>f_tables := AList.update name t (f_tables f)\<rparr>)"
proof -
  have "list_all (\<lambda>(name, t). table_ok name t) xs \<Longrightarrow> table_ok name t \<Longrightarrow>
      list_all (\<lambda>(name, t). table_ok name t) (AList.update name t xs)" for xs
    by (induction xs) auto
  then show "file_ok f \<Longrightarrow> table_ok name t \<Longrightarrow> ?thesis" by (simp add: file_ok_def)
qed

lemma add_column_ok:
  "table_ok name t \<Longrightarrow> c \<notin> set (tb_columns t) \<Longrightarrow> name \<noteq> ''ah_schema_meta'' \<Longrightarrow> table_ok name (add_column c v t)"
  by (auto simp: table_ok_def add_column_def list_all_iff)

fun ddl_typed :: "ddl \<Rightarrow> bool" where
  "ddl_typed (CREATE_TABLE name cols) \<longleftrightarrow> table_ok name \<lparr>tb_columns = cols, tb_rows = []\<rparr>"
| "ddl_typed d \<longleftrightarrow> ddl_ok d"

lemma ddl_typed_all:
  "list_all ddl_typed schema_ddl" "list_all ddl_typed run_indexes" "list_all ddl_typed alter_ddl"
  by (simp_all add: schema_ddl_def run_indexes_def alter_ddl_def lifecycle_columns_def table_ok_def)

lemma exec_ddl_typed: "ddl_typed d \<Longrightarrow> file_ok f \<Longrightarrow> exec_ddl d f = Inr f' \<Longrightarrow> file_ok f'"
proof (induction d f rule: exec_ddl.induct)
  case (1 name cols f)
  then show ?case by (auto simp: file_ok_def split: option.splits)
next
  case (2 name table column f)
  then show ?case by (auto simp: file_ok_def split: option.splits if_splits)
next
  case (3 table column def f)
  then obtain t where t: "map_of (f_tables f) table = Some t" "column \<notin> set (tb_columns t)"
    and f': "f' = f\<lparr>f_tables := AList.update table (add_column column def t) (f_tables f)\<rparr>"
    by (auto split: option.splits if_splits)
  have "table_ok table (add_column column def t)"
    by (rule add_column_ok [OF file_okD [OF 3(2) t(1)] t(2)]) (use 3(1) in simp)
  from file_ok_update [OF 3(2) this] show ?case unfolding f' .
qed

lemma exec_all_typed: "list_all ddl_typed ds \<Longrightarrow> file_ok f \<Longrightarrow> exec_all E i ds f = Inr f' \<Longrightarrow> file_ok f'"
proof (induction ds arbitrary: i f)
  case (Cons d ds)
  then obtain f1 where "exec_ddl d f = Inr f1" "exec_all E (Suc i) ds f1 = Inr f'"
    by (auto dest: step_Inr split: sum.splits)
  then show ?case using Cons.IH [of f1 "Suc i"] Cons.prems(1,2) exec_ddl_typed [of d f f1] by simp
qed simp

lemma insert_meta_typed: "file_ok f \<Longrightarrow> insert_meta k v f = Inr f' \<Longrightarrow> file_ok f'"
  using file_okD [of f "''ah_schema_meta''"]
  by (auto simp: insert_meta_def table_ok_def intro!: file_ok_update split: option.splits if_splits)

lemma add_missing_typed:
  "table \<noteq> ''ah_schema_meta'' \<Longrightarrow> file_ok f \<Longrightarrow> addColumnIfMissingTx E i table c d f = Inr f' \<Longrightarrow> file_ok f'"
  using exec_ddl_typed [of "ADD_COLUMN table c d" f f']
  by (auto simp: addColumnIfMissingTx_def simp del: exec_ddl.simps dest!: step_Inr split: sum.splits if_splits)

lemma record_counts_typed: "file_ok f \<Longrightarrow> record_counts E i ks f = Inr f' \<Longrightarrow> file_ok f'"
proof (induction ks arbitrary: i f)
  case (Cons k ks)
  then obtain f1 n where "insert_meta k (decimal n) f = Inr f1" "record_counts E (i + 2) ks f1 = Inr f'"
    by (auto dest: step_Inr split: sum.splits)
  with Cons insert_meta_typed show ?case by metis
qed simp

lemma identity_typed:
  assumes "migrateRunIdentity E ord f = Inr f'" and "file_ok f"
  shows "file_ok f'"
proof -
  obtain f1 f2 f3 where 1: "addColumnIfMissingTx E 12 ''artifacts'' ''run_id'' (SText []) f = Inr f1"
    and 2: "addColumnIfMissingTx E 14 ''node_terminals'' ''run_id'' (SText []) f1 = Inr f2"
    and 3: "exec_all E 16 run_indexes f2 = Inr f3"
    and 4: "if current_version f \<noteq> [] then f' = f3
         else \<exists>f4. record_counts E 18 (visit ord (map fst (legacy_counts f3))) f3 = Inr f4 \<and>
            insert_meta ''schema_version'' (decimal (nat sqliteSchemaVersion)) f4 = Inr f'"
    using identity_steps [OF assms(1)] by blast
  have "file_ok f2" using add_missing_typed [OF _ assms(2) 1] add_missing_typed [OF _ _ 2] by simp
  then have "file_ok f3" using exec_all_typed [OF ddl_typed_all(2) _ 3] by simp
  then show ?thesis using 4 by (auto intro: record_counts_typed insert_meta_typed split: if_splits)
qed

lemma alter_all_typed: "list_all ddl_typed ds \<Longrightarrow> file_ok f \<Longrightarrow> file_ok (snd (alter_all message E i ds f))"
proof (induction ds arbitrary: i f)
  case (Cons d ds)
  show ?case
  proof (cases "step E i (exec_ddl d f)")
    case (Inr f1)
    then have "file_ok f1" using Cons.prems exec_ddl_typed by (auto dest: step_Inr)
    with Inr show ?thesis using Cons.IH [of f1 "Suc i"] Cons.prems by auto
  qed (use Cons in auto)
qed simp

lemma migrate_typed:
  assumes "file_ok f"
  shows "file_ok (snd (sqliteMigrate message E ord f))"
proof -
  have "file_ok f'" if "migrate_tx E ord f = Inr f'" for f'
    using that assms identity_typed exec_all_typed [OF ddl_typed_all(1), of f E 0]
    by (auto simp: migrate_tx_def split: sum.splits option.splits)
  then show ?thesis using assms alter_all_typed [OF ddl_typed_all(3)] by (auto simp: sqliteMigrate_def split: sum.splits)
qed

section \<open>A migrated file\<close>

fun post :: "ddl \<Rightarrow> db_file \<Rightarrow> bool" where
  "post (CREATE_TABLE name cols) f \<longleftrightarrow> map_of (f_tables f) name \<noteq> None"
| "post (CREATE_INDEX name table column) f \<longleftrightarrow> name \<in> set (f_indexes f)"
| "post (ADD_COLUMN table column def) f \<longleftrightarrow>
     (case map_of (f_tables f) table of Some t \<Rightarrow> column \<in> set (tb_columns t) | None \<Rightarrow> False)"

definition run_columns :: "ddl list" where
  "run_columns = [ADD_COLUMN ''artifacts'' ''run_id'' (SText []), ADD_COLUMN ''node_terminals'' ''run_id'' (SText [])]"

definition migrated :: "db_file \<Rightarrow> bool" where
  "migrated f \<longleftrightarrow>
     list_all (\<lambda>d. post d f) (schema_ddl @ run_columns @ run_indexes @ alter_ddl) \<and>
     current_version f \<noteq> [] \<and> check_version (current_version f) = None"

lemma extends_table:
  "extends f f' \<Longrightarrow> map_of (f_tables f) name = Some t \<Longrightarrow>
     \<exists>t'. map_of (f_tables f') name = Some t' \<and> table_extends name t t'"
  by (simp add: extends_def)

lemma post_extends:
  assumes "post d f" and "extends f f'"
  shows "post d f'"
proof (cases d)
  case (ADD_COLUMN table column def)
  with assms(1) obtain t where "map_of (f_tables f) table = Some t" "column \<in> set (tb_columns t)"
    by (auto split: option.splits)
  moreover from extends_table [OF assms(2) this(1)] obtain t' where
    "map_of (f_tables f') table = Some t'" "table_extends table t t'" by blast
  ultimately show ?thesis
    using ADD_COLUMN set_mono_prefix [of "tb_columns t" "tb_columns t'"] by (auto simp: table_extends_def)
next
  case (CREATE_TABLE name cols)
  with assms show ?thesis using extends_table [OF assms(2), of name] by auto
next
  case (CREATE_INDEX name table column)
  with assms show ?thesis by (auto simp: extends_def)
qed

lemma exec_ddl_post: "exec_ddl d f = Inr f' \<Longrightarrow> post d f'"
  by (cases d) (auto simp: map_add_def update_conv add_column_def split: option.splits if_splits)

lemma exec_all_post:
  "list_all ddl_ok ds \<Longrightarrow> exec_all E i ds f = Inr f' \<Longrightarrow> list_all (\<lambda>d. post d f') ds"
proof (induction ds arbitrary: i f)
  case (Cons d ds)
  from Cons.prems(2) obtain f1 where f1: "exec_ddl d f = Inr f1" "exec_all E (Suc i) ds f1 = Inr f'"
    by (auto dest: step_Inr split: sum.splits)
  have "post d f'"
    using post_extends [OF exec_ddl_post [OF f1(1)] exec_all_extends [OF _ f1(2)]] Cons.prems(1) by simp
  then show ?case using Cons.IH [OF _ f1(2)] Cons.prems(1) by simp
qed simp

lemma add_missing_post: "addColumnIfMissingTx E i table c d f = Inr f' \<Longrightarrow> post (ADD_COLUMN table c d) f'"
  using exec_ddl_post [of "ADD_COLUMN table c d" f f']
  by (auto simp: addColumnIfMissingTx_def step_def split: sum.splits option.splits if_splits)

lemma map_of_prefix: "prefix xs ys \<Longrightarrow> map_of xs k = Some v \<Longrightarrow> map_of ys k = Some v"
  by (auto simp: prefix_def map_add_def)

lemma meta_extends: "meta_value f k = Some v \<Longrightarrow> extends f f' \<Longrightarrow> meta_value f' k = Some v"
  using extends_table [of f f' "''ah_schema_meta''"]
  by (fastforce simp: meta_value_def table_extends_def dest: map_of_prefix split: option.splits)

lemma insert_meta_value: "insert_meta k v f = Inr f' \<Longrightarrow> meta_value f' k = Some v"
proof -
  assume "insert_meta k v f = Inr f'"
  then obtain t where "map_of (tb_rows t) k = None" and
    f': "f' = f\<lparr>f_tables := AList.update ''ah_schema_meta''
      (t\<lparr>tb_rows := tb_rows t @ [(k, [(''key'', SText k), (''value'', SText v)])]\<rparr>) (f_tables f)\<rparr>"
    by (auto simp: insert_meta_def split: option.splits if_splits)
  then show ?thesis by (simp add: meta_value_def update_conv text_of_def map_add_def)
qed

lemma version_2: "decimal (nat sqliteSchemaVersion) = ''2''" "check_version ''2'' = None"
  by (simp_all add: sqliteSchemaVersion_def decimal.simps check_version_def Sscanf_d_def space_runes_def bytes_def
      is_digit_def parse_int64_def Let_def char_of_def bit_0)

lemma current_version_extends:
  "current_version f \<noteq> [] \<Longrightarrow> extends f f' \<Longrightarrow> current_version f' = current_version f"
  by (auto simp: current_version_def dest: meta_extends split: option.splits)

lemma identity_migrated:
  assumes "migrateRunIdentity E ord f = Inr f'"
  shows "list_all (\<lambda>d. post d f') (run_columns @ run_indexes) \<and> current_version f' \<noteq> [] \<and>
     check_version (current_version f') = None"
proof -
  obtain f1 f2 f3 where 0: "check_version (current_version f) = None"
    and 1: "addColumnIfMissingTx E 12 ''artifacts'' ''run_id'' (SText []) f = Inr f1"
    and 2: "addColumnIfMissingTx E 14 ''node_terminals'' ''run_id'' (SText []) f1 = Inr f2"
    and 3: "exec_all E 16 run_indexes f2 = Inr f3"
    and 4: "if current_version f \<noteq> [] then f' = f3
         else \<exists>f4. record_counts E 18 (visit ord (map fst (legacy_counts f3))) f3 = Inr f4 \<and>
            insert_meta ''schema_version'' (decimal (nat sqliteSchemaVersion)) f4 = Inr f'"
    using identity_steps [OF assms] by blast
  have ix: "list_all ddl_ok run_indexes" by (simp add: run_indexes_def)
  have e1: "extends f f1" and e2: "extends f1 f2" using add_missing_extends [OF _ 1] add_missing_extends [OF _ 2] by auto
  have e3: "extends f2 f3" by (rule exec_all_extends [OF ix 3])
  have e4: "extends f3 f'"
    using 4 by (auto dest!: record_counts_extends insert_meta_extends intro: extends_trans split: if_splits)
  have "post (ADD_COLUMN ''artifacts'' ''run_id'' (SText [])) f'"
    by (rule post_extends [OF add_missing_post [OF 1]]) (use e2 e3 e4 extends_trans in blast)
  moreover have "post (ADD_COLUMN ''node_terminals'' ''run_id'' (SText [])) f'"
    by (rule post_extends [OF add_missing_post [OF 2]]) (use e3 e4 extends_trans in blast)
  moreover have "list_all (\<lambda>d. post d f') run_indexes"
    using exec_all_post [OF ix 3] e4 by (auto simp: list_all_iff intro: post_extends)
  moreover have "current_version f' \<noteq> [] \<and> check_version (current_version f') = None"
  proof (cases "current_version f = []")
    case True
    then have "meta_value f' ''schema_version'' = Some ''2''" using 4 insert_meta_value version_2(1) by auto
    then show ?thesis by (simp add: current_version_def version_2)
  next
    case False
    then show ?thesis
      using current_version_extends [OF False] 0 e1 e2 e3 e4 extends_trans by metis
  qed
  ultimately show ?thesis by (simp add: run_columns_def)
qed

text \<open>The driver names a duplicate column in its message, and nothing else has that message.\<close>

definition duplicate_message :: "(sql_error \<Rightarrow> string) \<Rightarrow> bool" where
  "duplicate_message message \<longleftrightarrow> (\<forall>e. isDuplicateColumn message e \<longleftrightarrow> (\<exists>c. e = DuplicateColumn c))"

lemma exec_duplicate: "exec_ddl d f = Inl (DuplicateColumn c) \<Longrightarrow> post d f"
  by (cases d) (auto split: option.splits if_splits)

lemma alter_all_post:
  assumes "duplicate_message message" and "list_all ddl_ok ds" and "alter_all message E i ds f = (None, f')"
  shows "list_all (\<lambda>d. post d f') ds"
  using assms(2,3)
proof (induction ds arbitrary: i f)
  case (Cons d ds)
  have "\<exists>f1. alter_all message E (Suc i) ds f1 = (None, f') \<and> post d f1"
    using Cons.prems(2) assms(1) exec_ddl_post exec_duplicate
    by (fastforce simp: duplicate_message_def step_def split: sum.splits if_splits option.splits)
  then obtain f1 where f1: "alter_all message E (Suc i) ds f1 = (None, f')" "post d f1" by blast
  have "extends f1 f'" using alter_all_extends [of ds f1 message E "Suc i"] Cons.prems(1) f1(1) by simp
  then show ?case using Cons.IH [OF _ f1(1)] Cons.prems(1) post_extends [OF f1(2)] by simp
qed simp

lemma migrate_migrated:
  assumes "duplicate_message message" and "sqliteMigrate message E ord f = (None, f')"
  shows "migrated f'"
proof -
  obtain f1 f2 where 1: "exec_all E 0 schema_ddl f = Inr f1" and 2: "migrateRunIdentity E ord f1 = Inr f2"
    and 3: "alter_all message E 25 alter_ddl f2 = (None, f')"
    using assms(2) by (auto simp: sqliteMigrate_def migrate_tx_def split: sum.splits option.splits)
  have oks: "list_all ddl_ok schema_ddl" "list_all ddl_ok alter_ddl" by (simp_all add: schema_ddl_def alter_ddl_def)
  have e3: "extends f2 f'" using alter_all_extends [OF oks(2), of f2 message E 25] 3 by simp
  have e2: "extends f1 f'" using extends_trans [OF identity_extends [OF 2] e3] .
  have "list_all (\<lambda>d. post d f') schema_ddl"
    using exec_all_post [OF oks(1) 1] e2 by (auto simp: list_all_iff intro: post_extends)
  moreover have "list_all (\<lambda>d. post d f') (run_columns @ run_indexes)"
    using identity_migrated [OF 2] e3 by (auto simp: list_all_iff intro: post_extends)
  moreover have "current_version f' = current_version f2"
    using identity_migrated [OF 2] e3 by (intro current_version_extends) auto
  ultimately show ?thesis
    using identity_migrated [OF 2] alter_all_post [OF assms(1) oks(2) 3] by (auto simp: migrated_def list_all_iff)
qed

section \<open>Opening again\<close>

lemma sound_step [simp]: "step (sound_engine ord) i r = r"
  by (simp add: step_def)

lemma exec_done: "post d f \<Longrightarrow> exec_ddl d f = (case d of ADD_COLUMN _ c _ \<Rightarrow> Inl (DuplicateColumn c) | _ \<Rightarrow> Inr f)"
  by (cases d) (auto split: option.splits)

lemma exec_all_done:
  "list_all (\<lambda>d. post d f \<and> (\<forall>t c v. d \<noteq> ADD_COLUMN t c v)) ds \<Longrightarrow> exec_all (sound_engine ord) i ds f = Inr f"
proof (induction ds arbitrary: i)
  case (Cons d ds)
  then have "exec_ddl d f = Inr f" by (auto simp: exec_done split: ddl.splits)
  then show ?case using Cons by simp
qed simp

lemma alter_all_done:
  assumes "duplicate_message message"
  shows "list_all (\<lambda>d. post d f) ds \<Longrightarrow> alter_all message (sound_engine ord) i ds f = (None, f)"
proof (induction ds arbitrary: i)
  case (Cons d ds)
  then have "exec_ddl d f = Inr f \<or> (\<exists>c. exec_ddl d f = Inl (DuplicateColumn c))"
    by (auto simp: exec_done split: ddl.splits)
  then show ?case using Cons assms by (auto simp: duplicate_message_def)
qed simp

lemma add_missing_done:
  "post (ADD_COLUMN table c d) f \<Longrightarrow> addColumnIfMissingTx (sound_engine ord) i table c d f = Inr f"
  by (auto simp: addColumnIfMissingTx_def split: option.splits)

lemma identity_done:
  assumes "list_all (\<lambda>d. post d f) (run_columns @ run_indexes)" and "current_version f \<noteq> []"
    and "check_version (current_version f) = None"
  shows "migrateRunIdentity (sound_engine ord) ord' f = Inr f"
proof -
  have "post (ADD_COLUMN ''artifacts'' ''run_id'' (SText [])) f" "post (ADD_COLUMN ''node_terminals'' ''run_id'' (SText [])) f"
    using assms(1) by (simp_all add: run_columns_def)
  note add = this [THEN add_missing_done]
  have "exec_all (sound_engine ord) 16 run_indexes f = Inr f"
    by (rule exec_all_done) (use assms(1) in \<open>auto simp: run_indexes_def\<close>)
  then show ?thesis
    using assms(2,3) add
    by (simp add: migrateRunIdentity_def Let_def current_version_def [symmetric] run_indexes_def [symmetric])
qed

lemma migrate_again:
  assumes "duplicate_message message" and "migrated f"
  shows "sqliteMigrate message (sound_engine ord) ord' f = (None, f)"
proof -
  have "exec_all (sound_engine ord) 0 schema_ddl f = Inr f"
    by (rule exec_all_done) (use assms(2) in \<open>auto simp: migrated_def schema_ddl_def\<close>)
  moreover have "migrateRunIdentity (sound_engine ord) ord' f = Inr f"
    using assms(2) by (intro identity_done) (auto simp: migrated_def)
  moreover have "alter_all message (sound_engine ord) 25 alter_ddl f = (None, f)"
    by (rule alter_all_done [OF assms(1)]) (use assms(2) in \<open>simp add: migrated_def\<close>)
  ultimately show ?thesis by (simp add: sqliteMigrate_def migrate_tx_def)
qed

text \<open>A newer or unreadable version is refused before anything is changed.\<close>

lemma migrate_refused:
  assumes "check_version (current_version f) \<noteq> None"
  shows "\<exists>e. sqliteMigrate message E ord f = (Some e, f)"
proof -
  have cur: "current_version f \<noteq> []" using assms by (auto simp: check_version_def)
  have "migrateRunIdentity E ord f1 \<noteq> Inr f2" if "extends f f1" for f1 f2
    using identity_steps [of E ord f1 f2] current_version_extends [OF cur that] assms by auto
  moreover have "extends f f1" if "exec_all E 0 schema_ddl f = Inr f1" for f1
    by (rule exec_all_extends [OF _ that]) (simp add: schema_ddl_def)
  ultimately have "\<exists>e. migrate_tx E ord f = Inl e"
    by (auto simp: migrate_tx_def split: option.splits sum.splits)
  then show ?thesis by (auto simp: sqliteMigrate_def)
qed

end
