(* ===== verification/Sqlite_Open.thy ===== *)
theory Sqlite_Open
  imports Sqlite_Migrate Memory_Store
begin

text \<open>
  A migrated file as the typed tables of the store, the constructors of the two backends, and
  what becomes of rows written before runs had identities.
\<close>

section \<open>From files to tables\<close>

definition text_col :: "string \<Rightarrow> sql_value gomap \<Rightarrow> string" where
  "text_col c row = text_of (map_of row c)"

definition int_col :: "string \<Rightarrow> sql_value gomap \<Rightarrow> int" where
  "int_col c row = (case map_of row c of Some (SInt n) \<Rightarrow> n | _ \<Rightarrow> 0)"

definition null_col :: "string \<Rightarrow> sql_value gomap \<Rightarrow> string option" where
  "null_col c row = (case map_of row c of Some (SText s) \<Rightarrow> Some s | _ \<Rightarrow> None)"

definition artifact_row_of :: "sql_value gomap \<Rightarrow> (string, string) artifact_row" where
  "artifact_row_of row =
     \<lparr>ar_run_id = text_col ''run_id'' row, ar_sample_run_id = text_col ''sample_run_id'' row,
      ar_producer_node_id = text_col ''producer_node_id'' row,
      ar_producer_attempt_id = text_col ''producer_attempt_id'' row, ar_output_name = text_col ''output_name'' row,
      ar_artifact_id = text_col ''artifact_id'' row, ar_digest = text_col ''digest'' row,
      ar_logical_uri = text_col ''logical_uri'' row, ar_node_name = text_col ''node_name'' row,
      ar_uri = text_col ''uri'' row, ar_locations_json = text_col ''locations_json'' row,
      ar_size_bytes = word_of_int (int_col ''size_bytes'' row), ar_created_at = text_col ''created_at'' row\<rparr>"

definition source_row_of :: "sql_value gomap \<Rightarrow> (string, string) source_row" where
  "source_row_of row =
     \<lparr>sr_source_id = text_col ''source_id'' row, sr_artifact_id = text_col ''artifact_id'' row,
      sr_backend_id = text_col ''backend_id'' row, sr_digest = text_col ''digest'' row,
      sr_state = text_col ''state'' row, sr_location_fingerprint = text_col ''location_fingerprint'' row,
      sr_location_json = text_col ''location_json'' row, sr_created_at = text_col ''created_at'' row,
      sr_updated_at = text_col ''updated_at'' row, sr_last_verified_at = text_col ''last_verified_at'' row,
      sr_last_error = text_col ''last_error'' row\<rparr>"

definition terminal_row_of :: "sql_value gomap \<Rightarrow> string terminal_row" where
  "terminal_row_of row =
     \<lparr>tr_run_id = text_col ''run_id'' row, tr_sample_run_id = text_col ''sample_run_id'' row,
      tr_node_id = text_col ''node_id'' row, tr_attempt_id = text_col ''attempt_id'' row,
      tr_terminal_state = text_col ''terminal_state'' row, tr_recorded_at = text_col ''recorded_at'' row\<rparr>"

definition lifecycle_row_of :: "sql_value gomap \<Rightarrow> string lifecycle_row" where
  "lifecycle_row_of row =
     \<lparr>lr_run_id = text_col ''run_id'' row, lr_sample_run_id = text_col ''sample_run_id'' row,
      lr_finalized = int_col ''finalized'' row, lr_finalized_at = null_col ''finalized_at'' row,
      lr_retention_policy_source = text_col ''retention_policy_source'' row,
      lr_retention_duration_ns = int_col ''retention_duration_ns'' row,
      lr_retention_until = null_col ''retention_until'' row, lr_gc_eligible = int_col ''gc_eligible'' row,
      lr_gc_eligible_at = null_col ''gc_eligible_at'' row, lr_gc_blocked_reason = text_col ''gc_blocked_reason'' row,
      lr_terminal_node_count = int_col ''terminal_node_count'' row,
      lr_succeeded_node_count = int_col ''succeeded_node_count'' row,
      lr_failed_node_count = int_col ''failed_node_count'' row,
      lr_canceled_node_count = int_col ''canceled_node_count'' row,
      lr_retained_artifact_count = int_col ''retained_artifact_count'' row,
      lr_retained_artifact_bytes = word_of_int (int_col ''retained_artifact_bytes'' row)\<rparr>"

definition database_of :: "db_file \<Rightarrow> (string, string, string) database" where
  "database_of f =
     \<lparr>tbl_artifacts = on_values artifact_row_of (table_rows f ''artifacts''),
      tbl_artifact_sources = on_values source_row_of (table_rows f ''artifact_sources''),
      tbl_node_terminals = on_values terminal_row_of (table_rows f ''node_terminals''),
      tbl_sample_run_lifecycles = on_values lifecycle_row_of (table_rows f ''sample_run_lifecycles''),
      tbl_run_lifecycles = on_values lifecycle_row_of (table_rows f ''run_lifecycles''),
      tbl_schema_meta = on_values (text_col ''value'') (table_rows f ''ah_schema_meta'')\<rparr>"

section \<open>Constructors\<close>

definition sqliteDSN :: "string \<Rightarrow> string" where
  "sqliteDSN path =
     path @ (if Contains path ''?'' then ''&'' else ''?'') @ ''_txlock=immediate'' @
     ''&_pragma=busy_timeout(5000)&_pragma=journal_mode(WAL)&_pragma=synchronous(NORMAL)&_pragma=foreign_keys(OFF)''"

text \<open>
  What lies outside the program: the outcome of \<^verbatim>\<open>sql.Open\<close> on a data source name, the files the
  driver finds under it (an absent one is empty), the texts of its errors and the engine.
\<close>

record sql_driver =
  dr_open :: "string \<Rightarrow> string option"
  dr_file :: "string \<Rightarrow> db_file"
  dr_message :: "sql_error \<Rightarrow> string"
  dr_engine :: engine

datatype open_error =
    OpenSqlite string
  | Migrate migrate_error
  | UnsupportedDSN string

definition NewSQLiteStore :: "sql_driver \<Rightarrow> iteration \<Rightarrow> string \<Rightarrow>
    (open_error + (string, string, string) database) \<times> db_file" where
  "NewSQLiteStore D ord path =
     (let dsn = sqliteDSN path
      in case dr_open D dsn of
           Some e \<Rightarrow> (Inl (OpenSqlite e), dr_file D dsn)
         | None \<Rightarrow>
             (case sqliteMigrate (dr_message D) (dr_engine D) ord (dr_file D dsn) of
                (Some e, f) \<Rightarrow> (Inl (Migrate e), f)
              | (None, f) \<Rightarrow> (Inr (database_of f), f)))"

datatype opened =
    OpenedMemory MemoryStore
  | OpenedSQLite "(string, string, string) database"

definition OpenStore :: "sql_driver \<Rightarrow> iteration \<Rightarrow> string \<Rightarrow> open_error + opened" where
  "OpenStore D ord dsn =
     (if dsn = [] \<or> dsn = ''memory'' then Inr (OpenedMemory NewMemoryStore)
      else if HasPrefix dsn ''sqlite:'' then
        (case fst (NewSQLiteStore D ord (drop 7 dsn)) of
           Inl e \<Rightarrow> Inl e
         | Inr db \<Rightarrow> Inr (OpenedSQLite db))
      else Inl (UnsupportedDSN dsn))"

text \<open>A store is opened only on a migrated file, and a refused file is left alone.\<close>

lemma open_refused:
  assumes "check_version (current_version (dr_file D (sqliteDSN path))) \<noteq> None"
  shows "\<exists>e. NewSQLiteStore D ord path = (Inl e, dr_file D (sqliteDSN path))"
  using migrate_refused [OF assms, of "dr_message D" "dr_engine D" ord]
  by (auto simp: NewSQLiteStore_def Let_def split: option.splits)

section \<open>Rows of an older file\<close>

text \<open>
  The run of a row, which is the empty one where the column is missing, and the runs of a table.
  A migrated table has the rows it had, each with the run it had.
\<close>

definition row_run :: "sql_value gomap \<Rightarrow> sql_value" where
  "row_run row = (case map_of row ''run_id'' of None \<Rightarrow> SText [] | Some v \<Rightarrow> v)"

definition unresolved :: "db_file \<Rightarrow> string \<Rightarrow> nat" where
  "unresolved f name = length (filter (\<lambda>(k, row). row_run row = SText []) (table_rows f name))"

definition file_runs :: "db_file \<Rightarrow> string \<Rightarrow> string list" where
  "file_runs f name = filter (\<lambda>r. r \<noteq> []) (map (\<lambda>(k, row). text_col ''run_id'' row) (table_rows f name))"

definition run_extends :: "sql_value gomap gomap \<Rightarrow> sql_value gomap gomap \<Rightarrow> bool" where
  "run_extends rs rs' \<longleftrightarrow>
     list_all2 (\<lambda>(k, row) (k', row'). k' = k \<and> map_of row' ''run_id'' = Some (row_run row)) rs rs'"

lemma run_extends_rows: "run_extends rs rs' \<Longrightarrow> rows_extend rs' rs'' \<Longrightarrow> run_extends rs rs''"
  unfolding run_extends_def rows_extend_def
  by (erule (1) list_all2_trans [rotated]) (auto dest: map_of_prefix)

lemma add_run:
  assumes "table_ok name t"
  shows "run_extends (tb_rows t) (tb_rows (if ''run_id'' \<in> set (tb_columns t) then t else add_column ''run_id'' (SText []) t))"
proof -
  have cols: "fst ` set row = set (tb_columns t)" if "(k, row) \<in> set (tb_rows t)" for k row
    using assms that unfolding table_ok_def list_all_iff by (metis (mono_tags, lifting) case_prodD set_map)
  have "map_of row ''run_id'' = Some (row_run row)" if "(k, row) \<in> set (tb_rows t)" "''run_id'' \<in> set (tb_columns t)" for k row
    using cols [OF that(1)] that(2) by (auto simp: row_run_def map_of_eq_None_iff split: option.split)
  moreover have "map_of row ''run_id'' = None" if "(k, row) \<in> set (tb_rows t)" "''run_id'' \<notin> set (tb_columns t)" for k row
    using cols [OF that(1)] that(2) by (simp add: map_of_eq_None_iff)
  ultimately show ?thesis
    by (auto simp: run_extends_def add_column_def list_all2_map2 row_run_def map_add_def list.rel_refl_strong
        intro!: list.rel_refl_strong)
qed

lemma add_missing_table:
  assumes "addColumnIfMissingTx E i table c v f = Inr f'" and "map_of (f_tables f) name = Some t"
  shows "map_of (f_tables f') name = Some (if name = table \<and> c \<notin> set (tb_columns t) then add_column c v t else t)"
  using assms by (auto simp: addColumnIfMissingTx_def update_conv dest!: step_Inr split: sum.splits option.splits if_splits)

lemma schema_keeps_rows:
  "exec_all E i ds f = Inr f' \<Longrightarrow> list_all (\<lambda>d. \<forall>t c v. d \<noteq> ADD_COLUMN t c v) ds \<Longrightarrow>
     table_rows f' name = table_rows f name"
proof (induction ds arbitrary: i f)
  case (Cons d ds)
  from Cons.prems(1) obtain f1 where f1: "exec_ddl d f = Inr f1" "exec_all E (Suc i) ds f1 = Inr f'"
    by (auto dest: step_Inr split: sum.splits)
  have "table_rows f1 name = table_rows f name"
    using f1(1) Cons.prems(2) by (cases d) (auto simp: table_rows_def map_add_def split: option.splits if_splits)
  then show ?case using Cons.IH [OF f1(2)] Cons.prems(2) by simp
qed simp

lemma meta_value_rows:
  "meta_value f k = map_option (\<lambda>row. text_of (map_of row ''value'')) (map_of (table_rows f ''ah_schema_meta'') k)"
  by (simp add: meta_value_def table_rows_def split: option.split)

lemma extends_rows:
  assumes "extends f f'" and "map_of (f_tables f) name = Some t" and "name \<noteq> ''ah_schema_meta''"
  shows "rows_extend (table_rows f name) (table_rows f' name)"
  using extends_table [OF assms(1,2)] assms(2,3) by (auto simp: table_extends_def table_rows_def)

text \<open>What the migration of run identities leaves: a file with the runs of before, and the counts.\<close>

definition runs_kept :: "db_file \<Rightarrow> db_file \<Rightarrow> bool" where
  "runs_kept f f' \<longleftrightarrow>
     run_extends (table_rows f ''artifacts'') (table_rows f' ''artifacts'') \<and>
     run_extends (table_rows f ''node_terminals'') (table_rows f' ''node_terminals'') \<and>
     rows_extend (table_rows f ''sample_run_lifecycles'') (table_rows f' ''sample_run_lifecycles'')"

lemma runs_kept_extends:
  assumes "runs_kept f f'" and "extends f' f''"
    and "list_all (\<lambda>name. map_of (f_tables f') name \<noteq> None) [''artifacts'', ''node_terminals'', ''sample_run_lifecycles'']"
  shows "runs_kept f f''"
  using assms extends_rows [OF assms(2)]
  by (auto simp: runs_kept_def intro: run_extends_rows rows_extend_trans)

lemma columns_added:
  assumes "addColumnIfMissingTx E 12 ''artifacts'' ''run_id'' (SText []) f = Inr f1"
    and "addColumnIfMissingTx E 14 ''node_terminals'' ''run_id'' (SText []) f1 = Inr f2" and "file_ok f"
    and "list_all (\<lambda>name. map_of (f_tables f) name \<noteq> None) [''artifacts'', ''node_terminals'', ''sample_run_lifecycles'']"
  shows "runs_kept f f2"
    "list_all (\<lambda>name. map_of (f_tables f2) name \<noteq> None) [''artifacts'', ''node_terminals'', ''sample_run_lifecycles'']"
proof -
  obtain a n l where t: "map_of (f_tables f) ''artifacts'' = Some a" "map_of (f_tables f) ''node_terminals'' = Some n"
    "map_of (f_tables f) ''sample_run_lifecycles'' = Some l"
    using assms(4) by auto
  note t2 = t [THEN add_missing_table [OF assms(1)], THEN add_missing_table [OF assms(2)]]
  show "list_all (\<lambda>name. map_of (f_tables f2) name \<noteq> None) [''artifacts'', ''node_terminals'', ''sample_run_lifecycles'']"
    using t2 by simp
  show "runs_kept f f2"
    using t t2 add_run [OF file_okD [OF assms(3) t(1)]] add_run [OF file_okD [OF assms(3) t(2)]]
    by (simp add: runs_kept_def table_rows_def if_distrib [of "\<lambda>c. \<not> c"] split: if_splits)
qed

lemma record_counts_value:
  "record_counts E i ks f = Inr f' \<Longrightarrow> k \<in> set ks \<Longrightarrow>
     \<exists>f1. extends f f1 \<and> meta_value f' k = Some (decimal (the (map_of (legacy_counts f1) k)))"
proof (induction ks arbitrary: i f)
  case (Cons k0 ks)
  from Cons.prems(1) obtain f1 where
    f1: "insert_meta k0 (decimal (the (map_of (legacy_counts f) k0))) f = Inr f1" "record_counts E (i + 2) ks f1 = Inr f'"
    by (auto simp: step_def split: sum.splits option.splits)
  show ?case
  proof (cases "k = k0")
    case True
    have "meta_value f' k0 = Some (decimal (the (map_of (legacy_counts f) k0)))"
      by (rule meta_extends [OF insert_meta_value [OF f1(1)] record_counts_extends [OF f1(2)]])
    then show ?thesis using True extends_refl by blast
  next
    case False
    then show ?thesis
      using Cons.IH [OF f1(2)] Cons.prems(2) insert_meta_extends [OF f1(1)] extends_trans by fastforce
  qed
qed simp

lemma run_extends_unresolved: "run_extends (table_rows f name) (table_rows f' name) \<Longrightarrow> length (legacy_rows f' name) = unresolved f name"
proof -
  have "list_all2 (\<lambda>(k, row) (k', row'). k' = k \<and> map_of row' ''run_id'' = Some (row_run row)) rs rs' \<Longrightarrow>
      length (filter (\<lambda>(k, row). map_of row ''run_id'' = Some (SText [])) rs') =
      length (filter (\<lambda>(k, row). row_run row = SText []) rs)" for rs rs'
    by (induction rule: list_all2_induct) auto
  then show "run_extends (table_rows f name) (table_rows f' name) \<Longrightarrow> length (legacy_rows f' name) = unresolved f name"
    by (simp add: run_extends_def legacy_rows_def unresolved_def)
qed

definition dispositions :: "db_file \<Rightarrow> nat gomap" where
  "dispositions f =
     [(''legacy_unresolved_artifacts'', unresolved f ''artifacts''),
      (''legacy_unresolved_node_terminals'', unresolved f ''node_terminals''),
      (''legacy_unresolved_sample_run_lifecycles'', length (table_rows f ''sample_run_lifecycles''))]"

lemma runs_kept_counts: "runs_kept f f' \<Longrightarrow> legacy_counts f' = dispositions f"
  by (auto simp: runs_kept_def legacy_counts_def dispositions_def run_extends_unresolved rows_extend_def
      dest: list_all2_lengthD)

lemma migrate_runs:
  assumes "sqliteMigrate message E ord f = (None, f')" and "file_ok f"
  shows "runs_kept f f'"
    "meta_value f ''schema_version'' = None \<Longrightarrow> map_of (dispositions f) k = Some n \<Longrightarrow> meta_value f' k = Some (decimal n)"
proof -
  let ?tables = "[''artifacts'', ''node_terminals'', ''sample_run_lifecycles'']"
  obtain f1 f2 where 1: "exec_all E 0 schema_ddl f = Inr f1" and 2: "migrateRunIdentity E ord f1 = Inr f2"
    and 3: "alter_all message E 25 alter_ddl f2 = (None, f')"
    using assms(1) by (auto simp: sqliteMigrate_def migrate_tx_def split: sum.splits option.splits)
  have creates: "list_all (\<lambda>d. \<forall>t c v. d \<noteq> ADD_COLUMN t c v) schema_ddl" "list_all ddl_ok schema_ddl"
    by (simp_all add: schema_ddl_def)
  note rows = schema_keeps_rows [OF 1 creates(1)]
  have ok1: "file_ok f1" by (rule exec_all_typed [OF ddl_typed_all(1) assms(2) 1])
  have t1: "list_all (\<lambda>name. map_of (f_tables f1) name \<noteq> None) ?tables"
    using exec_all_post [OF creates(2) 1] by (simp add: schema_ddl_def)
  obtain g1 g2 g3 where g: "addColumnIfMissingTx E 12 ''artifacts'' ''run_id'' (SText []) f1 = Inr g1"
    "addColumnIfMissingTx E 14 ''node_terminals'' ''run_id'' (SText []) g1 = Inr g2" "exec_all E 16 run_indexes g2 = Inr g3"
    and g4: "if current_version f1 \<noteq> [] then f2 = g3
         else \<exists>g4. record_counts E 18 (visit ord (map fst (legacy_counts g3))) g3 = Inr g4 \<and>
            insert_meta ''schema_version'' (decimal (nat sqliteSchemaVersion)) g4 = Inr f2"
    using identity_steps [OF 2] by blast
  have kept: "runs_kept f g" if "extends g2 g" for g
    using runs_kept_extends [OF columns_added(1) [OF g(1,2) ok1 t1] that columns_added(2) [OF g(1,2) ok1 t1]]
    by (simp add: runs_kept_def rows)
  have e23: "extends g2 g3" by (rule exec_all_extends [OF _ g(3)]) (simp add: run_indexes_def)
  have e2: "extends f2 f'" using alter_all_extends [of alter_ddl f2 message E 25] 3 by (simp add: alter_ddl_def)
  have "extends g3 f2"
    using g4 by (auto dest!: record_counts_extends insert_meta_extends intro: extends_trans split: if_splits)
  then show "runs_kept f f'" using kept extends_trans [OF e23 extends_trans [OF _ e2]] by blast
  assume fresh: "meta_value f ''schema_version'' = None" and k: "map_of (dispositions f) k = Some n"
  have "current_version f1 = []" using fresh by (simp add: current_version_def meta_value_rows rows)
  then obtain g4 where g4: "record_counts E 18 (visit ord (map fst (legacy_counts g3))) g3 = Inr g4"
    "insert_meta ''schema_version'' (decimal (nat sqliteSchemaVersion)) g4 = Inr f2"
    using g4 by auto
  have "k \<in> set (visit ord (map fst (legacy_counts g3)))"
    using k by (auto simp: runs_kept_counts [OF kept [OF e23]] simp flip: dom_map_of_conv_image_fst)
  from record_counts_value [OF g4(1) this] obtain h where "extends g3 h"
    "meta_value g4 k = Some (decimal (the (map_of (legacy_counts h) k)))" by blast
  then have "meta_value g4 k = Some (decimal n)"
    using runs_kept_counts [OF kept [OF extends_trans [OF e23]]] k by simp
  then show "meta_value f' k = Some (decimal n)"
    using meta_extends insert_meta_extends [OF g4(2)] e2 by blast
qed

section \<open>What a migrated file serves\<close>

lemma run_extends_runs:
  assumes "run_extends (table_rows f name) (table_rows f' name)" and "(k, row) \<in> set (table_rows f' name)"
    and "text_col ''run_id'' row \<noteq> []"
  shows "text_col ''run_id'' row \<in> set (file_runs f name)"
proof -
  obtain row0 where "(k, row0) \<in> set (table_rows f name)" "map_of row ''run_id'' = Some (row_run row0)"
    using assms(1,2) unfolding run_extends_def by (fastforce simp: list_all2_conv_all_nth in_set_conv_nth)
  with assms(3) show ?thesis
    by (force simp: file_runs_def text_col_def text_of_def row_run_def split: option.splits sql_value.splits)
qed

text \<open>The artifact an answer comes from, and the artifact a source belongs to.\<close>

lemma scan_rows_set: "scan_rows scan rs = Inr xs \<Longrightarrow> x \<in> set xs \<Longrightarrow> \<exists>r \<in> set rs. scan r = Inr x"
  by (induction rs arbitrary: xs) (auto split: sum.splits)

lemma scan_first_set: "scan_first scan rs = Inr (Some x) \<Longrightarrow> \<exists>r \<in> set rs. scan r = Inr x"
  by (auto simp: scan_first_def split: list.splits sum.splits)

lemma scan_keeps:
  "scanArtifact C r = Inr a \<Longrightarrow> a_RunID a = ar_run_id r"
  "scanSource C r' = Inr s \<Longrightarrow> s_ArtifactID s = sr_artifact_id r'"
  by (auto simp: scanArtifact_def scanSource_def split: option.splits)

lemma on_query_Inr: "on_query E r = Inr x \<Longrightarrow> r = Inr x"
  by (auto simp: on_query_def split: option.splits)

lemma select_artifacts_set:
  "r \<in> set (select_artifacts E db cond) \<Longrightarrow> r \<in> snd ` set (tbl_artifacts db) \<and> ar_run_id r \<noteq> []"
  using range_map_values by (fastforce simp: select_artifacts_def)

lemma artifact_reads:
  "sq_GetArtifact E C db r n att out = Inr (Some a) \<Longrightarrow>
     \<exists>row \<in> snd ` set (tbl_artifacts db). ar_run_id row \<noteq> [] \<and> a_RunID a = ar_run_id row"
  "sq_GetArtifactByID E C db aid = Inr (Some a) \<Longrightarrow>
     \<exists>row \<in> snd ` set (tbl_artifacts db). ar_run_id row \<noteq> [] \<and> a_RunID a = ar_run_id row"
  "listArtifactsWhere E C db cond = Inr as \<Longrightarrow> a \<in> set as \<Longrightarrow>
     \<exists>row \<in> snd ` set (tbl_artifacts db). ar_run_id row \<noteq> [] \<and> a_RunID a = ar_run_id row"
proof -
  assume "sq_GetArtifact E C db r n att out = Inr (Some a)"
  then show "\<exists>row \<in> snd ` set (tbl_artifacts db). ar_run_id row \<noteq> [] \<and> a_RunID a = ar_run_id row"
    by (auto simp: sq_GetArtifact_def dest!: on_query_Inr scan_first_set dest: scan_keeps map_of_SomeD
        split: option.splits if_splits intro!: bexI image_eqI)
next
  assume "sq_GetArtifactByID E C db aid = Inr (Some a)"
  then show "\<exists>row \<in> snd ` set (tbl_artifacts db). ar_run_id row \<noteq> [] \<and> a_RunID a = ar_run_id row"
    using select_artifacts_set scan_keeps(1)
    by (fastforce simp: sq_GetArtifactByID_def dest!: on_query_Inr scan_first_set)
next
  assume "listArtifactsWhere E C db cond = Inr as" "a \<in> set as"
  then show "\<exists>row \<in> snd ` set (tbl_artifacts db). ar_run_id row \<noteq> [] \<and> a_RunID a = ar_run_id row"
    using select_artifacts_set scan_keeps(1)
    by (fastforce simp: listArtifactsWhere_def dest!: on_query_Inr scan_rows_set)
qed

lemma source_reads:
  "sq_GetArtifactSource E C db sid = Inr (Some s) \<Longrightarrow> liveSourceFilter db (s_ArtifactID s)"
  "sq_ListArtifactSources E C db aid = Inr ss \<Longrightarrow> s \<in> set ss \<Longrightarrow> liveSourceFilter db (s_ArtifactID s)"
  using scan_keeps(2) [of C _ s]
  by (auto simp: sq_GetArtifactSource_def sq_ListArtifactSources_def dest!: on_query_Inr scan_first_set scan_rows_set
      split: option.splits if_splits)

lemma terminal_reads:
  "sq_GetNodeTerminal E C db r n att = Inr (Some t) \<Longrightarrow>
     \<exists>row \<in> snd ` set (tbl_node_terminals db). tr_run_id row \<noteq> [] \<and> t_RunID t = tr_run_id row"
  "sq_ListNodeTerminalsByRun E C db r = Inr ts \<Longrightarrow> t \<in> set ts \<Longrightarrow>
     \<exists>row \<in> snd ` set (tbl_node_terminals db). tr_run_id row \<noteq> [] \<and> t_RunID t = tr_run_id row"
proof -
  assume "sq_GetNodeTerminal E C db r n att = Inr (Some t)"
  then show "\<exists>row \<in> snd ` set (tbl_node_terminals db). tr_run_id row \<noteq> [] \<and> t_RunID t = tr_run_id row"
    by (force simp: sq_GetNodeTerminal_def scanTerminal_def dest!: on_query_Inr dest: map_of_SomeD
        split: option.splits if_splits)
next
  assume "sq_ListNodeTerminalsByRun E C db r = Inr ts" "t \<in> set ts"
  then show "\<exists>row \<in> snd ` set (tbl_node_terminals db). tr_run_id row \<noteq> [] \<and> t_RunID t = tr_run_id row"
    using range_map_values by (fastforce simp: sq_ListNodeTerminalsByRun_def scanTerminal_def dest!: on_query_Inr)
qed

text \<open>So an answer on a migrated file is about a run the file had before.\<close>

lemma served_runs:
  assumes "runs_kept f f'"
  shows "\<exists>row \<in> snd ` set (tbl_artifacts (database_of f')). ar_run_id row \<noteq> [] \<and> r = ar_run_id row \<Longrightarrow>
      r \<in> set (file_runs f ''artifacts'')"
    "\<exists>row \<in> snd ` set (tbl_node_terminals (database_of f')). tr_run_id row \<noteq> [] \<and> r = tr_run_id row \<Longrightarrow>
      r \<in> set (file_runs f ''node_terminals'')"
    "liveSourceFilter (database_of f') i \<Longrightarrow>
      \<exists>(k, row) \<in> set (table_rows f' ''artifacts''). text_col ''artifact_id'' row = i \<and>
        text_col ''run_id'' row \<in> set (file_runs f ''artifacts'')"
proof -
  have kept: "run_extends (table_rows f ''artifacts'') (table_rows f' ''artifacts'')"
    "run_extends (table_rows f ''node_terminals'') (table_rows f' ''node_terminals'')"
    using assms by (simp_all add: runs_kept_def)
  show "\<exists>row \<in> snd ` set (tbl_artifacts (database_of f')). ar_run_id row \<noteq> [] \<and> r = ar_run_id row \<Longrightarrow>
      r \<in> set (file_runs f ''artifacts'')"
    using run_extends_runs [OF kept(1)] by (auto simp: database_of_def on_values_def artifact_row_of_def)
  show "\<exists>row \<in> snd ` set (tbl_node_terminals (database_of f')). tr_run_id row \<noteq> [] \<and> r = tr_run_id row \<Longrightarrow>
      r \<in> set (file_runs f ''node_terminals'')"
    using run_extends_runs [OF kept(2)] by (auto simp: database_of_def on_values_def terminal_row_of_def)
  show "liveSourceFilter (database_of f') i \<Longrightarrow>
      \<exists>(k, row) \<in> set (table_rows f' ''artifacts''). text_col ''artifact_id'' row = i \<and>
        text_col ''run_id'' row \<in> set (file_runs f ''artifacts'')"
    using run_extends_runs [OF kept(1)]
    by (fastforce simp: liveSourceFilter_def list_ex_iff database_of_def on_values_def artifact_row_of_def)
qed

end
