(* ===== verification/Demo_File.thy ===== *)
theory Demo_File
  imports Sqlite_Open
begin

text \<open>A file as a binary before run identities left it, and a driver that opens it, for the witnesses.\<close>

definition demo_message :: "sql_error \<Rightarrow> string" where
  "demo_message e =
     (case e of
        DuplicateColumn c \<Rightarrow> ''SQL logic error: duplicate column name: '' @ c
      | _ \<Rightarrow> ''SQL logic error'')"

definition demo_old_table :: sql_table where
  "demo_old_table =
     \<lparr>tb_columns = [''key'', ''sample_run_id'', ''artifact_id'', ''digest''],
      tb_rows = [(''s1/n1'', [(''key'', SText ''s1/n1''), (''sample_run_id'', SText ''s1''),
        (''artifact_id'', SText ''a1''), (''digest'', SText ''sha256:d'')])]\<rparr>"

definition demo_old_sources :: sql_table where
  "demo_old_sources =
     \<lparr>tb_columns = [''source_id'', ''artifact_id'', ''state''],
      tb_rows = [(''src-1'', [(''source_id'', SText ''src-1''), (''artifact_id'', SText ''a1''), (''state'', SText ''ready'')])]\<rparr>"

definition demo_file :: db_file where
  "demo_file = \<lparr>f_tables = [(''artifacts'', demo_old_table), (''artifact_sources'', demo_old_sources)], f_indexes = []\<rparr>"

definition demo_newer :: db_file where
  "demo_newer = \<lparr>f_tables = [(''ah_schema_meta'', \<lparr>tb_columns = [''key'', ''value''],
     tb_rows = [(''schema_version'', [(''key'', SText ''schema_version''), (''value'', SText ''3'')])]\<rparr>)],
     f_indexes = []\<rparr>"

lemma demo_duplicate: "duplicate_message demo_message"
proof -
  have "Contains (''SQL logic error: duplicate column name: '' @ c) ''duplicate column name:''" for c
    by (simp add: Contains_iff exI [of _ "''SQL logic error: ''"])
  moreover have "\<not> Contains ''SQL logic error'' ''duplicate column name:''" by simp
  ultimately show ?thesis
    by (auto simp: duplicate_message_def isDuplicateColumn_def demo_message_def split: sql_error.splits)
qed

lemma demo_old: "file_ok demo_file" "file_runs demo_file ''artifacts'' = []"
  "map_of (dispositions demo_file) ''legacy_unresolved_artifacts'' = Some 1" "meta_value demo_file ''schema_version'' = None"
  by (simp_all add: file_ok_def table_ok_def demo_old_table_def demo_old_sources_def demo_file_def meta_value_def file_runs_def table_rows_def
      text_col_def text_of_def dispositions_def unresolved_def row_run_def)

lemma demo_migrates: "fst (sqliteMigrate demo_message (sound_engine insertion_order) insertion_order demo_file) = None"
  by (simp add: sqliteMigrate_def migrate_tx_def schema_ddl_def demo_file_def demo_old_table_def demo_old_sources_def migrateRunIdentity_def
      addColumnIfMissingTx_def meta_value_def check_version_def add_column_def legacy_counts_def insert_meta_def
      alter_ddl_def isDuplicateColumn_def demo_message_def)

end
