(* ===== verification/Grpc.thy ===== *)
theory Grpc
  imports System Go_Time
begin

text \<open>
  \<^verbatim>\<open>pkg/resolver/grpc.go\<close>: the gRPC front end.  The messages of \<^verbatim>\<open>ah_v1.proto\<close> are records; a
  message pointer that may be nil is an option, and a getter on nil gives the zero value.  A
  handler returns the status code and the message of the error, or the response, together with
  the new service.
\<close>

section \<open>Names of the enumerations\<close>

fun AvailabilityState_string :: "AvailabilityState \<Rightarrow> string" where
  "AvailabilityState_string LOCAL_ONLY = ''LOCAL_ONLY''"
| "AvailabilityState_string REMOTE_ONLY = ''REMOTE_ONLY''"
| "AvailabilityState_string BOTH = ''BOTH''"
| "AvailabilityState_string DELETED = ''DELETED''"
| "AvailabilityState_string UNAVAILABLE_STATE = ''UNAVAILABLE''"

fun ResolutionStatus_string :: "ResolutionStatus \<Rightarrow> string" where
  "ResolutionStatus_string RESOLVED = ''RESOLVED''"
| "ResolutionStatus_string PENDING = ''PENDING''"
| "ResolutionStatus_string MISSING = ''MISSING''"
| "ResolutionStatus_string PRODUCER_FAILED = ''PRODUCER_FAILED''"
| "ResolutionStatus_string POLICY_BLOCKED = ''POLICY_BLOCKED''"
| "ResolutionStatus_string DIGEST_MISMATCH = ''DIGEST_MISMATCH''"
| "ResolutionStatus_string GC_EXPIRED = ''GC_EXPIRED''"
| "ResolutionStatus_string UNAVAILABLE = ''UNAVAILABLE''"

fun ResolutionDecision_string :: "ResolutionDecision \<Rightarrow> string" where
  "ResolutionDecision_string DecLocalReuse = ''local_reuse''"
| "ResolutionDecision_string DecRemoteFetch = ''remote_fetch''"
| "ResolutionDecision_string DecUnavailable = ''unavailable''"
| "ResolutionDecision_string DecProducerFailed = ''producer_failed''"

fun PlacementIntentMode_string :: "PlacementIntentMode \<Rightarrow> string" where
  "PlacementIntentMode_string PlaceNone = ''none''"
| "PlacementIntentMode_string PreferredNode = ''preferred_node''"
| "PlacementIntentMode_string RequiredNode = ''required_node''"

fun MaterializationMode_string :: "MaterializationMode \<Rightarrow> string" where
  "MaterializationMode_string MatNone = ''none''"
| "MaterializationMode_string LocalReuse = ''local_reuse''"
| "MaterializationMode_string RemoteFetch = ''remote_fetch''"

lemma AvailabilityState_string_inj: "inj AvailabilityState_string"
proof (rule injI)
  show "x = y" if "AvailabilityState_string x = AvailabilityState_string y" for x y
    using that by (cases x; cases y) simp_all
qed

lemma ResolutionStatus_string_inj: "inj ResolutionStatus_string"
proof (rule injI)
  show "x = y" if "ResolutionStatus_string x = ResolutionStatus_string y" for x y
    using that by (cases x; cases y) simp_all
qed

lemma ResolutionDecision_string_inj: "inj ResolutionDecision_string"
proof (rule injI)
  show "x = y" if "ResolutionDecision_string x = ResolutionDecision_string y" for x y
    using that by (cases x; cases y) simp_all
qed

lemma PlacementIntentMode_string_inj: "inj PlacementIntentMode_string"
proof (rule injI)
  show "x = y" if "PlacementIntentMode_string x = PlacementIntentMode_string y" for x y
    using that by (cases x; cases y) simp_all
qed

lemma MaterializationMode_string_inj: "inj MaterializationMode_string"
proof (rule injI)
  show "x = y" if "MaterializationMode_string x = MaterializationMode_string y" for x y
    using that by (cases x; cases y) simp_all
qed

lemmas names_inj = AvailabilityState_string_inj ResolutionStatus_string_inj
  ResolutionDecision_string_inj PlacementIntentMode_string_inj MaterializationMode_string_inj

section \<open>Status codes\<close>

datatype code = NotFound | InvalidArgument | AlreadyExists | FailedPrecondition | Internal

type_synonym status = "code \<times> string"

definition status_code :: "service_error \<Rightarrow> code" where
  "status_code err =
     (if errors_Is err ErrNotFound then NotFound
      else if errors_Is err ErrInvalidArgument then InvalidArgument
      else if errors_Is err ErrAlreadyExists then AlreadyExists
      else if errors_Is err ErrFailedPrecondition then FailedPrecondition
      else Internal)"

definition toGRPCError :: "(service_error \<Rightarrow> string) \<Rightarrow> service_error \<Rightarrow> status" where
  "toGRPCError text err = (status_code err, text err)"

section \<open>Messages\<close>

text \<open>The oneof of a location; the inner message may be nil.\<close>

datatype pb_backend =
    PbNodeLocal "(string \<times> string) option"
  | PbHttp "string option"

record pb_location =
  pb_Backend :: "pb_backend option"

definition pb_node_name :: "(string \<times> string) option \<Rightarrow> string" where
  "pb_node_name m = (case m of Some (n, p) \<Rightarrow> n | None \<Rightarrow> [])"

definition pb_path :: "(string \<times> string) option \<Rightarrow> string" where
  "pb_path m = (case m of Some (n, p) \<Rightarrow> p | None \<Rightarrow> [])"

definition pb_uri :: "string option \<Rightarrow> string" where
  "pb_uri m = (case m of Some u \<Rightarrow> u | None \<Rightarrow> [])"

record pb_artifact =
  pa_SampleRunId :: string
  pa_ProducerNodeId :: string
  pa_OutputName :: string
  pa_ArtifactId :: string
  pa_Digest :: string
  pa_NodeName :: string
  pa_Uri :: string
  pa_SizeBytes :: "64 word"
  pa_ProducerAttemptId :: string
  pa_LogicalUri :: string
  pa_Locations :: "pb_location option list"
  pa_RunId :: string

record pb_source =
  ps_SourceId :: string
  ps_ArtifactId :: string
  ps_BackendId :: string
  ps_Digest :: string
  ps_State :: string
  ps_LocationFingerprint :: string
  ps_Location :: "pb_location option"
  ps_LastVerifiedAt :: string
  ps_LastError :: string

record pb_binding =
  pb_BindingName :: string
  pb_SampleRunId :: string
  pb_ChildNodeId :: string
  pb_ChildInputName :: string
  pb_ProducerNodeId :: string
  pb_ProducerOutputName :: string
  pb_ConsumePolicy :: string
  pb_Required :: bool
  pb_ExpectedDigest :: string
  pb_ArtifactId :: string
  pb_ProducerAttemptId :: string
  pb_ChildAttemptId :: string
  pb_RunId :: string

record pb_plan =
  pp_Mode :: string
  pp_Uri :: string
  pp_ExpectedDigest :: string
  pp_ExpectedSizeBytes :: "64 word"
  pp_SourceLocation :: "pb_location option"
  pp_LocalPath :: string

record pb_candidate =
  pc_Priority :: "32 word"
  pc_Mode :: string
  pc_SourceRef :: string
  pc_ExpectedDigest :: string
  pc_ExpectedSizeBytes :: "64 word"
  pc_LocalPath :: string
  pc_SourceLocation :: "pb_location option"
  pc_Uri :: string
  pc_Conditions :: "MaterializationCondition list"

record pb_resolved =
  pr_ResolutionStatus :: string
  pr_Decision :: string
  pr_Placement :: "string \<times> string"
  pr_Plan :: pb_plan
  pr_Reason :: string
  pr_Retryable :: bool
  pr_Candidates :: "pb_candidate list"

record pb_lifecycle =
  pl_RunId :: string
  pl_SampleRunId :: string
  pl_Finalized :: bool
  pl_FinalizedAt :: string
  pl_RetentionPolicySource :: string
  pl_RetentionDuration :: string
  pl_RetentionUntil :: string
  pl_GcEligible :: bool
  pl_GcEligibleAt :: string
  pl_GcBlockedReason :: string
  pl_TerminalNodeCount :: "32 word"
  pl_SucceededNodeCount :: "32 word"
  pl_FailedNodeCount :: "32 word"
  pl_CanceledNodeCount :: "32 word"
  pl_RetainedArtifactCount :: "32 word"
  pl_RetainedArtifactBytes :: "64 word"

section \<open>Conversions\<close>

definition backend_to_domain :: "pb_backend option \<Rightarrow> Location" where
  "backend_to_domain backend =
     (case backend of
        Some (PbNodeLocal m) \<Rightarrow>
          \<lparr>NodeLocal = Some \<lparr>nl_NodeName = pb_node_name m, nl_Path = pb_path m\<rparr>, HTTP = None\<rparr>
      | Some (PbHttp m) \<Rightarrow> \<lparr>NodeLocal = None, HTTP = Some \<lparr>h_URI = pb_uri m, h_Headers = []\<rparr>\<rparr>
      | None \<Rightarrow> zero_location)"

definition grpcLocationToDomain :: "pb_location option \<Rightarrow> Location" where
  "grpcLocationToDomain location =
     (case location of None \<Rightarrow> zero_location | Some l \<Rightarrow> backend_to_domain (pb_Backend l))"

text \<open>A nil element of the list is skipped; an element without a backend is not.\<close>

definition grpcLocationsToDomain :: "pb_location option list \<Rightarrow> Location list" where
  "grpcLocationsToDomain locations =
     List.map_filter (map_option (\<lambda>l. backend_to_domain (pb_Backend l))) locations"

definition grpcLocationFromDomain :: "Location option \<Rightarrow> pb_location option" where
  "grpcLocationFromDomain location =
     (case location of
        None \<Rightarrow> None
      | Some l \<Rightarrow>
         (case NodeLocal l of
            Some nl \<Rightarrow> Some \<lparr>pb_Backend = Some (PbNodeLocal (Some (nl_NodeName nl, nl_Path nl)))\<rparr>
          | None \<Rightarrow>
             (case HTTP l of
                Some h \<Rightarrow> Some \<lparr>pb_Backend = Some (PbHttp (Some (h_URI h)))\<rparr>
              | None \<Rightarrow> None)))"

definition zero_pb_artifact :: pb_artifact where
  "zero_pb_artifact =
     \<lparr>pa_SampleRunId = [], pa_ProducerNodeId = [], pa_OutputName = [], pa_ArtifactId = [], pa_Digest = [],
      pa_NodeName = [], pa_Uri = [], pa_SizeBytes = 0, pa_ProducerAttemptId = [], pa_LogicalUri = [],
      pa_Locations = [], pa_RunId = []\<rparr>"

definition grpcArtifactToDomain :: "pb_artifact option \<Rightarrow> Artifact" where
  "grpcArtifactToDomain artifact =
     (let a = (case artifact of Some a \<Rightarrow> a | None \<Rightarrow> zero_pb_artifact)
      in \<lparr>a_RunID = pa_RunId a, a_SampleRunID = pa_SampleRunId a, a_ProducerNodeID = pa_ProducerNodeId a,
          a_ProducerAttemptID = pa_ProducerAttemptId a, a_OutputName = pa_OutputName a,
          a_ArtifactID = pa_ArtifactId a, a_Digest = pa_Digest a, a_LogicalURI = pa_LogicalUri a,
          a_NodeName = pa_NodeName a, a_URI = pa_Uri a,
          a_Locations = grpcLocationsToDomain (pa_Locations a), a_SizeBytes = pa_SizeBytes a,
          a_CreatedAt = 0\<rparr>)"

definition zero_pb_binding :: pb_binding where
  "zero_pb_binding =
     \<lparr>pb_BindingName = [], pb_SampleRunId = [], pb_ChildNodeId = [], pb_ChildInputName = [],
      pb_ProducerNodeId = [], pb_ProducerOutputName = [], pb_ConsumePolicy = [], pb_Required = False,
      pb_ExpectedDigest = [], pb_ArtifactId = [], pb_ProducerAttemptId = [], pb_ChildAttemptId = [],
      pb_RunId = []\<rparr>"

definition grpcBindingToDomain :: "pb_binding option \<Rightarrow> Binding" where
  "grpcBindingToDomain binding =
     (let b = (case binding of Some b \<Rightarrow> b | None \<Rightarrow> zero_pb_binding)
      in \<lparr>b_BindingName = pb_BindingName b, b_RunID = pb_RunId b, b_SampleRunID = pb_SampleRunId b,
          b_ChildNodeID = pb_ChildNodeId b, b_ChildInputName = pb_ChildInputName b,
          b_ProducerNodeID = pb_ProducerNodeId b, b_ProducerAttemptID = pb_ProducerAttemptId b,
          b_ChildAttemptID = pb_ChildAttemptId b, b_ProducerOutputName = pb_ProducerOutputName b,
          b_ArtifactID = pb_ArtifactId b, b_ConsumePolicy = pb_ConsumePolicy b,
          b_ExpectedDigest = pb_ExpectedDigest b, b_Required = pb_Required b\<rparr>)"

definition grpcSourceToDomain :: "pb_source option \<Rightarrow> ArtifactSource" where
  "grpcSourceToDomain source =
     (case source of
        None \<Rightarrow> zero_source
      | Some s \<Rightarrow> zero_source
          \<lparr>s_SourceID := ps_SourceId s, s_ArtifactID := ps_ArtifactId s, s_BackendID := ps_BackendId s,
           s_Digest := ps_Digest s, s_State := ps_State s,
           s_LocationFingerprint := ps_LocationFingerprint s,
           s_Location := grpcLocationToDomain (ps_Location s)\<rparr>)"

definition grpcSourceFromDomain :: "ArtifactSource \<Rightarrow> pb_source" where
  "grpcSourceFromDomain source =
     \<lparr>ps_SourceId = s_SourceID source, ps_ArtifactId = s_ArtifactID source,
      ps_BackendId = s_BackendID source, ps_Digest = s_Digest source, ps_State = s_State source,
      ps_LocationFingerprint = s_LocationFingerprint source,
      ps_Location = grpcLocationFromDomain (Some (s_Location source)),
      ps_LastVerifiedAt = (if \<not> IsZero (s_LastVerifiedAt source)
                           then FormatRFC3339Nano (s_LastVerifiedAt source) else []),
      ps_LastError = s_LastError source\<rparr>"

definition grpcSourcesFromDomain :: "ArtifactSource list \<Rightarrow> pb_source list" where
  "grpcSourcesFromDomain ss = map grpcSourceFromDomain ss"

definition grpcCandidateFromDomain :: "MaterializationCandidate \<Rightarrow> pb_candidate" where
  "grpcCandidateFromDomain c =
     \<lparr>pc_Priority = word_of_int (c_Priority c), pc_Mode = MaterializationMode_string (c_Mode c),
      pc_SourceRef = c_SourceRef c, pc_ExpectedDigest = c_ExpectedDigest c,
      pc_ExpectedSizeBytes = c_ExpectedSize c, pc_LocalPath = c_LocalPath c,
      pc_SourceLocation = grpcLocationFromDomain (c_SourceLocation c), pc_Uri = c_URI c,
      pc_Conditions = c_Conditions c\<rparr>"

definition grpcCandidatesFromDomain :: "MaterializationCandidate list \<Rightarrow> pb_candidate list" where
  "grpcCandidatesFromDomain cs = map grpcCandidateFromDomain cs"

definition grpcResolvedFromDomain :: "ResolvedHandoff \<Rightarrow> pb_resolved" where
  "grpcResolvedFromDomain r =
     (let plan = r_MaterializationPlan r
      in \<lparr>pr_ResolutionStatus = ResolutionStatus_string (r_Status r),
          pr_Decision = ResolutionDecision_string (r_Decision r),
          pr_Placement = (PlacementIntentMode_string (pi_Mode (r_PlacementIntent r)),
                          pi_NodeName (r_PlacementIntent r)),
          pr_Plan = \<lparr>pp_Mode = MaterializationMode_string (mp_Mode plan), pp_Uri = mp_URI plan,
            pp_ExpectedDigest = mp_ExpectedDigest plan, pp_ExpectedSizeBytes = mp_ExpectedSize plan,
            pp_SourceLocation = grpcLocationFromDomain (mp_SourceLocation plan),
            pp_LocalPath = mp_LocalPath plan\<rparr>,
          pr_Reason = r_Reason r, pr_Retryable = r_Retryable r,
          pr_Candidates = grpcCandidatesFromDomain (r_MaterializationCandidates r)\<rparr>)"

text \<open>\<^verbatim>\<open>int32(n)\<close> keeps the low 32 bits; a nil instant is the empty string.\<close>

definition format_instant :: "time option \<Rightarrow> string" where
  "format_instant t = (case t of Some t' \<Rightarrow> FormatRFC3339Nano t' | None \<Rightarrow> [])"

definition lifecycleToGRPC :: "RunLifecycle \<Rightarrow> pb_lifecycle" where
  "lifecycleToGRPC l =
     \<lparr>pl_RunId = l_RunID l, pl_SampleRunId = l_SampleRunID l, pl_Finalized = l_Finalized l,
      pl_FinalizedAt = format_instant (l_FinalizedAt l),
      pl_RetentionPolicySource = l_RetentionPolicySource l,
      pl_RetentionDuration = Duration_String (l_RetentionDuration l),
      pl_RetentionUntil = format_instant (l_RetentionUntil l),
      pl_GcEligible = l_GCEligible l, pl_GcEligibleAt = format_instant (l_GCEligibleAt l),
      pl_GcBlockedReason = l_GCBlockedReason l,
      pl_TerminalNodeCount = word_of_int (l_TerminalNodeCount l),
      pl_SucceededNodeCount = word_of_int (l_SucceededNodeCount l),
      pl_FailedNodeCount = word_of_int (l_FailedNodeCount l),
      pl_CanceledNodeCount = word_of_int (l_CanceledNodeCount l),
      pl_RetainedArtifactCount = word_of_int (l_RetainedArtifactCount l),
      pl_RetainedArtifactBytes = l_RetainedArtifactBytes l\<rparr>"

section \<open>Handlers\<close>

type_synonym ('s, 'a) reply = "(status + 'a) \<times> 's Service"

definition reply :: "('s, 'a) outcome \<Rightarrow> ('a \<Rightarrow> 'b) \<Rightarrow> ('s, 'b) reply" where
  "reply out f =
     (case out of
        (Inl e, svc) \<Rightarrow> (Inl (toGRPCError (errorText svc) e), svc)
      | (Inr x, svc) \<Rightarrow> (Inr (f x), svc))"

definition count_failure :: "(Metrics \<Rightarrow> Metrics) \<Rightarrow> ('s, 'a) reply \<Rightarrow> ('s, 'a) reply" where
  "count_failure f out = (case out of (Inl e, svc) \<Rightarrow> (Inl e, count_metric f svc) | (Inr x, svc) \<Rightarrow> (Inr x, svc))"

definition grpc_RegisterArtifact :: "'s store \<Rightarrow> golib \<Rightarrow> clock \<Rightarrow> 's Service \<Rightarrow> pb_artifact option \<Rightarrow>
    ('s, string) reply" where
  "grpc_RegisterArtifact S L now svc artifact =
     count_failure IncGRPCRegisterArtifactErrors
       (reply (RegisterArtifactCore S L now (count_metric IncGRPCRegisterArtifact svc)
                 (grpcArtifactToDomain artifact))
          AvailabilityState_string)"

definition grpc_AddSource :: "'s store \<Rightarrow> golib \<Rightarrow> clock \<Rightarrow> 's Service \<Rightarrow> string \<Rightarrow> pb_source option \<Rightarrow>
    ('s, pb_source) reply" where
  "grpc_AddSource S L now svc artifactId source =
     reply (AddSourceCore S L now svc artifactId (grpcSourceToDomain source)) grpcSourceFromDomain"

definition grpc_UpdateSourceState :: "'s store \<Rightarrow> clock \<Rightarrow> 's Service \<Rightarrow> string \<Rightarrow> string \<Rightarrow>
    ('s, pb_source) reply" where
  "grpc_UpdateSourceState S now svc sourceId state =
     reply (UpdateSourceStateCore S now svc sourceId state) grpcSourceFromDomain"

definition grpc_ListSources :: "'s store \<Rightarrow> 's Service \<Rightarrow> string \<Rightarrow> ('s, pb_source list) reply" where
  "grpc_ListSources S svc artifactId = reply (ListSourcesCore S svc artifactId, svc) grpcSourcesFromDomain"

definition grpc_VerifySource :: "'s store \<Rightarrow> golib \<Rightarrow> clock \<Rightarrow> 's Service \<Rightarrow> string \<Rightarrow>
    ('s, pb_source \<times> bool \<times> string) reply" where
  "grpc_VerifySource S L now svc sourceId =
     reply (VerifySourceCore S L now svc sourceId)
       (\<lambda>(source, verified, reason). (grpcSourceFromDomain source, verified, reason))"

definition grpc_ResolveHandoff :: "'s store \<Rightarrow> golib \<Rightarrow> clock \<Rightarrow> 's Service \<Rightarrow> pb_binding option \<Rightarrow>
    string \<Rightarrow> ('s, pb_resolved) reply" where
  "grpc_ResolveHandoff S L now svc binding targetNodeName =
     count_failure IncGRPCResolveHandoffErrors
       (reply (ResolveHandoffCore S L now (count_metric IncGRPCResolveHandoff svc)
                 (grpcBindingToDomain binding) targetNodeName)
          grpcResolvedFromDomain)"

definition grpc_NotifyNodeTerminal :: "'s store \<Rightarrow> golib \<Rightarrow> clock \<Rightarrow> 's Service \<Rightarrow> string \<Rightarrow> string \<Rightarrow>
    string \<Rightarrow> string \<Rightarrow> ('s, bool) reply" where
  "grpc_NotifyNodeTerminal S L now svc runId nodeId attemptId terminalState =
     reply (NotifyNodeTerminalCore S L now (count_metric IncGRPCNotifyNodeTerminal svc)
              runId nodeId attemptId terminalState) (\<lambda>_. True)"

definition grpc_FinalizeSampleRun :: "'s store \<Rightarrow> clock \<Rightarrow> 's Service \<Rightarrow> string \<Rightarrow> string \<Rightarrow>
    ('s, bool) reply" where
  "grpc_FinalizeSampleRun S now svc runId sampleRunId =
     reply (FinalizeRunCore S now (count_metric IncGRPCFinalizeSampleRun svc) runId sampleRunId) (\<lambda>_. True)"

definition grpc_EvaluateGC :: "'s store \<Rightarrow> clock \<Rightarrow> 's Service \<Rightarrow> string \<Rightarrow> ('s, bool) reply" where
  "grpc_EvaluateGC S now svc runId =
     reply (EvaluateRunGCCore S now (count_metric IncGRPCEvaluateGC svc) runId) (\<lambda>_. True)"

definition grpc_GetSampleRunLifecycle :: "'s store \<Rightarrow> 's Service \<Rightarrow> string \<Rightarrow> ('s, pb_lifecycle) reply" where
  "grpc_GetSampleRunLifecycle S svc0 runId =
     (let svc = count_metric IncGRPCGetLifecycle svc0
      in case GetRunLifecycleCore S svc runId of
           Inl e \<Rightarrow> (Inl (toGRPCError (errorText svc) e), svc)
         | Inr None \<Rightarrow> (Inl (NotFound, ''run lifecycle not found''), svc)
         | Inr (Some l) \<Rightarrow> (Inr (lifecycleToGRPC l), svc))"

section \<open>The front end as a whole\<close>

datatype (discs_sels) grpc_call =
    CallRegister "pb_artifact option"
  | CallAddSource string "pb_source option"
  | CallUpdateSourceState string string
  | CallListSources string
  | CallVerifySource string
  | CallResolve "pb_binding option" string
  | CallNotify string string string string
  | CallFinalize string string
  | CallEvaluateGC string
  | CallGetLifecycle string

fun grpc_serve :: "'s store \<Rightarrow> golib \<Rightarrow> 's Service \<Rightarrow> clock \<times> grpc_call \<Rightarrow> 's Service" where
  "grpc_serve S L svc (now, CallRegister a) = snd (grpc_RegisterArtifact S L now svc a)"
| "grpc_serve S L svc (now, CallAddSource aid x) = snd (grpc_AddSource S L now svc aid x)"
| "grpc_serve S L svc (now, CallUpdateSourceState sid x) = snd (grpc_UpdateSourceState S now svc sid x)"
| "grpc_serve S L svc (now, CallListSources aid) = snd (grpc_ListSources S svc aid)"
| "grpc_serve S L svc (now, CallVerifySource sid) = snd (grpc_VerifySource S L now svc sid)"
| "grpc_serve S L svc (now, CallResolve b target) = snd (grpc_ResolveHandoff S L now svc b target)"
| "grpc_serve S L svc (now, CallNotify r n att x) = snd (grpc_NotifyNodeTerminal S L now svc r n att x)"
| "grpc_serve S L svc (now, CallFinalize r sample) = snd (grpc_FinalizeSampleRun S now svc r sample)"
| "grpc_serve S L svc (now, CallEvaluateGC r) = snd (grpc_EvaluateGC S now svc r)"
| "grpc_serve S L svc (now, CallGetLifecycle r) = snd (grpc_GetSampleRunLifecycle S svc r)"

definition grpc_serve_all :: "'s store \<Rightarrow> golib \<Rightarrow> 's Service \<Rightarrow> (clock \<times> grpc_call) list \<Rightarrow> 's Service" where
  "grpc_serve_all S L svc calls = foldl (grpc_serve S L) svc calls"

text \<open>The service request behind a call; the two reads have none.\<close>

fun call_request :: "grpc_call \<Rightarrow> request option" where
  "call_request (CallRegister a) = Some (RegisterArtifact (grpcArtifactToDomain a))"
| "call_request (CallAddSource aid x) = Some (AddSource aid (grpcSourceToDomain x))"
| "call_request (CallUpdateSourceState sid x) = Some (UpdateSourceState sid x)"
| "call_request (CallListSources aid) = None"
| "call_request (CallVerifySource sid) = Some (VerifySource sid)"
| "call_request (CallResolve b target) = Some (ResolveHandoff (grpcBindingToDomain b) target)"
| "call_request (CallNotify r n att x) = Some (NotifyNodeTerminal r n att x)"
| "call_request (CallFinalize r sample) = Some (FinalizeRun r sample)"
| "call_request (CallEvaluateGC r) = Some (EvaluateRunGC r)"
| "call_request (CallGetLifecycle r) = None"

definition call_requests :: "(clock \<times> grpc_call) list \<Rightarrow> (clock \<times> request) list" where
  "call_requests calls = List.map_filter (\<lambda>(now, c). map_option (Pair now) (call_request c)) calls"

end
