(* ===== verification/Http_Json.thy ===== *)
theory Http_Json
  imports Sqlite_Codec Grpc
begin

text \<open>
  The JSON form of the domain structs as the HTTP front end reads and writes it: how
  \<^verbatim>\<open>json.Decoder\<close> fills the structs of \<^verbatim>\<open>pkg/domain/types.go\<close> by their tags, and what
  \<^verbatim>\<open>json.Encoder\<close> writes for them.  An instant stands for its text in UTC.
\<close>

section \<open>Reading fields\<close>

definition int64_into :: "64 word \<Rightarrow> json \<Rightarrow> 64 word option" where
  "int64_into old j =
     (case j of JNum n \<Rightarrow> map_option word_of_int (ParseInt64 n) | JNull \<Rightarrow> Some old | _ \<Rightarrow> None)"

definition bool_into :: "bool \<Rightarrow> json \<Rightarrow> bool option" where
  "bool_into old j = (case j of JBool b \<Rightarrow> Some b | JNull \<Rightarrow> Some old | _ \<Rightarrow> None)"

text \<open>
  \<^verbatim>\<open>Time.UnmarshalJSON\<close> parses the bytes between the quotes, escapes and all.  \<open>other\<close> parses the
  forms the program does not write.
\<close>

definition time_into :: "(string \<Rightarrow> time option) \<Rightarrow> time \<Rightarrow> json \<Rightarrow> time option" where
  "time_into other old j =
     (case j of JStr raw \<Rightarrow> ParseRFC3339Nano other raw | JNull \<Rightarrow> Some old | _ \<Rightarrow> None)"

text \<open>
  An array fills a slice from its front: elements the slice had, and elements its backing array
  still has from before it was cut, keep what the new value does not set.  The second list is
  that rest of the backing array.
\<close>

definition slice_into :: "('a \<Rightarrow> json \<Rightarrow> 'a option) \<Rightarrow> 'a \<Rightarrow> 'a list \<times> 'a list \<Rightarrow> json \<Rightarrow>
    ('a list \<times> 'a list) option" where
  "slice_into f zero old j =
     (let backing = fst old @ snd old
      in case j of
           JNull \<Rightarrow> Some ([], [])
         | JArr vs \<Rightarrow>
             if vs = [] then Some ([], [])
             else map_option (\<lambda>ys. (ys, drop (length vs) backing))
               (all_some (map2 f (take (length vs) backing @ replicate (length vs - length backing) zero) vs))
         | _ \<Rightarrow> None)"

text \<open>A struct by the names of its fields; unknown keys are skipped.\<close>

type_synonym 'a field = "string \<times> ('a \<Rightarrow> json \<Rightarrow> 'a option)"

definition fields_into :: "'a field list \<Rightarrow> 'a \<Rightarrow> string \<Rightarrow> json \<Rightarrow> 'a option" where
  "fields_into table x key v =
     (case find (\<lambda>(name, f). is_field name key) table of Some (name, f) \<Rightarrow> f x v | None \<Rightarrow> Some x)"

text \<open>An artifact being decoded, with the rest of the backing array of its locations.\<close>

type_synonym artifact_draft = "Artifact \<times> Location list"

definition artifact_string :: "(Artifact \<Rightarrow> string) \<Rightarrow> (string \<Rightarrow> Artifact \<Rightarrow> Artifact) \<Rightarrow>
    artifact_draft \<Rightarrow> json \<Rightarrow> artifact_draft option" where
  "artifact_string get put d v =
     map_option (\<lambda>s. (put s (fst d), snd d)) (string_into (get (fst d)) v)"

definition artifact_fields :: "(string \<Rightarrow> time option) \<Rightarrow> artifact_draft field list" where
  "artifact_fields other =
     [(''runId'', artifact_string a_RunID (\<lambda>s. a_RunID_update (\<lambda>_. s))),
      (''sampleRunId'', artifact_string a_SampleRunID (\<lambda>s. a_SampleRunID_update (\<lambda>_. s))),
      (''producerNodeId'', artifact_string a_ProducerNodeID (\<lambda>s. a_ProducerNodeID_update (\<lambda>_. s))),
      (''producerAttemptId'', artifact_string a_ProducerAttemptID (\<lambda>s. a_ProducerAttemptID_update (\<lambda>_. s))),
      (''outputName'', artifact_string a_OutputName (\<lambda>s. a_OutputName_update (\<lambda>_. s))),
      (''artifactId'', artifact_string a_ArtifactID (\<lambda>s. a_ArtifactID_update (\<lambda>_. s))),
      (''digest'', artifact_string a_Digest (\<lambda>s. a_Digest_update (\<lambda>_. s))),
      (''logicalUri'', artifact_string a_LogicalURI (\<lambda>s. a_LogicalURI_update (\<lambda>_. s))),
      (''nodeName'', artifact_string a_NodeName (\<lambda>s. a_NodeName_update (\<lambda>_. s))),
      (''uri'', artifact_string a_URI (\<lambda>s. a_URI_update (\<lambda>_. s))),
      (''locations'', \<lambda>(a, stale) v. map_option (\<lambda>(ls, rest). (a\<lparr>a_Locations := ls\<rparr>, rest))
         (slice_into (struct_into location_field) zero_location (a_Locations a, stale) v)),
      (''sizeBytes'', \<lambda>(a, stale) v. map_option (\<lambda>n. (a\<lparr>a_SizeBytes := n\<rparr>, stale)) (int64_into (a_SizeBytes a) v)),
      (''createdAt'', \<lambda>(a, stale) v. map_option (\<lambda>t. (a\<lparr>a_CreatedAt := t\<rparr>, stale)) (time_into other (a_CreatedAt a) v))]"

definition artifact_into :: "(string \<Rightarrow> time option) \<Rightarrow> artifact_draft \<Rightarrow> json \<Rightarrow> artifact_draft option" where
  "artifact_into other = struct_into (fields_into (artifact_fields other))"

definition source_string :: "(ArtifactSource \<Rightarrow> string) \<Rightarrow> (string \<Rightarrow> ArtifactSource \<Rightarrow> ArtifactSource) \<Rightarrow>
    ArtifactSource \<Rightarrow> json \<Rightarrow> ArtifactSource option" where
  "source_string get put x v = map_option (\<lambda>s. put s x) (string_into (get x) v)"

definition source_time :: "(string \<Rightarrow> time option) \<Rightarrow> (ArtifactSource \<Rightarrow> time) \<Rightarrow>
    (time \<Rightarrow> ArtifactSource \<Rightarrow> ArtifactSource) \<Rightarrow> ArtifactSource \<Rightarrow> json \<Rightarrow> ArtifactSource option" where
  "source_time other get put x v = map_option (\<lambda>t. put t x) (time_into other (get x) v)"

definition source_fields :: "(string \<Rightarrow> time option) \<Rightarrow> ArtifactSource field list" where
  "source_fields other =
     [(''sourceId'', source_string s_SourceID (\<lambda>s. s_SourceID_update (\<lambda>_. s))),
      (''artifactId'', source_string s_ArtifactID (\<lambda>s. s_ArtifactID_update (\<lambda>_. s))),
      (''backendId'', source_string s_BackendID (\<lambda>s. s_BackendID_update (\<lambda>_. s))),
      (''digest'', source_string s_Digest (\<lambda>s. s_Digest_update (\<lambda>_. s))),
      (''state'', source_string s_State (\<lambda>s. s_State_update (\<lambda>_. s))),
      (''locationFingerprint'', source_string s_LocationFingerprint (\<lambda>s. s_LocationFingerprint_update (\<lambda>_. s))),
      (''location'', \<lambda>x v. map_option (\<lambda>l. x\<lparr>s_Location := l\<rparr>) (struct_into location_field (s_Location x) v)),
      (''createdAt'', source_time other s_CreatedAt (\<lambda>t. s_CreatedAt_update (\<lambda>_. t))),
      (''updatedAt'', source_time other s_UpdatedAt (\<lambda>t. s_UpdatedAt_update (\<lambda>_. t))),
      (''lastVerifiedAt'', source_time other s_LastVerifiedAt (\<lambda>t. s_LastVerifiedAt_update (\<lambda>_. t))),
      (''lastError'', source_string s_LastError (\<lambda>s. s_LastError_update (\<lambda>_. s)))]"

definition source_into :: "(string \<Rightarrow> time option) \<Rightarrow> ArtifactSource \<Rightarrow> json \<Rightarrow> ArtifactSource option" where
  "source_into other = struct_into (fields_into (source_fields other))"

definition zero_binding :: Binding where
  "zero_binding =
     \<lparr>b_BindingName = [], b_RunID = [], b_SampleRunID = [], b_ChildNodeID = [], b_ChildInputName = [],
      b_ProducerNodeID = [], b_ProducerAttemptID = [], b_ChildAttemptID = [], b_ProducerOutputName = [],
      b_ArtifactID = [], b_ConsumePolicy = [], b_ExpectedDigest = [], b_Required = False\<rparr>"

definition binding_string :: "(Binding \<Rightarrow> string) \<Rightarrow> (string \<Rightarrow> Binding \<Rightarrow> Binding) \<Rightarrow>
    Binding \<Rightarrow> json \<Rightarrow> Binding option" where
  "binding_string get put x v = map_option (\<lambda>s. put s x) (string_into (get x) v)"

definition binding_fields :: "Binding field list" where
  "binding_fields =
     [(''bindingName'', binding_string b_BindingName (\<lambda>s. b_BindingName_update (\<lambda>_. s))),
      (''runId'', binding_string b_RunID (\<lambda>s. b_RunID_update (\<lambda>_. s))),
      (''sampleRunId'', binding_string b_SampleRunID (\<lambda>s. b_SampleRunID_update (\<lambda>_. s))),
      (''childNodeId'', binding_string b_ChildNodeID (\<lambda>s. b_ChildNodeID_update (\<lambda>_. s))),
      (''childInputName'', binding_string b_ChildInputName (\<lambda>s. b_ChildInputName_update (\<lambda>_. s))),
      (''producerNodeId'', binding_string b_ProducerNodeID (\<lambda>s. b_ProducerNodeID_update (\<lambda>_. s))),
      (''producerAttemptId'', binding_string b_ProducerAttemptID (\<lambda>s. b_ProducerAttemptID_update (\<lambda>_. s))),
      (''childAttemptId'', binding_string b_ChildAttemptID (\<lambda>s. b_ChildAttemptID_update (\<lambda>_. s))),
      (''producerOutputName'', binding_string b_ProducerOutputName (\<lambda>s. b_ProducerOutputName_update (\<lambda>_. s))),
      (''artifactId'', binding_string b_ArtifactID (\<lambda>s. b_ArtifactID_update (\<lambda>_. s))),
      (''consumePolicy'', binding_string b_ConsumePolicy (\<lambda>s. b_ConsumePolicy_update (\<lambda>_. s))),
      (''expectedDigest'', binding_string b_ExpectedDigest (\<lambda>s. b_ExpectedDigest_update (\<lambda>_. s))),
      (''required'', \<lambda>x v. map_option (\<lambda>b. x\<lparr>b_Required := b\<rparr>) (bool_into (b_Required x) v))]"

definition binding_into :: "Binding \<Rightarrow> json \<Rightarrow> Binding option" where
  "binding_into = struct_into (fields_into binding_fields)"

text \<open>An anonymous struct of string fields.\<close>

definition text_fields :: "string list \<Rightarrow> string list field list" where
  "text_fields names =
     map (\<lambda>(i, name). (name, \<lambda>xs v. map_option (\<lambda>s. xs[i := s]) (string_into (xs ! i) v))) (enumerate 0 names)"

definition texts_into :: "string list \<Rightarrow> string list \<Rightarrow> json \<Rightarrow> string list option" where
  "texts_into names = struct_into (fields_into (text_fields names))"

section \<open>Writing values\<close>

text \<open>
  A value that cannot be written, an instant outside the years 0 to 9999, makes the whole
  encoding fail.  Fields tagged \<^verbatim>\<open>omitempty\<close> are left out when they are zero; that tag has no
  effect on a \<^verbatim>\<open>time.Time\<close>.
\<close>

definition json_time :: "time \<Rightarrow> json option" where
  "json_time t =
     (let y = fst (civil (t div 1000000000 div 86400))
      in if 0 \<le> y \<and> y \<le> 9999 then Some (JStr (FormatRFC3339Nano t)) else None)"

definition req_str :: "string \<Rightarrow> string \<Rightarrow> (string \<times> json option) list" where
  "req_str name s = [(name, Some (json_string s))]"

definition opt_str :: "string \<Rightarrow> string \<Rightarrow> (string \<times> json option) list" where
  "opt_str name s = (if s = [] then [] else req_str name s)"

definition opt_num :: "string \<Rightarrow> int \<Rightarrow> (string \<times> json option) list" where
  "opt_num name i = (if i = 0 then [] else [(name, Some (json_int i))])"

definition opt_time :: "string \<Rightarrow> time option \<Rightarrow> (string \<times> json option) list" where
  "opt_time name t = (case t of None \<Rightarrow> [] | Some t' \<Rightarrow> [(name, json_time t')])"

definition json_object :: "(string \<times> json option) list \<Rightarrow> json option" where
  "json_object ms = map_option JObj (all_some (map (\<lambda>(k, v). map_option (Pair k) v) ms))"

definition json_array :: "json option list \<Rightarrow> json option" where
  "json_array vs = map_option JArr (all_some vs)"

definition artifact_members :: "Artifact \<Rightarrow> (string \<times> json option) list" where
  "artifact_members a =
     (req_str ''runId'' (a_RunID a) @ opt_str ''sampleRunId'' (a_SampleRunID a) @ req_str ''producerNodeId'' (a_ProducerNodeID a) @
      req_str ''producerAttemptId'' (a_ProducerAttemptID a) @ req_str ''outputName'' (a_OutputName a) @
      opt_str ''artifactId'' (a_ArtifactID a) @ opt_str ''digest'' (a_Digest a) @ opt_str ''logicalUri'' (a_LogicalURI a) @
      opt_str ''nodeName'' (a_NodeName a) @ opt_str ''uri'' (a_URI a) @
      (if a_Locations a = [] then [] else [(''locations'', Some (JArr (map json_of_location (a_Locations a))))]) @
      opt_num ''sizeBytes'' (sint (a_SizeBytes a)) @ [(''createdAt'', json_time (a_CreatedAt a))])"

definition artifact_json :: "Artifact \<Rightarrow> json option" where
  "artifact_json a = json_object (artifact_members a)"

definition source_json :: "ArtifactSource \<Rightarrow> json option" where
  "source_json s = json_object
     (req_str ''sourceId'' (s_SourceID s) @ req_str ''artifactId'' (s_ArtifactID s) @ req_str ''backendId'' (s_BackendID s) @
      opt_str ''digest'' (s_Digest s) @ req_str ''state'' (s_State s) @
      opt_str ''locationFingerprint'' (s_LocationFingerprint s) @
      [(''location'', Some (json_of_location (s_Location s))), (''createdAt'', json_time (s_CreatedAt s)),
       (''updatedAt'', json_time (s_UpdatedAt s)), (''lastVerifiedAt'', json_time (s_LastVerifiedAt s))] @
      opt_str ''lastError'' (s_LastError s))"

definition lifecycle_json :: "RunLifecycle \<Rightarrow> json option" where
  "lifecycle_json l = json_object
     (req_str ''runId'' (l_RunID l) @ opt_str ''sampleRunId'' (l_SampleRunID l) @
      [(''finalized'', Some (JBool (l_Finalized l)))] @ opt_time ''finalizedAt'' (l_FinalizedAt l) @
      opt_str ''retentionPolicySource'' (l_RetentionPolicySource l) @
      opt_num ''retentionDuration'' (l_RetentionDuration l) @ opt_time ''retentionUntil'' (l_RetentionUntil l) @
      [(''gcEligible'', Some (JBool (l_GCEligible l)))] @ opt_time ''gcEligibleAt'' (l_GCEligibleAt l) @
      opt_str ''gcBlockedReason'' (l_GCBlockedReason l) @ opt_num ''terminalNodeCount'' (l_TerminalNodeCount l) @
      opt_num ''succeededNodeCount'' (l_SucceededNodeCount l) @ opt_num ''failedNodeCount'' (l_FailedNodeCount l) @
      opt_num ''canceledNodeCount'' (l_CanceledNodeCount l) @ opt_num ''retainedArtifactCount'' (l_RetainedArtifactCount l) @
      opt_num ''retainedArtifactBytes'' (sint (l_RetainedArtifactBytes l)))"

definition opt_location :: "string \<Rightarrow> Location option \<Rightarrow> (string \<times> json option) list" where
  "opt_location name l = (case l of None \<Rightarrow> [] | Some x \<Rightarrow> [(name, Some (json_of_location x))])"

definition condition_json :: "MaterializationCondition \<Rightarrow> json option" where
  "condition_json c = json_object
     (req_str ''kind'' (mc_Kind c) @ opt_str ''nodeName'' (mc_NodeName c) @ opt_str ''backendId'' (mc_BackendID c) @
      opt_str ''sourceRef'' (mc_SourceRef c) @ opt_str ''state'' (mc_State c))"

definition candidate_json :: "MaterializationCandidate \<Rightarrow> json option" where
  "candidate_json c = json_object
     ([(''priority'', Some (json_int (c_Priority c)))] @ req_str ''mode'' (MaterializationMode_string (c_Mode c)) @
      opt_str ''sourceRef'' (c_SourceRef c) @ opt_str ''expectedDigest'' (c_ExpectedDigest c) @
      opt_num ''expectedSizeBytes'' (sint (c_ExpectedSize c)) @ opt_str ''localPath'' (c_LocalPath c) @
      opt_location ''sourceLocation'' (c_SourceLocation c) @ opt_str ''uri'' (c_URI c) @
      (if c_Conditions c = [] then [] else [(''conditions'', json_array (map condition_json (c_Conditions c)))]))"

definition resolved_json :: "ResolvedHandoff \<Rightarrow> json option" where
  "resolved_json r =
     (let plan = r_MaterializationPlan r
      in json_object
     (req_str ''resolutionStatus'' (ResolutionStatus_string (r_Status r)) @
      req_str ''decision'' (ResolutionDecision_string (r_Decision r)) @
      [(''placementIntent'', json_object (req_str ''mode'' (PlacementIntentMode_string (pi_Mode (r_PlacementIntent r))) @
         opt_str ''nodeName'' (pi_NodeName (r_PlacementIntent r)))),
       (''materializationPlan'', json_object (req_str ''mode'' (MaterializationMode_string (mp_Mode plan)) @
         opt_str ''uri'' (mp_URI plan) @ opt_str ''expectedDigest'' (mp_ExpectedDigest plan) @
         opt_num ''expectedSizeBytes'' (sint (mp_ExpectedSize plan)) @
         opt_location ''sourceLocation'' (mp_SourceLocation plan) @ opt_str ''localPath'' (mp_LocalPath plan)))] @
      (if r_MaterializationCandidates r = [] then []
       else [(''materializationCandidates'', json_array (map candidate_json (r_MaterializationCandidates r)))]) @
      opt_str ''reason'' (r_Reason r) @ [(''retryable'', Some (JBool (r_Retryable r)))]))"

end
