(* ===== verification/Http.thy ===== *)
theory Http
  imports Http_Json
begin

text \<open>
  \<^verbatim>\<open>pkg/resolver/http.go\<close>: the HTTP front end.  A request is what \<^verbatim>\<open>net/http\<close> hands to the
  multiplexer: method, escaped path, raw query and body.  A handler returns the response and
  the new service.
\<close>

section \<open>Requests and responses\<close>

record http_request =
  rq_Method :: string
  rq_Path :: string
  rq_RawQuery :: string
  rq_Body :: string

record http_response =
  rs_Status :: nat
  rs_Body :: string

text \<open>
  What is outside the program: the page of the metrics exporter, the text of the decoder's
  error for a body, the parser for time stamps the program does not write, and whether the
  store answers an empty list with a nil slice, which is written as null.
\<close>

record http_env =
  he_metrics_page :: "Metrics \<Rightarrow> string"
  he_decode_error :: "string \<Rightarrow> string"
  he_time :: "string \<Rightarrow> time option"
  he_nil_lists :: bool

abbreviation newline :: char where "newline \<equiv> CHR 0x0A"

text \<open>\<^verbatim>\<open>http.Error\<close> and \<^verbatim>\<open>writeJSON\<close>; a value that cannot be encoded leaves the body empty.\<close>

definition http_Error :: "string \<Rightarrow> nat \<Rightarrow> http_response" where
  "http_Error msg status = \<lparr>rs_Status = status, rs_Body = msg @ [newline]\<rparr>"

definition writeJSON :: "json option \<Rightarrow> http_response" where
  "writeJSON v = \<lparr>rs_Status = 200, rs_Body = (case v of Some j \<Rightarrow> print_json j @ [newline] | None \<Rightarrow> [])\<rparr>"

section \<open>Query parameters\<close>

text \<open>
  \<^verbatim>\<open>URL.Query().Get\<close>: pairs that do not parse are skipped, the first value of a key counts, and a
  query of more than 10000 pairs has none.
\<close>

definition QueryUnescape :: "string \<Rightarrow> string option" where
  "QueryUnescape s = unescape False (map (\<lambda>c. if c = CHR ''+'' then CHR '' '' else c) s)"

definition query_pair :: "string \<Rightarrow> (string \<times> string) option" where
  "query_pair part =
     (if CHR '';'' \<in> set part \<or> part = [] then None
      else case Cut part (CHR ''='') of (k, v, found) \<Rightarrow>
        (case (QueryUnescape k, QueryUnescape v) of
           (Some k', Some v') \<Rightarrow> Some (k', v')
         | _ \<Rightarrow> None))"

definition ParseQuery :: "string \<Rightarrow> (string \<times> string) list" where
  "ParseQuery query =
     (let parts = Split query (CHR ''&'')
      in if 10000 < length parts then [] else List.map_filter query_pair parts)"

definition query_Get :: "http_request \<Rightarrow> string \<Rightarrow> string" where
  "query_Get rq name = (case map_of (ParseQuery (rq_RawQuery rq)) name of Some v \<Rightarrow> v | None \<Rightarrow> [])"

section \<open>Bodies\<close>

text \<open>
  \<^verbatim>\<open>Decoder.Decode\<close> reads one value and ignores what follows it.  An object or array ends with its
  bracket; for any other value the decoder must see the next byte or the end of the input, so
  such a value must not run into a read error.
\<close>

fun self_delimiting :: "json \<Rightarrow> bool" where
  "self_delimiting (JArr vs) = True"
| "self_delimiting (JObj ms) = True"
| "self_delimiting _ = False"

definition Decode :: "('a \<Rightarrow> json \<Rightarrow> 'a option) \<Rightarrow> 'a \<Rightarrow> string \<Rightarrow> bool \<Rightarrow> 'a option" where
  "Decode into target input eof =
     (case parse_value (Suc (2 * length input)) 10000 input of
        None \<Rightarrow> None
      | Some (v, rest) \<Rightarrow> if rest = [] \<and> \<not> eof \<and> \<not> self_delimiting v then None else into target v)"

text \<open>\<^verbatim>\<open>decodeJSON\<close>: at most 64 KiB are read.\<close>

definition decodeJSON :: "('a \<Rightarrow> json \<Rightarrow> 'a option) \<Rightarrow> 'a \<Rightarrow> http_request \<Rightarrow> 'a option" where
  "decodeJSON into target rq =
     Decode into target (take 65536 (rq_Body rq)) (length (rq_Body rq) \<le> 65536)"

definition decode_texts :: "string list \<Rightarrow> http_request \<Rightarrow> string list option" where
  "decode_texts names rq = decodeJSON (texts_into names) (replicate (length names) []) rq"

definition blank_artifact :: "Artifact \<Rightarrow> bool" where
  "blank_artifact a \<longleftrightarrow>
     a_RunID a = [] \<and> a_SampleRunID a = [] \<and> a_ProducerNodeID a = [] \<and> a_ProducerAttemptID a = [] \<and>
     a_OutputName a = [] \<and> a_ArtifactID a = [] \<and> a_Digest a = [] \<and> a_LogicalURI a = [] \<and> a_NodeName a = [] \<and>
     a_URI a = [] \<and> length (a_Locations a) = 0 \<and> a_SizeBytes a = 0 \<and> IsZero (a_CreatedAt a)"

definition canonicalizeLegacyHTTPArtifactID :: "Artifact \<Rightarrow> Artifact" where
  "canonicalizeLegacyHTTPArtifactID a =
     (if a_ArtifactID a = [] then a
      else if a_ArtifactID a = CanonicalID a then a
      else if a_ArtifactID a = Join [a_RunID a, a_ProducerNodeID a, a_OutputName a] '':''
        then a\<lparr>a_ArtifactID := CanonicalID a\<rparr>
      else a)"

text \<open>The artifact of a registration: at most 1 MiB, in an envelope or, as of old, flat.\<close>

definition register_envelope :: "(string \<Rightarrow> time option) \<Rightarrow> artifact_draft \<Rightarrow> json \<Rightarrow> artifact_draft option" where
  "register_envelope other = struct_into (fields_into [(''artifact'', artifact_into other)])"

definition decode_artifact_body :: "(string \<Rightarrow> time option) \<Rightarrow> string \<Rightarrow> Artifact option" where
  "decode_artifact_body other body =
     (if 1048576 < length body then None
      else case Decode (register_envelope other) (zero_artifact, []) body True of
             None \<Rightarrow> None
           | Some (artifact, rest) \<Rightarrow>
               if blank_artifact artifact
               then map_option fst (Decode (artifact_into other) (artifact, rest) body True)
               else Some artifact)"

definition add_source_into :: "(string \<Rightarrow> time option) \<Rightarrow> string \<times> ArtifactSource \<Rightarrow> json \<Rightarrow>
    (string \<times> ArtifactSource) option" where
  "add_source_into other = struct_into (fields_into
     [(''artifactId'', \<lambda>(aid, x) v. map_option (\<lambda>s. (s, x)) (string_into aid v)),
      (''source'', \<lambda>(aid, x) v. map_option (Pair aid) (source_into other x v))])"

definition resolve_into :: "Binding \<times> string \<Rightarrow> json \<Rightarrow> (Binding \<times> string) option" where
  "resolve_into = struct_into (fields_into
     [(''binding'', \<lambda>(b, node) v. map_option (\<lambda>b'. (b', node)) (binding_into b v)),
      (''targetNodeName'', \<lambda>(b, node) v. map_option (Pair b) (string_into node v))])"

section \<open>Handlers\<close>

type_synonym 's http_outcome = "http_response \<times> 's Service"

definition allow_method :: "string \<Rightarrow> http_request \<Rightarrow> 's Service \<Rightarrow> 's http_outcome \<Rightarrow> 's http_outcome" where
  "allow_method method rq svc out =
     (if rq_Method rq \<noteq> method then (http_Error ''method not allowed'' 405, svc) else out)"

text \<open>The answer to a body that does not decode, and to an operation of the service.\<close>

definition with_body :: "http_env \<Rightarrow> http_request \<Rightarrow> 's Service \<Rightarrow> 'a option \<Rightarrow> ('a \<Rightarrow> 's http_outcome) \<Rightarrow>
    's http_outcome" where
  "with_body env rq svc body k =
     (case body of None \<Rightarrow> (http_Error (he_decode_error env (rq_Body rq)) 400, svc) | Some x \<Rightarrow> k x)"

definition answer :: "('s, 'a) outcome \<Rightarrow> ('a \<Rightarrow> json option) \<Rightarrow> 's http_outcome" where
  "answer out f =
     (case out of
        (Inl e, svc) \<Rightarrow> (http_Error (errorText svc e) 400, svc)
      | (Inr x, svc) \<Rightarrow> (writeJSON (f x), svc))"

definition answer_read :: "'s Service \<Rightarrow> service_error + 'a \<Rightarrow> ('a \<Rightarrow> http_response) \<Rightarrow> 's http_outcome" where
  "answer_read svc r f =
     (case r of Inl e \<Rightarrow> (http_Error (errorText svc e) 400, svc) | Inr x \<Rightarrow> (f x, svc))"

definition json_list :: "http_env \<Rightarrow> string \<Rightarrow> ('a \<Rightarrow> json option) \<Rightarrow> 'a list \<Rightarrow> http_response" where
  "json_list env name f xs =
     writeJSON (json_object [(name, if xs = [] \<and> he_nil_lists env then Some JNull else json_array (map f xs))])"

definition accepted :: "unit \<Rightarrow> json option" where
  "accepted u = json_object [(''accepted'', Some (JBool True))]"

definition handle_healthz :: "'s Service \<Rightarrow> 's http_outcome" where
  "handle_healthz svc = (\<lparr>rs_Status = 200, rs_Body = ''ok''\<rparr>, svc)"

definition handle_register :: "http_env \<Rightarrow> 's store \<Rightarrow> golib \<Rightarrow> clock \<Rightarrow> 's Service \<Rightarrow> http_request \<Rightarrow> 's http_outcome" where
  "handle_register env S L now svc rq =
     allow_method ''POST'' rq svc
       (with_body env rq svc (decode_artifact_body (he_time env) (rq_Body rq)) (\<lambda>artifact.
          answer (RegisterArtifactCore S L now svc (canonicalizeLegacyHTTPArtifactID artifact)) (\<lambda>state.
            json_object (req_str ''availabilityState'' (AvailabilityState_string state)))))"

definition handle_get :: "'s store \<Rightarrow> 's Service \<Rightarrow> http_request \<Rightarrow> 's http_outcome" where
  "handle_get S svc rq =
     allow_method ''GET'' rq svc
       (answer_read svc (GetArtifactCore S svc (query_Get rq ''runId'') (query_Get rq ''producerNodeId'')
          (query_Get rq ''attemptId'') (query_Get rq ''outputName'')) (\<lambda>found.
            case found of
              None \<Rightarrow> http_Error ''artifact not found'' 404
            | Some artifact \<Rightarrow> writeJSON (json_object [(''artifact'', artifact_json artifact)])))"

definition handle_list :: "http_env \<Rightarrow> 's store \<Rightarrow> 's Service \<Rightarrow> http_request \<Rightarrow> 's http_outcome" where
  "handle_list env S svc rq =
     allow_method ''GET'' rq svc
       (answer_read svc
          (if query_Get rq ''runId'' \<noteq> [] then ListArtifactsByRunCore S svc (query_Get rq ''runId'')
           else ListArtifactsBySampleRunCore S svc (query_Get rq ''sampleRunId''))
          (json_list env ''artifacts'' artifact_json))"

definition handle_runs :: "http_env \<Rightarrow> 's store \<Rightarrow> 's Service \<Rightarrow> http_request \<Rightarrow> 's http_outcome" where
  "handle_runs env S svc rq =
     allow_method ''GET'' rq svc
       (answer_read svc (ListRunsBySampleCore S svc (query_Get rq ''sampleRunId''))
          (json_list env ''runs'' lifecycle_json))"

definition handle_list_sources :: "http_env \<Rightarrow> 's store \<Rightarrow> 's Service \<Rightarrow> http_request \<Rightarrow> 's http_outcome" where
  "handle_list_sources env S svc rq =
     allow_method ''GET'' rq svc
       (answer_read svc (ListSourcesCore S svc (query_Get rq ''artifactId''))
          (json_list env ''sources'' source_json))"

definition handle_add :: "http_env \<Rightarrow> 's store \<Rightarrow> golib \<Rightarrow> clock \<Rightarrow> 's Service \<Rightarrow> http_request \<Rightarrow> 's http_outcome" where
  "handle_add env S L now svc rq =
     allow_method ''POST'' rq svc
       (with_body env rq svc (decodeJSON (add_source_into (he_time env)) ([], zero_source) rq) (\<lambda>(aid, source).
          answer (AddSourceCore S L now svc aid source) (\<lambda>x. json_object [(''source'', source_json x)])))"

definition handle_update :: "http_env \<Rightarrow> 's store \<Rightarrow> clock \<Rightarrow> 's Service \<Rightarrow> http_request \<Rightarrow> 's http_outcome" where
  "handle_update env S now svc rq =
     allow_method ''POST'' rq svc
       (with_body env rq svc (decode_texts [''sourceId'', ''state''] rq) (\<lambda>xs.
          answer (UpdateSourceStateCore S now svc (xs ! 0) (xs ! 1)) (\<lambda>x. json_object [(''source'', source_json x)])))"

text \<open>The keys of a map are written in order.\<close>

definition handle_verify :: "http_env \<Rightarrow> 's store \<Rightarrow> golib \<Rightarrow> clock \<Rightarrow> 's Service \<Rightarrow> http_request \<Rightarrow> 's http_outcome" where
  "handle_verify env S L now svc rq =
     allow_method ''POST'' rq svc
       (with_body env rq svc (decode_texts [''sourceId''] rq) (\<lambda>xs.
          answer (VerifySourceCore S L now svc (xs ! 0)) (\<lambda>(x, verified, reason).
            json_object (req_str ''reason'' reason @
              [(''source'', source_json x), (''verified'', Some (JBool verified))]))))"

definition handle_resolve :: "http_env \<Rightarrow> 's store \<Rightarrow> golib \<Rightarrow> clock \<Rightarrow> 's Service \<Rightarrow> http_request \<Rightarrow> 's http_outcome" where
  "handle_resolve env S L now svc rq =
     allow_method ''POST'' rq svc
       (with_body env rq svc (decodeJSON resolve_into (zero_binding, []) rq) (\<lambda>(b, target).
          answer (ResolveHandoffCore S L now svc b target) resolved_json))"

definition handle_notify :: "http_env \<Rightarrow> 's store \<Rightarrow> golib \<Rightarrow> clock \<Rightarrow> 's Service \<Rightarrow> http_request \<Rightarrow> 's http_outcome" where
  "handle_notify env S L now svc rq =
     allow_method ''POST'' rq svc
       (with_body env rq svc (decode_texts [''runId'', ''nodeId'', ''attemptId'', ''terminalState''] rq) (\<lambda>xs.
          answer (NotifyNodeTerminalCore S L now svc (xs ! 0) (xs ! 1) (xs ! 2) (xs ! 3)) accepted))"

definition handle_finalize :: "http_env \<Rightarrow> 's store \<Rightarrow> clock \<Rightarrow> 's Service \<Rightarrow> http_request \<Rightarrow> 's http_outcome" where
  "handle_finalize env S now svc rq =
     allow_method ''POST'' rq svc
       (with_body env rq svc (decode_texts [''runId'', ''sampleRunId''] rq) (\<lambda>xs.
          answer (FinalizeRunCore S now svc (xs ! 0) (xs ! 1)) accepted))"

definition handle_evaluate :: "http_env \<Rightarrow> 's store \<Rightarrow> clock \<Rightarrow> 's Service \<Rightarrow> http_request \<Rightarrow> 's http_outcome" where
  "handle_evaluate env S now svc rq =
     allow_method ''POST'' rq svc
       (with_body env rq svc (decode_texts [''runId''] rq) (\<lambda>xs.
          answer (EvaluateRunGCCore S now svc (xs ! 0)) accepted))"

definition handle_lifecycle :: "'s store \<Rightarrow> 's Service \<Rightarrow> http_request \<Rightarrow> 's http_outcome" where
  "handle_lifecycle S svc rq =
     allow_method ''GET'' rq svc
       (answer_read svc (GetRunLifecycleCore S svc (query_Get rq ''runId'')) (\<lambda>found.
          case found of
            None \<Rightarrow> http_Error ''run lifecycle not found'' 404
          | Some l \<Rightarrow> writeJSON (lifecycle_json l)))"

section \<open>Routes\<close>

datatype route =
    Healthz | Register | Get | ListArtifacts | Runs | ListSources | AddRoute | UpdateState | Verify
  | Resolve | NotifyTerminal | Finalize | EvaluateGC | Lifecycle | MetricsPage

definition routes :: "(string \<times> route) list" where
  "routes =
     [(''/healthz'', Healthz), (''/v1/artifacts:register'', Register), (''/v1/artifacts:get'', Get),
      (''/v1/artifacts:list'', ListArtifacts), (''/v1/sampleRuns:runs'', Runs), (''/v1/sources:list'', ListSources),
      (''/v1/sources:add'', AddRoute), (''/v1/sources:updateState'', UpdateState), (''/v1/sources:verify'', Verify),
      (''/v1/handoffs:resolve'', Resolve), (''/v1/nodes:notifyTerminal'', NotifyTerminal),
      (''/v1/sampleRuns:finalize'', Finalize), (''/v1/sampleRuns:evaluateGC'', EvaluateGC),
      (''/v1/sampleRuns:lifecycle'', Lifecycle), (''/metrics'', MetricsPage)]"

text \<open>
  \<^verbatim>\<open>ServeMux\<close>: a path that is not clean is redirected (except for CONNECT), the segments of a clean
  one are unescaped and compared with the patterns, none of which ends in a slash.
\<close>

definition cleanPath :: "string \<Rightarrow> string" where
  "cleanPath p =
     (if p = [] then ''/''
      else let q = (if HasPrefix p ''/'' then p else CHR ''/'' # p); np = path_Clean q
           in if HasSuffix q ''/'' \<and> np \<noteq> ''/'' then np @ ''/'' else np)"

definition path_segments :: "string \<Rightarrow> string list" where
  "path_segments p = map (\<lambda>s. case unescape False s of Some u \<Rightarrow> u | None \<Rightarrow> s) (Split p (CHR ''/''))"

datatype routed = Redirected string | Routed route | NoRoute

definition mux_route :: "http_request \<Rightarrow> routed" where
  "mux_route rq =
     (let p = (if rq_Method rq = ''CONNECT'' then rq_Path rq else cleanPath (rq_Path rq))
      in if p \<noteq> rq_Path rq then Redirected p
         else case find (\<lambda>(pattern, r). Split pattern (CHR ''/'') = path_segments p) routes of
                Some (pattern, r) \<Rightarrow> Routed r
              | None \<Rightarrow> NoRoute)"

fun handle :: "http_env \<Rightarrow> 's store \<Rightarrow> golib \<Rightarrow> clock \<Rightarrow> 's Service \<Rightarrow> http_request \<Rightarrow> route \<Rightarrow> 's http_outcome" where
  "handle env S L now svc rq Healthz = handle_healthz svc"
| "handle env S L now svc rq Register = handle_register env S L now svc rq"
| "handle env S L now svc rq Get = handle_get S svc rq"
| "handle env S L now svc rq ListArtifacts = handle_list env S svc rq"
| "handle env S L now svc rq Runs = handle_runs env S svc rq"
| "handle env S L now svc rq ListSources = handle_list_sources env S svc rq"
| "handle env S L now svc rq AddRoute = handle_add env S L now svc rq"
| "handle env S L now svc rq UpdateState = handle_update env S now svc rq"
| "handle env S L now svc rq Verify = handle_verify env S L now svc rq"
| "handle env S L now svc rq Resolve = handle_resolve env S L now svc rq"
| "handle env S L now svc rq NotifyTerminal = handle_notify env S L now svc rq"
| "handle env S L now svc rq Finalize = handle_finalize env S now svc rq"
| "handle env S L now svc rq EvaluateGC = handle_evaluate env S now svc rq"
| "handle env S L now svc rq Lifecycle = handle_lifecycle S svc rq"
| "handle env S L now svc rq MetricsPage = (\<lparr>rs_Status = 200, rs_Body = he_metrics_page env (svc_metrics svc)\<rparr>, svc)"

text \<open>The body of a redirect is a note for people; it is left out.\<close>

definition NewHTTPHandler :: "http_env \<Rightarrow> 's store \<Rightarrow> golib \<Rightarrow> clock \<Rightarrow> 's Service \<Rightarrow> http_request \<Rightarrow> 's http_outcome" where
  "NewHTTPHandler env S L now svc rq =
     (case mux_route rq of
        Redirected p \<Rightarrow> (\<lparr>rs_Status = 301, rs_Body = []\<rparr>, svc)
      | Routed r \<Rightarrow> handle env S L now svc rq r
      | NoRoute \<Rightarrow> (http_Error ''404 page not found'' 404, svc))"

definition http_serve_all :: "http_env \<Rightarrow> 's store \<Rightarrow> golib \<Rightarrow> 's Service \<Rightarrow> (clock \<times> http_request) list \<Rightarrow> 's Service" where
  "http_serve_all env S L svc rqs = foldl (\<lambda>svc (now, rq). snd (NewHTTPHandler env S L now svc rq)) svc rqs"

end
