(* ===== verification/Http_Laws.thy ===== *)
theory Http_Laws
  imports Http
begin

text \<open>
  What the HTTP front end guarantees: it makes at most one request to the service and adds
  nothing to its effect, its status codes are those of the table below, and an artifact it
  serves is read back as it was.
\<close>

section \<open>The request behind an HTTP request\<close>

text \<open>The service request a routed body stands for; reads make none.\<close>

fun route_request :: "http_env \<Rightarrow> http_request \<Rightarrow> route \<Rightarrow> request option" where
  "route_request env rq Register =
     map_option (\<lambda>a. RegisterArtifact (canonicalizeLegacyHTTPArtifactID a))
       (decode_artifact_body (he_time env) (rq_Body rq))"
| "route_request env rq AddRoute =
     map_option (\<lambda>(aid, x). AddSource aid x) (decodeJSON (add_source_into (he_time env)) ([], zero_source) rq)"
| "route_request env rq UpdateState =
     map_option (\<lambda>xs. UpdateSourceState (xs ! 0) (xs ! 1)) (decode_texts [''sourceId'', ''state''] rq)"
| "route_request env rq Verify = map_option (\<lambda>xs. VerifySource (xs ! 0)) (decode_texts [''sourceId''] rq)"
| "route_request env rq Resolve =
     map_option (\<lambda>(b, target). ResolveHandoff b target) (decodeJSON resolve_into (zero_binding, []) rq)"
| "route_request env rq NotifyTerminal =
     map_option (\<lambda>xs. NotifyNodeTerminal (xs ! 0) (xs ! 1) (xs ! 2) (xs ! 3))
       (decode_texts [''runId'', ''nodeId'', ''attemptId'', ''terminalState''] rq)"
| "route_request env rq Finalize =
     map_option (\<lambda>xs. FinalizeRun (xs ! 0) (xs ! 1)) (decode_texts [''runId'', ''sampleRunId''] rq)"
| "route_request env rq EvaluateGC = map_option (\<lambda>xs. EvaluateRunGC (xs ! 0)) (decode_texts [''runId''] rq)"
| "route_request env rq _ = None"

definition http_request_of :: "http_env \<Rightarrow> http_request \<Rightarrow> request option" where
  "http_request_of env rq =
     (case mux_route rq of
        Routed r \<Rightarrow> if rq_Method rq = ''POST'' then route_request env rq r else None
      | _ \<Rightarrow> None)"

lemma allow_method_snd: "snd (allow_method m rq svc out) = (if rq_Method rq = m then snd out else svc)"
  by (simp add: allow_method_def)

lemma with_body_snd: "snd (with_body env rq svc body k) = (case body of None \<Rightarrow> svc | Some x \<Rightarrow> snd (k x))"
  by (simp add: with_body_def split: option.split)

lemma answer_snd [simp]: "snd (answer out f) = snd out"
  by (simp add: answer_def split: prod.splits sum.splits)

lemma answer_read_snd [simp]: "snd (answer_read svc r f) = svc"
  by (simp add: answer_read_def split: sum.splits)

lemmas handler_defs = handle_healthz_def handle_register_def handle_get_def handle_list_def handle_runs_def
  handle_list_sources_def handle_add_def handle_update_def handle_verify_def handle_resolve_def
  handle_notify_def handle_finalize_def handle_evaluate_def handle_lifecycle_def

lemma handle_serves:
  "snd (handle env S L now svc rq r) =
     (case (if rq_Method rq = ''POST'' then route_request env rq r else None) of
        Some q \<Rightarrow> serve S L svc (now, q) | None \<Rightarrow> svc)"
  by (cases r) (simp_all add: handler_defs allow_method_snd with_body_snd split: option.split prod.split)

lemma handler_serves:
  "snd (NewHTTPHandler env S L now svc rq) =
     (case http_request_of env rq of Some q \<Rightarrow> serve S L svc (now, q) | None \<Rightarrow> svc)"
  by (simp add: NewHTTPHandler_def http_request_of_def handle_serves split: routed.split)

definition http_requests :: "http_env \<Rightarrow> (clock \<times> http_request) list \<Rightarrow> (clock \<times> request) list" where
  "http_requests env rqs = List.map_filter (\<lambda>(now, rq). map_option (Pair now) (http_request_of env rq)) rqs"

lemma http_serves: "http_serve_all env S L svc rqs = serve_all S L svc (http_requests env rqs)"
  by (induction rqs arbitrary: svc)
    (auto simp: http_serve_all_def http_requests_def List.map_filter_def handler_serves split: option.split)

section \<open>Status codes\<close>

lemma allow_method_fst:
  "fst (allow_method m rq svc out) = (if rq_Method rq = m then fst out else http_Error ''method not allowed'' 405)"
  by (simp add: allow_method_def)

lemma with_body_fst:
  "fst (with_body env rq svc body k) =
     (case body of None \<Rightarrow> http_Error (he_decode_error env (rq_Body rq)) 400 | Some x \<Rightarrow> fst (k x))"
  by (simp add: with_body_def split: option.split)

lemma statuses [simp]: "rs_Status (http_Error msg c) = c" "rs_Status (writeJSON v) = 200" "rs_Status (json_list env n f xs) = 200"
  by (simp_all add: http_Error_def writeJSON_def json_list_def)

lemma answer_status:
  "rs_Status (fst (answer out f)) = (case fst out of Inl e \<Rightarrow> 400 | Inr x \<Rightarrow> 200)"
  by (simp add: answer_def split: prod.splits sum.splits)

section \<open>What is served can be registered\<close>

lemma members_into_append:
  "members_into f (xs @ ys) x = (case members_into f xs x of None \<Rightarrow> None | Some y \<Rightarrow> members_into f ys y)"
  by (induction f xs x rule: members_into.induct) (auto split: option.splits)

text \<open>The names of the fields differ by more than case.\<close>

definition named_apart :: "'a field list \<Rightarrow> bool" where
  "named_apart table \<longleftrightarrow> distinct (map fold_name (map fst table))"

lemma fields_into_known:
  assumes "named_apart table" and "(name, f) \<in> set table"
  shows "fields_into table x name v = f x v"
proof -
  have "find (\<lambda>(n, g). is_field n name) table = Some (name, f)"
    using assms
  proof (induction table)
    case (Cons e table)
    then show ?case by (cases e) (force simp: named_apart_def is_field_def)
  qed simp
  then show ?thesis by (simp add: fields_into_def)
qed

lemma fold_name_ascii: "list_all ascii_byte s \<Longrightarrow> fold_name s = map lower_ascii s"
  by (induction s rule: fold_name.induct) (auto simp: fold_name.simps bytes_def ascii_byte_def byte_in_def)

lemma named_apart_ascii:
  assumes "list_all (list_all ascii_byte) (map fst table)"
  shows "named_apart table \<longleftrightarrow> distinct (map (map lower_ascii) (map fst table))"
proof -
  have "map fold_name (map fst table) = map (map lower_ascii) (map fst table)"
    by (rule map_cong) (use assms fold_name_ascii in \<open>auto simp: list_all_iff\<close>)
  then show ?thesis by (simp only: named_apart_def)
qed

lemma artifact_names: "named_apart (artifact_fields other)"
proof -
  have names: "map fst (artifact_fields other) =
      [''runId'', ''sampleRunId'', ''producerNodeId'', ''producerAttemptId'', ''outputName'', ''artifactId'', ''digest'',
       ''logicalUri'', ''nodeName'', ''uri'', ''locations'', ''sizeBytes'', ''createdAt'']"
    by (simp add: artifact_fields_def)
  have "list_all (list_all ascii_byte) (map fst (artifact_fields other))"
    unfolding names by (simp add: ascii_byte_def byte_in_def)
  from named_apart_ascii [OF this] show ?thesis unfolding names by (simp add: lower_ascii_def)
qed

text \<open>The members of an object whose values can all be written.\<close>

definition members :: "(string \<times> json option) list \<Rightarrow> (string \<times> json) list" where
  "members ms = map (\<lambda>(k, v). (k, the v)) ms"

lemma json_object_members: "\<forall>(k, v) \<in> set ms. v \<noteq> None \<Longrightarrow> json_object ms = Some (JObj (members ms))"
  unfolding json_object_def members_def by (induction ms) auto

lemma members_simps [simp]:
  "members (xs @ ys) = members xs @ members ys" "members [(k, Some v)] = [(k, v)]" "members [] = []"
  by (simp_all add: members_def)

lemma req_str_member:
  assumes "(name, artifact_string get put) \<in> set (artifact_fields other)" and "valid_utf8 s"
  shows "members_into (fields_into (artifact_fields other)) (members (req_str name s)) (a, st) = Some (put s a, st)"
  using fields_into_known [OF artifact_names assms(1)] assms(2)
  by (simp add: req_str_def artifact_string_def)

lemma opt_str_member:
  assumes "(name, artifact_string get put) \<in> set (artifact_fields other)" and "valid_utf8 s" and "put [] a = a"
  shows "members_into (fields_into (artifact_fields other)) (members (opt_str name s)) (a, st) = Some (put s a, st)"
  using req_str_member [OF assms(1,2)] assms(3) by (auto simp: opt_str_def)

lemma artifact_table:
  "(''runId'', artifact_string a_RunID (\<lambda>s. a_RunID_update (\<lambda>_. s))) \<in> set (artifact_fields other)"
  "(''sampleRunId'', artifact_string a_SampleRunID (\<lambda>s. a_SampleRunID_update (\<lambda>_. s))) \<in> set (artifact_fields other)"
  "(''producerNodeId'', artifact_string a_ProducerNodeID (\<lambda>s. a_ProducerNodeID_update (\<lambda>_. s))) \<in> set (artifact_fields other)"
  "(''producerAttemptId'', artifact_string a_ProducerAttemptID (\<lambda>s. a_ProducerAttemptID_update (\<lambda>_. s))) \<in> set (artifact_fields other)"
  "(''outputName'', artifact_string a_OutputName (\<lambda>s. a_OutputName_update (\<lambda>_. s))) \<in> set (artifact_fields other)"
  "(''artifactId'', artifact_string a_ArtifactID (\<lambda>s. a_ArtifactID_update (\<lambda>_. s))) \<in> set (artifact_fields other)"
  "(''digest'', artifact_string a_Digest (\<lambda>s. a_Digest_update (\<lambda>_. s))) \<in> set (artifact_fields other)"
  "(''logicalUri'', artifact_string a_LogicalURI (\<lambda>s. a_LogicalURI_update (\<lambda>_. s))) \<in> set (artifact_fields other)"
  "(''nodeName'', artifact_string a_NodeName (\<lambda>s. a_NodeName_update (\<lambda>_. s))) \<in> set (artifact_fields other)"
  "(''uri'', artifact_string a_URI (\<lambda>s. a_URI_update (\<lambda>_. s))) \<in> set (artifact_fields other)"
  by (simp_all add: artifact_fields_def)

lemmas string_members = artifact_table(1,3,4,5) [THEN req_str_member] artifact_table(2,6-10) [THEN opt_str_member]

definition textual_artifact :: "Artifact \<Rightarrow> bool" where
  "textual_artifact a \<longleftrightarrow>
     list_all valid_utf8 [a_RunID a, a_SampleRunID a, a_ProducerNodeID a, a_ProducerAttemptID a, a_OutputName a,
       a_ArtifactID a, a_Digest a, a_LogicalURI a, a_NodeName a, a_URI a] \<and>
     list_all textual_location (a_Locations a) \<and> four_digit_year (a_CreatedAt a)"

lemma locations_member:
  assumes "list_all textual_location ls" and "a_Locations a = []"
  shows "members_into (fields_into (artifact_fields other))
     (members (if ls = [] then [] else [(''locations'', Some (JArr (map json_of_location ls)))])) (a, []) =
     Some (a\<lparr>a_Locations := ls\<rparr>, [])"
proof (cases "ls = []")
  case False
  have "map2 (struct_into location_field) (replicate (length ls) zero_location) (map json_of_location ls) = map Some ls"
    using assms(1) location_json_roundtrip
    by (auto simp: list_eq_iff_nth_eq list_all_length location_of_json_def)
  moreover have "all_some (map Some ls) = Some ls" using all_some_map [of ls Some id] by simp
  moreover have "(''locations'', \<lambda>(a, stale) v. map_option (\<lambda>(ls, rest). (a\<lparr>a_Locations := ls\<rparr>, rest))
      (slice_into (struct_into location_field) zero_location (a_Locations a, stale) v)) \<in> set (artifact_fields other)"
    by (simp add: artifact_fields_def)
  ultimately show ?thesis
    using False assms(2) fields_into_known [OF artifact_names] by (simp add: slice_into_def)
qed (use assms in simp)

lemma size_member:
  assumes "a_SizeBytes a = 0"
  shows "members_into (fields_into (artifact_fields other)) (members (opt_num ''sizeBytes'' (sint n))) (a, st) =
     Some (a\<lparr>a_SizeBytes := n\<rparr>, st)"
proof -
  have "ParseInt64 (int_text (sint n)) = Some (sint n)"
    using sint_greater_eq [of n] sint_less [of n] by (intro ParseInt64_int_text) auto
  moreover have "(''sizeBytes'', \<lambda>(a, stale) v. map_option (\<lambda>n. (a\<lparr>a_SizeBytes := n\<rparr>, stale))
      (int64_into (a_SizeBytes a) v)) \<in> set (artifact_fields other)"
    by (simp add: artifact_fields_def)
  moreover have "n = 0" if "sint n = 0" using that by (metis signed_0 signed_word_eqI)
  ultimately show ?thesis
    using assms fields_into_known [OF artifact_names] by (auto simp: opt_num_def int64_into_def json_int_def)
qed

lemma json_time_Some: "four_digit_year t \<Longrightarrow> json_time t = Some (JStr (FormatRFC3339Nano t))"
proof -
  assume "four_digit_year t"
  then have "0 \<le> t div 1000000000 div 86400" "t div 1000000000 div 86400 < 3652059"
    unfolding four_digit_year_def by linarith+
  from civil_year [OF this, of "fst (civil (t div 1000000000 div 86400))"] show ?thesis
    by (cases "civil (t div 1000000000 div 86400)") (simp add: json_time_def)
qed

lemma time_member:
  assumes "four_digit_year t"
  shows "members_into (fields_into (artifact_fields other)) (members [(''createdAt'', json_time t)]) (a, st) =
     Some (a\<lparr>a_CreatedAt := t\<rparr>, st)"
proof -
  have "(''createdAt'', \<lambda>(a, stale) v. map_option (\<lambda>t. (a\<lparr>a_CreatedAt := t\<rparr>, stale))
      (time_into other (a_CreatedAt a) v)) \<in> set (artifact_fields other)"
    by (simp add: artifact_fields_def)
  from fields_into_known [OF artifact_names this] show ?thesis
    using parse_format_instant [OF assms, of other] by (simp add: json_time_Some [OF assms] time_into_def)
qed

lemma artifact_json_into:
  assumes "textual_artifact a"
  shows "\<exists>ms. artifact_json a = Some (JObj ms) \<and>
     members_into (fields_into (artifact_fields other)) ms (zero_artifact, []) = Some (a, [])"
proof -
  let ?F = "members_into (fields_into (artifact_fields other))"
  obtain r sr n att out i d lu nn u ls sz t where a: "a = \<lparr>a_RunID = r, a_SampleRunID = sr, a_ProducerNodeID = n,
      a_ProducerAttemptID = att, a_OutputName = out, a_ArtifactID = i, a_Digest = d, a_LogicalURI = lu, a_NodeName = nn,
      a_URI = u, a_Locations = ls, a_SizeBytes = sz, a_CreatedAt = t\<rparr>" by (cases a) auto
  have ok: "valid_utf8 r" "valid_utf8 sr" "valid_utf8 n" "valid_utf8 att" "valid_utf8 out" "valid_utf8 i" "valid_utf8 d"
    "valid_utf8 lu" "valid_utf8 nn" "valid_utf8 u" "list_all textual_location ls" "four_digit_year t"
    using assms by (simp_all add: textual_artifact_def a)
  let ?ms = "req_str ''runId'' r @ opt_str ''sampleRunId'' sr @ req_str ''producerNodeId'' n @
      req_str ''producerAttemptId'' att @ req_str ''outputName'' out @
      opt_str ''artifactId'' i @ opt_str ''digest'' d @ opt_str ''logicalUri'' lu @ opt_str ''nodeName'' nn @ opt_str ''uri'' u @
      (if ls = [] then [] else [(''locations'', Some (JArr (map json_of_location ls)))]) @
      opt_num ''sizeBytes'' (sint sz) @ [(''createdAt'', json_time t)]"
  have "artifact_json a = json_object ?ms" by (simp add: artifact_json_def artifact_members_def a)
  also have "\<dots> = Some (JObj (members ?ms))"
    by (rule json_object_members) (auto simp: req_str_def opt_str_def opt_num_def json_time_Some [OF ok(12)])
  finally have j: "artifact_json a = Some (JObj (members ?ms))" .
  have "?F (members ?ms) (zero_artifact, []) = Some (a, [])"
    unfolding zero_artifact_def a
    by (simp add: members_into_append string_members locations_member size_member time_member ok split del: if_split)
  with j show ?thesis by blast
qed

text \<open>The text of an instant has nothing to escape.\<close>

definition plain_byte :: "char \<Rightarrow> bool" where
  "plain_byte c \<longleftrightarrow> ascii_byte c \<and> escape_ascii c = [c]"

lemma json_escape_plain: "list_all plain_byte s \<Longrightarrow> json_escape s = s"
  by (induction s) (simp_all add: plain_byte_def json_escape.simps(2))

lemma plain_digit: "48 \<le> (of_char c :: nat) \<Longrightarrow> (of_char c :: nat) \<le> 57 \<Longrightarrow> plain_byte c"
  by (auto simp: plain_byte_def ascii_byte_def byte_in_def escape_ascii_def Let_def)

lemma plain_digits: "list_all plain_byte (digits w n)"
proof (induction w arbitrary: n)
  case (Suc w)
  have "n mod 10 < 10" by simp
  then have "plain_byte (char_of (48 + n mod 10))" by (intro plain_digit) auto
  then show ?case using Suc by simp
qed simp

lemma plain_decimal: "list_all plain_byte (decimal n)"
  using decimal_digits [of n] plain_digit by (auto simp: list_all_iff)

lemma plain_marks: "plain_byte (CHR ''-'')" "plain_byte (CHR ''T'')" "plain_byte (CHR '':'')" "plain_byte (CHR ''.'')"
  "plain_byte (CHR ''Z'')"
  by (simp_all add: plain_byte_def ascii_byte_def byte_in_def escape_ascii_def)

lemma plain_fraction: "list_all plain_byte (format_fraction n)"
proof -
  have "list_all plain_byte (strip_zeros (digits 9 n))"
    using plain_digits [of 9 n] by (auto simp: strip_zeros_def list_all_iff dest: set_dropWhileD)
  then show ?thesis by (simp add: format_fraction_def plain_marks Let_def)
qed

lemma plain_instant: "list_all plain_byte (FormatRFC3339Nano t)"
  by (auto simp: FormatRFC3339Nano_def Let_def format_year_def plain_digits plain_decimal plain_marks plain_fraction
      split: prod.splits)

text \<open>Members that can be written, within a nesting.\<close>

definition writable :: "nat \<Rightarrow> (string \<times> json option) list \<Rightarrow> bool" where
  "writable d ms \<longleftrightarrow> (\<forall>(k, v) \<in> set ms. valid_utf8 k \<and> (\<exists>j. v = Some j \<and> fits d j))"

lemma writable_append [simp]: "writable d (xs @ ys) \<longleftrightarrow> writable d xs \<and> writable d ys"
  unfolding writable_def set_append ball_Un ..

lemma writable_simps [simp]:
  "writable d []" "writable d [(k, v)] \<longleftrightarrow> valid_utf8 k \<and> (\<exists>j. v = Some j \<and> fits d j)"
  "writable d (req_str k s) \<longleftrightarrow> valid_utf8 k"
  "valid_utf8 k \<Longrightarrow> writable d (opt_str k s)" "valid_utf8 k \<Longrightarrow> writable d (opt_num k i)"
  by (auto simp: writable_def req_str_def opt_str_def opt_num_def json_string_def json_int_def)

lemma writable_object:
  assumes "writable d ms"
  shows "json_object ms = Some (JObj (members ms)) \<and> fits (Suc d) (JObj (members ms))"
proof
  show "json_object ms = Some (JObj (members ms))"
    by (rule json_object_members) (use assms in \<open>auto simp: writable_def\<close>)
  show "fits (Suc d) (JObj (members ms))" using assms by (auto simp: writable_def members_def)
qed

lemma valid_names:
  "list_all valid_utf8 [''runId'', ''sampleRunId'', ''producerNodeId'', ''producerAttemptId'', ''outputName'', ''artifactId'',
     ''digest'', ''logicalUri'', ''nodeName'', ''uri'', ''locations'', ''sizeBytes'', ''createdAt'', ''artifact'']"
  by (simp add: valid_ascii ascii_byte_def byte_in_def)

lemma artifact_json_fits:
  assumes "textual_artifact a" and "4 \<le> d"
  shows "writable d (artifact_members a)"
proof -
  have t: "four_digit_year (a_CreatedAt a)" and ls: "list_all textual_location (a_Locations a)"
    using assms(1) by (simp_all add: textual_artifact_def)
  have "fits d (JStr (FormatRFC3339Nano (a_CreatedAt a)))"
    using json_escape_plain [OF plain_instant] by (metis fits.simps(4))
  moreover have "fits d (JArr (map json_of_location (a_Locations a)))"
    using ls assms(2) fits_location by (auto simp: list_all_iff)
  ultimately show ?thesis
    using valid_names unfolding artifact_members_def
    by (simp del: fits.simps add: json_time_Some [OF t] split: if_split)
qed

lemma blank_zero: "blank_artifact a \<Longrightarrow> a = zero_artifact"
  by (cases a) (simp add: blank_artifact_def zero_artifact_def IsZero_def)

lemma Decode_print:
  assumes "fits 10000 v"
  shows "Decode into target (print_json v @ [newline]) True = into target v"
proof -
  have "parse_value (Suc (2 * length (print_json v @ [newline]))) 10000 (print_json v @ [newline]) = Some (v, [newline])"
    by (rule parse_value_print [OF assms]) simp_all
  then show ?thesis by (simp add: Decode_def)
qed

lemma artifact_body_roundtrip:
  assumes "textual_artifact a" and "length body \<le> 1048576"
    and "body = rs_Body (writeJSON (json_object [(''artifact'', artifact_json a)]))"
  shows "decode_artifact_body other body = Some a"
proof -
  obtain ms where ms: "artifact_json a = Some (JObj ms)"
    "members_into (fields_into (artifact_fields other)) ms (zero_artifact, []) = Some (a, [])"
    using artifact_json_into [OF assms(1)] by blast
  have "fits 9999 (JObj ms)"
    using writable_object [OF artifact_json_fits [OF assms(1)], of 9998] ms(1) by (simp add: artifact_json_def)
  then have w: "writable 9999 [(''artifact'', artifact_json a)]" using ms(1) valid_names by simp
  note fit = conjunct2 [OF writable_object [OF w]] and obj = conjunct1 [OF writable_object [OF w]]
  have body: "body = print_json (JObj [(''artifact'', JObj ms)]) @ [newline]"
    using assms(3) obj ms(1) by (simp add: writeJSON_def)
  have fit: "fits 10000 (JObj [(''artifact'', JObj ms)])" using fit ms(1) by simp
  have env: "register_envelope other (zero_artifact, []) (JObj [(''artifact'', JObj ms)]) = Some (a, [])"
    using ms(2) fields_into_known [of "[(''artifact'', artifact_into other)]" "''artifact''" "artifact_into other"]
    by (simp add: register_envelope_def struct_into_def artifact_into_def named_apart_def)
  have flat: "artifact_into other (a, []) (JObj [(''artifact'', JObj ms)]) = Some (a, [])"
  proof -
    have "find (\<lambda>(name, f). is_field name ''artifact'') (artifact_fields other) = None"
      by (simp add: artifact_fields_def is_field_def fold_name_ascii ascii_byte_def byte_in_def lower_ascii_def)
    then show ?thesis by (simp add: artifact_into_def struct_into_def fields_into_def)
  qed
  show ?thesis
    using assms(2) unfolding decode_artifact_body_def body Decode_print [OF fit] by (simp add: env flat)
qed

end
