(* ===== verification/Demo_Http.thy ===== *)
theory Demo_Http
  imports Demo Http_Laws
begin

text \<open>Reading an artifact over HTTP, for the witnesses.\<close>

definition demo_get :: http_request where
  "demo_get =
     \<lparr>rq_Method = ''GET'', rq_Path = ''/v1/artifacts:get'',
      rq_RawQuery = ''runId=r1&producerNodeId=n1&attemptId=1&outputName=out'', rq_Body = []\<rparr>"

lemma demo_query:
  "query_Get demo_get ''runId'' = ''r1''" "query_Get demo_get ''producerNodeId'' = ''n1''"
  "query_Get demo_get ''attemptId'' = ''1''" "query_Get demo_get ''outputName'' = ''out''"
  by (simp_all add: demo_get_def query_Get_def ParseQuery_def List.map_filter_def query_pair_def QueryUnescape_def)

lemma demo_get_core:
  "GetArtifactCore (memory_store demo_lib) (demo_service [demo_register]) ''r1'' ''n1'' ''1'' ''out'' = Inr (Some demo_stored)"
  by (simp add: GetArtifactCore_def lift_store_def mem_GetArtifact_def demo_after_register demo_registered_def demo_key_string)

lemma demo_textual: "textual_artifact demo_stored"
  by (simp add: textual_artifact_def demo_stored_def demo_artifact_def zero_artifact_def demo_key_def valid_ascii ascii_byte_def
      byte_in_def four_digit_year_def)

lemma demo_instant: "length (FormatRFC3339Nano 5) \<le> 40"
  by code_simp

lemma demo_body_length:
  "length (rs_Body (fst (handle_get (memory_store demo_lib) (demo_service [demo_register]) demo_get))) \<le> 1048576"
proof -
  have "fst (handle_get (memory_store demo_lib) (demo_service [demo_register]) demo_get) =
      writeJSON (json_object [(''artifact'', artifact_json demo_stored)])"
    unfolding handle_get_def demo_query demo_get_core
    by (simp add: allow_method_def answer_read_def demo_get_def)
  moreover have "four_digit_year 5" by (simp add: four_digit_year_def)
  from json_time_Some [OF this] have "artifact_json demo_stored = Some (JObj
      [(''runId'', json_string ''r1''), (''producerNodeId'', json_string ''n1''), (''producerAttemptId'', json_string ''1''),
       (''outputName'', json_string ''out''), (''artifactId'', json_string ''run/r1/n1/1/out''),
       (''digest'', json_string ''sha256:d''), (''sizeBytes'', json_int 7), (''createdAt'', JStr (FormatRFC3339Nano 5))])"
    by (simp add: artifact_json_def artifact_members_def json_object_def req_str_def opt_str_def opt_num_def demo_stored_def
        demo_artifact_def zero_artifact_def demo_key_def)
  ultimately show ?thesis
    using demo_instant
    by (simp add: writeJSON_def json_object_def quoted_def json_string_def json_int_def json_escape_plain plain_byte_def
        ascii_byte_def byte_in_def escape_ascii_def int_text_def decimal.simps)
qed

end
