(* ===== verification/Grpc_Laws.thy ===== *)
theory Grpc_Laws
  imports Grpc
begin

text \<open>
  What the gRPC front end guarantees: it adds nothing to the effect of the service's methods on
  the store, it counts its calls, its conversions lose nothing of what the domain validates,
  and its status codes follow the sentinels.
\<close>

section \<open>The counters do not influence the service\<close>

definition unmeter :: "'s Service \<Rightarrow> 's Service" where
  "unmeter svc = svc\<lparr>svc_metrics := Metrics_New\<rparr>"

lemma unmeter_simps [simp]:
  "unmeter (count_metric f svc) = unmeter svc"
  "unmeter (with_store svc st) = with_store (unmeter svc) st"
  "unmeter (unmeter svc) = unmeter svc"
  "svc_store (unmeter svc) = svc_store svc"
  "errorText (unmeter svc) = errorText svc"
  "svc_store (count_metric f svc) = svc_store svc"
  "errorText (count_metric f svc) = errorText svc"
  "svc_store (with_store svc st) = st"
  "errorText (with_store svc st) = errorText svc"
  by (simp_all add: unmeter_def count_metric_def with_store_def)

lemma unmeter_settings [simp]:
  "minRetention (unmeter svc) = minRetention svc"
  "retentionPolicySource (unmeter svc) = retentionPolicySource svc"
  "httpAllowedHosts (unmeter svc) = httpAllowedHosts svc"
  "allowAnyHTTPSource (unmeter svc) = allowAnyHTTPSource svc"
  by (simp_all add: unmeter_def)

definition unmetered :: "'a \<times> 's Service \<Rightarrow> 'a \<times> 's Service" where
  "unmetered out = (fst out, unmeter (snd out))"

lemma unmetered_simps [simp]: "unmetered (x, svc) = (x, unmeter svc)"
  by (simp add: unmetered_def)

lemma unmeter_put_one: "unmetered (put_one_source S (unmeter svc) x) = unmetered (put_one_source S svc x)"
  by (simp add: put_one_source_def split: prod.splits)

lemma unmeter_reload: "unmetered (store_and_reload S (unmeter svc) x) = unmetered (store_and_reload S svc x)"
  by (simp add: store_and_reload_def put_one_source_def split: prod.splits option.splits sum.splits)

lemma unmeter_upsert: "unmetered (finish_upsert S (unmeter svc) l) = unmetered (finish_upsert S svc l)"
  by (simp add: finish_upsert_def split: prod.splits option.splits)

lemma unmeter_register:
  "unmetered (RegisterArtifactCore S L now (unmeter svc) a) = unmetered (RegisterArtifactCore S L now svc a)"
  by (simp add: RegisterArtifactCore_def Let_def split: prod.splits option.splits sum.splits)

lemma unmeter_notify:
  "unmetered (NotifyNodeTerminalCore S L now (unmeter svc) r n att x) =
     unmetered (NotifyNodeTerminalCore S L now svc r n att x)"
  by (simp add: NotifyNodeTerminalCore_def split: prod.splits option.splits)

lemma unmeter_finalize:
  "unmetered (FinalizeRunCore S now (unmeter svc) r sample) = unmetered (FinalizeRunCore S now svc r sample)"
  by (simp add: FinalizeRunCore_def Let_def finish_upsert_def split: prod.splits option.splits sum.splits)

lemma unmeter_evaluate:
  "unmetered (EvaluateRunGCCore S now (unmeter svc) r) = unmetered (EvaluateRunGCCore S now svc r)"
  by (simp add: EvaluateRunGCCore_def Let_def finish_upsert_def split: prod.splits option.splits sum.splits)

lemma resolve_registered_unmeter:
  "resolve_registered L (unmeter svc) b target a ss = resolve_registered L svc b target a ss"
  "resolve_registered L (count_metric f svc) b target a ss = resolve_registered L svc b target a ss"
  by (simp_all add: resolve_registered_def candidateEligibleArtifactSources_def count_metric_def Let_def)

lemma unmeter_resolve:
  "unmetered (ResolveHandoffCore S L now (unmeter svc) b target) =
     unmetered (ResolveHandoffCore S L now svc b target)"
  by (simp add: ResolveHandoffCore_def Let_def resolve_registered_unmeter
      split: prod.splits option.splits sum.splits)

lemma verify_error_unmeter [simp]: "verify_error L (unmeter svc) a x = verify_error L svc a x"
  by (simp add: verify_error_def split: option.split)

lemma unmeter_add:
  "unmetered (AddSourceCore S L now (unmeter svc) aid x) = unmetered (AddSourceCore S L now svc aid x)"
  by (simp add: AddSourceCore_def put_one_source_def
      split: prod.splits option.splits sum.splits store_error.splits)

lemma unmeter_update:
  "unmetered (UpdateSourceStateCore S now (unmeter svc) sid x) = unmetered (UpdateSourceStateCore S now svc sid x)"
  by (simp add: UpdateSourceStateCore_def unmeter_reload split: option.splits sum.splits)

lemma unmeter_verify:
  "unmetered (VerifySourceCore S L now (unmeter svc) sid) = unmetered (VerifySourceCore S L now svc sid)"
proof -
  have "r = r' \<and> unmeter v = unmeter v'"
    if "store_and_reload S (unmeter svc) x = (r, v)" "store_and_reload S svc x = (r', v')" for x r r' v v'
    using unmeter_reload [of S svc x] that by (simp add: unmetered_def)
  then show ?thesis
    by (auto simp: VerifySourceCore_def split: prod.splits option.splits sum.splits) fastforce+
qed

lemmas unmeter_ops = unmeter_register unmeter_add unmeter_update unmeter_verify unmeter_resolve
  unmeter_notify unmeter_finalize unmeter_evaluate

text \<open>Only the result and the unmetered service of an operation matter to its caller.\<close>

lemma unmetered_snd: "unmetered out = unmetered out' \<Longrightarrow> unmeter (snd out) = unmeter (snd out')"
  by (simp add: unmetered_def)

lemma serve_unmeter: "unmeter (serve S L (unmeter svc) q) = unmeter (serve S L svc q)"
proof -
  obtain now req where q: "q = (now, req)" by fastforce
  show ?thesis unfolding q by (cases req) (simp_all add: unmeter_ops [THEN unmetered_snd])
qed

lemma serve_unmeter_cong: "unmeter svc = unmeter svc' \<Longrightarrow> unmeter (serve S L svc q) = unmeter (serve S L svc' q)"
  by (metis serve_unmeter)

lemma snd_reply [simp]: "snd (reply out f) = snd out"
  by (simp add: reply_def split: prod.splits sum.splits)

lemma unmeter_count_failure [simp]: "unmeter (snd (count_failure g out)) = unmeter (snd out)"
  by (simp add: count_failure_def split: prod.splits sum.splits)

lemma snd_get_lifecycle [simp]:
  "snd (grpc_GetSampleRunLifecycle S svc r) = count_metric IncGRPCGetLifecycle svc"
  by (simp add: grpc_GetSampleRunLifecycle_def Let_def split: sum.splits option.splits)

text \<open>A call changes the service as its request does, the counters apart.\<close>

lemma metered_ops:
  "unmeter (snd (RegisterArtifactCore S L now (count_metric f svc) a)) = unmeter (snd (RegisterArtifactCore S L now svc a))"
  "unmeter (snd (ResolveHandoffCore S L now (count_metric f svc) b target)) =
     unmeter (snd (ResolveHandoffCore S L now svc b target))"
  "unmeter (snd (NotifyNodeTerminalCore S L now (count_metric f svc) r n att x)) =
     unmeter (snd (NotifyNodeTerminalCore S L now svc r n att x))"
  "unmeter (snd (FinalizeRunCore S now (count_metric f svc) r sample)) = unmeter (snd (FinalizeRunCore S now svc r sample))"
  "unmeter (snd (EvaluateRunGCCore S now (count_metric f svc) r)) = unmeter (snd (EvaluateRunGCCore S now svc r))"
  by (metis unmeter_register [THEN unmetered_snd] unmeter_simps(1),
      metis unmeter_resolve [THEN unmetered_snd] unmeter_simps(1),
      metis unmeter_notify [THEN unmetered_snd] unmeter_simps(1),
      metis unmeter_finalize [THEN unmetered_snd] unmeter_simps(1),
      metis unmeter_evaluate [THEN unmetered_snd] unmeter_simps(1))

lemma grpc_serve_unmeter:
  "unmeter (grpc_serve S L svc (now, c)) =
     (case call_request c of Some q \<Rightarrow> unmeter (serve S L svc (now, q)) | None \<Rightarrow> unmeter svc)"
  by (cases c)
    (simp_all add: grpc_RegisterArtifact_def grpc_AddSource_def grpc_UpdateSourceState_def
      grpc_ListSources_def grpc_VerifySource_def grpc_ResolveHandoff_def grpc_NotifyNodeTerminal_def
      grpc_FinalizeSampleRun_def grpc_EvaluateGC_def metered_ops)

lemma grpc_serve_all_unmeter:
  "unmeter svc = unmeter svc' \<Longrightarrow>
     unmeter (grpc_serve_all S L svc calls) = unmeter (serve_all S L svc' (call_requests calls))"
proof (induction calls arbitrary: svc svc')
  case (Cons x calls)
  obtain now c where x: "x = (now, c)" by fastforce
  show ?case
  proof (cases "call_request c")
    case None
    with Cons.prems have "unmeter (grpc_serve S L svc x) = unmeter svc'"
      by (simp add: x grpc_serve_unmeter)
    from Cons.IH [OF this] None show ?thesis
      by (simp add: grpc_serve_all_def call_requests_def x)
  next
    case (Some q)
    with Cons.prems have "unmeter (grpc_serve S L svc x) = unmeter (serve S L svc' (now, q))"
      using serve_unmeter_cong [of svc svc' S L "(now, q)"] by (simp add: x grpc_serve_unmeter)
    from Cons.IH [OF this] Some show ?thesis
      by (simp add: grpc_serve_all_def call_requests_def x)
  qed
qed (simp add: grpc_serve_all_def call_requests_def)

lemma grpc_serve_all_store:
  "svc_store (grpc_serve_all S L svc calls) = svc_store (serve_all S L svc (call_requests calls))"
  using grpc_serve_all_unmeter [OF refl] by (metis unmeter_simps(4))

section \<open>The counters count\<close>

lemma metrics_simps [simp]:
  "svc_metrics (count_metric f svc) = f (svc_metrics svc)"
  "svc_metrics (with_store svc st) = svc_metrics svc"
  by (simp_all add: count_metric_def with_store_def)

lemma put_one_metrics: "svc_metrics (snd (put_one_source S svc x)) = svc_metrics svc"
  by (simp add: put_one_source_def split: prod.splits)

lemma reload_metrics: "svc_metrics (snd (store_and_reload S svc x)) = svc_metrics svc"
  by (simp add: store_and_reload_def put_one_source_def split: prod.splits option.splits sum.splits)

lemma upsert_metrics: "svc_metrics (snd (finish_upsert S svc l)) = svc_metrics svc"
  by (simp add: finish_upsert_def split: prod.splits option.splits)

lemma register_metrics:
  "svc_metrics (snd (RegisterArtifactCore S L now svc a)) =
     (case fst (RegisterArtifactCore S L now svc a) of
        Inl _ \<Rightarrow> svc_metrics svc | Inr _ \<Rightarrow> IncArtifactsRegistered (svc_metrics svc))"
  by (simp add: RegisterArtifactCore_def Let_def split: prod.splits option.splits sum.splits)

lemma add_metrics: "svc_metrics (snd (AddSourceCore S L now svc aid x)) = svc_metrics svc"
  by (simp add: AddSourceCore_def put_one_source_def
      split: prod.splits option.splits sum.splits store_error.splits)

lemma update_metrics: "svc_metrics (snd (UpdateSourceStateCore S now svc sid x)) = svc_metrics svc"
  by (simp add: UpdateSourceStateCore_def reload_metrics split: option.splits sum.splits)

lemma verify_metrics: "svc_metrics (snd (VerifySourceCore S L now svc sid)) = svc_metrics svc"
proof -
  have "svc_metrics v = svc_metrics svc" if "store_and_reload S svc x = (r, v)" for x r v
    using reload_metrics [of S svc x] that by simp
  then show ?thesis
    by (auto simp: VerifySourceCore_def split: prod.splits option.splits sum.splits)
qed

lemma notify_metrics: "svc_metrics (snd (NotifyNodeTerminalCore S L now svc r n att x)) = svc_metrics svc"
  by (simp add: NotifyNodeTerminalCore_def split: prod.splits option.splits)

lemma resolve_metrics:
  "svc_metrics (snd (ResolveHandoffCore S L now svc b target)) = IncResolveRequests (svc_metrics svc) \<or>
   (\<exists>r. fst (ResolveHandoffCore S L now svc b target) = Inr r) \<and>
   svc_metrics (snd (ResolveHandoffCore S L now svc b target)) = IncFallback (IncResolveRequests (svc_metrics svc))"
  by (simp add: ResolveHandoffCore_def Let_def split: prod.splits option.splits sum.splits)

lemma finalize_metrics:
  "\<exists>v. svc_metrics (snd (FinalizeRunCore S now svc r sample)) \<in> {svc_metrics svc, SetGCBacklogBytes v (svc_metrics svc)}"
  by (simp add: FinalizeRunCore_def Let_def upsert_metrics split: sum.splits) blast

lemma evaluate_metrics:
  "\<exists>v. svc_metrics (snd (EvaluateRunGCCore S now svc r)) \<in> {svc_metrics svc, SetGCBacklogBytes v (svc_metrics svc)}"
  by (simp add: EvaluateRunGCCore_def Let_def upsert_metrics split: sum.splits) blast

lemma fst_reply: "fst (reply out f) = Inl e \<longleftrightarrow> (\<exists>x. fst out = Inl x \<and> e = toGRPCError (errorText (snd out)) x)"
  by (auto simp: reply_def split: prod.splits sum.splits)

text \<open>
  The books of a service reached through gRPC alone: every registration either succeeded or is
  counted as an error, and every resolution was counted on both levels.
\<close>

definition books_balance :: "Metrics \<Rightarrow> bool" where
  "books_balance m \<longleftrightarrow>
     artifactsRegistered m + grpcRegisterArtifactErrors m = grpcRegisterArtifact m \<and>
     resolveRequests m = grpcResolveHandoff m \<and>
     grpcResolveHandoffErrors m + fallback m \<le> grpcResolveHandoff m"

lemmas inc_defs = IncArtifactsRegistered_def IncResolveRequests_def IncFallback_def
  IncGRPCRegisterArtifact_def IncGRPCRegisterArtifactErrors_def IncGRPCResolveHandoff_def
  IncGRPCResolveHandoffErrors_def IncGRPCNotifyNodeTerminal_def IncGRPCFinalizeSampleRun_def
  IncGRPCEvaluateGC_def IncGRPCGetLifecycle_def SetGCBacklogBytes_def

lemma count_failure_metrics:
  "svc_metrics (snd (count_failure g (reply out f))) =
     (case fst out of Inl _ \<Rightarrow> g (svc_metrics (snd out)) | Inr _ \<Rightarrow> svc_metrics (snd out))"
  by (simp add: count_failure_def reply_def split: prod.splits sum.splits)

text \<open>The change of the counters by one call, call by call.\<close>

lemma grpc_register_metrics:
  "\<exists>m. m = IncGRPCRegisterArtifact (svc_metrics svc) \<and>
     svc_metrics (snd (grpc_RegisterArtifact S L now svc a)) \<in>
       {IncArtifactsRegistered m, IncGRPCRegisterArtifactErrors m}"
  using register_metrics [of S L now "count_metric IncGRPCRegisterArtifact svc" "grpcArtifactToDomain a"]
  by (auto simp: grpc_RegisterArtifact_def count_failure_metrics split: sum.splits)

lemma grpc_resolve_metrics:
  "\<exists>m. m = IncResolveRequests (IncGRPCResolveHandoff (svc_metrics svc)) \<and>
     svc_metrics (snd (grpc_ResolveHandoff S L now svc b target)) \<in>
       {m, IncFallback m, IncGRPCResolveHandoffErrors m}"
  using resolve_metrics [of S L now "count_metric IncGRPCResolveHandoff svc" "grpcBindingToDomain b" target]
  by (auto simp: grpc_ResolveHandoff_def count_failure_metrics split: sum.splits)

lemma grpc_finalize_metrics:
  "\<exists>v m. m = IncGRPCFinalizeSampleRun (svc_metrics svc) \<and>
     svc_metrics (snd (grpc_FinalizeSampleRun S now svc r sample)) \<in> {m, SetGCBacklogBytes v m}"
  using finalize_metrics [of S now "count_metric IncGRPCFinalizeSampleRun svc" r sample]
  by (simp add: grpc_FinalizeSampleRun_def)

lemma grpc_evaluate_metrics:
  "\<exists>v m. m = IncGRPCEvaluateGC (svc_metrics svc) \<and>
     svc_metrics (snd (grpc_EvaluateGC S now svc r)) \<in> {m, SetGCBacklogBytes v m}"
  using evaluate_metrics [of S now "count_metric IncGRPCEvaluateGC svc" r]
  by (simp add: grpc_EvaluateGC_def)

lemma grpc_other_metrics:
  "svc_metrics (snd (grpc_AddSource S L now svc aid x)) = svc_metrics svc"
  "svc_metrics (snd (grpc_UpdateSourceState S now svc sid y)) = svc_metrics svc"
  "svc_metrics (snd (grpc_ListSources S svc aid)) = svc_metrics svc"
  "svc_metrics (snd (grpc_VerifySource S L now svc sid)) = svc_metrics svc"
  "svc_metrics (snd (grpc_NotifyNodeTerminal S L now svc r n att z)) = IncGRPCNotifyNodeTerminal (svc_metrics svc)"
  by (simp_all add: grpc_AddSource_def grpc_UpdateSourceState_def grpc_ListSources_def
      grpc_VerifySource_def grpc_NotifyNodeTerminal_def add_metrics update_metrics verify_metrics notify_metrics)

text \<open>The calls the six call counters have counted.\<close>

definition call_counts :: "Metrics \<Rightarrow> nat list" where
  "call_counts m =
     [grpcRegisterArtifact m, grpcResolveHandoff m, grpcNotifyNodeTerminal m, grpcFinalizeSampleRun m,
      grpcEvaluateGC m, grpcGetLifecycle m]"

definition call_kinds :: "(grpc_call \<Rightarrow> bool) list" where
  "call_kinds = [is_CallRegister, is_CallResolve, is_CallNotify, is_CallFinalize, is_CallEvaluateGC, is_CallGetLifecycle]"

lemma grpc_serve_counts:
  "call_counts (svc_metrics (grpc_serve S L svc (now, c))) =
     map2 (\<lambda>n is. n + of_bool (is c)) (call_counts (svc_metrics svc)) call_kinds"
proof (cases c)
  case (CallRegister a)
  with grpc_register_metrics [of svc S L now a] show ?thesis by (auto simp: call_counts_def call_kinds_def inc_defs)
next
  case (CallResolve b target)
  with grpc_resolve_metrics [of svc S L now b target] show ?thesis by (auto simp: call_counts_def call_kinds_def inc_defs)
next
  case (CallFinalize r sample)
  with grpc_finalize_metrics [of svc S now r sample] show ?thesis by (auto simp: call_counts_def call_kinds_def inc_defs)
next
  case (CallEvaluateGC r)
  with grpc_evaluate_metrics [of svc S now r] show ?thesis by (auto simp: call_counts_def call_kinds_def inc_defs)
qed (simp_all add: grpc_other_metrics call_counts_def call_kinds_def inc_defs)

lemma grpc_serve_books:
  assumes "books_balance (svc_metrics svc)"
  shows "books_balance (svc_metrics (grpc_serve S L svc (now, c)))"
proof (cases c)
  case (CallRegister a)
  with grpc_register_metrics [of svc S L now a] assms show ?thesis by (auto simp: books_balance_def inc_defs)
next
  case (CallResolve b target)
  with grpc_resolve_metrics [of svc S L now b target] assms show ?thesis by (auto simp: books_balance_def inc_defs)
next
  case (CallFinalize r sample)
  with grpc_finalize_metrics [of svc S now r sample] assms show ?thesis by (auto simp: books_balance_def inc_defs)
next
  case (CallEvaluateGC r)
  with grpc_evaluate_metrics [of svc S now r] assms show ?thesis by (auto simp: books_balance_def inc_defs)
qed (use assms in \<open>simp_all add: grpc_other_metrics books_balance_def inc_defs\<close>)

lemma grpc_serve_all_counts:
  "call_counts (svc_metrics (grpc_serve_all S L svc calls)) =
     map2 (\<lambda>n is. n + length (filter (\<lambda>(now, c). is c) calls)) (call_counts (svc_metrics svc)) call_kinds"
proof (induction calls arbitrary: svc)
  case (Cons x calls)
  obtain now c where x: "x = (now, c)" by fastforce
  show ?case
    using Cons [of "grpc_serve S L svc x"] grpc_serve_counts [of S L svc now c]
    by (simp add: grpc_serve_all_def x call_counts_def call_kinds_def)
qed (simp add: grpc_serve_all_def call_counts_def call_kinds_def)

lemma grpc_serve_all_books:
  "books_balance (svc_metrics svc) \<Longrightarrow> books_balance (svc_metrics (grpc_serve_all S L svc calls))"
proof (induction calls arbitrary: svc)
  case (Cons x calls)
  obtain now c where x: "x = (now, c)" by fastforce
  from Cons.IH [OF grpc_serve_books [OF Cons.prems, of S L now c]] show ?case
    by (simp add: grpc_serve_all_def x)
qed (simp add: grpc_serve_all_def)

section \<open>Conversions lose nothing of a valid value\<close>

definition plain_location :: "Location \<Rightarrow> bool" where
  "plain_location l \<longleftrightarrow> ValidateTypedUnion l = None \<and> (\<forall>h. HTTP l = Some h \<longrightarrow> h_Headers h = [])"

lemma plain_location_cases:
  assumes "plain_location l"
  obtains n p where "l = \<lparr>NodeLocal = Some \<lparr>nl_NodeName = n, nl_Path = p\<rparr>, HTTP = None\<rparr>"
    | u where "l = \<lparr>NodeLocal = None, HTTP = Some \<lparr>h_URI = u, h_Headers = []\<rparr>\<rparr>"
proof (cases "NodeLocal l")
  case None
  then obtain h where "HTTP l = Some h" "h_Headers h = []"
    using assms by (auto simp: plain_location_def ValidateTypedUnion_None)
  then show ?thesis using None that(2) [of "h_URI h"] by simp
next
  case (Some nl)
  then have "HTTP l = None" using assms by (auto simp: plain_location_def ValidateTypedUnion_None)
  then show ?thesis using Some that(1) [of "nl_NodeName nl" "nl_Path nl"] by simp
qed

lemma location_roundtrip:
  assumes "plain_location l"
  shows "grpcLocationToDomain (grpcLocationFromDomain (Some l)) = l"
  using assms
  by (cases l rule: plain_location_cases)
    (simp_all add: grpcLocationToDomain_def grpcLocationFromDomain_def backend_to_domain_def
      pb_node_name_def pb_path_def pb_uri_def)

lemma locations_roundtrip:
  assumes "\<forall>l \<in> set ls. plain_location l"
  shows "grpcLocationsToDomain (map (\<lambda>l. grpcLocationFromDomain (Some l)) ls) = ls"
  using assms
proof (induction ls)
  case (Cons l ls)
  then have "plain_location l" by simp
  with location_roundtrip [OF this] Cons show ?case
    by (auto simp: grpcLocationsToDomain_def grpcLocationToDomain_def zero_location_def plain_location_def
        ValidateTypedUnion_None split: option.splits)
qed (simp add: grpcLocationsToDomain_def)

lemma validated_location_plain: "ValidateArtifactLocation L l = None \<Longrightarrow> plain_location l"
  by (auto simp: ValidateArtifactLocation_def plain_location_def validateHTTPSource_None split: option.splits)

lemma validated_source_plain: "ValidateArtifactSource L s = None \<Longrightarrow> plain_location (s_Location s)"
  by (auto simp: ValidateArtifactSource_None plain_location_def ValidateTypedUnion_None validateHTTPSource_None)

text \<open>What a source message carries of a source; the time stamps and the last error only go out.\<close>

definition wire_part :: "ArtifactSource \<Rightarrow> ArtifactSource" where
  "wire_part s = s\<lparr>s_CreatedAt := 0, s_UpdatedAt := 0, s_LastVerifiedAt := 0, s_LastError := []\<rparr>"

lemma source_roundtrip:
  assumes "ValidateArtifactSource L s = None"
  shows "grpcSourceToDomain (Some (grpcSourceFromDomain s)) = wire_part s"
  using location_roundtrip [OF validated_source_plain [OF assms]]
  by (simp add: grpcSourceToDomain_def grpcSourceFromDomain_def wire_part_def zero_source_def)

lemma small_count: "0 \<le> n \<Longrightarrow> n < 2 ^ 31 \<Longrightarrow> sint (word_of_int n :: 32 word) = n"
  by (simp add: signed_of_int signed_take_bit_int_eq_self)

text \<open>Reading an instant of a response.\<close>

definition read_instant :: "(string \<Rightarrow> time option) \<Rightarrow> string \<Rightarrow> time option" where
  "read_instant other s = (if s = [] then None else ParseRFC3339Nano other s)"

lemma format_nonempty: "FormatRFC3339Nano t \<noteq> []"
  by (simp add: FormatRFC3339Nano_def Let_def split: prod.splits)

lemma read_format_instant:
  assumes "\<forall>u. t = Some u \<longrightarrow> four_digit_year u"
  shows "read_instant other (format_instant t) = t"
  using assms parse_format_instant
  by (auto simp: read_instant_def format_instant_def format_nonempty split: option.splits)

section \<open>Status codes\<close>

lemma status_code_table:
  "status_code e =
     (case e of
        FieldsRequired _ \<Rightarrow> InvalidArgument | KeyInvalid _ \<Rightarrow> InvalidArgument
      | ArtifactIDMismatch _ _ \<Rightarrow> InvalidArgument | DigestClearRejected _ _ \<Rightarrow> AlreadyExists
      | DigestChangeRejected _ _ _ \<Rightarrow> AlreadyExists | ArtifactNotFound _ \<Rightarrow> NotFound
      | SourceNotFound _ \<Rightarrow> NotFound | SourceNotFoundAfterWrite _ \<Rightarrow> NotFound
      | SourceOwnedElsewhere _ \<Rightarrow> AlreadyExists | SourceDeletedError _ \<Rightarrow> FailedPrecondition
      | UnsupportedTerminalState _ \<Rightarrow> InvalidArgument | CandidateInvalid _ \<Rightarrow> InvalidArgument
      | BindingPolicyInvalid _ _ \<Rightarrow> Internal | DomainInvalid _ \<Rightarrow> Internal
      | StoreFailed _ \<Rightarrow> Internal | MetricsInitFailed _ \<Rightarrow> Internal)"
  by (cases e) (simp_all add: status_code_def)

end
