(* ===== verification/Accounting.thy ===== *)
theory Accounting
  imports Service
begin

text \<open>
  The arithmetic of the lifecycle record: the retained size is a sum in 64-bit words, and the
  backlog gauge is that size as a 64-bit float.
\<close>

lemma retained_bytes_sum:
  "retained_bytes as = word_of_int (\<Sum>a\<leftarrow>as. max 0 (sint (a_SizeBytes a)))"
proof -
  have "foldl (\<lambda>acc a. if 0 <s a_SizeBytes a then acc + a_SizeBytes a else acc) acc as =
      acc + word_of_int (\<Sum>a\<leftarrow>as. max 0 (sint (a_SizeBytes a)))" for acc
    by (induction as arbitrary: acc) (auto simp: word_sless_alt max_def)
  then show ?thesis by (simp add: retained_bytes_def)
qed

lemma float64_of_error:
  assumes "2 ^ 53 < n"
  shows "2 ^ 53 * \<bar>float64_of n - n\<bar> \<le> n"
proof -
  define e where "e = floorlog 2 (nat n) - 53"
  have lower: "2 ^ (floorlog 2 (nat n) - 1) \<le> nat n"
    using assms by (intro floorlog_bounds [THEN conjunct1]) auto
  have "54 \<le> floorlog 2 (nat n)"
    using assms floorlog_ge_SucI [of 2 53 "nat n"] by simp
  then have fl: "floorlog 2 (nat n) - 1 = 53 + (e - 1)" and e: "0 < e" by (auto simp: e_def)
  have half: "(2 :: int) ^ e = 2 * 2 ^ (e - 1)" using e by (cases e) auto
  have big: "2 ^ 53 * 2 ^ (e - 1) \<le> n"
    using lower le_nat_iff [of n "2 ^ (53 + (e - 1))"] assms unfolding fl by (simp add: power_add)
  define q r where "q = n div 2 ^ e" and "r = n mod 2 ^ e"
  have n: "n = q * 2 ^ e + r" unfolding q_def r_def by (rule div_mult_mod_eq [symmetric])
  have r: "0 \<le> r" "r < 2 ^ e" by (simp_all add: r_def)
  have "float64_of n = (if r < 2 ^ (e - 1) \<or> r = 2 ^ (e - 1) \<and> even q then q else q + 1) * 2 ^ e"
    using assms by (simp add: float64_of_def Let_def e_def q_def r_def)
  then have "\<bar>float64_of n - n\<bar> \<le> 2 ^ (e - 1)"
    using n r half by (auto simp: algebra_simps split: if_splits)
  then have "2 ^ 53 * \<bar>float64_of n - n\<bar> \<le> 2 ^ 53 * 2 ^ (e - 1)" by simp
  then show ?thesis using big by linarith
qed

text \<open>
  The backlog gauge is rounded like a 64-bit float: exact up to 2 to the 53, and never off by
  more than one part in 2 to the 53.
\<close>

lemma backlog_gauge_rounding:
  assumes "0 \<le> n"
  shows "(n \<le> 2 ^ 53 \<longrightarrow> float64_of n = n) \<and> 2 ^ 53 * \<bar>float64_of n - n\<bar> \<le> n"
proof (cases "n \<le> 2 ^ 53")
  case True
  then have "float64_of n = n" by (simp add: float64_of_def)
  then show ?thesis using assms by simp
qed (use float64_of_error in simp)

end
