(* ===== verification/Conformance.thy ===== *)
theory Conformance
  imports Sqlite_Service
begin

text \<open>
  \<^verbatim>\<open>pkg/inventory/storetest\<close>: the contract suite every store backend is run through, its fixtures
  and its legacy cases.  A case is a list of steps on the store; a step that finds what the case
  does not want ends it.  That a reopened store is another instance is not part of the model.
\<close>

section \<open>Fixtures\<close>

abbreviation (input) runA :: string where "runA \<equiv> ''run-a''"
abbreviation (input) runB :: string where "runB \<equiv> ''run-b''"
abbreviation (input) sampleRun :: string where "sampleRun \<equiv> ''sample-1''"
abbreviation (input) node_fix :: string where "node_fix \<equiv> ''producer''"
abbreviation (input) attempt_fix :: string where "attempt_fix \<equiv> ''attempt-1''"
abbreviation (input) output_fix :: string where "output_fix \<equiv> ''dataset''"
abbreviation (input) digestOne :: string where "digestOne \<equiv> ''sha256:one''"
abbreviation (input) digestTwo :: string where "digestTwo \<equiv> ''sha256:two''"
abbreviation (input) succeeded :: string where "succeeded \<equiv> ''Succeeded''"
abbreviation (input) failed :: string where "failed \<equiv> ''Failed''"

definition fixture_at :: time where
  "fixture_at = (day_number 2026 10 1 * 86400 + 8 * 3600) * 1000000000 + 123456789"

definition artifact_fix :: "string \<Rightarrow> string \<Rightarrow> Artifact" where
  "artifact_fix runID digest =
     (let a = \<lparr>a_RunID = runID, a_SampleRunID = sampleRun, a_ProducerNodeID = node_fix,
          a_ProducerAttemptID = attempt_fix, a_OutputName = output_fix, a_ArtifactID = [], a_Digest = digest,
          a_LogicalURI = ''ah://'' @ runID @ ''/'' @ output_fix, a_NodeName = ''worker-1'', a_URI = [],
          a_Locations = [\<lparr>NodeLocal = Some \<lparr>nl_NodeName = ''worker-1'', nl_Path = ''/data/'' @ runID\<rparr>, HTTP = None\<rparr>],
          a_SizeBytes = 42, a_CreatedAt = fixture_at\<rparr>
      in a\<lparr>a_ArtifactID := Artifact_Key a\<rparr>)"

definition terminal_fix :: "string \<Rightarrow> string \<Rightarrow> NodeTerminalRecord" where
  "terminal_fix runID state =
     \<lparr>t_RunID = runID, t_NodeID = node_fix, t_AttemptID = attempt_fix, t_TerminalState = state,
      t_RecordedAt = fixture_at\<rparr>"

definition lifecycle_fix :: "string \<Rightarrow> bool \<Rightarrow> RunLifecycle" where
  "lifecycle_fix runID finalized =
     zero_lifecycle\<lparr>l_RunID := runID, l_SampleRunID := sampleRun, l_RetentionPolicySource := ''default'',
       l_RetentionDuration := minutes 1440, l_RetentionUntil := Some (fixture_at + minutes 1440),
       l_TerminalNodeCount := 1, l_SucceededNodeCount := 1, l_RetainedArtifactCount := 1,
       l_RetainedArtifactBytes := 42, l_Finalized := finalized,
       l_FinalizedAt := (if finalized then Some fixture_at else None)\<rparr>"

definition source_fix :: "string \<Rightarrow> string \<Rightarrow> string \<Rightarrow> ArtifactSource" where
  "source_fix sourceID artifactID path =
     \<lparr>s_SourceID = sourceID, s_ArtifactID = artifactID, s_BackendID = ''node-local-default'', s_Digest = digestOne,
      s_State = StateReady, s_LocationFingerprint = ''node_local:worker-1:'' @ path,
      s_Location = \<lparr>NodeLocal = Some \<lparr>nl_NodeName = ''worker-1'', nl_Path = path\<rparr>, HTTP = None\<rparr>,
      s_CreatedAt = fixture_at, s_UpdatedAt = fixture_at, s_LastVerifiedAt = 0, s_LastError = []\<rparr>"

section \<open>Steps\<close>

text \<open>The calls of the cases with what they expect: success, an error, a result.\<close>

datatype step =
    mustPutArtifact Artifact
  | failPutArtifact Artifact
  | mustRecordTerminal NodeTerminalRecord
  | failRecordTerminal NodeTerminalRecord
  | mustUpsertLifecycle RunLifecycle
  | failUpsertLifecycle RunLifecycle
  | mustPutSource string ArtifactSource
  | conflictPutSources string "ArtifactSource list"
  | assertArtifact Artifact
  | assertTerminal NodeTerminalRecord
  | assertLifecycle RunLifecycle
  | assertSource ArtifactSource
  | noArtifact string
  | noArtifactByID string
  | noTerminal string
  | noLifecycle string
  | noSource string
  | readsArtifact Artifact
  | onlyArtifacts string "Artifact list"
  | countArtifacts string nat
  | countTerminals string nat
  | artifactKeys string "string list"
  | lifecycleRuns string "string list"
  | onlyLifecycles string "RunLifecycle list"
  | onlySources string "ArtifactSource list"

definition must :: "store_error option \<times> 's \<Rightarrow> 's option" where
  "must out = (case out of (None, st) \<Rightarrow> Some st | (Some e, st) \<Rightarrow> None)"

definition must_fail :: "store_error option \<times> 's \<Rightarrow> 's option" where
  "must_fail out = (case out of (None, st) \<Rightarrow> None | (Some e, st) \<Rightarrow> Some st)"

definition must_conflict :: "store_error option \<times> 's \<Rightarrow> 's option" where
  "must_conflict out = (case out of (Some (SourceOwnershipConflict sid aid), st) \<Rightarrow> Some st | _ \<Rightarrow> None)"

definition require :: "bool \<Rightarrow> 's \<Rightarrow> 's option" where
  "require b st = (if b then Some st else None)"

definition listed :: "store_error + 'a list \<Rightarrow> ('a list \<Rightarrow> bool) \<Rightarrow> bool" where
  "listed r P = (case r of Inl e \<Rightarrow> False | Inr xs \<Rightarrow> P xs)"

fun run_step :: "'s store \<Rightarrow> step \<Rightarrow> 's \<Rightarrow> 's option" where
  "run_step S (mustPutArtifact a) st = must (PutArtifact S st a)"
| "run_step S (failPutArtifact a) st = must_fail (PutArtifact S st a)"
| "run_step S (mustRecordTerminal t) st = must (RecordNodeTerminal S st t)"
| "run_step S (failRecordTerminal t) st = must_fail (RecordNodeTerminal S st t)"
| "run_step S (mustUpsertLifecycle l) st = must (UpsertRunLifecycle S st l)"
| "run_step S (failUpsertLifecycle l) st = must_fail (UpsertRunLifecycle S st l)"
| "run_step S (mustPutSource aid x) st = must (PutArtifactSources S st aid [x])"
| "run_step S (conflictPutSources aid xs) st = must_conflict (PutArtifactSources S st aid xs)"
| "run_step S (assertArtifact want) st =
     require (GetArtifact S st (a_RunID want) (a_ProducerNodeID want) (a_ProducerAttemptID want) (a_OutputName want) =
         Inr (Some want) \<and> GetArtifactByID S st (a_ArtifactID want) = Inr (Some want)) st"
| "run_step S (assertTerminal want) st =
     require (GetNodeTerminal S st (t_RunID want) (t_NodeID want) (t_AttemptID want) = Inr (Some want)) st"
| "run_step S (assertLifecycle want) st = require (GetRunLifecycle S st (l_RunID want) = Inr (Some want)) st"
| "run_step S (assertSource want) st = require (GetArtifactSource S st (s_SourceID want) = Inr (Some want)) st"
| "run_step S (noArtifact run) st =
     require (GetArtifact S st run node_fix attempt_fix output_fix = Inr None) st"
| "run_step S (noArtifactByID aid) st = require (GetArtifactByID S st aid = Inr None) st"
| "run_step S (noTerminal run) st = require (GetNodeTerminal S st run node_fix attempt_fix = Inr None) st"
| "run_step S (noLifecycle run) st = require (GetRunLifecycle S st run = Inr None) st"
| "run_step S (noSource sid) st = require (GetArtifactSource S st sid = Inr None) st"
| "run_step S (onlyArtifacts run want) st = require (listed (ListArtifactsByRun S st run) (\<lambda>xs. xs = want)) st"
| "run_step S (readsArtifact want) st =
     require (GetArtifact S st (a_RunID want) (a_ProducerNodeID want) (a_ProducerAttemptID want) (a_OutputName want) =
         Inr (Some want)) st"
| "run_step S (countArtifacts run n) st = require (listed (ListArtifactsByRun S st run) (\<lambda>xs. length xs = n)) st"
| "run_step S (countTerminals run n) st =
     require (listed (ListNodeTerminalsByRun S st run) (\<lambda>xs. length xs = n \<and> list_all (\<lambda>t. t_RunID t = run) xs)) st"
| "run_step S (artifactKeys sample want) st =
     require (listed (ListArtifactsBySampleRun S st sample) (\<lambda>xs. sort (map Artifact_Key xs) = want)) st"
| "run_step S (lifecycleRuns sample want) st =
     require (listed (ListRunLifecyclesBySample S st sample) (\<lambda>xs. map l_RunID xs = want)) st"
| "run_step S (onlyLifecycles sample want) st =
     require (listed (ListRunLifecyclesBySample S st sample) (\<lambda>xs. xs = want)) st"
| "run_step S (onlySources aid want) st = require (listed (ListArtifactSources S st aid) (\<lambda>xs. xs = want)) st"

fun run_steps :: "'s store \<Rightarrow> step list \<Rightarrow> 's \<Rightarrow> 's option" where
  "run_steps S [] st = Some st"
| "run_steps S (c # cs) st = (case run_step S c st of None \<Rightarrow> None | Some st' \<Rightarrow> run_steps S cs st')"

section \<open>Cases\<close>

definition run_separation :: "step list" where
  "run_separation =
     (let a = artifact_fix runA digestOne; b = artifact_fix runB digestTwo
      in [mustPutArtifact a, mustPutArtifact b,
          mustRecordTerminal (terminal_fix runA succeeded), mustRecordTerminal (terminal_fix runB failed),
          mustUpsertLifecycle (lifecycle_fix runB True), mustUpsertLifecycle (lifecycle_fix runA False),
          assertArtifact a, assertArtifact b,
          assertTerminal (terminal_fix runA succeeded), assertTerminal (terminal_fix runB failed),
          assertLifecycle (lifecycle_fix runA False), assertLifecycle (lifecycle_fix runB True),
          onlyArtifacts runA [a], countTerminals runA 1, onlyArtifacts runB [b], countTerminals runB 1,
          artifactKeys sampleRun [Artifact_Key a, Artifact_Key b], lifecycleRuns sampleRun [runA, runB]])"

definition put_artifact_convergence :: "step list" where
  "put_artifact_convergence =
     (let a = artifact_fix runA digestOne
      in [mustPutArtifact a, mustPutArtifact a, failPutArtifact (artifact_fix runA digestTwo),
          failPutArtifact (artifact_fix runA []), assertArtifact a, countArtifacts runA 1])"

definition record_terminal_convergence :: "step list" where
  "record_terminal_convergence =
     [mustRecordTerminal (terminal_fix runA succeeded), mustRecordTerminal (terminal_fix runA succeeded),
      failRecordTerminal (terminal_fix runA failed), assertTerminal (terminal_fix runA succeeded), countTerminals runA 1]"

definition upsert_lifecycle_convergence :: "step list" where
  "upsert_lifecycle_convergence =
     [mustUpsertLifecycle (lifecycle_fix runA False), mustUpsertLifecycle (lifecycle_fix runA False),
      mustUpsertLifecycle (lifecycle_fix runB False), mustUpsertLifecycle (lifecycle_fix runA True),
      assertLifecycle (lifecycle_fix runA True), assertLifecycle (lifecycle_fix runB False),
      lifecycleRuns sampleRun [runA, runB]]"

definition source_ownership_conflict :: "step list" where
  "source_ownership_conflict =
     (let owner = artifact_fix runA digestOne; other = artifact_fix runB digestOne;
          owned = source_fix ''src-owned'' (a_ArtifactID owner) ''/owner''
      in [mustPutArtifact owner, mustPutArtifact other,
          mustPutSource (a_ArtifactID owner) owned, mustPutSource (a_ArtifactID owner) owned,
          conflictPutSources (a_ArtifactID other)
            [source_fix ''src-new'' (a_ArtifactID other) ''/new'', source_fix ''src-owned'' (a_ArtifactID other) ''/hijack''],
          assertSource owned, noSource ''src-new'', onlySources (a_ArtifactID other) [],
          onlySources (a_ArtifactID owner) [owned]])"

definition source_requires_live_artifact :: "step list" where
  "source_requires_live_artifact =
     (let a = artifact_fix runA digestOne; other = artifact_fix runB digestOne;
          pending = source_fix ''src-pending'' (a_ArtifactID a) ''/pending''
      in [mustPutSource (a_ArtifactID a) pending, noSource (s_SourceID pending), onlySources (a_ArtifactID a) [],
          mustPutArtifact other,
          conflictPutSources (a_ArtifactID other) [source_fix (s_SourceID pending) (a_ArtifactID other) ''/hijack''],
          onlySources (a_ArtifactID other) [], noSource (s_SourceID pending), onlySources (a_ArtifactID a) [],
          mustPutArtifact a, assertSource pending, onlySources (a_ArtifactID a) [pending]])"

definition empty_run_steps :: "string \<Rightarrow> step list" where
  "empty_run_steps run =
     [failPutArtifact (artifact_fix run digestOne), failRecordTerminal (terminal_fix run succeeded),
      failUpsertLifecycle (lifecycle_fix run True), noArtifact run, noTerminal run, noLifecycle run]"

definition empty_run_id_fails_closed :: "step list" where
  "empty_run_id_fails_closed =
     concat (map empty_run_steps [[], ''  '']) @
     [artifactKeys sampleRun [], onlyLifecycles sampleRun [], countTerminals [] 0]"

definition before_reopen :: "step list" where
  "before_reopen =
     (let a = artifact_fix runA digestOne
      in [mustPutArtifact a, mustPutArtifact (artifact_fix runB digestTwo),
          mustPutSource (a_ArtifactID a) (source_fix ''src-owned'' (a_ArtifactID a) ''/owner''),
          mustRecordTerminal (terminal_fix runA succeeded), mustUpsertLifecycle (lifecycle_fix runA True)])"

definition after_reopen :: "step list" where
  "after_reopen =
     (let a = artifact_fix runA digestOne; b = artifact_fix runB digestTwo;
          owned = source_fix ''src-owned'' (a_ArtifactID a) ''/owner''
      in [assertArtifact a, assertArtifact b, assertSource owned, assertTerminal (terminal_fix runA succeeded),
          assertLifecycle (lifecycle_fix runA True),
          mustPutArtifact a, mustRecordTerminal (terminal_fix runA succeeded),
          failPutArtifact (artifact_fix runA digestTwo), failRecordTerminal (terminal_fix runA failed),
          conflictPutSources (a_ArtifactID b) [source_fix ''src-owned'' (a_ArtifactID b) ''/hijack''],
          assertArtifact a, assertTerminal (terminal_fix runA succeeded), assertSource owned])"

section \<open>Legacy cases\<close>

record LegacyRows =
  lg_Artifact :: Artifact
  lg_Source :: ArtifactSource
  lg_Terminal :: NodeTerminalRecord
  lg_Lifecycle :: RunLifecycle

abbreviation (input) legacyArtifactID :: string where "legacyArtifactID \<equiv> ''legacy-artifact''"
abbreviation (input) legacySourceID :: string where "legacySourceID \<equiv> ''src-legacy''"

definition legacyRows :: LegacyRows where
  "legacyRows =
     \<lparr>lg_Artifact = (artifact_fix [] ''sha256:legacy'')\<lparr>a_ArtifactID := legacyArtifactID\<rparr>,
      lg_Source = source_fix legacySourceID legacyArtifactID ''/legacy'',
      lg_Terminal = terminal_fix [] succeeded,
      lg_Lifecycle = (lifecycle_fix [] True)\<lparr>l_GCEligible := True, l_GCEligibleAt := Some fixture_at\<rparr>\<rparr>"

definition checkLegacyInvisible :: "Artifact list \<Rightarrow> step list" where
  "checkLegacyInvisible lives =
     [noArtifact [], noArtifactByID legacyArtifactID, onlyArtifacts [] [],
      artifactKeys sampleRun (map Artifact_Key lives), noTerminal [], countTerminals [] 0,
      noSource legacySourceID, onlySources legacyArtifactID []]"

definition checkLegacyLifecycleInvisible :: "RunLifecycle option \<Rightarrow> step list" where
  "checkLegacyLifecycleInvisible liveA =
     [noLifecycle []] @
     (case liveA of
        None \<Rightarrow> [noLifecycle runA, onlyLifecycles sampleRun []]
      | Some l \<Rightarrow> [assertLifecycle l, onlyLifecycles sampleRun [l]])"

definition checkLive :: "Artifact \<Rightarrow> ArtifactSource \<Rightarrow> NodeTerminalRecord \<Rightarrow> step list" where
  "checkLive a src term = [readsArtifact a, assertSource src, assertTerminal term]"

text \<open>
  A harness: an empty store, and for a backend with durable state how it is opened again, how
  rows without a run get into it, and a dump of those rows.  Opening a store may fail the test.
\<close>

record 's harness =
  h_Store :: "'s store"
  h_New :: "'s option"
  h_Reopen :: "('s \<Rightarrow> 's option) option"
  h_SeedLegacy :: "('s \<Rightarrow> LegacyRows \<Rightarrow> 's) option"
  h_LegacySnapshot :: "('s \<Rightarrow> string) option"

datatype verdict = Pass | Fail | Skip

definition verdict_of :: "'a option \<Rightarrow> verdict" where
  "verdict_of r = (case r of None \<Rightarrow> Fail | Some x \<Rightarrow> Pass)"

definition run_case :: "'s harness \<Rightarrow> step list \<Rightarrow> verdict" where
  "run_case h steps = verdict_of (Option.bind (h_New h) (run_steps (h_Store h) steps))"

definition testReopen :: "'s harness \<Rightarrow> verdict" where
  "testReopen h =
     (case h_Reopen h of
        None \<Rightarrow> Skip
      | Some reopen \<Rightarrow>
          verdict_of (Option.bind (h_New h) (\<lambda>st. Option.bind (run_steps (h_Store h) before_reopen st)
            (\<lambda>st'. Option.bind (reopen st') (run_steps (h_Store h) after_reopen)))))"

text \<open>The phases of a legacy case after the seeding: steps, a reopening, the comparison of the dump.\<close>

datatype phase = Steps "step list" | Reopened | SameLegacy

fun run_phases :: "'s store \<Rightarrow> ('s \<Rightarrow> 's option) \<Rightarrow> ('s \<Rightarrow> string) \<Rightarrow> string \<Rightarrow> phase list \<Rightarrow> 's \<Rightarrow> 's option" where
  "run_phases S reopen dump snap [] st = Some st"
| "run_phases S reopen dump snap (Steps cs # ps) st =
     Option.bind (run_steps S cs st) (run_phases S reopen dump snap ps)"
| "run_phases S reopen dump snap (Reopened # ps) st = Option.bind (reopen st) (run_phases S reopen dump snap ps)"
| "run_phases S reopen dump snap (SameLegacy # ps) st =
     (if dump st = snap then run_phases S reopen dump snap ps st else None)"

text \<open>\<^verbatim>\<open>requireLegacy\<close>, the steps before, \<^verbatim>\<open>seedLegacy\<close>, the phases after.\<close>

definition legacy_case :: "'s harness \<Rightarrow> bool \<Rightarrow> step list \<Rightarrow> phase list \<Rightarrow> verdict" where
  "legacy_case h needReopen cs ps =
     (case h_SeedLegacy h of
        None \<Rightarrow> Skip
      | Some seed \<Rightarrow>
         (case h_LegacySnapshot h of
            None \<Rightarrow> Fail
          | Some dump \<Rightarrow>
              if needReopen \<and> h_Reopen h = None then Skip
              else verdict_of (Option.bind (h_New h) (\<lambda>st0. Option.bind (run_steps (h_Store h) cs st0) (\<lambda>st.
                 let st' = seed st legacyRows; snap = dump st'
                 in if snap = [] then None
                    else run_phases (h_Store h) (case h_Reopen h of Some f \<Rightarrow> f | None \<Rightarrow> Some) dump snap ps st')))))"

definition legacyInvisible :: "'s harness \<Rightarrow> verdict" where
  "legacyInvisible h =
     (let art = artifact_fix runA digestOne;
          check = Steps (checkLegacyInvisible [art] @ checkLegacyLifecycleInvisible None)
      in legacy_case h True [mustPutArtifact art] [check, Reopened, check])"

definition legacyRetainedAcrossReopen :: "'s harness \<Rightarrow> verdict" where
  "legacyRetainedAcrossReopen h =
     (let art = artifact_fix runA digestOne; owned = source_fix ''src-owned'' (a_ArtifactID art) ''/owner'';
          term = terminal_fix runA succeeded; liveLC = lifecycle_fix runA False;
          round = [Reopened, SameLegacy, Steps (checkLive art owned term @ checkLegacyInvisible [art] @
            checkLegacyLifecycleInvisible (Some liveLC))]
      in legacy_case h True
           [mustPutArtifact art, mustPutSource (a_ArtifactID art) owned, mustRecordTerminal term,
            mustUpsertLifecycle liveLC]
           (round @ round))"

definition legacySourceNotClaimable :: "'s harness \<Rightarrow> verdict" where
  "legacySourceNotClaimable h =
     (let art = artifact_fix runA digestOne
      in legacy_case h False [mustPutArtifact art]
           [Steps [conflictPutSources (a_ArtifactID art)
              [source_fix ''src-new'' (a_ArtifactID art) ''/new'', source_fix legacySourceID (a_ArtifactID art) ''/hijack''],
              noSource ''src-new'', onlySources (a_ArtifactID art) []],
            SameLegacy, Steps (checkLegacyInvisible [art])])"

definition Run :: "'s harness \<Rightarrow> (string \<times> verdict) list" where
  "Run h =
     [(''RunSeparation'', run_case h run_separation),
      (''PutArtifactConvergence'', run_case h put_artifact_convergence),
      (''RecordNodeTerminalConvergence'', run_case h record_terminal_convergence),
      (''UpsertRunLifecycleConvergence'', run_case h upsert_lifecycle_convergence),
      (''SourceOwnershipConflictZeroMutation'', run_case h source_ownership_conflict),
      (''SourceRequiresLiveArtifact'', run_case h source_requires_live_artifact),
      (''EmptyRunIDFailsClosed'', run_case h empty_run_id_fails_closed),
      (''Reopen'', testReopen h),
      (''Legacy/InvisibleAcrossReopen'', legacyInvisible h),
      (''Legacy/RetainedIdempotentReopen'', legacyRetainedAcrossReopen h),
      (''Legacy/SourceNotClaimableByLive'', legacySourceNotClaimable h)]"

end
