(* ===== verification/Conformance_Laws.thy ===== *)
theory Conformance_Laws
  imports Conformance
begin

text \<open>
  Every store that meets the contract of the interface passes the suite.  The steps are first
  run on the abstract registry, where the cases can be computed; the locales say when a backend
  follows.
\<close>

section \<open>The suite on the abstract registry\<close>

definition only :: "'a set \<Rightarrow> 'a list \<Rightarrow> bool" where
  "only A want \<longleftrightarrow> length want \<le> 1 \<and> A = set want"

definition in_order :: "'a :: linorder set \<Rightarrow> 'a list \<Rightarrow> bool" where
  "in_order A want \<longleftrightarrow> sorted want \<and> distinct want \<and> A = set want"

definition among :: "('a \<Rightarrow> bool) \<Rightarrow> 'a set \<Rightarrow> 'a set" where
  "among P A = {x \<in> A. P x}"

fun abs_step :: "step \<Rightarrow> registry \<Rightarrow> registry option" where
  "abs_step (mustPutArtifact a) R =
     (case put_verdict (reg_arts R) a of
        None \<Rightarrow> None
      | Some new \<Rightarrow>
          if \<not> new then Some R
          else if reg_arts R (Artifact_Key a) = None
            then Some (R\<lparr>reg_arts := (reg_arts R)(Artifact_Key a \<mapsto> a)\<rparr>) else None)"
| "abs_step (failPutArtifact a) R = require (put_verdict (reg_arts R) a = None) R"
| "abs_step (mustRecordTerminal t) R =
     (case terminal_verdict (reg_terms R) t of
        None \<Rightarrow> None
      | Some new \<Rightarrow> Some (if new then R\<lparr>reg_terms := (reg_terms R)(record_key t \<mapsto> t)\<rparr> else R))"
| "abs_step (failRecordTerminal t) R = require (terminal_verdict (reg_terms R) t = None) R"
| "abs_step (mustUpsertLifecycle l) R =
     (if TrimSpace (l_RunID l) = [] then None else Some (R\<lparr>reg_lifes := (reg_lifes R)(l_RunID l \<mapsto> l)\<rparr>))"
| "abs_step (failUpsertLifecycle l) R = require (TrimSpace (l_RunID l) = []) R"
| "abs_step (mustPutSource aid x) R =
     (if s_ArtifactID x = aid \<and> s_SourceID x \<noteq> [] \<and> reg_srcs R (s_SourceID x) \<in> {None, Some x}
      then Some (R\<lparr>reg_srcs := (reg_srcs R)(s_SourceID x \<mapsto> x)\<rparr>) else None)"
| "abs_step (conflictPutSources aid xs) R = require (sources_for aid xs \<and> owned_elsewhere (reg_srcs R) aid xs) R"
| "abs_step (assertArtifact want) R =
     require (reg_arts R (Artifact_Key want) = Some want \<and>
       among (\<lambda>a. a_ArtifactID a = a_ArtifactID want) (ran (reg_arts R)) = {want}) R"
| "abs_step (assertTerminal want) R = require (reg_terms R (record_key want) = Some want) R"
| "abs_step (assertLifecycle want) R = require (reg_lifes R (l_RunID want) = Some want) R"
| "abs_step (assertSource want) R =
     require (reg_srcs R (s_SourceID want) = Some want \<and> live (reg_arts R) (s_ArtifactID want)) R"
| "abs_step (noArtifact run) R = require (reg_arts R (artifact_key run node_fix attempt_fix output_fix) = None) R"
| "abs_step (noArtifactByID aid) R = require (\<not> live (reg_arts R) aid) R"
| "abs_step (noTerminal run) R = require (reg_terms R (terminal_key run node_fix attempt_fix) = None) R"
| "abs_step (noLifecycle run) R = require (reg_lifes R run = None) R"
| "abs_step (noSource sid) R =
     require (case reg_srcs R sid of None \<Rightarrow> True | Some x \<Rightarrow> \<not> live (reg_arts R) (s_ArtifactID x)) R"
| "abs_step (readsArtifact want) R = require (reg_arts R (Artifact_Key want) = Some want) R"
| "abs_step (onlyArtifacts run want) R = require (only (among (\<lambda>a. a_RunID a = run) (ran (reg_arts R))) want) R"
| "abs_step (countArtifacts run n) R = require (card (among (\<lambda>a. a_RunID a = run) (ran (reg_arts R))) = n) R"
| "abs_step (countTerminals run n) R = require (card (among (\<lambda>t. t_RunID t = run) (ran (reg_terms R))) = n) R"
| "abs_step (artifactKeys sample want) R =
     require (in_order (Artifact_Key ` among (\<lambda>a. a_SampleRunID a = sample) (ran (reg_arts R))) want) R"
| "abs_step (lifecycleRuns sample want) R =
     require (in_order (l_RunID ` among (\<lambda>l. l_SampleRunID l = sample) (ran (reg_lifes R))) want) R"
| "abs_step (onlyLifecycles sample want) R = require (only (among (\<lambda>l. l_SampleRunID l = sample) (ran (reg_lifes R))) want) R"
| "abs_step (onlySources aid want) R =
     require (only (among (\<lambda>s. s_ArtifactID s = aid \<and> live (reg_arts R) aid) (ran (reg_srcs R))) want) R"

fun abs_steps :: "step list \<Rightarrow> registry \<Rightarrow> registry option" where
  "abs_steps [] R = Some R"
| "abs_steps (c # cs) R = (case abs_step c R of None \<Rightarrow> None | Some R' \<Rightarrow> abs_steps cs R')"

section \<open>Stores that follow the contract\<close>

lemma list_only: "distinct xs \<Longrightarrow> only (set xs) want \<Longrightarrow> xs = want"
  by (cases want; cases xs; cases "tl xs") (auto simp: only_def)

lemma list_in_order: "distinct (map f xs) \<Longrightarrow> in_order (f ` set xs) want \<Longrightarrow> sort (map f xs) = want"
  by (rule sorted_distinct_set_unique) (auto simp: in_order_def)

locale ordered_store = run_store S inv arts terms lifes srcs stored keep
  for S :: "'s store" and inv :: "'s \<Rightarrow> bool" and arts :: "'s \<Rightarrow> string \<rightharpoonup> Artifact"
    and terms :: "'s \<Rightarrow> string \<rightharpoonup> NodeTerminalRecord" and lifes :: "'s \<Rightarrow> string \<rightharpoonup> RunLifecycle"
    and srcs :: "'s \<Rightarrow> string \<rightharpoonup> ArtifactSource" and stored :: "Artifact option \<Rightarrow> Artifact \<Rightarrow> Artifact"
    and keep :: "ArtifactSource option \<Rightarrow> ArtifactSource \<Rightarrow> ArtifactSource" +
  assumes runs_in_order: "inv st \<Longrightarrow> ListRunLifecyclesBySample S st sr = Inr ls \<Longrightarrow> sorted (map l_RunID ls)"
begin

lemma put_step:
  assumes "inv st" and "abs_step c (registry_of arts terms lifes srcs st) = Some R"
    and "c \<in> {mustPutArtifact a, failPutArtifact a}"
  shows "\<exists>st'. run_step S c st = Some st' \<and> inv st' \<and> registry_of arts terms lifes srcs st' = R"
proof -
  obtain e st' where p: "PutArtifact S st a = (e, st')" by fastforce
  from put_artifact [OF assms(1) p] assms(2,3) p show ?thesis
    by (auto simp: must_def must_fail_def require_def registry_of_def stored_new split: option.splits if_splits)
qed

lemma terminal_step:
  assumes "inv st" and "abs_step c (registry_of arts terms lifes srcs st) = Some R"
    and "c \<in> {mustRecordTerminal t, failRecordTerminal t}"
  shows "\<exists>st'. run_step S c st = Some st' \<and> inv st' \<and> registry_of arts terms lifes srcs st' = R"
proof -
  obtain e st' where p: "RecordNodeTerminal S st t = (e, st')" by fastforce
  from record_terminal [OF assms(1) p] assms(2,3) p show ?thesis
    by (auto simp: must_def must_fail_def require_def registry_of_def split: option.splits if_splits)
qed

lemma upsert_step:
  assumes "inv st" and "abs_step c (registry_of arts terms lifes srcs st) = Some R"
    and "c \<in> {mustUpsertLifecycle l, failUpsertLifecycle l}"
  shows "\<exists>st'. run_step S c st = Some st' \<and> inv st' \<and> registry_of arts terms lifes srcs st' = R"
proof -
  obtain e st' where p: "UpsertRunLifecycle S st l = (e, st')" by fastforce
  from upsert_lifecycle [OF assms(1) p] assms(2,3) p show ?thesis
    by (auto simp: must_def must_fail_def require_def registry_of_def split: option.splits if_splits)
qed

lemma source_step:
  assumes "inv st" and "abs_step (mustPutSource aid x) (registry_of arts terms lifes srcs st) = Some R"
  shows "\<exists>st'. run_step S (mustPutSource aid x) st = Some st' \<and> inv st' \<and> registry_of arts terms lifes srcs st' = R"
proof -
  obtain e st' where p: "PutArtifactSources S st aid [x] = (e, st')" by fastforce
  have x: "sources_for aid [x]" "\<not> owned_elsewhere (srcs st) aid [x]" "srcs st (s_SourceID x) \<in> {None, Some x}"
    and R: "R = (registry_of arts terms lifes srcs st)\<lparr>reg_srcs := (srcs st)(s_SourceID x \<mapsto> x)\<rparr>"
    using assms(2) by (auto simp: sources_for_def owned_elsewhere_def split: if_splits)
  have "put_sources keep [x] (srcs st) = (srcs st)(s_SourceID x \<mapsto> x)"
    using x(3) by (auto simp: put_sources_def keep_new keep_again)
  with put_artifact_sources [OF assms(1) x(1) p] x(2) p R show ?thesis by (auto simp: must_def registry_of_def)
qed

lemma conflict_step:
  assumes "inv st" and "abs_step (conflictPutSources aid xs) (registry_of arts terms lifes srcs st) = Some R"
  shows "\<exists>st'. run_step S (conflictPutSources aid xs) st = Some st' \<and> inv st' \<and> registry_of arts terms lifes srcs st' = R"
proof -
  obtain e st' where p: "PutArtifactSources S st aid xs = (e, st')" by fastforce
  have x: "sources_for aid xs" "owned_elsewhere (srcs st) aid xs" "R = registry_of arts terms lifes srcs st"
    using assms(2) by (auto simp: require_def split: if_splits)
  from put_artifact_sources [OF assms(1) x(1) p] x p show ?thesis by (auto simp: must_conflict_def registry_of_def)
qed

lemma by_id_found:
  assumes "inv st" and "{a \<in> ran (arts st). a_ArtifactID a = aid} = {want}"
  shows "GetArtifactByID S st aid = Inr (Some want)"
  using get_by_id [OF assms(1), of aid] assms(2) by (auto simp: live_def split: option.splits)

lemma by_id_missing:
  assumes "inv st" and "\<not> live (arts st) aid"
  shows "GetArtifactByID S st aid = Inr None"
  using get_by_id [OF assms(1), of aid] assms(2) by (auto simp: live_def split: option.splits)

lemma listed_only:
  assumes "\<exists>xs. r = Inr xs \<and> distinct xs \<and> set xs = A" and "only A want"
  shows "listed r (\<lambda>xs. xs = want)"
  using assms list_only by (auto simp: listed_def)

lemma listed_card:
  assumes "\<exists>xs. r = Inr xs \<and> distinct xs \<and> set xs = A" and "card A = n" and "\<forall>x \<in> A. P x"
  shows "listed r (\<lambda>xs. length xs = n \<and> list_all P xs)"
  using assms by (auto simp: listed_def list_all_iff distinct_card)

lemma keys_in_order:
  assumes "inv st" and "in_order (Artifact_Key ` {a \<in> ran (arts st). a_SampleRunID a = sr}) want"
  shows "listed (ListArtifactsBySampleRun S st sr) (\<lambda>xs. sort (map Artifact_Key xs) = want)"
proof -
  obtain xs where xs: "ListArtifactsBySampleRun S st sr = Inr xs" "distinct xs"
    "set xs = {a \<in> ran (arts st). a_SampleRunID a = sr}" using list_by_sample [OF assms(1)] by blast
  have "inj_on Artifact_Key (ran (arts st))"
    using arts_key [OF assms(1)] by (fastforce intro: inj_onI simp: ran_def)
  then have "distinct (map Artifact_Key xs)"
    using xs(2,3) by (auto simp: distinct_map intro: inj_on_subset)
  from list_in_order [OF this] show ?thesis using assms(2) xs by (simp add: listed_def)
qed

lemma runs_listed:
  assumes "inv st" and "in_order (l_RunID ` {l \<in> ran (lifes st). l_SampleRunID l = sr}) want"
  shows "listed (ListRunLifecyclesBySample S st sr) (\<lambda>xs. map l_RunID xs = want)"
proof -
  obtain xs where xs: "ListRunLifecyclesBySample S st sr = Inr xs" "distinct xs"
    "set xs = {l \<in> ran (lifes st). l_SampleRunID l = sr}" using list_lifecycles [OF assms(1)] by blast
  have "inj_on l_RunID (ran (lifes st))"
    using lifes_key [OF assms(1)] by (fastforce intro: inj_onI simp: ran_def)
  then have "distinct (map l_RunID xs)" using xs(2,3) by (auto simp: distinct_map intro: inj_on_subset)
  then have "map l_RunID xs = want"
    using runs_in_order [OF assms(1) xs(1)] assms(2) xs(3)
    by (intro sorted_distinct_set_unique) (auto simp: in_order_def)
  then show ?thesis using xs(1) by (simp add: listed_def)
qed

lemma Artifact_Key_parts: "artifact_key (a_RunID a) (a_ProducerNodeID a) (a_ProducerAttemptID a) (a_OutputName a) = Artifact_Key a"
  by (simp add: artifact_key_def Artifact_Key_def)

lemma step_follows:
  assumes "inv st" and "abs_step c (registry_of arts terms lifes srcs st) = Some R"
  shows "\<exists>st'. run_step S c st = Some st' \<and> inv st' \<and> registry_of arts terms lifes srcs st' = R"
proof (cases c)
  case (assertArtifact want)
  then show ?thesis
    using assms by_id_found [OF assms(1), of "a_ArtifactID want" want]
    by (auto simp: require_def among_def get_artifact Artifact_Key_parts split: if_splits)
next
  case (noArtifactByID aid)
  then show ?thesis using assms by_id_missing [OF assms(1)] by (auto simp: require_def among_def split: if_splits)
next
  case (onlyArtifacts run want)
  then show ?thesis using assms listed_only [OF list_by_run [OF assms(1)]] by (auto simp: require_def among_def split: if_splits)
next
  case (countArtifacts run n)
  then have c: "card {a \<in> ran (arts st). a_RunID a = run} = n" "R = registry_of arts terms lifes srcs st"
    using assms(2) by (simp_all add: require_def among_def split: if_splits)
  have "listed (ListArtifactsByRun S st run) (\<lambda>xs. length xs = n \<and> list_all (\<lambda>_. True) xs)"
    by (rule listed_card [OF list_by_run [OF assms(1)] c(1)]) simp
  then show ?thesis using countArtifacts assms(1) c(2) by (simp add: require_def list.pred_True)
next
  case (countTerminals run n)
  then have c: "card {t \<in> ran (terms st). t_RunID t = run} = n" "R = registry_of arts terms lifes srcs st"
    using assms(2) by (simp_all add: require_def among_def split: if_splits)
  have "listed (ListNodeTerminalsByRun S st run) (\<lambda>xs. length xs = n \<and> list_all (\<lambda>t. t_RunID t = run) xs)"
    by (rule listed_card [OF list_terminals [OF assms(1)] c(1)]) simp
  then show ?thesis using countTerminals assms(1) c(2) by (simp add: require_def)
next
  case (artifactKeys sample want)
  then show ?thesis using assms keys_in_order [OF assms(1)] by (auto simp: require_def among_def split: if_splits)
next
  case (lifecycleRuns sample want)
  then show ?thesis using assms runs_listed [OF assms(1)] by (auto simp: require_def among_def split: if_splits)
next
  case (onlyLifecycles sample want)
  then show ?thesis using assms listed_only [OF list_lifecycles [OF assms(1)]] by (auto simp: require_def among_def split: if_splits)
next
  case (onlySources aid want)
  then show ?thesis using assms listed_only [OF list_sources [OF assms(1)]] by (auto simp: require_def among_def split: if_splits)
next
  case (mustPutArtifact a)
  then show ?thesis using put_step [OF assms] by blast
next
  case (failPutArtifact a)
  then show ?thesis using put_step [OF assms] by blast
next
  case (mustRecordTerminal t)
  then show ?thesis using terminal_step [OF assms] by blast
next
  case (failRecordTerminal t)
  then show ?thesis using terminal_step [OF assms] by blast
next
  case (mustUpsertLifecycle l)
  then show ?thesis using upsert_step [OF assms] by blast
next
  case (failUpsertLifecycle l)
  then show ?thesis using upsert_step [OF assms] by blast
next
  case (mustPutSource aid x)
  then show ?thesis using source_step assms by blast
next
  case (conflictPutSources aid xs)
  then show ?thesis using conflict_step assms by blast
qed (use assms in \<open>auto simp: require_def among_def get_artifact get_terminal get_lifecycle get_source record_key_def Artifact_Key_parts
    split: if_splits option.splits\<close>)

end

section \<open>Running the cases\<close>

text \<open>What the steps of the suite write: instants of four-digit years, locations of text.\<close>

fun fixture_step :: "step \<Rightarrow> bool" where
  "fixture_step (mustPutArtifact a) \<longleftrightarrow> rep_artifact four_digit_year a"
| "fixture_step (failPutArtifact a) \<longleftrightarrow> rep_artifact four_digit_year a"
| "fixture_step (mustRecordTerminal t) \<longleftrightarrow> rep_terminal four_digit_year t"
| "fixture_step (failRecordTerminal t) \<longleftrightarrow> rep_terminal four_digit_year t"
| "fixture_step (mustUpsertLifecycle l) \<longleftrightarrow> rep_lifecycle four_digit_year l"
| "fixture_step (failUpsertLifecycle l) \<longleftrightarrow> rep_lifecycle four_digit_year l"
| "fixture_step (mustPutSource aid x) \<longleftrightarrow> rep_source four_digit_year x"
| "fixture_step (conflictPutSources aid xs) \<longleftrightarrow> list_all (rep_source four_digit_year) xs"
| "fixture_step _ \<longleftrightarrow> True"

text \<open>Steps that must leave the store alone.\<close>

fun quiet :: "step \<Rightarrow> bool" where
  "quiet (mustPutArtifact a) \<longleftrightarrow> False"
| "quiet (failPutArtifact a) \<longleftrightarrow> False"
| "quiet (mustRecordTerminal t) \<longleftrightarrow> False"
| "quiet (failRecordTerminal t) \<longleftrightarrow> False"
| "quiet (mustUpsertLifecycle l) \<longleftrightarrow> False"
| "quiet (failUpsertLifecycle l) \<longleftrightarrow> False"
| "quiet (mustPutSource aid x) \<longleftrightarrow> False"
| "quiet _ \<longleftrightarrow> True"

fun phase_ok :: "registry \<Rightarrow> phase \<Rightarrow> bool" where
  "phase_ok R (Steps cs) \<longleftrightarrow> list_all quiet cs \<and> list_all fixture_step cs \<and> abs_steps cs R \<noteq> None"
| "phase_ok R _ \<longleftrightarrow> True"

lemma quiet_abs: "quiet c \<Longrightarrow> abs_step c R = Some R' \<Longrightarrow> R' = R"
  by (cases c) (auto simp: require_def split: if_splits)

locale conformant =
  fixes S :: "'s store" and good :: "'s \<Rightarrow> bool" and registry :: "'s \<Rightarrow> registry"
  assumes follows: "good st \<Longrightarrow> fixture_step c \<Longrightarrow> abs_step c (registry st) = Some R \<Longrightarrow>
      \<exists>st'. run_step S c st = Some st' \<and> good st' \<and> registry st' = R"
begin

lemma steps_follow:
  "good st \<Longrightarrow> list_all fixture_step cs \<Longrightarrow> abs_steps cs (registry st) = Some R \<Longrightarrow>
     \<exists>st'. run_steps S cs st = Some st' \<and> good st' \<and> registry st' = R"
proof (induction cs arbitrary: st)
  case (Cons c cs)
  from Cons.prems(3) obtain R1 where R1: "abs_step c (registry st) = Some R1" "abs_steps cs R1 = Some R"
    by (auto split: option.splits)
  with follows [OF Cons.prems(1)] Cons.prems(2) obtain st1 where "run_step S c st = Some st1" "good st1" "registry st1 = R1"
    by auto
  with Cons.IH [of st1] Cons.prems(2) R1(2) show ?case by auto
qed simp

lemma case_passes:
  "h_Store h = S \<Longrightarrow> h_New h = Some st \<Longrightarrow> good st \<Longrightarrow> list_all fixture_step cs \<Longrightarrow>
     abs_steps cs (registry st) \<noteq> None \<Longrightarrow> run_case h cs = Pass"
  using steps_follow [of st cs] by (auto simp: run_case_def verdict_of_def)

end

text \<open>Of the rows without a run only the source shows, as an owned identifier.\<close>

definition with_source :: "ArtifactSource \<Rightarrow> registry \<Rightarrow> registry" where
  "with_source x R = R\<lparr>reg_srcs := (reg_srcs R)(s_SourceID x \<mapsto> x)\<rparr>"

locale durable = conformant S good registry
  for S :: "'s store" and good :: "'s \<Rightarrow> bool" and registry :: "'s \<Rightarrow> registry" +
  fixes reopen :: "'s \<Rightarrow> 's option" and seed :: "'s \<Rightarrow> LegacyRows \<Rightarrow> 's" and dump :: "'s \<Rightarrow> string"
  assumes reopened: "good st \<Longrightarrow>
      \<exists>st'. reopen st = Some st' \<and> good st' \<and> registry st' = registry st \<and> dump st' = dump st"
    and seeded: "good st \<Longrightarrow> reg_srcs (registry st) legacySourceID = None \<Longrightarrow>
      good (seed st legacyRows) \<and> dump (seed st legacyRows) \<noteq> [] \<and>
      (\<exists>x. s_SourceID x = legacySourceID \<and> s_ArtifactID x = legacyArtifactID \<and>
         registry (seed st legacyRows) = with_source x (registry st))"
    and rejected: "PutArtifactSources S st aid xs = (Some e, st') \<Longrightarrow> st' = st"
begin

lemma quiet_step: "quiet c \<Longrightarrow> run_step S c st = Some st' \<Longrightarrow> st' = st"
  using rejected by (cases c) (auto simp: require_def must_conflict_def split: if_splits option.splits store_error.splits prod.splits)

lemma quiet_steps:
  "good st \<Longrightarrow> list_all quiet cs \<Longrightarrow> list_all fixture_step cs \<Longrightarrow> abs_steps cs (registry st) \<noteq> None \<Longrightarrow>
     run_steps S cs st = Some st"
proof (induction cs)
  case (Cons c cs)
  then obtain R where R: "abs_step c (registry st) = Some R" "abs_steps cs R \<noteq> None" by (auto split: option.splits)
  then have "R = registry st" using quiet_abs Cons.prems(2) by auto
  moreover obtain st' where "run_step S c st = Some st'" using follows [OF Cons.prems(1) _ R(1)] Cons.prems(3) by auto
  ultimately show ?case using quiet_step [of c st st'] Cons R by auto
qed simp

lemma phases_pass:
  "good st \<Longrightarrow> dump st = snap \<Longrightarrow> list_all (phase_ok (registry st)) ps \<Longrightarrow>
     run_phases S reopen dump snap ps st \<noteq> None"
proof (induction ps arbitrary: st)
  case (Cons p ps)
  show ?case
  proof (cases p)
    case (Steps cs)
    then have "run_steps S cs st = Some st" using quiet_steps [OF Cons.prems(1)] Cons.prems(3) by simp
    then show ?thesis using Cons Steps by simp
  next
    case Reopened
    then show ?thesis using reopened [OF Cons.prems(1)] Cons.IH Cons.prems by fastforce
  qed (use Cons in simp)
qed simp

lemma legacy_case_passes:
  assumes "h_Store h = S" and "h_Reopen h = Some reopen" and "h_SeedLegacy h = Some seed" and "h_LegacySnapshot h = Some dump"
    and "h_New h = Some st0" and "good st0" and "list_all fixture_step cs" and "abs_steps cs (registry st0) = Some R"
    and "reg_srcs R legacySourceID = None"
    and ps: "\<And>x. s_SourceID x = legacySourceID \<Longrightarrow> s_ArtifactID x = legacyArtifactID \<Longrightarrow>
      list_all (phase_ok (with_source x R)) ps"
  shows "legacy_case h needReopen cs ps = Pass"
proof -
  obtain st where st: "run_steps S cs st0 = Some st" "good st" "registry st = R"
    using steps_follow [OF assms(6-8)] by blast
  note sd = seeded [OF st(2), unfolded st(3), OF assms(9)]
  have "run_phases S reopen dump (dump (seed st legacyRows)) ps (seed st legacyRows) \<noteq> None"
    using sd ps by (intro phases_pass) auto
  then show ?thesis
    using assms(1-5) st(1) sd by (auto simp: legacy_case_def verdict_of_def Let_def)
qed

lemma reopen_passes:
  assumes "h_Store h = S" and "h_Reopen h = Some reopen" and "h_New h = Some st0" and "good st0"
    and "list_all fixture_step before_reopen" and "abs_steps before_reopen (registry st0) = Some R"
    and "list_all fixture_step after_reopen" and "abs_steps after_reopen R \<noteq> None"
  shows "testReopen h = Pass"
proof -
  obtain st where st: "run_steps S before_reopen st0 = Some st" "good st" "registry st = R"
    using steps_follow [OF assms(4-6)] by blast
  obtain st' where st': "reopen st = Some st'" "good st'" "registry st' = R" using reopened [OF st(2)] st(3) by auto
  then show ?thesis
    using st(1) steps_follow [of st' after_reopen] assms(1-3,7,8) by (auto simp: testReopen_def verdict_of_def)
qed

end

end
