(* ===== verification/Conformance_Run.thy ===== *)
theory Conformance_Run
  imports Conformance_Laws
begin

text \<open>The cases computed on the abstract registry, and the two backends run through the suite.\<close>

section \<open>The fixtures\<close>

lemma trim_runs [simp]: "TrimSpace ''run-a'' = ''run-a''" "TrimSpace ''run-b'' = ''run-b''"
  by (simp_all add: TrimSpace_graphic graphic_def)

lemma trim_blank [simp]: "TrimSpace ''  '' = []"
  by (simp add: TrimSpace_def TrimLeftSpace_def TrimRightSpace_def space_runes_def bytes_def char_of_def bit_0)

lemma fix_fields [simp]:
  "a_RunID (artifact_fix r d) = r" "a_Digest (artifact_fix r d) = d" "a_SampleRunID (artifact_fix r d) = sampleRun"
  "a_ProducerNodeID (artifact_fix r d) = node_fix" "a_ProducerAttemptID (artifact_fix r d) = attempt_fix"
  "a_OutputName (artifact_fix r d) = output_fix"
  "Artifact_Key (artifact_fix r d) = artifact_key r node_fix attempt_fix output_fix"
  "a_ArtifactID (artifact_fix r d) = artifact_key r node_fix attempt_fix output_fix"
  "t_RunID (terminal_fix r s) = r" "t_TerminalState (terminal_fix r s) = s"
  "record_key (terminal_fix r s) = terminal_key r node_fix attempt_fix"
  "l_RunID (lifecycle_fix r b) = r" "l_SampleRunID (lifecycle_fix r b) = sampleRun"
  "s_SourceID (source_fix i aid p) = i" "s_ArtifactID (source_fix i aid p) = aid"
  by (simp_all add: artifact_fix_def Let_def Artifact_Key_def artifact_key_def terminal_fix_def record_key_def
      lifecycle_fix_def source_fix_def)

lemma fix_keys [simp]:
  "artifact_key r node_fix attempt_fix output_fix = ''run/'' @ r @ ''/producer/attempt-1/dataset''"
  "terminal_key r node_fix attempt_fix = ''run/'' @ r @ ''/producer/attempt-1''"
  by (simp_all add: artifact_key_def ArtifactKey_String_def terminal_key_def NodeAttemptKey_String_def sep_def runNamespace_def)

lemma fixture_year [simp]: "four_digit_year fixture_at" "four_digit_year (fixture_at + minutes 1440)"
  by (simp_all add: fixture_at_def four_digit_year_def minutes_def day_number_def cycle_year_def month_lengths_def
      days_before_year_def leap_def Let_def)

lemma fix_representable:
  assumes "list_all ascii_byte r" and "list_all ascii_byte p"
  shows "rep_artifact four_digit_year (artifact_fix r d)" "rep_terminal four_digit_year (terminal_fix r s)"
    "rep_lifecycle four_digit_year (lifecycle_fix r b)" "rep_source four_digit_year (source_fix i aid p)"
  using assms
  by (simp_all add: rep_artifact_def artifact_fix_def Let_def textual_location_def valid_ascii ascii_byte_def byte_in_def
      rep_terminal_def terminal_fix_def rep_lifecycle_def lifecycle_fix_def zero_lifecycle_def rep_source_def source_fix_def
      four_digit_year_def [of 0] list_all_iff)

section \<open>The cases on the abstract registry\<close>

lemma among_insert: "among P (insert y A) = (if P y then insert y (among P A) else among P A)"
  by (auto simp: among_def)

lemma among_empty: "among P {} = {}"
  by (simp add: among_def)

lemma live_update: "m k = None \<Longrightarrow> live (m(k \<mapsto> a)) aid \<longleftrightarrow> a_ArtifactID a = aid \<or> live m aid"
  by (simp add: live_def)

lemma live_empty: "\<not> live Map.empty aid"
  by (simp add: live_def)

lemmas abstract_simps = empty_registry_def require_def put_verdict_def terminal_verdict_def among_insert among_empty live_update live_empty
  only_def in_order_def sources_for_def owned_elsewhere_def

lemma separation_abs: "abs_steps run_separation empty_registry \<noteq> None"
  by (simp add: run_separation_def Let_def abstract_simps insert_commute)

lemma convergence_abs:
  "abs_steps put_artifact_convergence empty_registry \<noteq> None"
  "abs_steps record_terminal_convergence empty_registry \<noteq> None"
  "abs_steps upsert_lifecycle_convergence empty_registry \<noteq> None"
  by (simp_all add: put_artifact_convergence_def record_terminal_convergence_def upsert_lifecycle_convergence_def
      Let_def abstract_simps)

lemma sources_abs:
  "abs_steps source_ownership_conflict empty_registry \<noteq> None"
  "abs_steps source_requires_live_artifact empty_registry \<noteq> None"
  by (simp_all add: source_ownership_conflict_def source_requires_live_artifact_def Let_def abstract_simps)

lemma empty_run_abs: "abs_steps empty_run_id_fails_closed empty_registry \<noteq> None"
  by (simp add: empty_run_id_fails_closed_def empty_run_steps_def abstract_simps)

lemma reopen_abs:
  "\<exists>R. abs_steps before_reopen empty_registry = Some R \<and> abs_steps after_reopen R \<noteq> None"
  by (simp add: before_reopen_def after_reopen_def Let_def abstract_simps)

lemma steps_representable:
  "list_all fixture_step run_separation" "list_all fixture_step put_artifact_convergence"
  "list_all fixture_step record_terminal_convergence" "list_all fixture_step upsert_lifecycle_convergence"
  "list_all fixture_step source_ownership_conflict" "list_all fixture_step source_requires_live_artifact"
  "list_all fixture_step empty_run_id_fails_closed" "list_all fixture_step before_reopen" "list_all fixture_step after_reopen"
  by (simp_all add: run_separation_def put_artifact_convergence_def record_terminal_convergence_def
      upsert_lifecycle_convergence_def source_ownership_conflict_def source_requires_live_artifact_def
      empty_run_id_fails_closed_def empty_run_steps_def before_reopen_def after_reopen_def Let_def
      fix_representable [of _ "[]"] fix_representable(4) [of "[]"] ascii_byte_def byte_in_def)

section \<open>The memory store\<close>

interpretation mem_order: ordered_store "memory_store L" mem_inv "\<lambda>s. map_of (artifacts s)"
    "\<lambda>s. map_of (nodeTerminals s)" "\<lambda>s. map_of (runLifecycles s)" "\<lambda>s. map_of (sources s)"
    "\<lambda>_ a. a" "\<lambda>_ x. x"
  for L :: golib
  by unfold_locales (auto simp: mem_ListRunLifecyclesBySample_def)

interpretation mem_suite: conformant "memory_store L" mem_inv mem_registry
  for L :: golib
  by unfold_locales (use mem_order.step_follows in \<open>simp add: mem_registry_view\<close>)

definition memory_harness :: "golib \<Rightarrow> MemoryStore harness" where
  "memory_harness L =
     \<lparr>h_Store = memory_store L, h_New = Some NewMemoryStore, h_Reopen = None, h_SeedLegacy = None, h_LegacySnapshot = None\<rparr>"

lemma memory_passes:
  assumes "list_all fixture_step cs" and "abs_steps cs empty_registry \<noteq> None"
  shows "run_case (memory_harness L) cs = Pass"
  using mem_suite.case_passes [of "memory_harness L" L NewMemoryStore cs] assms
  by (simp add: memory_harness_def mem_registry_new)

end
