(* ===== verification/Sqlite_File.thy ===== *)
theory Sqlite_File
  imports Sqlite_Open Sqlite_Service
begin

text \<open>
  The file a database lies in, as the statements of the store leave it: opening it again runs
  the migration, which finds nothing to do, and gives the same tables.
\<close>

section \<open>From tables to files\<close>

definition null_cell :: "string option \<Rightarrow> sql_value" where
  "null_cell v = (case v of None \<Rightarrow> SNull | Some s \<Rightarrow> SText s)"

definition artifact_cells :: "string \<Rightarrow> (string, string) artifact_row \<Rightarrow> sql_value gomap" where
  "artifact_cells k r =
     [(''key'', SText k), (''run_id'', SText (ar_run_id r)), (''sample_run_id'', SText (ar_sample_run_id r)),
      (''producer_node_id'', SText (ar_producer_node_id r)),
      (''producer_attempt_id'', SText (ar_producer_attempt_id r)), (''output_name'', SText (ar_output_name r)),
      (''artifact_id'', SText (ar_artifact_id r)), (''digest'', SText (ar_digest r)),
      (''logical_uri'', SText (ar_logical_uri r)), (''node_name'', SText (ar_node_name r)),
      (''uri'', SText (ar_uri r)), (''locations_json'', SText (ar_locations_json r)),
      (''size_bytes'', SInt (sint (ar_size_bytes r))), (''created_at'', SText (ar_created_at r))]"

definition source_cells :: "(string, string) source_row \<Rightarrow> sql_value gomap" where
  "source_cells r =
     [(''source_id'', SText (sr_source_id r)), (''artifact_id'', SText (sr_artifact_id r)),
      (''backend_id'', SText (sr_backend_id r)), (''digest'', SText (sr_digest r)), (''state'', SText (sr_state r)),
      (''location_fingerprint'', SText (sr_location_fingerprint r)), (''location_json'', SText (sr_location_json r)),
      (''created_at'', SText (sr_created_at r)), (''updated_at'', SText (sr_updated_at r)),
      (''last_verified_at'', SText (sr_last_verified_at r)), (''last_error'', SText (sr_last_error r))]"

definition terminal_cells :: "string \<Rightarrow> string terminal_row \<Rightarrow> sql_value gomap" where
  "terminal_cells k r =
     [(''key'', SText k), (''run_id'', SText (tr_run_id r)), (''sample_run_id'', SText (tr_sample_run_id r)),
      (''node_id'', SText (tr_node_id r)), (''attempt_id'', SText (tr_attempt_id r)),
      (''terminal_state'', SText (tr_terminal_state r)), (''recorded_at'', SText (tr_recorded_at r))]"

definition lifecycle_cells :: "string lifecycle_row \<Rightarrow> sql_value gomap" where
  "lifecycle_cells r =
     [(''sample_run_id'', SText (lr_sample_run_id r)), (''finalized'', SInt (lr_finalized r)),
      (''finalized_at'', null_cell (lr_finalized_at r)),
      (''retention_policy_source'', SText (lr_retention_policy_source r)),
      (''retention_duration_ns'', SInt (lr_retention_duration_ns r)),
      (''retention_until'', null_cell (lr_retention_until r)), (''gc_eligible'', SInt (lr_gc_eligible r)),
      (''gc_eligible_at'', null_cell (lr_gc_eligible_at r)), (''gc_blocked_reason'', SText (lr_gc_blocked_reason r)),
      (''terminal_node_count'', SInt (lr_terminal_node_count r)),
      (''succeeded_node_count'', SInt (lr_succeeded_node_count r)),
      (''failed_node_count'', SInt (lr_failed_node_count r)),
      (''canceled_node_count'', SInt (lr_canceled_node_count r)),
      (''retained_artifact_count'', SInt (lr_retained_artifact_count r)),
      (''retained_artifact_bytes'', SInt (sint (lr_retained_artifact_bytes r)))]"

definition schema_columns :: "string \<Rightarrow> string list" where
  "schema_columns name =
     the (map_of (List.map_filter (\<lambda>d. case d of CREATE_TABLE n cols \<Rightarrow> Some (n, cols) | _ \<Rightarrow> None) schema_ddl) name)"

definition file_table :: "string \<Rightarrow> sql_value gomap gomap \<Rightarrow> string \<times> sql_table" where
  "file_table name rows = (name, \<lparr>tb_columns = schema_columns name, tb_rows = rows\<rparr>)"

definition file_of :: "(string, string, string) database \<Rightarrow> db_file" where
  "file_of db =
     \<lparr>f_tables =
        [file_table ''artifacts'' (map (\<lambda>(k, r). (k, artifact_cells k r)) (tbl_artifacts db)),
         file_table ''artifact_sources'' (on_values source_cells (tbl_artifact_sources db)),
         file_table ''node_terminals'' (map (\<lambda>(k, r). (k, terminal_cells k r)) (tbl_node_terminals db)),
         file_table ''sample_run_lifecycles'' (on_values lifecycle_cells (tbl_sample_run_lifecycles db)),
         file_table ''run_lifecycles''
           (on_values (\<lambda>r. (''run_id'', SText (lr_run_id r)) # lifecycle_cells r) (tbl_run_lifecycles db)),
         file_table ''ah_schema_meta''
           (map (\<lambda>(k, v). (k, [(''key'', SText k), (''value'', SText v)])) (tbl_schema_meta db))],
      f_indexes = List.map_filter (\<lambda>d. case d of CREATE_INDEX n t c \<Rightarrow> Some n | _ \<Rightarrow> None) (schema_ddl @ run_indexes)\<rparr>"

text \<open>Tables as the store writes them: the stamp is there, and no pre-F4 lifecycle has a run.\<close>

definition stamped :: "(string, string, string) database \<Rightarrow> bool" where
  "stamped db \<longleftrightarrow> map_of (tbl_schema_meta db) ''schema_version'' = Some ''2'' \<and>
     list_all (\<lambda>(k, r). lr_run_id r = []) (tbl_sample_run_lifecycles db)"

lemma cells_read:
  "artifact_row_of (artifact_cells k a) = a" "source_row_of (source_cells s) = s"
  "terminal_row_of (terminal_cells k t) = t"
  "lifecycle_row_of ((''run_id'', SText (lr_run_id l)) # lifecycle_cells l) = l"
  "lr_run_id l = [] \<Longrightarrow> lifecycle_row_of (lifecycle_cells l) = l"
  by (simp_all add: artifact_row_of_def artifact_cells_def source_row_of_def source_cells_def terminal_row_of_def
      terminal_cells_def lifecycle_row_of_def lifecycle_cells_def text_col_def int_col_def null_col_def text_of_def
      null_cell_def split: option.split)

lemma file_rows [simp]:
  "table_rows (file_of db) ''artifacts'' = map (\<lambda>(k, r). (k, artifact_cells k r)) (tbl_artifacts db)"
  "table_rows (file_of db) ''artifact_sources'' = on_values source_cells (tbl_artifact_sources db)"
  "table_rows (file_of db) ''node_terminals'' = map (\<lambda>(k, r). (k, terminal_cells k r)) (tbl_node_terminals db)"
  "table_rows (file_of db) ''sample_run_lifecycles'' = on_values lifecycle_cells (tbl_sample_run_lifecycles db)"
  "table_rows (file_of db) ''run_lifecycles'' =
     on_values (\<lambda>r. (''run_id'', SText (lr_run_id r)) # lifecycle_cells r) (tbl_run_lifecycles db)"
  "table_rows (file_of db) ''ah_schema_meta'' =
     map (\<lambda>(k, v). (k, [(''key'', SText k), (''value'', SText v)])) (tbl_schema_meta db)"
  by (simp_all add: table_rows_def file_of_def file_table_def)

lemma on_values_back: "(\<And>k r. (k, r) \<in> set m \<Longrightarrow> f (g r) = r) \<Longrightarrow> on_values f (on_values g m) = m"
  by (auto simp: on_values_def intro!: map_idI)

lemma keyed_back: "(\<And>k r. f (g k r) = r) \<Longrightarrow> on_values f (map (\<lambda>(k, r). (k, g k r)) m) = m"
  by (auto simp: on_values_def intro!: map_idI)

lemma file_database:
  assumes "list_all (\<lambda>(k, r). lr_run_id r = []) (tbl_sample_run_lifecycles db)"
  shows "database_of (file_of db) = db"
proof -
  have "on_values lifecycle_row_of (on_values lifecycle_cells (tbl_sample_run_lifecycles db)) = tbl_sample_run_lifecycles db"
    using assms by (intro on_values_back) (auto simp: list_all_iff cells_read)
  moreover have "on_values (text_col ''value'') (map (\<lambda>(k, v). (k, [(''key'', SText k), (''value'', SText v)]))
      (tbl_schema_meta db)) = tbl_schema_meta db"
    by (rule keyed_back) (simp add: text_col_def text_of_def)
  ultimately show ?thesis by (simp add: database_of_def on_values_back keyed_back cells_read)
qed

lemma file_version: "meta_value (file_of db) k = map_of (tbl_schema_meta db) k"
proof -
  have "map_of (map (\<lambda>(k, v). (k, g k v)) m) k = map_option (g k) (map_of m k)" for g :: "string \<Rightarrow> string \<Rightarrow> sql_value gomap" and m
    by (induction m) auto
  then show ?thesis
    by (simp add: meta_value_def file_of_def file_table_def option.map_comp comp_def text_of_def option.map_ident)
qed

lemma file_posts: "list_all (\<lambda>d. post d (file_of db)) (schema_ddl @ run_columns @ run_indexes @ alter_ddl)"
  by (simp add: file_of_def file_table_def schema_columns_def schema_ddl_def run_columns_def run_indexes_def
      alter_ddl_def List.map_filter_def lifecycle_columns_def)

lemma file_migrated: "stamped db \<Longrightarrow> migrated (file_of db)"
  using file_posts version_2(2) by (simp add: migrated_def current_version_def file_version stamped_def del: list_all_append)

section \<open>Opening\<close>

text \<open>\<^verbatim>\<open>NewSQLiteStore\<close> on a file, with a driver that opens it and an engine that does not fail.\<close>

definition open_file :: "(sql_error \<Rightarrow> string) \<Rightarrow> iteration \<Rightarrow> db_file \<Rightarrow> (string, string, string) database option" where
  "open_file message ord f =
     (let D = \<lparr>dr_open = (\<lambda>_. None), dr_file = (\<lambda>_. f), dr_message = message, dr_engine = sound_engine ord\<rparr>
      in case fst (NewSQLiteStore D ord ''inventory.db'') of Inl e \<Rightarrow> None | Inr db \<Rightarrow> Some db)"

lemma open_again:
  assumes "duplicate_message message" and "stamped db"
  shows "open_file message ord (file_of db) = Some db"
  using migrate_again [OF assms(1) file_migrated [OF assms(2)]] file_database assms(2)
  by (simp add: open_file_def NewSQLiteStore_def stamped_def Let_def)

abbreviation empty_file :: db_file where
  "empty_file \<equiv> \<lparr>f_tables = [], f_indexes = []\<rparr>"

lemma insert_meta_fresh:
  assumes "map_of (f_tables f) ''ah_schema_meta'' = Some t" and "map_of (tb_rows t) k = None"
  shows "\<exists>f' t'. insert_meta k v f = Inr f' \<and> map_of (f_tables f') ''ah_schema_meta'' = Some t' \<and>
     dom (map_of (tb_rows t')) = insert k (dom (map_of (tb_rows t))) \<and>
     (\<forall>name. name \<noteq> ''ah_schema_meta'' \<longrightarrow> table_rows f' name = table_rows f name)"
  using assms by (auto simp: insert_meta_def update_conv table_rows_def map_add_def dom_def split: option.splits)

lemma record_counts_fresh:
  assumes "map_of (f_tables f) ''ah_schema_meta'' = Some t" and "distinct ks" and "set ks \<inter> dom (map_of (tb_rows t)) = {}"
  shows "\<exists>f' t'. record_counts (sound_engine ord) i ks f = Inr f' \<and> map_of (f_tables f') ''ah_schema_meta'' = Some t' \<and>
     dom (map_of (tb_rows t')) = set ks \<union> dom (map_of (tb_rows t)) \<and>
     (\<forall>name. name \<noteq> ''ah_schema_meta'' \<longrightarrow> table_rows f' name = table_rows f name)"
  using assms
proof (induction ks arbitrary: f t i)
  case (Cons k ks)
  then have "map_of (tb_rows t) k = None" by (auto simp: dom_def)
  from insert_meta_fresh [OF Cons.prems(1) this, of "decimal (the (map_of (legacy_counts f) k))"] obtain f1 t1 where
    f1: "insert_meta k (decimal (the (map_of (legacy_counts f) k))) f = Inr f1"
      "map_of (f_tables f1) ''ah_schema_meta'' = Some t1" "dom (map_of (tb_rows t1)) = insert k (dom (map_of (tb_rows t)))"
      "\<forall>name. name \<noteq> ''ah_schema_meta'' \<longrightarrow> table_rows f1 name = table_rows f name" by blast
  from Cons.IH [OF f1(2), of "i + 2"] Cons.prems(2,3) f1(3) obtain f2 t2 where
    "record_counts (sound_engine ord) (i + 2) ks f1 = Inr f2" "map_of (f_tables f2) ''ah_schema_meta'' = Some t2"
    "dom (map_of (tb_rows t2)) = set ks \<union> dom (map_of (tb_rows t1))"
    "\<forall>name. name \<noteq> ''ah_schema_meta'' \<longrightarrow> table_rows f2 name = table_rows f1 name" by auto
  then show ?case using f1 by auto
qed simp

text \<open>The first statements on an empty file give the schema; the counts and the stamp follow.\<close>

lemma schema_new:
  "\<exists>f0. exec_all (sound_engine ord) 0 schema_ddl empty_file = Inr f0 \<and> meta_value f0 ''schema_version'' = None \<and>
     addColumnIfMissingTx (sound_engine ord) 12 ''artifacts'' ''run_id'' (SText []) f0 = Inr f0 \<and>
     addColumnIfMissingTx (sound_engine ord) 14 ''node_terminals'' ''run_id'' (SText []) f0 = Inr f0 \<and>
     exec_all (sound_engine ord) 16 run_indexes f0 = Inr (file_of empty_db)"
  by (simp add: schema_ddl_def run_indexes_def meta_value_def addColumnIfMissingTx_def file_of_def file_table_def
      schema_columns_def empty_db_def on_values_def List.map_filter_def)

lemma stamp_new:
  "\<exists>f4 f5. record_counts (sound_engine ord) 18 (visit ord' (map fst (legacy_counts (file_of empty_db)))) (file_of empty_db) = Inr f4 \<and>
     insert_meta ''schema_version'' (decimal (nat sqliteSchemaVersion)) f4 = Inr f5 \<and> extends (file_of empty_db) f5 \<and>
     (\<forall>name. name \<noteq> ''ah_schema_meta'' \<longrightarrow> table_rows f5 name = table_rows (file_of empty_db) name)"
proof -
  let ?f = "file_of empty_db" and ?ks = "visit ord' (map fst (legacy_counts (file_of empty_db)))"
  have m: "map_of (f_tables ?f) ''ah_schema_meta'' = Some \<lparr>tb_columns = schema_columns ''ah_schema_meta'', tb_rows = []\<rparr>"
    by (simp add: file_of_def file_table_def empty_db_def)
  have ks: "distinct ?ks" "set ?ks = fst ` set (legacy_counts ?f)"
    using mset_eq_imp_distinct_iff [OF mset_visit] mset_eq_setD [OF mset_visit] by (simp_all add: legacy_counts_def)
  from record_counts_fresh [OF m, of ?ks ord 18] ks(1) obtain f1 t1 where
    f1: "record_counts (sound_engine ord) 18 ?ks ?f = Inr f1" "map_of (f_tables f1) ''ah_schema_meta'' = Some t1"
      "dom (map_of (tb_rows t1)) = set ?ks"
      "\<forall>name. name \<noteq> ''ah_schema_meta'' \<longrightarrow> table_rows f1 name = table_rows ?f name" by auto
  have "''schema_version'' \<notin> dom (map_of (tb_rows t1))" unfolding f1(3) ks(2) by (simp add: legacy_counts_def)
  then have "map_of (tb_rows t1) ''schema_version'' = None" by (simp only: domIff not_not)
  from insert_meta_fresh [OF f1(2) this, of "decimal (nat sqliteSchemaVersion)"] f1(1,4) show ?thesis
    using extends_trans [OF record_counts_extends [OF f1(1)]] insert_meta_extends by fastforce
qed

lemma identity_new:
  "\<exists>f5. migrate_tx (sound_engine ord) ord' empty_file = Inr f5 \<and> meta_value f5 ''schema_version'' = Some ''2'' \<and>
     extends (file_of empty_db) f5 \<and> (\<forall>name. name \<noteq> ''ah_schema_meta'' \<longrightarrow> table_rows f5 name = table_rows (file_of empty_db) name)"
proof -
  obtain f0 where f0: "exec_all (sound_engine ord) 0 schema_ddl empty_file = Inr f0" "meta_value f0 ''schema_version'' = None"
     "addColumnIfMissingTx (sound_engine ord) 12 ''artifacts'' ''run_id'' (SText []) f0 = Inr f0"
     "addColumnIfMissingTx (sound_engine ord) 14 ''node_terminals'' ''run_id'' (SText []) f0 = Inr f0"
     "exec_all (sound_engine ord) 16 run_indexes f0 = Inr (file_of empty_db)"
    using schema_new by blast
  obtain f4 f5 where f4: "record_counts (sound_engine ord) 18 (visit ord' (map fst (legacy_counts (file_of empty_db))))
      (file_of empty_db) = Inr f4" "insert_meta ''schema_version'' ''2'' f4 = Inr f5"
     "extends (file_of empty_db) f5" "\<forall>name. name \<noteq> ''ah_schema_meta'' \<longrightarrow> table_rows f5 name = table_rows (file_of empty_db) name"
    using stamp_new unfolding version_2(1) by blast
  have "migrateRunIdentity (sound_engine ord) ord' f0 = Inr f5"
    using f0(2-5) f4(1,2)
    by (simp add: migrateRunIdentity_def check_version_def version_2(1) run_indexes_def [symmetric] del: exec_all.simps)
  then show ?thesis
    using f0(1) f4(3,4) insert_meta_value [OF f4(2)]
    by (intro exI [of _ f5] conjI) (simp_all only: migrate_tx_def sound_engine_sel sum.case option.case)
qed

lemma open_new:
  assumes "duplicate_message message"
  shows "\<exists>meta. open_file message ord empty_file = Some (empty_db\<lparr>tbl_schema_meta := meta\<rparr>) \<and>
     map_of meta ''schema_version'' = Some ''2''"
proof -
  obtain f where f: "migrate_tx (sound_engine ord) ord empty_file = Inr f" "meta_value f ''schema_version'' = Some ''2''"
    "extends (file_of empty_db) f" "\<forall>name. name \<noteq> ''ah_schema_meta'' \<longrightarrow> table_rows f name = table_rows (file_of empty_db) name"
    using identity_new by blast
  have "list_all (\<lambda>d. post d f) alter_ddl" using file_posts post_extends [OF _ f(3)] by (auto simp: list_all_iff)
  from alter_all_done [OF assms this] have m: "sqliteMigrate message (sound_engine ord) ord empty_file = (None, f)"
    by (simp add: sqliteMigrate_def f(1))
  have "database_of f = empty_db\<lparr>tbl_schema_meta := on_values (text_col ''value'') (table_rows f ''ah_schema_meta'')\<rparr>"
    using f(4) by (simp add: database_of_def empty_db_def on_values_def)
  moreover have "map_of (on_values (text_col ''value'') (table_rows f ''ah_schema_meta'')) ''schema_version'' = Some ''2''"
    using f(2) by (auto simp: meta_value_def table_rows_def text_col_def split: option.splits)
  moreover have "open_file message ord empty_file = Some (database_of f)" by (simp add: open_file_def NewSQLiteStore_def m)
  ultimately show ?thesis by metis
qed

end
