(* ===== verification/Conformance_Sqlite.thy ===== *)
theory Conformance_Sqlite
  imports Conformance_Run Sqlite_File
begin

text \<open>The suite on the SQLite backend, with its harness: reopening, rows without a run, their dump.\<close>

section \<open>The store follows the registry\<close>

interpretation sq_order: ordered_store "sqlite_store (sound_engines ord) plain_codec" sq_inv sq_arts sq_terms sq_lifes
    sq_srcs sq_stored sq_keep
  for ord :: iteration
proof (unfold_locales, goal_cases)
  case (1 st sr ls)
  have "l_RunID \<circ> lifecycle_of_row = lr_run_id" by (simp add: fun_eq_iff)
  then show ?case using 1 by (auto simp: sq_ListRunLifecyclesBySample_def)
qed

lemma columns_step:
  assumes "readable other db" and "fixture_step c"
  shows "run_step (sqlite_store E plain_codec) c (decode_db (go_codec other) db) =
       map_option (decode_db (go_codec other)) (run_step (sqlite_store E (go_codec other)) c db) \<and>
     (\<forall>db'. run_step (sqlite_store E (go_codec other)) c db = Some db' \<longrightarrow> readable other db')"
proof -
  note reads = columns.reads [OF assms(1), of E]
  show ?thesis
  proof (cases c)
    case (mustPutArtifact a)
    obtain e db' where p: "PutArtifact (sqlite_store E (go_codec other)) db a = (e, db')" by fastforce
    from columns.put_artifact [OF assms(1) _ p] mustPutArtifact assms(2) p show ?thesis
      by (auto simp: must_def split: option.splits)
  next
    case (failPutArtifact a)
    obtain e db' where p: "PutArtifact (sqlite_store E (go_codec other)) db a = (e, db')" by fastforce
    from columns.put_artifact [OF assms(1) _ p] failPutArtifact assms(2) p show ?thesis
      by (auto simp: must_fail_def split: option.splits)
  next
    case (mustRecordTerminal t)
    obtain e db' where p: "RecordNodeTerminal (sqlite_store E (go_codec other)) db t = (e, db')" by fastforce
    from columns.record_terminal [OF assms(1) _ p] mustRecordTerminal assms(2) p show ?thesis
      by (auto simp: must_def split: option.splits)
  next
    case (failRecordTerminal t)
    obtain e db' where p: "RecordNodeTerminal (sqlite_store E (go_codec other)) db t = (e, db')" by fastforce
    from columns.record_terminal [OF assms(1) _ p] failRecordTerminal assms(2) p show ?thesis
      by (auto simp: must_fail_def split: option.splits)
  next
    case (mustUpsertLifecycle l)
    obtain e db' where p: "UpsertRunLifecycle (sqlite_store E (go_codec other)) db l = (e, db')" by fastforce
    from columns.upsert_lifecycle [OF assms(1) _ p] mustUpsertLifecycle assms(2) p show ?thesis
      by (auto simp: must_def split: option.splits)
  next
    case (failUpsertLifecycle l)
    obtain e db' where p: "UpsertRunLifecycle (sqlite_store E (go_codec other)) db l = (e, db')" by fastforce
    from columns.upsert_lifecycle [OF assms(1) _ p] failUpsertLifecycle assms(2) p show ?thesis
      by (auto simp: must_fail_def split: option.splits)
  next
    case (mustPutSource aid x)
    obtain e db' where p: "PutArtifactSources (sqlite_store E (go_codec other)) db aid [x] = (e, db')" by fastforce
    from columns.put_sources [OF assms(1) _ p] mustPutSource assms(2) p show ?thesis
      by (auto simp: must_def split: option.splits)
  next
    case (conflictPutSources aid xs)
    obtain e db' where p: "PutArtifactSources (sqlite_store E (go_codec other)) db aid xs = (e, db')" by fastforce
    from columns.put_sources [OF assms(1) _ p] conflictPutSources assms(2) p show ?thesis
      by (auto simp: must_conflict_def list_all_iff split: option.splits store_error.splits)
  qed (use assms(1) reads in \<open>simp_all add: require_def del: sqlite_store_methods\<close>)
qed

text \<open>\<^verbatim>\<open>time.Parse\<close> refuses the empty text, the default of a column for instants.\<close>

definition blank_refused :: "(string \<Rightarrow> time option) \<Rightarrow> bool" where
  "blank_refused other \<longleftrightarrow> other [] = None"

definition suite_ok :: "(sql_error \<Rightarrow> string) \<Rightarrow> (string \<Rightarrow> time option) \<Rightarrow> (string, string, string) database \<Rightarrow> bool" where
  "suite_ok message other db \<longleftrightarrow>
     readable other db \<and> sq_inv (decode_db (go_codec other) db) \<and> stamped db \<and> blank_refused other \<and>
     duplicate_message message"

lemma stamped_step:
  assumes "stamped db" and "run_step (sqlite_store E C) c db = Some db'"
  shows "stamped db'"
proof -
  have "fixed_tables db' = fixed_tables db"
    using assms(2) writes_keep_fixed [where db = db and C = C]
    by (cases c) (auto simp: must_def must_fail_def must_conflict_def require_def
        split: prod.splits option.splits if_splits store_error.splits, (metis snd_conv)+)
  then show ?thesis using assms(1) by (simp add: stamped_def fixed_tables_def)
qed

interpretation sq_suite: conformant "sqlite_store (sound_engines ord) (go_codec other)" "suite_ok message other" "sql_registry other"
  for message :: "sql_error \<Rightarrow> string" and ord :: iteration and other :: "string \<Rightarrow> time option"
proof (unfold_locales, goal_cases)
  case (1 db c R)
  let ?S = "sqlite_store (sound_engines ord) (go_codec other)" and ?d = "decode_db (go_codec other)"
  have db: "readable other db" "sq_inv (?d db)" "stamped db" "blank_refused other" "duplicate_message message" using 1(1) by (simp_all add: suite_ok_def)
  from sq_order.step_follows [OF db(2), of c R] 1(3) obtain p where
    p: "run_step (sqlite_store (sound_engines ord) plain_codec) c (?d db) = Some p" "sq_inv p"
      "registry_of sq_arts sq_terms sq_lifes sq_srcs p = R"
    by (auto simp: sql_registry_def)
  from columns_step [OF db(1) 1(2), of "sound_engines ord"] p(1) obtain db' where
    "run_step ?S c db = Some db'" "?d db' = p" "readable other db'"
    by (cases "run_step ?S c db") auto
  then show ?case using p db(4,5) stamped_step [OF db(3)] by (auto simp: suite_ok_def sql_registry_def)
qed

text \<open>
  The harness of the suite for this backend.  A new store is opened on an empty file, a store is
  reopened on the file it lies in, and both run the migration; the rows without a run are
  inserted under keys that are not taken.
\<close>

definition legacy_artifact_row :: "Artifact \<Rightarrow> (string, string) artifact_row" where
  "legacy_artifact_row a =
     \<lparr>ar_run_id = [], ar_sample_run_id = a_SampleRunID a, ar_producer_node_id = a_ProducerNodeID a,
      ar_producer_attempt_id = a_ProducerAttemptID a, ar_output_name = a_OutputName a,
      ar_artifact_id = a_ArtifactID a, ar_digest = a_Digest a, ar_logical_uri = [], ar_node_name = [],
      ar_uri = [], ar_locations_json = ''[]'', ar_size_bytes = 0, ar_created_at = FormatRFC3339Nano (a_CreatedAt a)\<rparr>"

definition legacy_source_row :: "ArtifactSource \<Rightarrow> (string, string) source_row" where
  "legacy_source_row s =
     \<lparr>sr_source_id = s_SourceID s, sr_artifact_id = s_ArtifactID s, sr_backend_id = s_BackendID s,
      sr_digest = s_Digest s, sr_state = s_State s, sr_location_fingerprint = s_LocationFingerprint s,
      sr_location_json = ''{}'', sr_created_at = FormatRFC3339Nano (s_CreatedAt s),
      sr_updated_at = FormatRFC3339Nano (s_UpdatedAt s), sr_last_verified_at = [], sr_last_error = []\<rparr>"

definition legacy_terminal_row :: "NodeTerminalRecord \<Rightarrow> string terminal_row" where
  "legacy_terminal_row t =
     \<lparr>tr_run_id = [], tr_sample_run_id = sampleRun, tr_node_id = t_NodeID t, tr_attempt_id = t_AttemptID t,
      tr_terminal_state = t_TerminalState t, tr_recorded_at = FormatRFC3339Nano (t_RecordedAt t)\<rparr>"

definition seedLegacySQLite :: "(string, string, string) database \<Rightarrow> LegacyRows \<Rightarrow> (string, string, string) database" where
  "seedLegacySQLite db rows =
     db\<lparr>tbl_artifacts := AList.update (Artifact_Key (lg_Artifact rows)) (legacy_artifact_row (lg_Artifact rows))
          (tbl_artifacts db),
        tbl_artifact_sources := AList.update (s_SourceID (lg_Source rows)) (legacy_source_row (lg_Source rows))
          (tbl_artifact_sources db),
        tbl_node_terminals := AList.update (record_key (lg_Terminal rows)) (legacy_terminal_row (lg_Terminal rows))
          (tbl_node_terminals db),
        tbl_sample_run_lifecycles := AList.update (l_SampleRunID (lg_Lifecycle rows))
          (lifecycle_values (go_codec (\<lambda>_. None)) (lg_Lifecycle rows)) (tbl_sample_run_lifecycles db)\<rparr>"

definition quote_text :: "string \<Rightarrow> string" where
  "quote_text s = [CHR 0x27] @ concat (map (\<lambda>c. if c = CHR 0x27 then [c, c] else [c]) s) @ [CHR 0x27]"

definition quote_null :: "string option \<Rightarrow> string" where
  "quote_null v = (case v of None \<Rightarrow> ''NULL'' | Some s \<Rightarrow> quote_text s)"

definition snapshot_line :: "string \<Rightarrow> (string \<times> string) list \<Rightarrow> string" where
  "snapshot_line table cols = table @ ''|'' @ Join (map (\<lambda>(c, v). c @ ''='' @ v) cols) ''|''"

definition artifact_line :: "string \<times> (string, string) artifact_row \<Rightarrow> string" where
  "artifact_line = (\<lambda>(k, r). snapshot_line ''artifacts''
     [(''key'', quote_text k), (''run_id'', quote_text (ar_run_id r)), (''sample_run_id'', quote_text (ar_sample_run_id r)),
      (''producer_node_id'', quote_text (ar_producer_node_id r)),
      (''producer_attempt_id'', quote_text (ar_producer_attempt_id r)), (''output_name'', quote_text (ar_output_name r)),
      (''artifact_id'', quote_text (ar_artifact_id r)), (''digest'', quote_text (ar_digest r)),
      (''logical_uri'', quote_text (ar_logical_uri r)), (''node_name'', quote_text (ar_node_name r)),
      (''uri'', quote_text (ar_uri r)), (''locations_json'', quote_text (ar_locations_json r)),
      (''size_bytes'', int_text (sint (ar_size_bytes r))), (''created_at'', quote_text (ar_created_at r))])"

definition source_line :: "string \<times> (string, string) source_row \<Rightarrow> string" where
  "source_line = (\<lambda>(k, r). snapshot_line ''artifact_sources''
     [(''source_id'', quote_text k), (''artifact_id'', quote_text (sr_artifact_id r)),
      (''backend_id'', quote_text (sr_backend_id r)), (''digest'', quote_text (sr_digest r)),
      (''state'', quote_text (sr_state r)), (''location_fingerprint'', quote_text (sr_location_fingerprint r)),
      (''location_json'', quote_text (sr_location_json r)), (''created_at'', quote_text (sr_created_at r)),
      (''updated_at'', quote_text (sr_updated_at r)), (''last_verified_at'', quote_text (sr_last_verified_at r)),
      (''last_error'', quote_text (sr_last_error r))])"

definition terminal_line :: "string \<times> string terminal_row \<Rightarrow> string" where
  "terminal_line = (\<lambda>(k, r). snapshot_line ''node_terminals''
     [(''key'', quote_text k), (''run_id'', quote_text (tr_run_id r)), (''sample_run_id'', quote_text (tr_sample_run_id r)),
      (''node_id'', quote_text (tr_node_id r)), (''attempt_id'', quote_text (tr_attempt_id r)),
      (''terminal_state'', quote_text (tr_terminal_state r)), (''recorded_at'', quote_text (tr_recorded_at r))])"

definition lifecycle_line :: "string \<times> string lifecycle_row \<Rightarrow> string" where
  "lifecycle_line = (\<lambda>(k, r). snapshot_line ''sample_run_lifecycles''
     [(''sample_run_id'', quote_text k), (''finalized'', int_text (lr_finalized r)),
      (''finalized_at'', quote_null (lr_finalized_at r)),
      (''retention_policy_source'', quote_text (lr_retention_policy_source r)),
      (''retention_duration_ns'', int_text (lr_retention_duration_ns r)),
      (''retention_until'', quote_null (lr_retention_until r)), (''gc_eligible'', int_text (lr_gc_eligible r)),
      (''gc_eligible_at'', quote_null (lr_gc_eligible_at r)), (''gc_blocked_reason'', quote_text (lr_gc_blocked_reason r)),
      (''terminal_node_count'', int_text (lr_terminal_node_count r)),
      (''succeeded_node_count'', int_text (lr_succeeded_node_count r)),
      (''failed_node_count'', int_text (lr_failed_node_count r)),
      (''canceled_node_count'', int_text (lr_canceled_node_count r)),
      (''retained_artifact_count'', int_text (lr_retained_artifact_count r)),
      (''retained_artifact_bytes'', int_text (sint (lr_retained_artifact_bytes r)))])"

definition legacySnapshotSQLite :: "(string, string, string) database \<Rightarrow> string" where
  "legacySnapshotSQLite db =
     Join (map artifact_line (sort_key fst (filter (\<lambda>(k, r). ar_run_id r = []) (tbl_artifacts db))) @
           map source_line (sort_key fst (filter (\<lambda>(k, r). \<not> liveSourceFilter db (sr_artifact_id r)) (tbl_artifact_sources db))) @
           map terminal_line (sort_key fst (filter (\<lambda>(k, r). tr_run_id r = []) (tbl_node_terminals db))) @
           map lifecycle_line (sort_key fst (tbl_sample_run_lifecycles db))) [CHR 0x0A]"

definition sqlite_harness :: "(sql_error \<Rightarrow> string) \<Rightarrow> iteration \<Rightarrow> (string \<Rightarrow> time option) \<Rightarrow>
    (string, string, string) database harness" where
  "sqlite_harness message ord other =
     \<lparr>h_Store = sqlite_store (sound_engines ord) (go_codec other), h_New = open_file message ord empty_file,
      h_Reopen = Some (\<lambda>db. open_file message ord (file_of db)),
      h_SeedLegacy = Some seedLegacySQLite, h_LegacySnapshot = Some legacySnapshotSQLite\<rparr>"

lemma Join_line: "x \<in> set xs \<Longrightarrow> x \<noteq> [] \<Longrightarrow> Join xs glue \<noteq> []"
  by (induction xs glue rule: Join.induct) auto

lemma snapshot_line_nonempty: "snapshot_line table cols \<noteq> []"
  by (simp add: snapshot_line_def)

lemma snapshot_nonempty: "legacySnapshotSQLite (seedLegacySQLite db rows) \<noteq> []"
proof -
  have "AList.update k v m \<noteq> []" for k and v :: "string lifecycle_row" and m by (cases m) auto
  then have "tbl_sample_run_lifecycles (seedLegacySQLite db rows) \<noteq> []" by (simp add: seedLegacySQLite_def Let_def)
  then obtain k r where r: "(k, r) \<in> set (tbl_sample_run_lifecycles (seedLegacySQLite db rows))"
    by (metis last_in_set surj_pair)
  show ?thesis
    unfolding legacySnapshotSQLite_def
    by (rule Join_line [of "lifecycle_line (k, r)"]) (use r in \<open>auto simp: lifecycle_line_def snapshot_line_nonempty\<close>)
qed

lemma sample_rows_unread [simp]:
  "decode_db C (db\<lparr>tbl_sample_run_lifecycles := m\<rparr>) =
     (decode_db C db)\<lparr>tbl_sample_run_lifecycles := on_values (decode_lifecycle C) m\<rparr>"
  "sq_inv (p\<lparr>tbl_sample_run_lifecycles := m'\<rparr>) = sq_inv p"
  "sq_arts (p\<lparr>tbl_sample_run_lifecycles := m'\<rparr>) = sq_arts p" "sq_terms (p\<lparr>tbl_sample_run_lifecycles := m'\<rparr>) = sq_terms p"
  "sq_lifes (p\<lparr>tbl_sample_run_lifecycles := m'\<rparr>) = sq_lifes p" "sq_srcs (p\<lparr>tbl_sample_run_lifecycles := m'\<rparr>) = sq_srcs p"
  by (simp_all add: decode_db_def sq_inv_def sq_arts_def sq_terms_def sq_lifes_def sq_srcs_def fun_eq_iff)

lemma blank_location: "unmarshalLocation (go_codec other) ''{}'' = Some zero_location"
  by code_simp

lemma legacy_rows_fields [simp]:
  "Artifact_Key (lg_Artifact legacyRows) = ''run//producer/attempt-1/dataset''"
  "record_key (lg_Terminal legacyRows) = ''run//producer/attempt-1''"
  "s_SourceID (lg_Source legacyRows) = legacySourceID" "s_ArtifactID (lg_Source legacyRows) = legacyArtifactID"
  "s_CreatedAt (lg_Source legacyRows) = fixture_at" "s_UpdatedAt (lg_Source legacyRows) = fixture_at"
  by (simp_all add: legacyRows_def Artifact_Key_def artifact_fix_def Let_def ArtifactKey_String_def sep_def runNamespace_def)
    (simp_all add: source_fix_def)

lemma parse_blank: "ParseRFC3339Nano other [] = other []"
  by (simp add: ParseRFC3339Nano_def parse_Z_def)

lemma legacy_row_fields [simp]:
  "ar_run_id (legacy_artifact_row a) = []" "tr_run_id (legacy_terminal_row t) = []"
  "sr_source_id (legacy_source_row s) = s_SourceID s" "sr_artifact_id (legacy_source_row s) = s_ArtifactID s"
  by (simp_all add: legacy_artifact_row_def legacy_terminal_row_def legacy_source_row_def)

lemma legacy_source_readable:
  assumes "blank_refused other"
  shows "unmarshalLocation (go_codec other) (sr_location_json (legacy_source_row (lg_Source legacyRows))) \<noteq> None"
    "rep_source four_digit_year (source_of_row (decode_source (go_codec other) (legacy_source_row (lg_Source legacyRows))))"
  using assms blank_location [of other]
  by (simp_all add: blank_refused_def legacy_source_row_def decode_source_def source_of_row_def rep_source_def parse_format_instant
      parse_blank zero_time_def zero_location_def textual_location_def four_digit_year_def [of 0]
      del: go_codec_sel(3-6))

lemma seeded_readable:
  assumes "readable other db" and "blank_refused other"
  shows "readable other (seedLegacySQLite db legacyRows)"
  unfolding readable_def artifacts_readable_def sources_readable_def lifecycles_readable_def seedLegacySQLite_def
  using assms(1) legacy_source_readable [of other, OF assms(2)]
  by (auto simp: readable_def artifacts_readable_def sources_readable_def lifecycles_readable_def update_conv ran_def
      simp del: go_codec_sel split: if_splits)

lemma legacy_fixture_keys: "legacy_key 4 ''run//producer/attempt-1/dataset''" "legacy_key 3 ''run//producer/attempt-1''"
  by (simp_all add: legacy_key_def slashes_def HasPrefix_iff)

lemma seeded_inv:
  assumes "sq_inv p" and "ar_run_id ra = []" "sr_source_id rs = legacySourceID" "tr_run_id rt = []"
  shows "sq_inv (p\<lparr>tbl_artifacts := AList.update ''run//producer/attempt-1/dataset'' ra (tbl_artifacts p),
     tbl_artifact_sources := AList.update legacySourceID rs (tbl_artifact_sources p),
     tbl_node_terminals := AList.update ''run//producer/attempt-1'' rt (tbl_node_terminals p)\<rparr>)"
  using assms by (auto simp: sq_inv_def update_conv legacy_fixture_keys)

lemma legacy_keys_hidden:
  "sq_inv p \<Longrightarrow> legacy_key 4 k \<Longrightarrow> sq_arts p k = None" "sq_inv p \<Longrightarrow> legacy_key 3 k \<Longrightarrow> sq_terms p k = None"
proof -
  show "sq_arts p k = None" if "sq_inv p" "legacy_key 4 k"
    using that sq_invD(6) [OF that(1), of k] run_key_not_legacy(1)
    by (fastforce simp: sq_arts_def split: option.split)
  show "sq_terms p k = None" if "sq_inv p" "legacy_key 3 k"
    using that sq_invD(8) [OF that(1), of k] run_key_not_legacy(2)
    by (fastforce simp: sq_terms_def split: option.split)
qed

lemma blank_update:
  "list_all (\<lambda>(k, r). lr_run_id r = []) m \<Longrightarrow> lr_run_id v = [] \<Longrightarrow>
     list_all (\<lambda>(k, r). lr_run_id r = []) (AList.update k v m)"
  by (induction m) auto

lemma seeded_stamped: "stamped db \<Longrightarrow> stamped (seedLegacySQLite db legacyRows)"
  by (simp add: stamped_def seedLegacySQLite_def blank_update lifecycle_values_def legacyRows_def lifecycle_fix_def)

lemma seeded_suite:
  assumes "suite_ok message other db"
  shows "suite_ok message other (seedLegacySQLite db legacyRows)"
    and "\<exists>x. s_SourceID x = legacySourceID \<and> s_ArtifactID x = legacyArtifactID \<and>
      sql_registry other (seedLegacySQLite db legacyRows) = with_source x (sql_registry other db)"
proof -
  let ?d = "decode_db (go_codec other)" and ?x = "source_of_row (decode_source (go_codec other) (legacy_source_row (lg_Source legacyRows)))"
  have db: "readable other db" "sq_inv (?d db)" "blank_refused other" "stamped db" "duplicate_message message"
    using assms by (simp_all add: suite_ok_def)
  show "suite_ok message other (seedLegacySQLite db legacyRows)"
    using seeded_readable [OF db(1,3)] db(3,5) seeded_inv [OF db(2)] seeded_stamped [OF db(4)]
    by (simp add: suite_ok_def) (simp add: seedLegacySQLite_def)
  have "sq_arts (?d db) ''run//producer/attempt-1/dataset'' = None" "sq_terms (?d db) ''run//producer/attempt-1'' = None"
    using legacy_keys_hidden [OF db(2)] legacy_fixture_keys by simp_all
  then have "sql_registry other (seedLegacySQLite db legacyRows) = with_source ?x (sql_registry other db)"
    by (simp add: sql_registry_def seedLegacySQLite_def registry_of_def with_source_def sq_arts_def sq_terms_def sq_srcs_def sq_lifes_def
        update_conv fun_eq_iff)
  then show "\<exists>x. s_SourceID x = legacySourceID \<and> s_ArtifactID x = legacyArtifactID \<and>
      sql_registry other (seedLegacySQLite db legacyRows) = with_source x (sql_registry other db)"
    by (intro exI [of _ ?x]) simp
qed

interpretation sq_durable: durable "sqlite_store (sound_engines ord) (go_codec other)" "suite_ok message other" "sql_registry other"
    "\<lambda>db. open_file message ord (file_of db)" seedLegacySQLite legacySnapshotSQLite
  for message :: "sql_error \<Rightarrow> string" and ord :: iteration and other :: "string \<Rightarrow> time option"
  by unfold_locales (use seeded_suite snapshot_nonempty write_errors(2) open_again in \<open>auto simp: suite_ok_def\<close>)

section \<open>The legacy cases\<close>

definition legacy_fits :: "step list \<Rightarrow> phase list \<Rightarrow> bool" where
  "legacy_fits cs ps \<longleftrightarrow> list_all fixture_step cs \<and>
     (\<exists>R. abs_steps cs empty_registry = Some R \<and> reg_srcs R legacySourceID = None \<and>
        (\<forall>x. s_SourceID x = legacySourceID \<longrightarrow> s_ArtifactID x = legacyArtifactID \<longrightarrow>
           list_all (phase_ok (with_source x R)) ps))"

lemma sqlite_new:
  assumes "duplicate_message message" and "blank_refused other"
  shows "\<exists>db. open_file message ord empty_file = Some db \<and> suite_ok message other db \<and>
     sql_registry other db = empty_registry"
proof -
  obtain meta where m: "open_file message ord empty_file = Some (empty_db\<lparr>tbl_schema_meta := meta\<rparr>)"
    "map_of meta ''schema_version'' = Some ''2''" using open_new [OF assms(1)] by blast
  have "suite_ok message other (empty_db\<lparr>tbl_schema_meta := meta\<rparr>)"
    "sql_registry other (empty_db\<lparr>tbl_schema_meta := meta\<rparr>) = empty_registry"
    using assms m(2)
    by (simp_all add: suite_ok_def sql_registry_def empty_registry_def readable_def artifacts_readable_def
        sources_readable_def lifecycles_readable_def empty_db_def sq_inv_def registry_of_def sq_arts_def sq_terms_def
        sq_lifes_def sq_srcs_def on_values_def stamped_def fun_eq_iff)
  with m(1) show ?thesis by blast
qed

lemma sqlite_legacy_passes:
  assumes "duplicate_message message" and "blank_refused other" and "legacy_fits cs ps"
  shows "legacy_case (sqlite_harness message ord other) b cs ps = Pass"
proof -
  obtain R where R: "abs_steps cs empty_registry = Some R" "reg_srcs R legacySourceID = None"
    "\<forall>x. s_SourceID x = legacySourceID \<longrightarrow> s_ArtifactID x = legacyArtifactID \<longrightarrow> list_all (phase_ok (with_source x R)) ps"
    using assms(3) by (auto simp: legacy_fits_def)
  obtain db where "open_file message ord empty_file = Some db" "suite_ok message other db"
    "sql_registry other db = empty_registry" using sqlite_new [where ord = ord, OF assms(1,2)] by blast
  with assms(3) R show ?thesis
    by (intro sq_durable.legacy_case_passes [where R = R and other = other and ord = ord and message = message and ?st0.0 = db])
      (auto simp: sqlite_harness_def legacy_fits_def)
qed

lemmas legacy_steps = checkLegacyInvisible_def checkLegacyLifecycleInvisible_def checkLive_def

lemmas legacy_computed = legacy_fits_def legacy_steps abstract_simps with_source_def ascii_byte_def byte_in_def
  fix_representable [of _ "[]"] fix_representable(4) [of "[]"]

lemma legacy_cases_pass:
  assumes "duplicate_message message" and "blank_refused other"
  shows "legacyInvisible (sqlite_harness message ord other) = Pass"
    "legacyRetainedAcrossReopen (sqlite_harness message ord other) = Pass"
    "legacySourceNotClaimable (sqlite_harness message ord other) = Pass"
  unfolding legacyInvisible_def legacyRetainedAcrossReopen_def legacySourceNotClaimable_def Let_def
  by (rule sqlite_legacy_passes [OF assms], simp add: legacy_computed)+

section \<open>The whole suite\<close>

lemma sqlite_passes:
  assumes "duplicate_message message" and "blank_refused other" and "list_all fixture_step cs"
    and "abs_steps cs empty_registry \<noteq> None"
  shows "run_case (sqlite_harness message ord other) cs = Pass"
  using sqlite_new [where ord = ord, OF assms(1,2)] sq_suite.case_passes [of "sqlite_harness message ord other" ord other] assms(3,4)
  by (fastforce simp: sqlite_harness_def)

lemma sqlite_reopen_passes:
  assumes "duplicate_message message" and "blank_refused other"
  shows "testReopen (sqlite_harness message ord other) = Pass"
  using sqlite_new [where ord = ord, OF assms] reopen_abs steps_representable(8,9)
    sq_durable.reopen_passes [of "sqlite_harness message ord other" ord other message]
  by (fastforce simp: sqlite_harness_def)

lemmas cases_computed = separation_abs convergence_abs sources_abs empty_run_abs steps_representable

lemma memory_suite: "map snd (Run (memory_harness L)) = replicate 7 Pass @ replicate 4 Skip"
  by (simp add: Run_def memory_passes cases_computed numeral_eq_Suc del: abs_steps.simps not_None_eq)
    (simp add: testReopen_def legacyInvisible_def legacyRetainedAcrossReopen_def legacySourceNotClaimable_def Let_def
      legacy_case_def memory_harness_def)

lemma sqlite_suite:
  assumes "duplicate_message message" and "blank_refused other"
  shows "map snd (Run (sqlite_harness message ord other)) = replicate 11 Pass"
  by (simp add: Run_def sqlite_passes [OF assms] sqlite_reopen_passes [OF assms] legacy_cases_pass [OF assms]
      cases_computed numeral_eq_Suc del: not_None_eq)

end
