(* ===== verification/Sqlite_Tx.thy ===== *)
theory Sqlite_Tx
  imports Sqlite_Service
begin

text \<open>
  The writing methods of \<^verbatim>\<open>pkg/inventory/sqlite.go\<close> statement by statement, on the one connection
  that \<^verbatim>\<open>SetMaxOpenConns(1)\<close> leaves the pool.  A transaction works on a copy of the tables;
  \<^verbatim>\<open>Commit\<close> publishes the copy, the deferred \<^verbatim>\<open>Rollback\<close> drops it, and a method that finds the
  connection taken waits for it.  The methods of \<^verbatim>\<open>Sqlite_Store\<close> are what this amounts to.
\<close>

section \<open>The connection\<close>

record 'db conn =
  disk :: 'db
  in_tx :: "'db option"

definition idle :: "'db \<Rightarrow> 'db conn" where
  "idle db = \<lparr>disk = db, in_tx = None\<rparr>"

text \<open>An outcome \<open>None\<close> is a call that does not return: nobody gives the connection back.\<close>

type_synonym ('db, 'a) waiting = "('a \<times> 'db conn) option"

definition tx_done :: store_error where
  "tx_done = DriverError ''sql: transaction has already been committed or rolled back''"

definition BeginTx :: "engine \<Rightarrow> 'db conn \<Rightarrow> ('db, store_error option) waiting" where
  "BeginTx E c =
     (case in_tx c of
        Some _ \<Rightarrow> None
      | None \<Rightarrow>
         (case fails E Begin of
            Some e \<Rightarrow> Some (Some (DriverError e), c)
          | None \<Rightarrow> Some (None, c\<lparr>in_tx := Some (disk c)\<rparr>)))"

definition tx_QueryRow :: "engine \<Rightarrow> ('db \<Rightarrow> 'a) \<Rightarrow> 'db conn \<Rightarrow> store_error + 'a" where
  "tx_QueryRow E query c =
     (case in_tx c of
        None \<Rightarrow> Inl tx_done
      | Some db \<Rightarrow> (case fails E Query of Some e \<Rightarrow> Inl (DriverError e) | None \<Rightarrow> Inr (query db)))"

text \<open>A statement returns the number of rows it affected; one that fails has no effect.\<close>

definition tx_Exec :: "engine \<Rightarrow> nat \<Rightarrow> ('db \<Rightarrow> nat \<times> 'db) \<Rightarrow> 'db conn \<Rightarrow> (store_error + nat) \<times> 'db conn" where
  "tx_Exec E i stmt c =
     (case in_tx c of
        None \<Rightarrow> (Inl tx_done, c)
      | Some db \<Rightarrow>
         (case fails E (Exec i) of
            Some e \<Rightarrow> (Inl (DriverError e), c)
          | None \<Rightarrow> (case stmt db of (n, db') \<Rightarrow> (Inr n, c\<lparr>in_tx := Some db'\<rparr>))))"

text \<open>
  After \<^verbatim>\<open>Commit\<close> the transaction is over for \<^verbatim>\<open>database/sql\<close>, whatever the driver answered.  What a
  failed commit makes of the connection is the driver's: \<open>K\<close>.
\<close>

definition tx_Commit :: "engine \<Rightarrow> ('db conn \<Rightarrow> 'db conn) \<Rightarrow> 'db conn \<Rightarrow> store_error option \<times> 'db conn" where
  "tx_Commit E K c =
     (case in_tx c of
        None \<Rightarrow> (Some tx_done, c)
      | Some db \<Rightarrow>
         (case fails E Commit of
            Some e \<Rightarrow> (Some (DriverError e), K c)
          | None \<Rightarrow> (None, \<lparr>disk = db, in_tx = None\<rparr>)))"

definition tx_Rollback :: "'db conn \<Rightarrow> 'db conn" where
  "tx_Rollback c = c\<lparr>in_tx := None\<rparr>"

definition commit_discards :: "('db conn \<Rightarrow> 'db conn) \<Rightarrow> bool" where
  "commit_discards K \<longleftrightarrow> (\<forall>c. K c = tx_Rollback c)"

text \<open>\<^verbatim>\<open>BeginTx\<close>, the early return on its error, and the rollback deferred to every other return.\<close>

definition in_transaction :: "engine \<Rightarrow> ('db conn \<Rightarrow> store_error option \<times> 'db conn) \<Rightarrow> 'db conn \<Rightarrow>
    ('db, store_error option) waiting" where
  "in_transaction E body c =
     (case BeginTx E c of
        None \<Rightarrow> None
      | Some (Some e, c') \<Rightarrow> Some (Some e, c')
      | Some (None, c') \<Rightarrow> Some (apsnd tx_Rollback (body c')))"

definition db_Exec :: "engine \<Rightarrow> ('db \<Rightarrow> nat \<times> 'db) \<Rightarrow> 'db conn \<Rightarrow> ('db, store_error option) waiting" where
  "db_Exec E stmt c =
     (case in_tx c of
        Some _ \<Rightarrow> None
      | None \<Rightarrow>
         (case fails E (Exec 0) of
            Some e \<Rightarrow> Some (Some (DriverError e), c)
          | None \<Rightarrow> Some (None, c\<lparr>disk := snd (stmt (disk c))\<rparr>)))"

section \<open>The statements\<close>

definition insert_artifact :: "('t, 'l, 'm) codec \<Rightarrow> Artifact \<Rightarrow> ('t, 'l, 'm) database \<Rightarrow> nat \<times> ('t, 'l, 'm) database" where
  "insert_artifact C a db =
     (let key = Artifact_Key a; row = artifact_values C a
      in (1, db\<lparr>tbl_artifacts := AList.update key
           (case map_of (tbl_artifacts db) key of None \<Rightarrow> row | Some old \<Rightarrow> artifact_conflict old row) (tbl_artifacts db)\<rparr>))"

text \<open>The conflict update of a source has a WHERE clause: it may affect no row.\<close>

definition insert_source :: "('t, 'l, 'm) codec \<Rightarrow> ArtifactSource \<Rightarrow> ('t, 'l, 'm) database \<Rightarrow> nat \<times> ('t, 'l, 'm) database" where
  "insert_source C s db =
     (let row = source_values C s;
          put = (\<lambda>row. (1, db\<lparr>tbl_artifact_sources := AList.update (s_SourceID s) row (tbl_artifact_sources db)\<rparr>))
      in case map_of (tbl_artifact_sources db) (s_SourceID s) of
           None \<Rightarrow> put row
         | Some old \<Rightarrow> if sr_artifact_id old = sr_artifact_id row then put (source_conflict old row) else (0, db))"

definition insert_terminal :: "('t, 'l, 'm) codec \<Rightarrow> string \<Rightarrow> NodeTerminalRecord \<Rightarrow> ('t, 'l, 'm) database \<Rightarrow>
    nat \<times> ('t, 'l, 'm) database" where
  "insert_terminal C key r db =
     (1, db\<lparr>tbl_node_terminals := AList.update key (terminal_values C r) (tbl_node_terminals db)\<rparr>)"

definition upsert_lifecycle :: "('t, 'l, 'm) codec \<Rightarrow> RunLifecycle \<Rightarrow> ('t, 'l, 'm) database \<Rightarrow> nat \<times> ('t, 'l, 'm) database" where
  "upsert_lifecycle C lc db =
     (1, db\<lparr>tbl_run_lifecycles := AList.update (l_RunID lc) (lifecycle_values C lc) (tbl_run_lifecycles db)\<rparr>)"

section \<open>The methods\<close>

definition tx_PutArtifact :: "engine \<Rightarrow> (('t, 'l, 'm) database conn \<Rightarrow> ('t, 'l, 'm) database conn) \<Rightarrow> ('t, 'l, 'm) codec \<Rightarrow>
    ('t, 'l, 'm) database conn \<Rightarrow> Artifact \<Rightarrow> (('t, 'l, 'm) database, store_error option) waiting" where
  "tx_PutArtifact E K C c a =
     (if TrimSpace (a_RunID a) = [] then Some (Some (StoreRunIDRequired ''put artifact''), c)
      else in_transaction E (\<lambda>tx.
        case tx_QueryRow E (\<lambda>db. map_option ar_digest (map_of (tbl_artifacts db) (Artifact_Key a))) tx of
          Inl e \<Rightarrow> (Some e, tx)
        | Inr found \<Rightarrow>
           (let existingDigest = (case found of None \<Rightarrow> [] | Some d \<Rightarrow> d)
            in if existingDigest \<noteq> [] then
                 if a_Digest a = [] then (Some (DigestClearRefused (Artifact_Key a) existingDigest), tx)
                 else if existingDigest \<noteq> a_Digest a then
                   (Some (DigestConflict (Artifact_Key a) existingDigest (a_Digest a)), tx)
                 else tx_Commit E K tx
               else case tx_Exec E 0 (insert_artifact C a) tx of
                      (Inl e, tx') \<Rightarrow> (Some e, tx')
                    | (Inr _, tx') \<Rightarrow> tx_Commit E K tx')) c)"

fun tx_put_sources :: "engine \<Rightarrow> (('t, 'l, 'm) database conn \<Rightarrow> ('t, 'l, 'm) database conn) \<Rightarrow> ('t, 'l, 'm) codec \<Rightarrow> string \<Rightarrow>
    nat \<Rightarrow> ArtifactSource list \<Rightarrow> ('t, 'l, 'm) database conn \<Rightarrow> store_error option \<times> ('t, 'l, 'm) database conn" where
  "tx_put_sources E K C artifactID i [] tx = tx_Commit E K tx"
| "tx_put_sources E K C artifactID i (source0 # ss) tx =
     (let source = sq_own_source artifactID source0
      in case tx_Exec E i (insert_source C source) tx of
           (Inl e, tx') \<Rightarrow> (Some e, tx')
         | (Inr n, tx') \<Rightarrow>
             if n = 0 then (Some (SourceOwnershipConflict (s_SourceID source) (s_ArtifactID source)), tx')
             else tx_put_sources E K C artifactID (Suc i) ss tx')"

definition tx_PutArtifactSources :: "engine \<Rightarrow> (('t, 'l, 'm) database conn \<Rightarrow> ('t, 'l, 'm) database conn) \<Rightarrow> ('t, 'l, 'm) codec \<Rightarrow>
    ('t, 'l, 'm) database conn \<Rightarrow> string \<Rightarrow> ArtifactSource list \<Rightarrow> (('t, 'l, 'm) database, store_error option) waiting" where
  "tx_PutArtifactSources E K C c artifactID ss = in_transaction E (tx_put_sources E K C artifactID 0 ss) c"

definition tx_RecordNodeTerminal :: "engine \<Rightarrow> (('t, 'l, 'm) database conn \<Rightarrow> ('t, 'l, 'm) database conn) \<Rightarrow> ('t, 'l, 'm) codec \<Rightarrow>
    ('t, 'l, 'm) database conn \<Rightarrow> NodeTerminalRecord \<Rightarrow> (('t, 'l, 'm) database, store_error option) waiting" where
  "tx_RecordNodeTerminal E K C c r =
     (if TrimSpace (t_RunID r) = [] then Some (Some (StoreRunIDRequired ''record node terminal''), c)
      else let key = NodeAttemptKey_String \<lparr>n_RunID = t_RunID r, n_NodeID = t_NodeID r, n_AttemptID = t_AttemptID r\<rparr>
       in in_transaction E (\<lambda>tx.
        case tx_QueryRow E (\<lambda>db. map_option tr_terminal_state (map_of (tbl_node_terminals db) key)) tx of
          Inl e \<Rightarrow> (Some e, tx)
        | Inr (Some existingState) \<Rightarrow>
            if existingState = t_TerminalState r then tx_Commit E K tx
            else (Some (TerminalConflict (t_RunID r) (t_NodeID r) (t_AttemptID r) existingState (t_TerminalState r)), tx)
        | Inr None \<Rightarrow>
            (case tx_Exec E 0 (insert_terminal C key r) tx of
               (Inl e, tx') \<Rightarrow> (Some e, tx')
             | (Inr _, tx') \<Rightarrow> tx_Commit E K tx')) c)"

definition tx_UpsertRunLifecycle :: "engine \<Rightarrow> ('t, 'l, 'm) codec \<Rightarrow> ('t, 'l, 'm) database conn \<Rightarrow> RunLifecycle \<Rightarrow>
    (('t, 'l, 'm) database, store_error option) waiting" where
  "tx_UpsertRunLifecycle E C c lc =
     (if TrimSpace (l_RunID lc) = [] then Some (Some (StoreRunIDRequired ''upsert run lifecycle''), c)
      else db_Exec E (upsert_lifecycle C lc) c)"

section \<open>What a method amounts to\<close>

definition working :: "'db \<Rightarrow> 'db \<Rightarrow> 'db conn" where
  "working db db' = \<lparr>disk = db, in_tx = Some db'\<rparr>"

lemma step_error_simps [simp]:
  "step_error E [] = None"
  "step_error E (s # ss) = (case fails E s of Some e \<Rightarrow> Some (DriverError e) | None \<Rightarrow> step_error E ss)"
  by (simp_all add: step_error_def split: option.split)

lemma working_simps [simp]:
  "tx_Rollback (working db db') = idle db" "tx_Rollback (idle db) = idle db"
  "tx_QueryRow E q (working db db') = (case fails E Query of Some e \<Rightarrow> Inl (DriverError e) | None \<Rightarrow> Inr (q db'))"
  "tx_Exec E i stmt (working db db') =
     (case fails E (Exec i) of Some e \<Rightarrow> (Inl (DriverError e), working db db')
      | None \<Rightarrow> (Inr (fst (stmt db')), working db (snd (stmt db'))))"
  "in_transaction E body (idle db) =
     (case fails E Begin of Some e \<Rightarrow> Some (Some (DriverError e), idle db)
      | None \<Rightarrow> Some (apsnd tx_Rollback (body (working db db))))"
  "db_Exec E stmt (idle db) =
     (case fails E (Exec 0) of Some e \<Rightarrow> Some (Some (DriverError e), idle db) | None \<Rightarrow> Some (None, idle (snd (stmt db))))"
  by (simp_all add: working_def idle_def tx_Rollback_def tx_QueryRow_def tx_Exec_def in_transaction_def BeginTx_def
      db_Exec_def split: option.split prod.split)

lemma commit_working:
  assumes "commit_discards K"
  shows "apsnd tx_Rollback (tx_Commit E K (working db db')) = apsnd idle (transact E [Commit] db db')"
  using assms by (auto simp: tx_Commit_def commit_discards_def transact_def working_def idle_def tx_Rollback_def split: option.split)

lemma put_artifact_transacts:
  assumes "commit_discards K"
  shows "tx_PutArtifact E K C (idle db) a = Some (apsnd idle (sq_PutArtifact E C db a))"
  using commit_working [OF assms, of E db]
  by (auto simp: tx_PutArtifact_def sq_PutArtifact_def Let_def insert_artifact_def transact_def split: option.split)

lemma put_sources_transacts:
  assumes "commit_discards K"
  shows "apsnd tx_Rollback (tx_put_sources E K C aid i ss (working db (db\<lparr>tbl_artifact_sources := tbl\<rparr>))) =
     (case exec_sources E C aid i tbl ss of
        Inl e \<Rightarrow> (Some e, idle db)
      | Inr tbl' \<Rightarrow> apsnd idle (transact E [Commit] db (db\<lparr>tbl_artifact_sources := tbl'\<rparr>)))"
proof (induction ss arbitrary: i tbl)
  case Nil
  show ?case using commit_working [OF assms] by simp
next
  case (Cons s ss)
  show ?case by (auto simp: Let_def insert_source_def source_values_def Cons.IH split: option.split sum.split)
qed

lemma record_terminal_transacts:
  assumes "commit_discards K"
  shows "tx_RecordNodeTerminal E K C (idle db) r = Some (apsnd idle (sq_RecordNodeTerminal E C db r))"
  using commit_working [OF assms, of E db]
  by (auto simp: tx_RecordNodeTerminal_def sq_RecordNodeTerminal_def Let_def insert_terminal_def transact_def split: option.split)

lemma tx_writes:
  assumes "commit_discards K"
  shows "tx_PutArtifact E K C (idle db) a = Some (apsnd idle (sq_PutArtifact E C db a))"
    "tx_PutArtifactSources E K C (idle db) aid ss = Some (apsnd idle (sq_PutArtifactSources E C db aid ss))"
    "tx_RecordNodeTerminal E K C (idle db) r = Some (apsnd idle (sq_RecordNodeTerminal E C db r))"
    "tx_UpsertRunLifecycle E C (idle db) lc = Some (apsnd idle (sq_UpsertRunLifecycle E C db lc))"
proof -
  show "tx_PutArtifactSources E K C (idle db) aid ss = Some (apsnd idle (sq_PutArtifactSources E C db aid ss))"
    using put_sources_transacts [OF assms, of E C aid 0 ss db "tbl_artifact_sources db"]
    by (simp add: tx_PutArtifactSources_def sq_PutArtifactSources_def split: option.split sum.split)
  show "tx_UpsertRunLifecycle E C (idle db) lc = Some (apsnd idle (sq_UpsertRunLifecycle E C db lc))"
    by (simp add: tx_UpsertRunLifecycle_def sq_UpsertRunLifecycle_def upsert_lifecycle_def transact_def split: option.split)
qed (rule put_artifact_transacts [OF assms] record_terminal_transacts [OF assms])+

lemma tx_error:
  "Some (Some e, c) = Some (apsnd idle p) \<Longrightarrow> (\<And>db'. p = (Some e, db') \<Longrightarrow> db' = db) \<Longrightarrow> c = idle db"
  by (cases p) auto

end
