(* ===== verification/Resolver_Main.thy ===== *)
theory Resolver_Main
  imports Sqlite_File System
begin

text \<open>
  \<^verbatim>\<open>cmd/artifact-handoff-resolver/main.go\<close>: the settings from the environment, the store, the
  service and the listener, where the first failure ends the process; then the life of the two
  servers until a signal or a failure.  What they serve is \<^verbatim>\<open>Http\<close> and \<^verbatim>\<open>Grpc\<close>.
\<close>

section \<open>Start\<close>

definition envOrDefault :: "(string \<Rightarrow> string) \<Rightarrow> string \<Rightarrow> string \<Rightarrow> string" where
  "envOrDefault env key default_value = (let value = env key in if value \<noteq> [] then value else default_value)"

text \<open>The process's surroundings: the environment, the driver, the exporter and the network.\<close>

record host =
  os_Getenv :: "string \<Rightarrow> string"
  host_driver :: sql_driver
  host_metrics :: "string option"
  net_Listen :: "string \<Rightarrow> string option"

datatype start_error =
    StartStore open_error
  | StartService service_error
  | StartListen string

datatype served =
    ServedMemory "MemoryStore Service"
  | ServedSQLite "(string, string, string) database Service"

definition serve_store :: "golib \<Rightarrow> (service_error \<Rightarrow> string) \<Rightarrow> host \<Rightarrow> opened \<Rightarrow> service_error + served" where
  "serve_store L errors H store =
     (let hosts = os_Getenv H ''AH_ALLOWED_HTTP_SOURCE_HOSTS''; anyHost = os_Getenv H ''AH_ALLOW_ANY_HTTP_SOURCE''
      in case store of
           OpenedMemory st \<Rightarrow> map_sum id ServedMemory (NewService L errors hosts anyHost (host_metrics H) st)
         | OpenedSQLite db \<Rightarrow> map_sum id ServedSQLite (NewService L errors hosts anyHost (host_metrics H) db))"

definition main_start :: "golib \<Rightarrow> (service_error \<Rightarrow> string) \<Rightarrow> host \<Rightarrow> start_error + string \<times> string \<times> served" where
  "main_start L errors H =
     (let httpAddr = envOrDefault (os_Getenv H) ''AH_ADDR'' '':8080'';
          grpcAddr = envOrDefault (os_Getenv H) ''AH_GRPC_ADDR'' '':9090'';
          storeDSN = envOrDefault (os_Getenv H) ''AH_STORE_DSN'' ''memory''
      in case OpenStore (host_driver H) (map_order L) storeDSN of
           Inl e \<Rightarrow> Inl (StartStore e)
         | Inr store \<Rightarrow>
            (case serve_store L errors H store of
               Inl e \<Rightarrow> Inl (StartService e)
             | Inr service \<Rightarrow>
                (case net_Listen H grpcAddr of
                   Some e \<Rightarrow> Inl (StartListen e)
                 | None \<Rightarrow> Inr (httpAddr, grpcAddr, service))))"

text \<open>A process that serves from memory starts empty, and only when no other store was asked for.\<close>

lemma start_memory:
  assumes "main_start L errors H = Inr (httpAddr, grpcAddr, ServedMemory svc)"
  shows "os_Getenv H ''AH_STORE_DSN'' \<in> {[], ''memory''}" "svc_store svc = NewMemoryStore" "mem_good L svc"
proof -
  let ?dsn = "envOrDefault (os_Getenv H) ''AH_STORE_DSN'' ''memory''"
  obtain st where o: "OpenStore (host_driver H) (map_order L) ?dsn = Inr (OpenedMemory st)" "svc_store svc = st"
    using assms
    by (auto simp: main_start_def serve_store_def NewService_def Let_def map_sum_def split: sum.splits opened.splits option.splits)
  then show "os_Getenv H ''AH_STORE_DSN'' \<in> {[], ''memory''}" and st: "svc_store svc = NewMemoryStore"
    by (auto simp: OpenStore_def envOrDefault_def Let_def split: if_splits sum.splits)
  show "mem_good L svc" using st by (simp add: mem_good_def mem_registry_new)
qed

text \<open>A process that serves from a file serves the tables the migration of that file left.\<close>

lemma start_sqlite:
  assumes "main_start L errors H = Inr (httpAddr, grpcAddr, ServedSQLite svc)"
  shows "\<exists>path f. os_Getenv H ''AH_STORE_DSN'' = ''sqlite:'' @ path \<and>
     NewSQLiteStore (host_driver H) (map_order L) path = (Inr (svc_store svc), f)"
proof -
  let ?dsn = "envOrDefault (os_Getenv H) ''AH_STORE_DSN'' ''memory''"
  obtain db where o: "OpenStore (host_driver H) (map_order L) ?dsn = Inr (OpenedSQLite db)" "svc_store svc = db"
    using assms
    by (auto simp: main_start_def serve_store_def NewService_def Let_def map_sum_def split: sum.splits opened.splits option.splits)
  then show ?thesis
    by (auto simp: OpenStore_def envOrDefault_def Let_def HasPrefix_iff split: if_splits sum.splits) (metis prod.collapse)
qed

section \<open>Running and shutting down\<close>

text \<open>
  Two goroutines run the servers and report a failure through a channel with room for two; the
  main one waits for a signal or a report, and a report ends the process at once.  After a signal
  it closes the HTTP server and waits until its requests are answered or the five seconds are
  over, then does the same with the gRPC server, and returns, which closes the store.  A server
  that is closed reports nothing.  What the clients do is apart: requests come while a server is
  up, and end.
\<close>

datatype phase_of_main = Serving | ShuttingHTTP | StoppingGRPC | Returned | Fatal string

record process =
  errCh :: "string list"
  http_up :: bool
  grpc_up :: bool
  http_busy :: bool
  grpc_busy :: bool
  deadline :: bool
  store_open :: bool
  phase_now :: phase_of_main

definition started :: process where
  "started = \<lparr>errCh = [], http_up = True, grpc_up = True, http_busy = False, grpc_busy = False, deadline = False,
     store_open = True, phase_now = Serving\<rparr>"

definition exited :: "process \<Rightarrow> bool" where
  "exited p \<longleftrightarrow> (case phase_now p of Returned \<Rightarrow> True | Fatal e \<Rightarrow> True | _ \<Rightarrow> False)"

inductive main_step :: "process \<Rightarrow> process \<Rightarrow> bool" where
  http_fails: "\<not> exited p \<Longrightarrow> http_up p \<Longrightarrow> main_step p (p\<lparr>errCh := errCh p @ [e], http_up := False\<rparr>)"
| grpc_fails: "\<not> exited p \<Longrightarrow> grpc_up p \<Longrightarrow> main_step p (p\<lparr>errCh := errCh p @ [e], grpc_up := False\<rparr>)"
| signalled: "phase_now p = Serving \<Longrightarrow> main_step p (p\<lparr>phase_now := ShuttingHTTP\<rparr>)"
| reported: "phase_now p = Serving \<Longrightarrow> errCh p = e # es \<Longrightarrow> main_step p (p\<lparr>errCh := es, phase_now := Fatal e\<rparr>)"
| times_out: "phase_now p \<in> {ShuttingHTTP, StoppingGRPC} \<Longrightarrow> \<not> deadline p \<Longrightarrow> main_step p (p\<lparr>deadline := True\<rparr>)"
| http_closes: "phase_now p = ShuttingHTTP \<Longrightarrow> http_up p \<Longrightarrow> main_step p (p\<lparr>http_up := False\<rparr>)"
| http_shut: "phase_now p = ShuttingHTTP \<Longrightarrow> \<not> http_up p \<Longrightarrow> \<not> http_busy p \<or> deadline p \<Longrightarrow>
    main_step p (p\<lparr>phase_now := StoppingGRPC\<rparr>)"
| grpc_closes: "phase_now p = StoppingGRPC \<Longrightarrow> grpc_up p \<Longrightarrow> main_step p (p\<lparr>grpc_up := False\<rparr>)"
| grpc_graceful: "phase_now p = StoppingGRPC \<Longrightarrow> \<not> grpc_up p \<Longrightarrow> \<not> grpc_busy p \<Longrightarrow>
    main_step p (p\<lparr>store_open := False, phase_now := Returned\<rparr>)"
| grpc_forced: "phase_now p = StoppingGRPC \<Longrightarrow> deadline p \<Longrightarrow>
    main_step p (p\<lparr>grpc_up := False, store_open := False, phase_now := Returned\<rparr>)"

inductive client_step :: "process \<Rightarrow> process \<Rightarrow> bool" where
  http_request: "\<not> exited p \<Longrightarrow> http_up p \<Longrightarrow> client_step p (p\<lparr>http_busy := True\<rparr>)"
| http_answered: "\<not> exited p \<Longrightarrow> client_step p (p\<lparr>http_busy := False\<rparr>)"
| grpc_request: "\<not> exited p \<Longrightarrow> grpc_up p \<Longrightarrow> client_step p (p\<lparr>grpc_busy := True\<rparr>)"
| grpc_answered: "\<not> exited p \<Longrightarrow> client_step p (p\<lparr>grpc_busy := False\<rparr>)"

abbreviation process_step :: "process \<Rightarrow> process \<Rightarrow> bool" where
  "process_step p q \<equiv> main_step p q \<or> client_step p q"

text \<open>
  The channel has room for every report that can still come; the store is open as long as the
  process serves; without the deadline no request was cut off.
\<close>

definition main_inv :: "process \<Rightarrow> bool" where
  "main_inv p \<longleftrightarrow>
     length (errCh p) + (if http_up p then 1 else 0) + (if grpc_up p then 1 else 0) \<le> 2 \<and>
     (phase_now p \<in> {StoppingGRPC, Returned} \<longrightarrow> \<not> http_up p \<and> (http_busy p \<longrightarrow> deadline p)) \<and>
     (phase_now p = Returned \<longrightarrow> \<not> grpc_up p \<and> (grpc_busy p \<longrightarrow> deadline p)) \<and>
     (store_open p \<longleftrightarrow> phase_now p \<noteq> Returned)"

lemma process_step_inv: "process_step p q \<Longrightarrow> main_inv p \<Longrightarrow> main_inv q"
  by (elim disjE main_step.cases client_step.cases) (auto simp: main_inv_def exited_def split: if_splits)

lemma main_reachable: "process_step\<^sup>*\<^sup>* started p \<Longrightarrow> main_inv p"
  by (induction rule: rtranclp_induct) (auto simp: process_step_inv, simp add: main_inv_def started_def)

text \<open>What is left of a shutdown: every step of the program takes one of it, no client adds to it.\<close>

definition stopping :: "process \<Rightarrow> bool" where
  "stopping p \<longleftrightarrow> phase_now p \<in> {ShuttingHTTP, StoppingGRPC}"

definition steps_left :: "process \<Rightarrow> nat" where
  "steps_left p =
     (if exited p then 0
      else (if phase_now p = StoppingGRPC then 1 else 2) + (if deadline p then 0 else 1) +
        (if http_up p then 1 else 0) + (if grpc_up p then 1 else 0))"

lemma main_step_decreases:
  "main_step p q \<Longrightarrow> stopping p \<Longrightarrow> (stopping q \<or> phase_now q = Returned) \<and> steps_left q < steps_left p"
  by (induction rule: main_step.induct) (auto simp: stopping_def steps_left_def exited_def)

lemma client_step_keeps: "client_step p q \<Longrightarrow> stopping p \<Longrightarrow> stopping q \<and> steps_left q = steps_left p"
  by (induction rule: client_step.induct) (auto simp: stopping_def steps_left_def exited_def)

lemma exited_stuck: "exited p \<Longrightarrow> \<not> process_step p q"
  by (auto simp: exited_def elim!: main_step.cases client_step.cases)

lemma exited_run: "exited p \<Longrightarrow> \<not> (client_step\<^sup>*\<^sup>* OO main_step) p q"
proof
  assume "exited p" and "(client_step\<^sup>*\<^sup>* OO main_step) p q"
  then obtain r where "client_step\<^sup>*\<^sup>* p r" "main_step r q" by blast
  moreover from this(1) have "r = p" by (rule converse_rtranclpE) (use \<open>exited p\<close> exited_stuck in auto)
  ultimately show False using \<open>exited p\<close> exited_stuck by blast
qed

lemma stopping_moves: "stopping p \<Longrightarrow> \<exists>q. main_step p q"
proof (cases "deadline p")
  case True
  then show "stopping p \<Longrightarrow> \<exists>q. main_step p q"
    using http_closes http_shut grpc_forced by (cases "http_up p") (auto simp: stopping_def)
qed (use times_out in \<open>auto simp: stopping_def\<close>)

lemma stopping_ends: "process_step\<^sup>*\<^sup>* p q \<Longrightarrow> stopping p \<Longrightarrow> stopping q \<or> phase_now q = Returned"
proof (induction rule: rtranclp_induct)
  case (step q r)
  show ?case
  proof (cases "stopping q")
    case False
    then have "exited q" using step by (simp add: exited_def)
    then show ?thesis using step.hyps(2) exited_stuck by blast
  qed (use step.hyps(2) main_step_decreases client_step_keeps in blast)
qed simp

lemma clients_keep: "client_step\<^sup>*\<^sup>* p q \<Longrightarrow> stopping p \<Longrightarrow> stopping q \<and> steps_left q = steps_left p"
  by (induction rule: rtranclp_induct) (auto dest: client_step_keeps)

text \<open>However the clients go on between them, a shutdown has only so many steps of the program.\<close>

lemma shutdown_bounded:
  "((client_step\<^sup>*\<^sup>* OO main_step) ^^ n) p q \<Longrightarrow> stopping p \<Longrightarrow> n \<le> steps_left p"
proof (induction n arbitrary: p)
  case (Suc n)
  obtain r s where c: "client_step\<^sup>*\<^sup>* p r" and m: "main_step r s" and n: "((client_step\<^sup>*\<^sup>* OO main_step) ^^ n) s q"
    using relpowp_Suc_D2 [OF Suc.prems(1)] by (auto elim: relcomppE)
  note r = clients_keep [OF c Suc.prems(2)]
  note s = main_step_decreases [OF m conjunct1 [OF r]]
  show ?case
  proof (cases "stopping s")
    case False
    then have "exited s" using s by (simp add: exited_def)
    then have "n = 0" using n exited_run by (cases n) (auto simp del: relpowp.simps dest!: relpowp_Suc_D2)
    then show ?thesis using r s by simp
  qed (use Suc.IH [OF n] r s in simp)
qed simp

lemma steps_left_bound: "steps_left p \<le> 5"
  by (simp add: steps_left_def)

end
