(* ===== verification/Spec2Isabelle.thy ===== *)
theory Spec2Isabelle
  imports Demo_Sql Demo_File Demo_Http Grpc_Laws Accounting Conformance_Sqlite Sqlite_Tx Resolver_Main
begin

text \<open>
  A verification library for artifact-handoff, a service that records which node of a workflow
  run produced which artifact, where its bytes can be had, and answers a consumer's question
  how to obtain them.

  \<^bold>\<open>The program and its model.\<close>  The order is the order of the imports.

  \<^item> \<open>Prelude\<close>, \<open>Go_Net\<close>, \<open>Go_Url\<close>, \<open>Go_Time\<close>, \<open>Go_Json\<close>, \<open>Sha256\<close>: the parts of Go's standard
    library the code calls (\<^verbatim>\<open>strings\<close>, \<^verbatim>\<open>strconv\<close>, \<^verbatim>\<open>path\<close>, \<^verbatim>\<open>net\<close>, \<^verbatim>\<open>net/url\<close>, \<^verbatim>\<open>time\<close>,
    \<^verbatim>\<open>encoding/json\<close>, \<^verbatim>\<open>crypto/sha256\<close>), as executable functions on byte strings.  What depends on
    large tables or on the runtime is a parameter, the record \<open>golib\<close>: Unicode case mapping, the
    text between the brackets of an IPv6 host, and the order in which a map is iterated.
  \<^item> \<open>Ids\<close>: \<^verbatim>\<open>internal/ids/ids.go\<close>.  \<open>Domain\<close>: \<^verbatim>\<open>pkg/domain/types.go\<close>, its structs as records,
    its validators as functions to an optional error.
  \<^item> \<open>Store\<close>: \<^verbatim>\<open>pkg/inventory/store.go\<close>; the interface is a record of methods and the locale
    \<open>run_store\<close> is its contract over four maps.  \<open>Memory_Store\<close>: \<^verbatim>\<open>memory.go\<close>, which
    interprets the contract.
  \<^item> \<open>Metrics\<close>, \<open>Service\<close>: \<^verbatim>\<open>pkg/metrics\<close> and \<^verbatim>\<open>pkg/resolver/service.go\<close>, every operation with all
    its branches, in state passing over any store.
  \<^item> \<open>Registry\<close>: the abstract specification, four maps and the steps a run may take.
    \<open>Service_Laws\<close> proves inside \<open>run_store\<close> that every operation simulates such steps;
    \<open>Resolve_Laws\<close> and \<open>Effects\<close> say what the operations answer; \<open>System\<close> lifts this to
    sequences of requests; \<open>Accounting\<close> follows the counters and the retained bytes.
  \<^item> \<open>Store_Frame\<close>: the locale \<open>store_frame\<close>, what every request keeps because every writing
    method keeps it; on the memory store it shows that a judged run stays judged.
  \<^item> \<open>Sqlite_Store\<close>, \<open>Sqlite_Codec\<close>: \<^verbatim>\<open>sqlite.go\<close>, its tables as maps of rows, its statements with
    their conflict clauses, transactions over engines that may fail any step, another one for
    every method, and the text of the columns.  \<open>Sqlite_Laws\<close> interprets \<open>run_store\<close> over
    unencoded columns; \<open>Store_Image\<close> and \<open>Sqlite_Refine\<close> carry the contract to the program's
    columns; \<open>Sqlite_Service\<close> is the service on this backend.  \<open>Sqlite_Tx\<close> runs the writing
    methods statement by statement on the one connection of the pool, with \<^verbatim>\<open>BeginTx\<close>, \<^verbatim>\<open>Commit\<close>
    and the deferred \<^verbatim>\<open>Rollback\<close>; the methods of \<open>Sqlite_Store\<close> are what this amounts to.
  \<^item> \<open>Sqlite_Migrate\<close>, \<open>Sqlite_Open\<close>, \<open>Sqlite_File\<close>: the schema, its migration and version
    check on untyped files, the constructors \<^verbatim>\<open>NewSQLiteStore\<close> and \<^verbatim>\<open>OpenStore\<close>, and the way between
    files and tables.
  \<^item> \<open>Grpc\<close>, \<open>Grpc_Laws\<close>: \<^verbatim>\<open>pkg/resolver/grpc.go\<close>, its handlers, conversions, status codes and
    counters.  \<open>Http_Json\<close>, \<open>Http\<close>, \<open>Http_Laws\<close>: \<^verbatim>\<open>pkg/resolver/http.go\<close>, the multiplexer, the
    handlers, the decoding of bodies into structs and the JSON of the answers.
  \<^item> \<open>Conformance\<close>, \<open>Conformance_Laws\<close>, \<open>Conformance_Run\<close>, \<open>Conformance_Sqlite\<close>:
    \<^verbatim>\<open>pkg/inventory/storetest\<close>, the suite with its fixtures as lists of steps; the cases are computed
    on the abstract registry, and the locales \<open>ordered_store\<close>, \<open>conformant\<close> and \<open>durable\<close> say
    when a backend follows.
  \<^item> \<open>Resolver_Main\<close>: \<^verbatim>\<open>cmd/artifact-handoff-resolver/main.go\<close>, the start and, as a step relation,
    the life of the two servers, their clients and the store up to the end of the process.
  \<^item> \<open>Demo\<close>, \<open>Demo_Sql\<close>, \<open>Demo_File\<close>, \<open>Demo_Http\<close>: small concrete values for the witnesses.

  \<^bold>\<open>State and time.\<close>  The store is the only persistent state.  The clock is a function from the
  index of the reading within an operation to an instant, and is universally quantified; so is
  the iteration order of maps and the order of the rows of a query.  Instants and durations are
  integers of nanoseconds, sizes are 64-bit words, counts sent over gRPC are 32-bit words.

  \<^bold>\<open>Fuel.\<close>  \<^verbatim>\<open>TrimSpace\<close> and the blanks of \<^verbatim>\<open>Sscanf\<close> take at most as many rounds as the string is
  long, since every round shortens it.  The model of the JSON parser has fuel for twice the length of
  the text and one, and \<open>parse_fuel\<close> in \<open>Go_Json\<close> shows that more changes nothing.  All other recursions are structural or have a
  termination proof.

  \<^bold>\<open>What is shown\<close> in this theory: invariants of the persistent state over any sequence of
  requests, isolation of runs, the judgement of garbage collection, the soundness of every
  offered candidate, the error paths, and that the gRPC front end adds nothing; that the same
  holds on the SQLite backend with its text columns, that its writes are transactions that
  always give the connection back, that no row from before run identities is ever touched, and
  that its migration loses nothing, is idempotent, refuses newer files and hides the rows of
  older ones; that the HTTP front end refines the service and its JSON can be read back; that a
  shutdown ends; and that both backends pass the repository's own contract suite.

  \<^bold>\<open>Not modelled.\<close>  Sockets, timeouts and the scheduling of goroutines beyond the steps of
  \<open>Resolver_Main\<close>; the exporter behind the metrics, whose page is a parameter; generated
  protobuf code; the text of error messages, which is the function \<open>errorText\<close> of the service
  and a parameter of the JSON decoder; the bodies of redirects.  An instant read with another
  zone offset than UTC is the same instant, so it is printed in UTC.  Two processes on one file
  are not interleaved within a transaction, which the driver's locking excludes.  That a
  reopened store is another instance than the closed one is not expressed.
\<close>

section \<open>The persistent state over time\<close>

text \<open>
  C1.  A digest, once registered, is final: whatever requests follow, the artifact stays
  registered under its key with every field as it was, and with the same locations one by one,
  except that a location without a node name may have been given that of the artifact.
\<close>

theorem digest_immutable:
  assumes "mem_good L svc" and "map_of (artifacts (svc_store svc)) k = Some a" and "a_Digest a \<noteq> []"
  shows "\<exists>ls. map_of (artifacts (svc_store (serve_all (memory_store L) L svc reqs))) k =
     Some (a\<lparr>a_Locations := ls\<rparr>) \<and> locations_filled (a_NodeName a) (a_Locations a) ls"
  using growsD(1) [OF mem_serve_grows [OF assms(1), of reqs], of k a] assms(2,3)
  by (auto simp: artifact_grows_def)

theorem digest_immutable_witness:
  "\<exists>ls. map_of (artifacts (svc_store (serve_all (memory_store demo_lib) demo_lib
     (demo_service [demo_register]) [(late_clock, EvaluateRunGC ''r1'')]))) demo_key =
     Some (demo_stored\<lparr>a_Locations := ls\<rparr>) \<and> locations_filled (a_NodeName demo_stored) (a_Locations demo_stored) ls"
  by (rule digest_immutable [OF demo_good]) (simp_all add: demo_after_register demo_registered_def)

text \<open>
  C2.  Every state the service can reach from an empty store satisfies the registry
  invariant: artifacts, terminals, lifecycles and sources stand under their own keys; keys are
  made of non-blank, slash-free parts; a source belongs to a registered artifact and carries
  its digest; a run that may be collected is finalized, had terminal nodes and artifacts, and
  a run that may not says why.
\<close>

theorem reachable_registry_ok:
  "registry_ok L (mem_registry (svc_store (mem_service L text hosts anyHost reqs)))"
  using mem_service_good by (simp add: mem_good_def)

text \<open>
  C3.  Refinement: whatever a request returns, its effect on the store is a sequence of steps
  of the abstract registry that belong to the run the request is about.
\<close>

theorem serve_refines_registry:
  assumes "mem_good L svc"
  shows "reg_steps L (request_run (mem_registry (svc_store svc)) req) (mem_registry (svc_store svc))
     (mem_registry (svc_store (serve (memory_store L) L svc (now, req))))"
  using mem.serve_simulates assms by (simp add: mem_good_def mem_registry_view)

theorem serve_refines_registry_witness:
  "reg_steps demo_lib ''r1'' (mem_registry (svc_store (demo_service [])))
     (mem_registry (svc_store (serve (memory_store demo_lib) demo_lib (demo_service []) demo_register)))"
  using serve_refines_registry [OF demo_good, of "[]" "RegisterArtifact demo_artifact"] by simp

text \<open>
  C4.  Runs are isolated: a request leaves everything the store holds for any other run (its
  artifacts, their sources, its terminals and its lifecycle) exactly as it was.
\<close>

theorem run_isolation:
  assumes "mem_good L svc" and "r \<noteq> request_run (mem_registry (svc_store svc)) req"
  shows "slice (mem_registry (svc_store (serve (memory_store L) L svc (now, req)))) r =
     slice (mem_registry (svc_store svc)) r"
  using mem.serve_slice assms by (simp add: mem_good_def mem_registry_view)

theorem run_isolation_witness:
  "slice (mem_registry (svc_store (serve (memory_store demo_lib) demo_lib (demo_service [demo_register])
       (late_clock, FinalizeRun ''r2'' [])))) ''r1'' =
     slice (mem_registry (svc_store (demo_service [demo_register]))) ''r1''"
  by (rule run_isolation [OF demo_good]) simp

text \<open>
  C5.  A terminal report is final: no later request changes or removes it.
\<close>

theorem terminal_immutable:
  assumes "mem_good L svc" and "mem_GetNodeTerminal (svc_store svc) r n att = Inr (Some t)"
  shows "mem_GetNodeTerminal (svc_store (serve_all (memory_store L) L svc reqs)) r n att = Inr (Some t)"
  using growsD(2) [OF mem_serve_grows [OF assms(1), of reqs]] assms(2)
  by (auto simp: mem_GetNodeTerminal_def)

theorem terminal_immutable_witness:
  "mem_GetNodeTerminal (svc_store (serve_all (memory_store demo_lib) demo_lib
     (demo_service [demo_register, demo_notify])
     [(late_clock, NotifyNodeTerminal ''r1'' ''n1'' ''1'' ''Failed'')])) ''r1'' ''n1'' ''1'' = Inr (Some demo_terminal)"
  by (rule terminal_immutable [OF demo_good])
    (simp add: demo_after_notify demo_reported_def mem_GetNodeTerminal_def demo_attempt_key)

text \<open>
  C6.  Finalization is final: once a run is finalized, no request changes when it was
  finalized, its retention window or policy, or its sample name.
\<close>

theorem finalization_permanent:
  assumes "mem_good L svc" and "mem_GetRunLifecycle (svc_store svc) r = Inr (Some l)" and "l_Finalized l"
  shows "\<exists>l'. mem_GetRunLifecycle (svc_store (serve_all (memory_store L) L svc reqs)) r = Inr (Some l') \<and>
     l_Finalized l' \<and> l_FinalizedAt l' = l_FinalizedAt l \<and> l_RetentionUntil l' = l_RetentionUntil l \<and>
     l_RetentionDuration l' = l_RetentionDuration l \<and> l_SampleRunID l' = l_SampleRunID l"
  using growsD(3) [OF mem_serve_grows [OF assms(1), of reqs], of r l] assms(2,3)
  by (auto simp: mem_GetRunLifecycle_def lifecycle_grows_def)

theorem finalization_permanent_witness:
  "\<exists>l'. mem_GetRunLifecycle (svc_store (serve_all (memory_store demo_lib) demo_lib
       (demo_service [demo_register, demo_notify, demo_finalize]) [(late_clock, FinalizeRun ''r1'' ''s2'')])) ''r1'' =
     Inr (Some l') \<and>
     l_Finalized l' \<and> l_FinalizedAt l' = l_FinalizedAt demo_lifecycle \<and>
     l_RetentionUntil l' = l_RetentionUntil demo_lifecycle \<and>
     l_RetentionDuration l' = l_RetentionDuration demo_lifecycle \<and> l_SampleRunID l' = l_SampleRunID demo_lifecycle"
  by (rule finalization_permanent [OF demo_good])
    (simp_all add: demo_after_finalize demo_finalized_def mem_GetRunLifecycle_def demo_lifecycle_def)

text \<open>
  C7.  A judgement of a run always succeeds, and the run becomes collectable exactly when it
  is finalized, its retention window has passed, and it has at least one artifact and at least
  one terminal node.
\<close>

theorem evaluate_run_gc_correct:
  assumes "mem_good L svc" and "TrimSpace r \<noteq> []"
    and "EvaluateRunGCCore (memory_store L) now svc r = (res, svc')"
  shows "res = Inr () \<and> (\<exists>l. mem_GetRunLifecycle (svc_store svc') r = Inr (Some l) \<and>
     (l_GCEligible l \<longleftrightarrow> collectable (mem_registry (svc_store svc)) r (now 0)))"
  using mem.evaluate_judges [OF _ assms(2,3), of L] assms(1)
  by (simp add: mem_good_def mem_registry_view mem_GetRunLifecycle_def)

theorem evaluate_run_gc_correct_witness:
  "let out = EvaluateRunGCCore (memory_store demo_lib) late_clock
       (demo_service [demo_register, demo_notify, demo_finalize]) ''r1''
   in fst out = Inr () \<and> (\<exists>l. mem_GetRunLifecycle (svc_store (snd out)) ''r1'' = Inr (Some l) \<and> l_GCEligible l)"
proof -
  let ?svc = "demo_service [demo_register, demo_notify, demo_finalize]"
  have "collectable (mem_registry (svc_store ?svc)) ''r1'' (late_clock 0)"
    by (simp add: collectable_def demo_after_finalize demo_finalized_def demo_reported_def
        demo_registered_def NewMemoryStore_def demo_lifecycle_def late_clock_def minutes_def demo_terminal_def)
  then show ?thesis
    using evaluate_run_gc_correct [OF demo_good [of "[demo_register, demo_notify, demo_finalize]"] _
        prod.collapse [symmetric], of "''r1''" late_clock] by (simp add: Let_def)
qed

section \<open>Resolution\<close>

text \<open>
  C8.  A resolution request with complete identity and a known policy is always answered, and
  the answer is coherent: it is resolved with a decision, candidates and a plan taken from
  them, or it is a refusal that carries no plan and no candidate, is retryable exactly when
  the producer is still pending, and blames the producer exactly when it failed.
\<close>

theorem resolve_total_coherent:
  assumes "mem_good L svc" and "binding_error b = None"
  shows "\<exists>r. fst (ResolveHandoffCore (memory_store L) L now svc b target) = Inr r \<and> well_decided r"
proof -
  obtain ss where "fst (ResolveHandoffCore (memory_store L) L now svc b target) =
      Inr (resolve_answer L svc (mem_registry (svc_store svc)) b target ss)"
    using mem_resolve_eq [OF assms] .
  then show ?thesis by (simp add: resolve_answer_well)
qed

theorem resolve_total_coherent_witness:
  "\<exists>r. fst (ResolveHandoffCore (memory_store demo_lib) demo_lib late_clock (demo_service [demo_register])
     demo_binding ''node-b'') = Inr r \<and> well_decided r"
  by (rule resolve_total_coherent [OF demo_good]) simp

text \<open>
  C9.  Everything a resolution offers is sound: the artifact of the binding is registered, its
  digest is not blank and is the one the binding expects, if any; every candidate carries that
  digest and the artifact's size and describes a source that is ready, belongs to the artifact
  and carries its digest; a remote candidate's URI is a plain http or https URI on a host the
  service permits.
\<close>

theorem resolve_candidates_sound:
  assumes "mem_good L svc"
    and "fst (ResolveHandoffCore (memory_store L) L now svc b target) = Inr r"
    and "c \<in> set (r_MaterializationCandidates r)"
  shows "\<exists>a ss x. map_of (artifacts (svc_store svc)) (Binding_Key b) = Some a \<and>
     TrimSpace (a_Digest a) \<noteq> [] \<and> (b_ExpectedDigest b = [] \<or> b_ExpectedDigest b = a_Digest a) \<and>
     c_ExpectedDigest c = a_Digest a \<and> c_ExpectedSize c = a_SizeBytes a \<and>
     considered L now (svc_store svc) a ss \<and> x \<in> set ss \<and> c_SourceRef c = s_SourceID x \<and>
     s_State x = StateReady \<and> s_Digest x = a_Digest a \<and>
     (c_Mode c = RemoteFetch \<longrightarrow> plain_http_uri (c_URI c) \<and>
        host_permitted L (httpAllowedHosts svc) (allowAnyHTTPSource svc) (c_URI c))"
proof -
  obtain ss where r: "r = resolve_answer L svc (mem_registry (svc_store svc)) b target ss"
    and con: "\<And>a. map_of (artifacts (svc_store svc)) (Binding_Key b) = Some a \<Longrightarrow>
       considered L now (svc_store svc) a ss"
    using mem_resolve_eq [OF assms(1) mem_resolve_invalid [OF assms(2)], of now target] assms(2) by auto
  from resolve_answer_candidates [OF assms(3) [unfolded r]] obtain a x where
    a: "map_of (artifacts (svc_store svc)) (Binding_Key b) = Some a" and
    b: "b_ExpectedDigest b = [] \<or> b_ExpectedDigest b = a_Digest a" and
    x: "x \<in> set ss" "eligible L svc a x" and
    c: "c_SourceRef c = s_SourceID x" "c_ExpectedDigest c = expected_digest b a" "c_ExpectedSize c = a_SizeBytes a"
      "c_Mode c = RemoteFetch \<longrightarrow> (\<exists>h. HTTP (s_Location x) = Some h \<and> h_URI h = c_URI c)"
    by auto
  have "plain_http_uri (c_URI c) \<and> host_permitted L (httpAllowedHosts svc) (allowAnyHTTPSource svc) (c_URI c)"
    if "c_Mode c = RemoteFetch"
    using eligible_http [OF x(2)] c(4) that by auto
  then show ?thesis
    using a b con [OF a] x c eligible_digest [OF x(2)]
    by (intro exI [of _ a] exI [of _ ss] exI [of _ x]) (auto simp: expected_digest_def eligible_def)
qed

theorem resolve_candidates_sound_witness:
  "let svc = demo_service [demo_register, demo_add]; c = demo_candidate
   in \<exists>a ss x. map_of (artifacts (svc_store svc)) (Binding_Key demo_binding) = Some a \<and>
     TrimSpace (a_Digest a) \<noteq> [] \<and> c_ExpectedDigest c = a_Digest a \<and> c_ExpectedSize c = a_SizeBytes a \<and>
     considered demo_lib late_clock (svc_store svc) a ss \<and> x \<in> set ss \<and> c_SourceRef c = s_SourceID x \<and>
     s_State x = StateReady \<and> s_Digest x = a_Digest a"
proof -
  have "demo_candidate \<in> set (r_MaterializationCandidates (resolution DecLocalReuse
      \<lparr>pi_Mode = PreferredNode, pi_NodeName = ''node-a''\<rparr> (legacyPlanFromCandidate demo_candidate)
      [demo_candidate] ''artifact available on target node''))"
    by (simp add: resolution_def)
  from resolve_candidates_sound [OF demo_good demo_resolve [OF demo_after_add, of late_clock] this]
  show ?thesis unfolding Let_def by (elim exE conjE) (rule exI conjI | assumption)+
qed

text \<open>
  C10.  The answer is "expired" exactly when the run has been judged collectable.
\<close>

theorem resolve_expired_iff:
  assumes "mem_good L svc" and "fst (ResolveHandoffCore (memory_store L) L now svc b target) = Inr r"
  shows "r_Status r = GC_EXPIRED \<longleftrightarrow>
     (\<exists>l. map_of (runLifecycles (svc_store svc)) (b_RunID b) = Some l \<and> l_GCEligible l)"
proof -
  obtain ss where "r = resolve_answer L svc (mem_registry (svc_store svc)) b target ss"
    using mem_resolve_eq [OF assms(1) mem_resolve_invalid [OF assms(2)], of now target] assms(2) by auto
  then show ?thesis by (simp add: resolve_answer_expired)
qed

theorem resolve_expired_iff_witness:
  "\<not> (\<exists>l. map_of (runLifecycles (svc_store (demo_service [demo_register, demo_add]))) ''r1'' = Some l \<and>
     l_GCEligible l)"
  using resolve_expired_iff [OF demo_good demo_resolve [OF demo_after_add]] by (simp add: resolution_def)

text \<open>
  C11.  While the artifact is not registered and the run has not been judged collectable, the
  producer's terminal report alone decides: no report means pending and retryable, a failed or
  cancelled producer is reported as such, and a successful one means the artifact is missing.
  Once the run has been judged collectable the answer is "expired", whatever was reported.
\<close>

theorem resolve_unregistered_table:
  assumes "mem_good L svc" and "binding_error b = None"
    and "map_of (artifacts (svc_store svc)) (Binding_Key b) = None"
  shows "\<exists>r. fst (ResolveHandoffCore (memory_store L) L now svc b target) = Inr r \<and>
     (if \<exists>l. map_of (runLifecycles (svc_store svc)) (b_RunID b) = Some l \<and> l_GCEligible l
      then r_Status r = GC_EXPIRED
      else case map_of (nodeTerminals (svc_store svc))
         (terminal_key (b_RunID b) (b_ProducerNodeID b) (b_ProducerAttemptID b)) of
        None \<Rightarrow> r_Status r = PENDING \<and> r_Retryable r
      | Some t \<Rightarrow> \<not> r_Retryable r \<and>
          (if t_TerminalState t = ''Succeeded'' then r_Status r = MISSING
           else r_Status r = PRODUCER_FAILED \<and> r_Decision r = DecProducerFailed))"
proof -
  obtain ss where r: "fst (ResolveHandoffCore (memory_store L) L now svc b target) =
      Inr (resolve_answer L svc (mem_registry (svc_store svc)) b target ss)"
    using mem_resolve_eq [OF assms(1,2)] .
  have "t_TerminalState t \<in> {''Succeeded'', ''Failed'', ''Canceled''}"
    if "map_of (nodeTerminals (svc_store svc)) k = Some t" for k t
    using registry_okD(2) [of L "mem_registry (svc_store svc)" k t] assms(1) that
    by (simp add: mem_good_def terminal_ok_def)
  then show ?thesis
    using assms(3) r
    by (fastforce simp: resolve_answer_def resolve_unregistered_def refusal_def split: option.splits)
qed

theorem resolve_unregistered_table_witness:
  "\<exists>r. fst (ResolveHandoffCore (memory_store demo_lib) demo_lib late_clock (demo_service [])
     demo_binding ''node-b'') = Inr r \<and> r_Status r = PENDING \<and> r_Retryable r"
  using resolve_unregistered_table [OF demo_good, of demo_binding "[]" late_clock "''node-b''"]
  by (simp add: demo_start NewMemoryStore_def)

text \<open>
  C12.  A binding that demands the producer's node is never answered with a remote decision
  or a remote plan.
\<close>

theorem same_node_only_never_remote:
  assumes "mem_good L svc" and "b_ConsumePolicy b = SameNodeOnly"
    and "fst (ResolveHandoffCore (memory_store L) L now svc b target) = Inr r"
  shows "r_Decision r \<noteq> DecRemoteFetch \<and> mp_Mode (r_MaterializationPlan r) \<noteq> RemoteFetch"
proof -
  obtain ss where r: "r = resolve_answer L svc (mem_registry (svc_store svc)) b target ss"
    using mem_resolve_eq [OF assms(1) mem_resolve_invalid [OF assms(3)], of now target] assms(3) by auto
  show ?thesis unfolding r by (rule resolve_answer_same_node [OF assms(2)])
qed

theorem same_node_only_never_remote_witness:
  "r_Decision (resolution DecLocalReuse \<lparr>pi_Mode = PreferredNode, pi_NodeName = ''node-a''\<rparr>
     (legacyPlanFromCandidate demo_candidate) [demo_candidate] ''artifact available on target node'') \<noteq> DecRemoteFetch"
  using same_node_only_never_remote [OF demo_good _ demo_resolve [OF demo_after_add, of late_clock]] by simp

text \<open>
  C13.  HTTP sources are denied by default: a service with no allowed hosts and without the
  explicit permission for any host never offers a remote candidate.
\<close>

theorem no_remote_without_permission:
  assumes "mem_good L svc" and "httpAllowedHosts svc = []" and "\<not> allowAnyHTTPSource svc"
    and "fst (ResolveHandoffCore (memory_store L) L now svc b target) = Inr r"
  shows "\<forall>c \<in> set (r_MaterializationCandidates r). c_Mode c \<noteq> RemoteFetch"
proof
  fix c assume c: "c \<in> set (r_MaterializationCandidates r)"
  obtain ss where r: "r = resolve_answer L svc (mem_registry (svc_store svc)) b target ss"
    using mem_resolve_eq [OF assms(1) mem_resolve_invalid [OF assms(4)], of now target] assms(4) by auto
  obtain a x where "eligible L svc a x"
    "c_Mode c = RemoteFetch \<longrightarrow> (\<exists>h. HTTP (s_Location x) = Some h \<and> h_URI h = c_URI c)"
    using resolve_answer_candidates [OF c [unfolded r]] by metis
  then show "c_Mode c \<noteq> RemoteFetch"
    using eligible_http(1) assms(2,3) by (fastforce simp: host_permitted_def)
qed

theorem no_remote_without_permission_witness: "c_Mode demo_candidate \<noteq> RemoteFetch"
proof -
  let ?svc = "demo_service [demo_register, demo_add]"
  have "httpAllowedHosts ?svc = [] \<and> \<not> allowAnyHTTPSource ?svc"
    using demo_hosts by simp
  then show ?thesis
    using no_remote_without_permission [OF demo_good _ _ demo_resolve [OF demo_after_add, of late_clock]]
    by (simp add: resolution_def)
qed

section \<open>Registration\<close>

text \<open>
  C14.  A registration that succeeds is readable at once under the identity it was given, with
  its digest and with the canonical artifact ID.
\<close>

theorem register_then_get:
  assumes "mem_good L svc" and "RegisterArtifactCore (memory_store L) L now svc a0 = (Inr av, svc')"
  shows "\<exists>a. GetArtifactCore (memory_store L) svc' (a_RunID a0) (a_ProducerNodeID a0)
       (a_ProducerAttemptID a0) (a_OutputName a0) = Inr (Some a) \<and>
     a_Digest a = a_Digest a0 \<and> a_RunID a = a_RunID a0 \<and> a_ProducerNodeID a = a_ProducerNodeID a0 \<and>
     a_ProducerAttemptID a = a_ProducerAttemptID a0 \<and> a_OutputName a = a_OutputName a0 \<and>
     a_ArtifactID a = Artifact_Key a0"
proof -
  obtain a where a: "register_request L (now 0) a0 = Inr a"
    and "\<exists>a'. map_of (artifacts (svc_store svc')) (Artifact_Key a) = Some a' \<and> a_Digest a' = a_Digest a"
    using mem.register_success [OF mem_goodD [OF assms(1)] assms(2)] by metis
  then obtain a' where a': "map_of (artifacts (svc_store svc')) (Artifact_Key a) = Some a'"
    "a_Digest a' = a_Digest a" by blast
  have good': "registry_ok L (mem_registry (svc_store svc'))"
    using mem_good_serve [OF assms(1), of "[(now, RegisterArtifact a0)]"] assms(2) by (simp add: mem_good_def)
  note ok = register_request_ok [OF a]
  have id: "same_identity a a'"
    using registry_okD(1) [OF good', of "Artifact_Key a" a'] a'(1) by (intro Artifact_Key_identity [OF ok]) auto
  from register_request_fields [OF a] have f: "a_RunID a = a_RunID a0" "a_ProducerNodeID a = a_ProducerNodeID a0"
    "a_ProducerAttemptID a = a_ProducerAttemptID a0" "a_OutputName a = a_OutputName a0"
    "a_Digest a = a_Digest a0" "Artifact_Key a = Artifact_Key a0" by auto
  have "mem_GetArtifact (svc_store svc') (a_RunID a0) (a_ProducerNodeID a0) (a_ProducerAttemptID a0)
      (a_OutputName a0) = Inr (Some a')"
    using a'(1) f(6) by (simp add: mem_GetArtifact_def Artifact_Key_def)
  moreover have "a_RunID a0 \<noteq> []" "a_ProducerNodeID a0 \<noteq> []" "a_ProducerAttemptID a0 \<noteq> []" "a_OutputName a0 \<noteq> []"
    using ok f artifact_ok_run [OF ok] by (auto simp: artifact_ok_def)
  ultimately show ?thesis
    using id f a'(2) artifact_ok_id [OF ok] by (simp add: GetArtifactCore_def lift_store_def same_identity_def)
qed

theorem register_then_get_witness:
  "\<exists>a. GetArtifactCore (memory_store demo_lib) (demo_service [demo_register]) ''r1'' ''n1'' ''1'' ''out'' =
     Inr (Some a) \<and> a_Digest a = ''sha256:d''"
  using register_then_get [OF demo_good [of "[]"] demo_register_core [OF demo_start, of demo_clock]]
    demo_snoc [of "[]" demo_register] demo_register_core [OF demo_start, of demo_clock] by auto

text \<open>
  C15.  A registration with a digest can be repeated, after any other requests: it succeeds
  again with the same answer.
\<close>

theorem register_replay_succeeds:
  assumes "mem_good L svc" and "RegisterArtifactCore (memory_store L) L now svc a0 = (Inr av, svc')"
    and "a_Digest a0 \<noteq> []"
  shows "fst (RegisterArtifactCore (memory_store L) L now' (serve_all (memory_store L) L svc' reqs) a0) = Inr av"
  by (rule mem.register_replay [OF mem_goodD [OF assms(1)] assms(2,3)])

theorem register_replay_succeeds_witness:
  "fst (RegisterArtifactCore (memory_store demo_lib) demo_lib late_clock
     (serve_all (memory_store demo_lib) demo_lib
       (snd (RegisterArtifactCore (memory_store demo_lib) demo_lib demo_clock (demo_service []) demo_artifact))
       [demo_add, demo_notify]) demo_artifact) = Inr UNAVAILABLE_STATE"
  using register_replay_succeeds [OF demo_good [of "[]"] demo_register_core [OF demo_start],
      where now' = late_clock and reqs = "[demo_add, demo_notify]"]
  by (simp add: demo_register_core demo_start)

text \<open>
  C16.  A registration that would clear or change a registered digest is refused as a conflict
  and changes nothing.
\<close>

theorem register_digest_conflict:
  assumes "mem_good L svc" and "register_request L (now 0) a0 = Inr a"
    and "map_of (artifacts (svc_store svc)) (Artifact_Key a) = Some old"
    and "a_Digest old \<noteq> []" and "a_Digest a \<noteq> a_Digest old"
  shows "\<exists>e. RegisterArtifactCore (memory_store L) L now svc a0 = (Inl e, svc) \<and> errors_Is e ErrAlreadyExists"
  using assms mem.register_eq by (auto simp: mem_good_def register_check_def)

theorem register_digest_conflict_witness:
  "\<exists>e. RegisterArtifactCore (memory_store demo_lib) demo_lib late_clock (demo_service [demo_register])
     (demo_artifact\<lparr>a_Digest := ''sha256:e''\<rparr>) = (Inl e, demo_service [demo_register]) \<and> errors_Is e ErrAlreadyExists"
proof -
  let ?a = "demo_stored\<lparr>a_Digest := ''sha256:e''\<rparr>"
  have 1: "register_request demo_lib (late_clock 0) (demo_artifact\<lparr>a_Digest := ''sha256:e''\<rparr>) = Inr ?a"
    by (simp add: register_request_def demo_valid Let_def IsZero_def demo_artifact_def
        zero_artifact_def demo_stored_def demo_key_string CanonicalID_def Artifact_Key_def)
  have "Artifact_Key ?a = demo_key"
    by (simp add: Artifact_Key_def demo_key_string)
  then have 2: "map_of (artifacts (svc_store (demo_service [demo_register]))) (Artifact_Key ?a) = Some demo_stored"
    by (simp add: demo_after_register demo_registered_def)
  have 3: "a_Digest ?a \<noteq> a_Digest demo_stored" "a_Digest demo_stored \<noteq> []" by simp_all
  show ?thesis by (rule register_digest_conflict [where now = late_clock, OF demo_good 1 2 3(2) 3(1)])
qed

text \<open>
  C17.  A registration that fails has left the store as it was, unless the ID of one of its
  initial sources already belongs to another artifact; then no source has changed.
\<close>

theorem register_failure_clean:
  assumes "mem_good L svc" and "RegisterArtifactCore (memory_store L) L now svc a0 = (Inl e, svc')"
  shows "svc' = svc \<or> (\<exists>sid aid. e = StoreFailed (SourceOwnershipConflict sid aid)) \<and>
     map_of (sources (svc_store svc')) = map_of (sources (svc_store svc))"
  using mem.register_error [OF mem_goodD [OF assms(1)] assms(2)] by blast

theorem register_failure_clean_witness:
  "let out = RegisterArtifactCore (memory_store demo_lib) demo_lib late_clock (demo_service []) zero_artifact
   in snd out = demo_service [] \<or> (\<exists>sid aid. fst out = Inl (StoreFailed (SourceOwnershipConflict sid aid)))"
proof -
  have "RegisterArtifactCore (memory_store demo_lib) demo_lib late_clock (demo_service []) zero_artifact =
      (Inl (FieldsRequired ''runID, producerNodeID, outputName''), demo_service [])"
    by (simp add: RegisterArtifactCore_def register_request_def zero_artifact_def)
  from register_failure_clean [OF demo_good this] this show ?thesis by simp
qed

text \<open>
  C18.  No request about a blank run changes the store.
\<close>

theorem blank_run_rejected:
  assumes "mem_good L svc" and "TrimSpace (request_run (mem_registry (svc_store svc)) req) = []"
  shows "mem_registry (svc_store (serve (memory_store L) L svc (now, req))) = mem_registry (svc_store svc)"
proof -
  have "reg_steps L (request_run (mem_registry (svc_store svc)) req) (mem_registry (svc_store svc))
     (mem_registry (svc_store (serve (memory_store L) L svc (now, req))))"
    using mem.serve_simulates assms(1) by (simp add: mem_good_def mem_registry_view)
  from reg_steps_blank [OF this _ assms(2)] assms(1) show ?thesis by (simp add: mem_good_def)
qed

theorem blank_run_rejected_witness:
  "mem_registry (svc_store (serve (memory_store demo_lib) demo_lib (demo_service [demo_register])
     (late_clock, FinalizeRun [] ''s1''))) = mem_registry (svc_store (demo_service [demo_register]))"
  by (rule blank_run_rejected [OF demo_good]) simp

section \<open>Sources\<close>

text \<open>
  C19.  A source ID belongs to one artifact for good: adding a source under an ID that another
  artifact owns is refused as a conflict and changes nothing.
\<close>

theorem add_source_ownership:
  assumes "mem_good L svc" and "TrimSpace aid \<noteq> []" and "map_of (artifacts (svc_store svc)) aid = Some a"
    and "complete_source L (now 0) aid a s0 = Inr s"
    and "map_of (sources (svc_store svc)) (s_SourceID s) = Some old" and "s_ArtifactID old \<noteq> aid"
  shows "fst (AddSourceCore (memory_store L) L now svc aid s0) = Inl (SourceOwnedElsewhere (s_SourceID s)) \<and>
     errors_Is (SourceOwnedElsewhere (s_SourceID s)) ErrAlreadyExists \<and>
     mem_registry (svc_store (snd (AddSourceCore (memory_store L) L now svc aid s0))) = mem_registry (svc_store svc)"
  using mem.add_source_conflict [where now = now, OF mem_goodD [OF assms(1)] assms(2-6)] by (simp add: mem_registry_view)

theorem add_source_ownership_witness:
  "fst (AddSourceCore (memory_store demo_lib) demo_lib demo_clock
     (demo_service [demo_register, demo_add, demo_register2]) demo_key2 demo_source_request) =
     Inl (SourceOwnedElsewhere ''s-1'')"
  using add_source_ownership [where now = demo_clock, OF demo_good
      [of "[demo_register, demo_add, demo_register2]"] _ _ demo_complete2 [folded demo_clock_0]]
  by (simp add: demo_after_register2 demo_registered2_def demo_sourced_def demo_registered_def NewMemoryStore_def)

section \<open>The gRPC front end\<close>

text \<open>
  C20.  The gRPC front end adds nothing to the service: after any sequence of calls, on any
  store, the store is what the corresponding requests to the service make of it.
\<close>

theorem grpc_refines_service:
  "svc_store (grpc_serve_all S L svc calls) = svc_store (serve_all S L svc (call_requests calls))"
  by (rule grpc_serve_all_store)

text \<open>
  C21.  The gRPC counters of a fresh service are exact: each call counter is the number of
  calls of its kind, every registration succeeded or was counted as an error, every resolution
  was counted by the service too, and errors and fallbacks are distinct resolutions.
\<close>

theorem grpc_counters_exact:
  "let m = svc_metrics (grpc_serve_all S L (projr (NewService L text hosts anyHost None st)) calls)
   in call_counts m = map (\<lambda>kind. length (filter (\<lambda>(now, c). kind c) calls)) call_kinds \<and>
      artifactsRegistered m + grpcRegisterArtifactErrors m = grpcRegisterArtifact m \<and>
      resolveRequests m = grpcResolveHandoff m \<and>
      grpcResolveHandoffErrors m + fallback m \<le> grpcResolveHandoff m"
proof -
  have "svc_metrics (projr (NewService L text hosts anyHost None st)) = Metrics_New"
    by (simp add: NewService_def)
  then show ?thesis
    using grpc_serve_all_counts [of S L "projr (NewService L text hosts anyHost None st)" calls]
      grpc_serve_all_books [of "projr (NewService L text hosts anyHost None st)" S L calls]
    by (simp add: Let_def call_counts_def call_kinds_def Metrics_New_def books_balance_def)
qed

text \<open>
  C22.  A source that passes validation survives the wire: converting it to a message and back
  gives the same source, apart from the time stamps and the last error, which a request cannot
  set.
\<close>

theorem grpc_source_roundtrip:
  assumes "ValidateArtifactSource L s = None"
  shows "grpcSourceToDomain (Some (grpcSourceFromDomain s)) =
     s\<lparr>s_CreatedAt := 0, s_UpdatedAt := 0, s_LastVerifiedAt := 0, s_LastError := []\<rparr>"
  using source_roundtrip [OF assms] by (simp add: wire_part_def)

theorem grpc_source_roundtrip_witness:
  "let s = zero_source\<lparr>s_SourceID := ''s-1'', s_ArtifactID := ''a-1'', s_BackendID := ''node-local-default'',
       s_Location := \<lparr>NodeLocal = Some \<lparr>nl_NodeName = ''n1'', nl_Path = ''/d''\<rparr>, HTTP = None\<rparr>, s_CreatedAt := 7\<rparr>
   in grpcSourceToDomain (Some (grpcSourceFromDomain s)) = s\<lparr>s_CreatedAt := 0\<rparr>"
proof -
  let ?s = "zero_source\<lparr>s_SourceID := ''s-1'', s_ArtifactID := ''a-1'', s_BackendID := ''node-local-default'',
       s_Location := \<lparr>NodeLocal = Some \<lparr>nl_NodeName = ''n1'', nl_Path = ''/d''\<rparr>, HTTP = None\<rparr>, s_CreatedAt := 7\<rparr>"
  have "TrimSpace ''s-1'' = ''s-1''" "TrimSpace ''a-1'' = ''a-1''"
    "TrimSpace ''node-local-default'' = ''node-local-default''" by (simp_all add: TrimSpace_graphic graphic_def)
  then have "ValidateArtifactSource demo_lib ?s = None"
    by (simp add: ValidateArtifactSource_None BackendTypeForID_def)
  from grpc_source_roundtrip [OF this] show ?thesis by (simp add: zero_source_def)
qed

text \<open>
  C23.  The lifecycle a gRPC client reads is the stored one: counts below 2 to the 31 arrive
  exactly, and an instant of the years 1 to 9999 is written as a time stamp that parses back to
  it, an absent one as the empty string.
\<close>

theorem grpc_lifecycle_faithful:
  assumes "\<And>n. n \<in> {l_TerminalNodeCount l, l_SucceededNodeCount l, l_FailedNodeCount l, l_CanceledNodeCount l,
        l_RetainedArtifactCount l} \<Longrightarrow> 0 \<le> n \<and> n < 2 ^ 31"
    and "\<And>u. Some u \<in> {l_FinalizedAt l, l_RetentionUntil l, l_GCEligibleAt l} \<Longrightarrow> four_digit_year u"
  shows "let p = lifecycleToGRPC l
     in sint (pl_TerminalNodeCount p) = l_TerminalNodeCount l \<and>
        sint (pl_SucceededNodeCount p) = l_SucceededNodeCount l \<and>
        sint (pl_FailedNodeCount p) = l_FailedNodeCount l \<and>
        sint (pl_CanceledNodeCount p) = l_CanceledNodeCount l \<and>
        sint (pl_RetainedArtifactCount p) = l_RetainedArtifactCount l \<and>
        read_instant other (pl_FinalizedAt p) = l_FinalizedAt l \<and>
        read_instant other (pl_RetentionUntil p) = l_RetentionUntil l \<and>
        read_instant other (pl_GcEligibleAt p) = l_GCEligibleAt l"
  using assms by (simp add: lifecycleToGRPC_def Let_def small_count read_format_instant)

theorem grpc_lifecycle_faithful_witness:
  "let p = lifecycleToGRPC (zero_lifecycle\<lparr>l_TerminalNodeCount := 3, l_FinalizedAt := Some 63000000000000000001\<rparr>)
   in sint (pl_TerminalNodeCount p) = 3 \<and>
      read_instant (\<lambda>_. None) (pl_FinalizedAt p) = Some 63000000000000000001 \<and>
      read_instant (\<lambda>_. None) (pl_GcEligibleAt p) = None"
proof -
  let ?l = "zero_lifecycle\<lparr>l_TerminalNodeCount := 3, l_FinalizedAt := Some 63000000000000000001\<rparr>"
  have "0 \<le> n \<and> n < 2 ^ 31" if "n \<in> {l_TerminalNodeCount ?l, l_SucceededNodeCount ?l, l_FailedNodeCount ?l,
      l_CanceledNodeCount ?l, l_RetainedArtifactCount ?l}" for n
    using that by (auto simp: zero_lifecycle_def)
  moreover have "four_digit_year u" if "Some u \<in> {l_FinalizedAt ?l, l_RetentionUntil ?l, l_GCEligibleAt ?l}" for u
    using that by (auto simp: zero_lifecycle_def four_digit_year_def)
  ultimately show ?thesis
    using grpc_lifecycle_faithful [of ?l "\<lambda>_. None"] by (simp add: Let_def zero_lifecycle_def)
qed

text \<open>
  C24.  Over gRPC a registration that would clear or change a registered digest is answered
  with ALREADY_EXISTS; the store is unchanged, and the call and its error are counted.
\<close>

theorem grpc_digest_conflict:
  assumes "mem_good L svc" and "register_request L (now 0) (grpcArtifactToDomain art) = Inr a"
    and "map_of (artifacts (svc_store svc)) (Artifact_Key a) = Some old"
    and "a_Digest old \<noteq> []" and "a_Digest a \<noteq> a_Digest old"
  shows "\<exists>msg. grpc_RegisterArtifact (memory_store L) L now svc art =
     (Inl (AlreadyExists, msg),
      count_metric IncGRPCRegisterArtifactErrors (count_metric IncGRPCRegisterArtifact svc))"
proof -
  have "mem_good L (count_metric IncGRPCRegisterArtifact svc)" using assms(1) by (simp add: mem_good_def)
  then have "\<exists>e. RegisterArtifactCore (memory_store L) L now (count_metric IncGRPCRegisterArtifact svc)
      (grpcArtifactToDomain art) = (Inl e, count_metric IncGRPCRegisterArtifact svc) \<and> status_code e = AlreadyExists"
    using assms mem.register_eq by (auto simp: mem_good_def register_check_def status_code_table)
  then show ?thesis by (auto simp: grpc_RegisterArtifact_def count_failure_def reply_def toGRPCError_def)
qed

theorem grpc_digest_conflict_witness:
  "\<exists>msg. fst (grpc_RegisterArtifact (memory_store demo_lib) demo_lib late_clock (demo_service [demo_register])
     (Some (zero_pb_artifact\<lparr>pa_RunId := ''r1'', pa_ProducerNodeId := ''n1'', pa_ProducerAttemptId := ''1'',
        pa_OutputName := ''out'', pa_Digest := ''sha256:e''\<rparr>))) = Inl (AlreadyExists, msg)"
proof -
  let ?p = "zero_pb_artifact\<lparr>pa_RunId := ''r1'', pa_ProducerNodeId := ''n1'', pa_ProducerAttemptId := ''1'',
        pa_OutputName := ''out'', pa_Digest := ''sha256:e''\<rparr>"
  let ?a = "(grpcArtifactToDomain (Some ?p))\<lparr>a_CreatedAt := late_clock 0, a_ArtifactID := demo_key\<rparr>"
  have 1: "register_request demo_lib (late_clock 0) (grpcArtifactToDomain (Some ?p)) = Inr ?a"
    by (simp add: register_request_def demo_valid Let_def IsZero_def grpcArtifactToDomain_def
        zero_pb_artifact_def demo_key_string CanonicalID_def Artifact_Key_def)
  have "Artifact_Key ?a = demo_key"
    by (simp add: Artifact_Key_def demo_key_string grpcArtifactToDomain_def zero_pb_artifact_def)
  then have 2: "map_of (artifacts (svc_store (demo_service [demo_register]))) (Artifact_Key ?a) = Some demo_stored"
    by (simp add: demo_after_register demo_registered_def)
  have 3: "a_Digest demo_stored \<noteq> []" "a_Digest ?a \<noteq> a_Digest demo_stored"
    by (simp_all add: grpcArtifactToDomain_def zero_pb_artifact_def)
  obtain msg where "grpc_RegisterArtifact (memory_store demo_lib) demo_lib late_clock
      (demo_service [demo_register]) (Some ?p) = (Inl (AlreadyExists, msg),
      count_metric IncGRPCRegisterArtifactErrors (count_metric IncGRPCRegisterArtifact (demo_service [demo_register])))"
    using grpc_digest_conflict [where now = late_clock, OF demo_good 1 2 3] by blast
  then show ?thesis by simp
qed

text \<open>
  C25.  Collection is reached and stays: once a run is finalized, has an artifact and a terminal
  node and its retention window ends at \<open>t\<close>, then after any further requests a judgement at or
  after \<open>t\<close> succeeds; and whatever requests follow it, as long as no further judgement of the run
  reads a clock before \<open>t\<close>, every valid binding of the run is answered "expired".
\<close>

theorem collection_reached:
  assumes "mem_good L svc" and "collectable (mem_registry (svc_store svc)) r t" and "t \<le> now 0"
    and "EvaluateRunGCCore (memory_store L) now (serve_all (memory_store L) L svc reqs) r = (res, svc')"
    and "list_all (\<lambda>(clock, req). req = EvaluateRunGC r \<longrightarrow> t \<le> clock 0) later"
  shows "res = Inr () \<and>
     (\<forall>b target. b_RunID b = r \<and> binding_error b = None \<longrightarrow>
        (\<exists>ans. fst (ResolveHandoffCore (memory_store L) L now' (serve_all (memory_store L) L svc' later) b target) = Inr ans \<and>
           r_Status ans = GC_EXPIRED))"
proof -
  let ?svc = "serve_all (memory_store L) L svc reqs" and ?later = "serve_all (memory_store L) L svc' later"
  have good: "mem_good L ?svc" by (rule mem_good_serve [OF assms(1)])
  have col: "collectable (mem_registry (svc_store ?svc)) r t" "collectable (mem_registry (svc_store ?svc)) r (now 0)"
    using collectable_grows [OF mem_serve_grows [OF assms(1)] assms(2)] assms(3) by blast+
  have run: "TrimSpace r \<noteq> []"
    using assms(1,2) registry_okD(1) artifact_ok_run by (fastforce simp: mem_good_def collectable_def ran_def)
  obtain l where l: "res = Inr ()" "map_of (runLifecycles (svc_store svc')) r = Some l" "l_GCEligible l"
    using mem.evaluate_judges [OF mem_goodD [OF good] run assms(4)] col(2) by (auto simp: mem_registry_view)
  have svc': "svc' = serve_all (memory_store L) L ?svc [(now, EvaluateRunGC r)]" using assms(4) by simp
  have good': "mem_good L svc'" unfolding svc' by (rule mem_good_serve [OF good])
  have "judged (svc_store svc') r t"
    using l collectable_grows [OF mem_serve_grows [OF good] col(1) order_refl, of "[(now, EvaluateRunGC r)]"]
    unfolding judged_def svc' by blast
  from judged_serve_all [OF good' this assms(5)]
  obtain l' where l': "map_of (runLifecycles (svc_store ?later)) r = Some l'" "l_GCEligible l'" by (auto simp: judged_def)
  have good'': "mem_good L ?later" by (rule mem_good_serve [OF good'])
  have "\<exists>ans. fst (ResolveHandoffCore (memory_store L) L now' ?later b target) = Inr ans \<and> r_Status ans = GC_EXPIRED"
    if "b_RunID b = r" "binding_error b = None" for b target
    using mem_resolve_eq [OF good'' that(2)] mem.resolve_gc_expired [OF mem_goodD [OF good'']] l' that(1) by metis
  with l(1) show ?thesis by blast
qed

theorem collection_reached_witness:
  "let svc' = snd (EvaluateRunGCCore (memory_store demo_lib) late_clock
     (serve_all (memory_store demo_lib) demo_lib (demo_service [demo_register, demo_notify, demo_finalize])
       [(late_clock, FinalizeRun ''r2'' [])]) ''r1'')
   in \<exists>ans. fst (ResolveHandoffCore (memory_store demo_lib) demo_lib late_clock
        (serve_all (memory_store demo_lib) demo_lib svc' [demo_register, (late_clock, EvaluateRunGC ''r1'')])
        demo_binding ''node-b'') = Inr ans \<and> r_Status ans = GC_EXPIRED"
proof -
  let ?svc = "demo_service [demo_register, demo_notify, demo_finalize]"
  have "collectable (mem_registry (svc_store ?svc)) ''r1'' (late_clock 0)"
    by (simp add: collectable_def demo_after_finalize demo_finalized_def demo_reported_def
        demo_registered_def NewMemoryStore_def demo_lifecycle_def late_clock_def minutes_def demo_terminal_def)
  note reached = collection_reached [where now = late_clock and reqs = "[(late_clock, FinalizeRun ''r2'' [])]"
      and later = "[demo_register, (late_clock, EvaluateRunGC ''r1'')]" and now' = late_clock,
      OF demo_good this order_refl prod.collapse [symmetric], THEN conjunct2, rule_format]
  show ?thesis unfolding Let_def by (rule reached) simp_all
qed

section \<open>The SQLite backend\<close>

text \<open>
  C26.  Nothing durable is undone: whatever requests are served, each method of each of them with
  an engine of its own that may fail at any step, a stored digest and its whole row, a terminal
  and the identity of a source stay as they are, and no row disappears.  A row from before run
  identities is not touched at all: an artifact under a key that is no run's; a source whose
  artifact ID is neither a run's key nor that of a row with a run, which also stays out of
  sight; the old lifecycles and the schema record.
\<close>

theorem sqlite_durable:
  "sql_keeps (svc_store svc) (svc_store (serve_engines C L svc reqs))"
  by (rule serve_engines_keeps)

text \<open>
  C27.  Every writing method is one transaction: run statement by statement on the one
  connection of the pool, where a transaction sees its own writes, \<^verbatim>\<open>Commit\<close> publishes them and the
  deferred \<^verbatim>\<open>Rollback\<close> drops them, it returns and leaves the connection free, with the answer and
  the tables of the corresponding method of the store; and when it reports an error, from a
  rejected request or from a failed step, the tables are as they were.  The driver is assumed to
  drop a transaction whose commit fails.
\<close>

theorem sqlite_write_transactional:
  assumes "commit_discards K"
  shows "tx_PutArtifact E K C (idle db) a = Some (apsnd idle (sq_PutArtifact E C db a)) \<and>
     tx_PutArtifactSources E K C (idle db) aid ss = Some (apsnd idle (sq_PutArtifactSources E C db aid ss)) \<and>
     tx_RecordNodeTerminal E K C (idle db) r = Some (apsnd idle (sq_RecordNodeTerminal E C db r)) \<and>
     tx_UpsertRunLifecycle E C (idle db) lc = Some (apsnd idle (sq_UpsertRunLifecycle E C db lc)) \<and>
     (\<forall>e c. Some (Some e, c) \<in> {tx_PutArtifact E K C (idle db) a, tx_PutArtifactSources E K C (idle db) aid ss,
        tx_RecordNodeTerminal E K C (idle db) r, tx_UpsertRunLifecycle E C (idle db) lc} \<longrightarrow> c = idle db)"
  unfolding tx_writes [OF assms]
  by (intro conjI allI impI refl, elim insertE emptyE; erule tx_error, erule write_errors)

theorem sqlite_write_transactional_witness:
  "let E = \<lparr>row_order = insertion_order, fails = (\<lambda>s. if s = Commit then Some ''disk full'' else None)\<rparr>
   in tx_PutArtifact E tx_Rollback plain_codec (idle empty_db) demo_stored = Some (Some (DriverError ''disk full''), idle empty_db)"
proof -
  let ?E = "\<lparr>row_order = insertion_order, fails = (\<lambda>s. if s = Commit then Some ''disk full'' else None)\<rparr>"
  have "commit_discards tx_Rollback" by (simp add: commit_discards_def)
  from sqlite_write_transactional [OF this, of ?E plain_codec empty_db demo_stored]
  have "tx_PutArtifact ?E tx_Rollback plain_codec (idle empty_db) demo_stored =
      Some (apsnd idle (sq_PutArtifact ?E plain_codec empty_db demo_stored))" by blast
  moreover have "sq_PutArtifact ?E plain_codec empty_db demo_stored = (Some (DriverError ''disk full''), empty_db)"
    by (simp add: sq_PutArtifact_def transact_def empty_db_def Let_def)
  ultimately show ?thesis by (simp add: Let_def)
qed

text \<open>
  C28.  The text columns are transparent: as long as times have four-digit years and locations
  are text, the service on the program's columns does exactly what it does on unencoded ones,
  whatever the engine fails.
\<close>

theorem sqlite_columns_transparent:
  assumes "readable other (svc_store svc)" and "storable (minRetention svc) reqs"
  shows "serve_all (sqlite_store E plain_codec) L (on_store (decode_db (go_codec other)) svc) reqs =
     on_store (decode_db (go_codec other)) (serve_all (sqlite_store E (go_codec other)) L svc reqs)"
  using columns.serve_all_same [OF assms(1), of reqs E L] assms(2) by (auto simp: storable_def)

theorem sqlite_columns_transparent_witness:
  "serve_all (sqlite_store (\<lambda>_. sound_engine insertion_order) plain_codec) demo_lib
      (on_store (decode_db (go_codec (\<lambda>_. None))) demo_sql_service) [demo_register, demo_notify, demo_finalize] =
    on_store (decode_db (go_codec (\<lambda>_. None)))
      (serve_all (sqlite_store (\<lambda>_. sound_engine insertion_order) (go_codec (\<lambda>_. None))) demo_lib demo_sql_service
        [demo_register, demo_notify, demo_finalize])"
  by (rule sqlite_columns_transparent [OF _ demo_storable]) (use demo_sql_good in \<open>simp add: sql_good_def\<close>)

text \<open>
  C29.  The registry invariant holds of what the database says: with an engine that does not
  fail, from any good database, the state after any storable requests is good again, and what
  it registers has only grown.
\<close>

theorem sqlite_registry_kept:
  assumes "sql_good other L svc" and "storable (minRetention svc) reqs"
  shows "let svc' = serve_all (sqlite_store (sound_engines ord) (go_codec other)) L svc reqs
     in registry_ok L (sql_registry other (svc_store svc')) \<and>
        grows (sql_registry other (svc_store svc)) (sql_registry other (svc_store svc')) \<and>
        readable other (svc_store svc')"
  using sql_serve [OF assms, of ord] by (simp add: sql_good_def)

theorem sqlite_registry_kept_witness:
  "registry_ok demo_lib (sql_registry (\<lambda>_. None) (svc_store (serve_all
     (sqlite_store (\<lambda>_. sound_engine reverse_order) (go_codec (\<lambda>_. None))) demo_lib demo_sql_service
     [demo_register, demo_notify, demo_finalize])))"
  using sqlite_registry_kept [OF demo_sql_good demo_storable, of reverse_order] by (simp add: Let_def)

text \<open>
  C30.  What is written to the location columns is read back: the JSON of a list of locations
  of valid text without headers parses to the same list.
\<close>

theorem sqlite_locations_roundtrip:
  assumes "\<forall>l \<in> set ls. textual_location l"
  shows "unmarshalLocations (go_codec other) (marshalLocations (go_codec other) ls) = Some ls"
  by (rule locations_text_roundtrip [OF assms])

theorem sqlite_locations_roundtrip_witness:
  "let ls = [\<lparr>NodeLocal = Some \<lparr>nl_NodeName = ''n1'', nl_Path = ''/a b''\<rparr>, HTTP = None\<rparr>,
       \<lparr>NodeLocal = None, HTTP = Some \<lparr>h_URI = ''http://h/x'', h_Headers = []\<rparr>\<rparr>]
   in unmarshalLocations (go_codec (\<lambda>_. None)) (marshalLocations (go_codec (\<lambda>_. None)) ls) = Some ls"
proof -
  let ?ls = "[\<lparr>NodeLocal = Some \<lparr>nl_NodeName = ''n1'', nl_Path = ''/a b''\<rparr>, HTTP = None\<rparr>,
       \<lparr>NodeLocal = None, HTTP = Some \<lparr>h_URI = ''http://h/x'', h_Headers = []\<rparr>\<rparr>]"
  have "\<forall>l \<in> set ?ls. textual_location l"
    by (simp add: textual_location_def valid_ascii ascii_byte_def byte_in_def)
  from sqlite_locations_roundtrip [OF this] show ?thesis by (simp only: Let_def)
qed

section \<open>Accounting\<close>

text \<open>
  C31.  The index of the memory store is equivalent to a scan: in every state the service can
  reach, the sources listed for an artifact through the per-artifact index are, without
  repetition, exactly the stored sources of that artifact, and none when no artifact has the ID.
\<close>

theorem source_index_equivalent:
  "let s = svc_store (mem_service L text hosts anyHost reqs)
   in \<exists>xs. mem_ListArtifactSources L s aid = Inr xs \<and> distinct xs \<and>
     set xs = (if list_ex (\<lambda>a. a_ArtifactID a = aid) (range_map (map_order L) (artifacts s))
               then set (filter (\<lambda>x. s_ArtifactID x = aid) (range_map (map_order L) (sources s))) else {})"
proof -
  let ?s = "svc_store (mem_service L text hosts anyHost reqs)"
  have inv: "mem_inv ?s" using mem_service_good by (simp add: mem_good_def)
  show ?thesis
    using mem_ListArtifactSources_spec [OF inv, of L aid] live_mem [OF inv, of L aid]
    by (auto simp: Let_def live_def list_ex_iff set_range_map mem_invD [OF inv])
qed

text \<open>
  C32.  The retained size is the sum of the positive sizes modulo 2 to the 64, whatever the
  order in which the store lists the artifacts, and exact while the sum is below 2 to the 63.
\<close>

theorem retained_bytes_exact:
  assumes "mset as = mset bs"
  shows "retained_bytes bs = retained_bytes as \<and>
     uint (retained_bytes as) = (\<Sum>a\<leftarrow>as. max 0 (sint (a_SizeBytes a))) mod 2 ^ 64 \<and>
     ((\<Sum>a\<leftarrow>as. max 0 (sint (a_SizeBytes a))) < 2 ^ 63 \<longrightarrow>
        sint (retained_bytes as) = (\<Sum>a\<leftarrow>as. max 0 (sint (a_SizeBytes a))))"
proof -
  have "(\<Sum>a\<leftarrow>bs. max 0 (sint (a_SizeBytes a))) = (\<Sum>a\<leftarrow>as. max 0 (sint (a_SizeBytes a)))"
    using assms by (metis mset_map sum_mset_sum_list)
  moreover have "0 \<le> (\<Sum>a\<leftarrow>as. max 0 (sint (a_SizeBytes a)))" by (induction as) auto
  ultimately show ?thesis
    unfolding retained_bytes_sum
    by (simp add: signed_of_int signed_take_bit_int_eq_self unsigned_of_int take_bit_int_def)
qed

theorem retained_bytes_exact_witness:
  "retained_bytes [demo_stored\<lparr>a_SizeBytes := - 1\<rparr>, demo_stored, demo_stored] =
     retained_bytes [demo_stored, demo_stored\<lparr>a_SizeBytes := - 1\<rparr>, demo_stored] \<and>
   sint (retained_bytes [demo_stored, demo_stored\<lparr>a_SizeBytes := - 1\<rparr>, demo_stored]) = 14"
  using retained_bytes_exact [of "[demo_stored, demo_stored\<lparr>a_SizeBytes := - 1\<rparr>, demo_stored]"
      "[demo_stored\<lparr>a_SizeBytes := - 1\<rparr>, demo_stored, demo_stored]"]
  by simp

section \<open>Opening a database file\<close>

text \<open>
  C33.  A migration is typed and loses nothing: from a file in which every row has exactly the
  columns of its table, the schema record those it was created with, whatever statement fails and in whatever order the counts are taken, it
  leaves such a file, with every earlier table, column, row and index still in it.
\<close>

theorem migration_typed:
  assumes "file_ok f"
  shows "file_ok (snd (sqliteMigrate message E ord f)) \<and> extends f (snd (sqliteMigrate message E ord f))"
  using migrate_typed [OF assms] migrate_extends by blast

theorem migration_typed_witness:
  "let E = \<lparr>row_order = insertion_order, fails = (\<lambda>s. if s = Exec 26 then Some ''disk full'' else None)\<rparr>
   in file_ok (snd (sqliteMigrate demo_message E reverse_order demo_file)) \<and>
      extends demo_file (snd (sqliteMigrate demo_message E reverse_order demo_file))"
  unfolding Let_def by (rule migration_typed [OF demo_old(1)])

text \<open>
  C34.  A migration is idempotent: a file it has accepted once, by whatever engine, is accepted
  again by an engine that does not fail and is not changed, provided that the driver's message
  tells a duplicate column from other errors.
\<close>

theorem migration_idempotent:
  assumes "duplicate_message message" and "sqliteMigrate message E ord f = (None, f')"
  shows "sqliteMigrate message (sound_engine ord') ord'' f' = (None, f')"
  by (rule migrate_again [OF assms(1) migrate_migrated [OF assms]])

theorem migration_idempotent_witness:
  "let migrate = sqliteMigrate demo_message (sound_engine insertion_order);
       f' = snd (migrate insertion_order demo_file)
   in migrate reverse_order f' = (None, f')"
proof -
  let ?m = "sqliteMigrate demo_message (sound_engine insertion_order) insertion_order demo_file"
  have "?m = (None, snd ?m)" by (subst demo_migrates [symmetric]) simp
  from migration_idempotent [OF demo_duplicate this] show ?thesis by (simp only: Let_def)
qed

text \<open>
  C35.  A file of a newer or unreadable schema version is refused: the store is not opened and
  the file is as it was, whatever the engine fails.
\<close>

theorem newer_schema_refused:
  assumes "meta_value (dr_file D (sqliteDSN path)) ''schema_version'' = Some s" and "s \<noteq> []"
    and "case Sscanf_d s of None \<Rightarrow> True | Some v \<Rightarrow> 2 < v"
  shows "\<exists>e. NewSQLiteStore D ord path = (Inl e, dr_file D (sqliteDSN path)) \<and>
     OpenStore D ord (''sqlite:'' @ path) = Inl e"
proof -
  have "check_version (current_version (dr_file D (sqliteDSN path))) \<noteq> None"
    using assms by (auto simp: current_version_def check_version_def sqliteSchemaVersion_def split: option.splits)
  from open_refused [OF this, of ord] show ?thesis by (auto simp: OpenStore_def)
qed

theorem newer_schema_refused_witness:
  "let D = \<lparr>dr_open = (\<lambda>_. None), dr_file = (\<lambda>_. demo_newer), dr_message = demo_message,
         dr_engine = sound_engine insertion_order\<rparr>
   in \<exists>e. NewSQLiteStore D insertion_order ''/data/ah.db'' = (Inl e, demo_newer) \<and>
      OpenStore D insertion_order ''sqlite:/data/ah.db'' = Inl e"
proof -
  let ?D = "\<lparr>dr_open = (\<lambda>_. None), dr_file = (\<lambda>_. demo_newer), dr_message = demo_message,
      dr_engine = sound_engine insertion_order\<rparr>"
  have 1: "meta_value (dr_file ?D (sqliteDSN ''/data/ah.db'')) ''schema_version'' = Some ''3''"
    by (simp add: demo_newer_def meta_value_def text_of_def)
  have 2: "case Sscanf_d ''3'' of None \<Rightarrow> True | Some v \<Rightarrow> 2 < v"
    by (simp add: Sscanf_d_def space_runes_def bytes_def is_digit_def parse_int64_def Let_def char_of_def bit_0)
  show ?thesis using newer_schema_refused [OF 1 _ 2, of insertion_order] by (simp add: Let_def)
qed

text \<open>
  C36.  Rows from before run identities are counted and never served: when a file without a
  stamp is migrated, with or without the column for runs, the numbers of its artifacts and
  terminals without a run and of its old lifecycles are recorded.  No read of the store returns
  an artifact or a terminal of a run the file did not have, so none of those rows, and every
  source a read returns belongs to an artifact of a run the file had.
\<close>

theorem legacy_rows_unserved:
  assumes "sqliteMigrate message E ord f = (None, f')" and "file_ok f" and "meta_value f ''schema_version'' = None"
  shows "let db = database_of f'; runs = set (file_runs f ''artifacts'');
       of_run = (\<lambda>i. \<exists>(k, row) \<in> set (table_rows f' ''artifacts''). text_col ''artifact_id'' row = i \<and> text_col ''run_id'' row \<in> runs)
     in meta_value f' ''legacy_unresolved_artifacts'' = Some (decimal (unresolved f ''artifacts'')) \<and>
        meta_value f' ''legacy_unresolved_node_terminals'' = Some (decimal (unresolved f ''node_terminals'')) \<and>
        meta_value f' ''legacy_unresolved_sample_run_lifecycles'' = Some (decimal (length (table_rows f ''sample_run_lifecycles''))) \<and>
        (\<forall>r n att out a. sq_GetArtifact E' C db r n att out = Inr (Some a) \<longrightarrow> a_RunID a \<in> runs) \<and>
        (\<forall>aid a. sq_GetArtifactByID E' C db aid = Inr (Some a) \<longrightarrow> a_RunID a \<in> runs) \<and>
        (\<forall>r as. sq_ListArtifactsByRun E' C db r = Inr as \<longrightarrow> a_RunID ` set as \<subseteq> runs) \<and>
        (\<forall>s as. sq_ListArtifactsBySampleRun E' C db s = Inr as \<longrightarrow> a_RunID ` set as \<subseteq> runs) \<and>
        (\<forall>sid x. sq_GetArtifactSource E' C db sid = Inr (Some x) \<longrightarrow> of_run (s_ArtifactID x)) \<and>
        (\<forall>aid xs. sq_ListArtifactSources E' C db aid = Inr xs \<longrightarrow> (\<forall>x \<in> set xs. of_run (s_ArtifactID x))) \<and>
        (\<forall>r n att t. sq_GetNodeTerminal E' C db r n att = Inr (Some t) \<longrightarrow> t_RunID t \<in> set (file_runs f ''node_terminals'')) \<and>
        (\<forall>r ts. sq_ListNodeTerminalsByRun E' C db r = Inr ts \<longrightarrow> t_RunID ` set ts \<subseteq> set (file_runs f ''node_terminals''))"
proof -
  note counts = migrate_runs(2) [OF assms]
  note served = served_runs [OF migrate_runs(1) [OF assms(1,2)]]
  show ?thesis
    unfolding Let_def sq_ListArtifactsByRun_def sq_ListArtifactsBySampleRun_def
    by (intro conjI allI impI ballI subsetI; (elim imageE)?; (hypsubst)?;
        ((rule counts, simp add: dispositions_def) | (rule served, erule artifact_reads source_reads terminal_reads, assumption?)))
qed

theorem legacy_rows_unserved_witness:
  "let E = sound_engine insertion_order; f' = snd (sqliteMigrate demo_message E insertion_order demo_file)
   in meta_value f' ''legacy_unresolved_artifacts'' = Some ''1'' \<and>
      (\<forall>x. sq_GetArtifactSource E (go_codec (\<lambda>_. None)) (database_of f') ''src-1'' \<noteq> Inr (Some x)) \<and>
      (\<forall>a. sq_GetArtifactByID E (go_codec (\<lambda>_. None)) (database_of f') ''a1'' \<noteq> Inr (Some a))"
proof -
  let ?m = "sqliteMigrate demo_message (sound_engine insertion_order) insertion_order demo_file"
  have "?m = (None, snd ?m)" by (subst demo_migrates [symmetric]) simp
  note served = legacy_rows_unserved [OF this demo_old(1,4), where E' = "sound_engine insertion_order" and C = "go_codec (\<lambda>_. None)",
      unfolded Let_def demo_old(2)]
  have "unresolved demo_file ''artifacts'' = 1" using demo_old(3) by (simp add: dispositions_def)
  with served show ?thesis by (simp add: Let_def decimal.simps char_of_def bit_0)
qed

section \<open>The HTTP front end\<close>

text \<open>
  C37.  The HTTP front end adds nothing: on any store, after any sequence of HTTP requests of any
  method, path, query and body, the service, its counters included, is what the decoded service
  requests make of it; requests that are not routed, not allowed or not decoded make none.
\<close>

theorem http_refines_service:
  "http_serve_all env S L svc rqs = serve_all S L svc (http_requests env rqs)"
  by (rule http_serves)

text \<open>
  C38.  What is served can be registered again: the body of an answered artifact query, when it is
  within the limit for bodies and its strings are valid text, decodes as the body of a
  registration to the same artifact.
\<close>

theorem http_artifact_roundtrip:
  assumes "GetArtifactCore S svc (query_Get rq ''runId'') (query_Get rq ''producerNodeId'')
       (query_Get rq ''attemptId'') (query_Get rq ''outputName'') = Inr (Some a)"
    and "rq_Method rq = ''GET''" and "textual_artifact a"
    and "length (rs_Body (fst (handle_get S svc rq))) \<le> 1048576"
  shows "decode_artifact_body other (rs_Body (fst (handle_get S svc rq))) = Some a"
proof (rule artifact_body_roundtrip [OF assms(3,4)])
  show "rs_Body (fst (handle_get S svc rq)) = rs_Body (writeJSON (json_object [(''artifact'', artifact_json a)]))"
    using assms(1,2) by (simp add: handle_get_def allow_method_def answer_read_def)
qed

theorem http_artifact_roundtrip_witness:
  "decode_artifact_body (\<lambda>_. None)
     (rs_Body (fst (handle_get (memory_store demo_lib) (demo_service [demo_register]) demo_get))) = Some demo_stored"
proof (rule http_artifact_roundtrip [OF _ _ demo_textual demo_body_length])
  show "GetArtifactCore (memory_store demo_lib) (demo_service [demo_register]) (query_Get demo_get ''runId'')
      (query_Get demo_get ''producerNodeId'') (query_Get demo_get ''attemptId'') (query_Get demo_get ''outputName'') =
      Inr (Some demo_stored)"
    unfolding demo_query by (rule demo_get_core)
qed (simp add: demo_get_def)

section \<open>The end of the process\<close>

text \<open>
  C39.  A shutdown comes to its end: once the process has been signalled, whatever the clients do
  meanwhile and however the servers fail, the program has at most five more steps to take, and
  it has none left only when \<^verbatim>\<open>main\<close> has returned, with both servers and the store closed, and
  with no request cut off unless the deadline had passed.
\<close>

theorem shutdown_completes:
  assumes "process_step\<^sup>*\<^sup>* started p" and "stopping p"
  shows "(\<forall>n q. ((client_step\<^sup>*\<^sup>* OO main_step) ^^ n) p q \<longrightarrow> n \<le> 5) \<and>
     (\<forall>q. process_step\<^sup>*\<^sup>* p q \<and> (\<nexists>q'. main_step q q') \<longrightarrow>
        phase_now q = Returned \<and> \<not> http_up q \<and> \<not> grpc_up q \<and> \<not> store_open q \<and>
        (deadline q \<or> \<not> http_busy q \<and> \<not> grpc_busy q))"
proof (intro conjI allI impI)
  show "n \<le> 5" if "((client_step\<^sup>*\<^sup>* OO main_step) ^^ n) p q" for n q
    using shutdown_bounded [OF that assms(2)] steps_left_bound [of p] by simp
next
  fix q
  assume q: "process_step\<^sup>*\<^sup>* p q \<and> (\<nexists>q'. main_step q q')"
  then have "phase_now q = Returned" using stopping_ends [OF _ assms(2)] stopping_moves by blast
  moreover have "main_inv q" using q main_reachable rtranclp_trans [OF assms(1)] by blast
  ultimately show "phase_now q = Returned" "\<not> http_up q" "\<not> grpc_up q" "\<not> store_open q"
    "deadline q \<or> \<not> http_busy q \<and> \<not> grpc_busy q"
    by (auto simp: main_inv_def)
qed

theorem shutdown_completes_witness:
  "\<forall>q. \<not> ((client_step\<^sup>*\<^sup>* OO main_step) ^^ 6) (started\<lparr>phase_now := ShuttingHTTP\<rparr>) q"
proof -
  have "process_step started (started\<lparr>phase_now := ShuttingHTTP\<rparr>)" using signalled [of started] by (simp add: started_def)
  then have "process_step\<^sup>*\<^sup>* started (started\<lparr>phase_now := ShuttingHTTP\<rparr>)" by (rule r_into_rtranclp)
  from shutdown_completes [OF this] show ?thesis by (force simp: stopping_def)
qed

section \<open>The contract suite\<close>

text \<open>
  C40.  Both backends pass the contract suite of the repository: the memory store passes the
  seven cases it is not excused from, and the SQLite store, opened on an empty file and reopened
  on the file it lies in, passes all eleven, those about rows without a run included, in
  whatever order its rows are returned.  The driver's message must tell a duplicate column from
  other errors, and \<^verbatim>\<open>time.Parse\<close> must refuse the empty text.
\<close>

theorem contract_suite_passes:
  assumes "duplicate_message message" and "blank_refused other"
  shows "map snd (Run (memory_harness L)) = replicate 7 Pass @ replicate 4 Skip \<and>
     map snd (Run (sqlite_harness message ord other)) = replicate 11 Pass"
  using memory_suite sqlite_suite [OF assms] by blast

theorem contract_suite_passes_witness:
  "map snd (Run (memory_harness demo_lib)) = replicate 7 Pass @ replicate 4 Skip \<and>
   map snd (Run (sqlite_harness demo_message reverse_order (\<lambda>_. None))) = replicate 11 Pass"
  by (rule contract_suite_passes [OF demo_duplicate]) (simp add: blank_refused_def)

end
